(* ===== verification/Prelude.thy ===== *)
theory Prelude
  imports Main "HOL-Library.Multiset" "HOL-Library.List_Lexorder" "HOL-Library.Char_ord"
begin

text \<open>
  Shared ground of the development: Python exceptions as values of a sum type, the
  sequencing of fallible steps, insertion-ordered dictionaries with the interface the
  scripts rely on, and the string operations of the standard library that the scripts
  call. A Python \<open>str\<close> is a \<^typ>\<open>string\<close>; a character outside ASCII is represented by
  the bytes of its UTF-8 encoding, whose lexicographic order is the order of code points
  that Python compares by.
\<close>

named_theorems py_simps "unfolding rules of the error monad"
named_theorems dict_simps "what a dictionary holds after each update"

section \<open>Exceptions as values\<close>

datatype py_error =
    KeyError string
  | IndexError
  | ValueError
  | TypeError
  | AttributeError
  | OverflowError
  | ZeroDivisionError
  | StatisticsError
  | CsvError
  | FileNotFoundError
  | SystemExit int

type_synonym 'a py = "py_error + 'a"

fun bind_py :: "'a py \<Rightarrow> ('a \<Rightarrow> 'b py) \<Rightarrow> 'b py" where
  "bind_py (Inl e) f = Inl e"
| "bind_py (Inr x) f = f x"

text \<open>A loop that runs a fallible body over a list and collects the results in order.\<close>

fun map_py :: "('a \<Rightarrow> 'b py) \<Rightarrow> 'a list \<Rightarrow> 'b list py" where
  "map_py f [] = Inr []"
| "map_py f (x # xs) = bind_py (f x) (\<lambda>y. bind_py (map_py f xs) (\<lambda>ys. Inr (y # ys)))"

lemma bind_py_Inr [simp, py_simps]: "bind_py m Inr = m"
  by (cases m) auto

lemma bind_py_eq_Inr [py_simps]: "bind_py m f = Inr y \<longleftrightarrow> (\<exists>x. m = Inr x \<and> f x = Inr y)"
  by (cases m) auto

lemma bind_py_eq_Inl: "bind_py m f = Inl e \<longleftrightarrow> m = Inl e \<or> (\<exists>x. m = Inr x \<and> f x = Inl e)"
  by (cases m) auto

lemma bind_py_assoc: "bind_py (bind_py m f) g = bind_py m (\<lambda>x. bind_py (f x) g)"
  by (cases m) auto

lemma map_py_Inr_iff [py_simps]:
  "map_py f xs = Inr ys \<longleftrightarrow> list_all2 (\<lambda>x y. f x = Inr y) xs ys"
  by (induction xs arbitrary: ys) (auto simp: bind_py_eq_Inr list_all2_Cons1)

lemma map_py_total: "map_py (\<lambda>x. Inr (g x)) xs = Inr (map g xs)"
  by (induction xs) auto

lemma map_py_length: "map_py f xs = Inr ys \<Longrightarrow> length ys = length xs"
  by (auto simp: map_py_Inr_iff dest: list_all2_lengthD)

lemma map_py_all2:
  assumes "\<forall>x \<in> set xs. \<exists>y. f x = Inr y \<and> P x y"
  shows "\<exists>ys. map_py f xs = Inr ys \<and> list_all2 P xs ys"
  using assms by (induction xs) force+

lemma map_py_cong [cong]:
  "xs = ys \<Longrightarrow> (\<And>x. x \<in> set ys \<Longrightarrow> f x = g x) \<Longrightarrow> map_py f xs = map_py g ys"
  by (induction xs arbitrary: ys) auto

lemma map_py_Inl: "map_py f xs = Inl e \<Longrightarrow> \<exists>x \<in> set xs. f x = Inl e"
  by (induction xs) (auto simp: bind_py_eq_Inl)

lemma map_py_fail:
  "\<forall>x \<in> set xs. f x = Inl e \<or> (\<exists>y. f x = Inr y) \<Longrightarrow> \<exists>x \<in> set xs. f x = Inl e \<Longrightarrow> map_py f xs = Inl e"
  by (induction xs) force+

section \<open>Dictionaries\<close>

text \<open>
  A \<open>dict\<close> is an association list in insertion order: assigning to a present key keeps its
  position, assigning to a new key appends it. Lookup is \<^const>\<open>map_of\<close>.
\<close>

type_synonym ('k, 'v) dict = "('k \<times> 'v) list"

fun dict_set :: "'k \<Rightarrow> 'v \<Rightarrow> ('k, 'v) dict \<Rightarrow> ('k, 'v) dict" where
  "dict_set k v [] = [(k, v)]"
| "dict_set k v ((k', v') # d) = (if k' = k then (k', v) # d else (k', v') # dict_set k v d)"

definition dict_of :: "('k \<times> 'v) list \<Rightarrow> ('k, 'v) dict" where
  \<comment> \<open>\<open>dict(pairs)\<close> and dictionary displays: the last value of a repeated key wins\<close>
  "dict_of ps = fold (\<lambda>(k, v) d. dict_set k v d) ps []"

definition get_item :: "(string, 'v) dict \<Rightarrow> string \<Rightarrow> 'v py" where
  \<comment> \<open>\<open>d[k]\<close>\<close>
  "get_item d k = (case map_of d k of None \<Rightarrow> Inl (KeyError k) | Some v \<Rightarrow> Inr v)"

definition dict_wf :: "('k, 'v) dict \<Rightarrow> bool" where
  "dict_wf d \<longleftrightarrow> distinct (map fst d)"

definition setdefault_append :: "'k \<Rightarrow> 'v \<Rightarrow> ('k, 'v list) dict \<Rightarrow> ('k, 'v list) dict" where
  \<comment> \<open>\<open>d.setdefault(k, []).append(v)\<close>\<close>
  "setdefault_append k v d =
     (case map_of d k of None \<Rightarrow> dict_set k [v] d | Some vs \<Rightarrow> dict_set k (vs @ [v]) d)"

lemma map_of_dict_set [simp, dict_simps]: "map_of (dict_set k v d) = (map_of d)(k \<mapsto> v)"
  by (induction d) auto

lemma keys_dict_set [simp, dict_simps]: "fst ` set (dict_set k v d) = insert k (fst ` set d)"
proof (induction d)
  case (Cons p d)
  then show ?case by (cases p) (auto simp: insert_commute)
qed simp

lemma dict_wf_set [simp]: "dict_wf d \<Longrightarrow> dict_wf (dict_set k v d)"
proof (induction d)
  case (Cons p d)
  then show ?case by (cases p) (auto simp: dict_wf_def)
qed (simp add: dict_wf_def)

lemma dict_set_key_order:
  "map fst (dict_set k v d) = (if k \<in> fst ` set d then map fst d else map fst d @ [k])"
proof (induction d)
  case (Cons p d)
  then show ?case by (cases p) auto
qed simp

text \<open>
  The interface the scripts use: what a lookup returns after an assignment, and that
  assignment keeps the keys distinct. Everything the clients need of a dictionary built by
  a loop of assignments is proved once from it.
\<close>

locale dictionary =
  fixes empty :: "'d"
    and assign :: "'k \<Rightarrow> 'v \<Rightarrow> 'd \<Rightarrow> 'd"
    and get :: "'d \<Rightarrow> 'k \<Rightarrow> 'v option"
    and invar :: "'d \<Rightarrow> bool"
  assumes get_empty: "get empty k = None"
    and get_assign: "invar d \<Longrightarrow> get (assign k v d) = (get d)(k \<mapsto> v)"
    and invar_empty: "invar empty"
    and invar_assign: "invar d \<Longrightarrow> invar (assign k v d)"
begin

lemma invar_fold: "invar d \<Longrightarrow> invar (fold (\<lambda>(k, v). assign k v) ps d)"
  by (induction ps arbitrary: d) (auto intro: invar_assign)

lemma get_fold:
  "invar d \<Longrightarrow> get (fold (\<lambda>(k, v). assign k v) ps d) k =
     (case map_of (rev ps) k of None \<Rightarrow> get d k | Some v \<Rightarrow> Some v)"
proof (induction ps arbitrary: d)
  case Nil
  then show ?case by simp
next
  case (Cons p ps)
  obtain k' v' where p: "p = (k', v')" by (cases p)
  have "invar (assign k' v' d)" using Cons.prems by (rule invar_assign)
  then show ?case
    using Cons by (auto simp: p get_assign map_add_def split: option.splits)
qed

end

interpretation alist: dictionary "[]" dict_set map_of dict_wf
  by unfold_locales (auto simp: dict_wf_def [of "[]"])

lemma map_of_dict_of: "map_of (dict_of ps) k = map_of (rev ps) k"
  using alist.get_fold [of "[]" ps k]
  by (simp add: dict_of_def dict_wf_def split: option.splits)

lemma dict_wf_dict_of [simp]: "dict_wf (dict_of ps)"
  using alist.invar_fold [of "[]" ps] by (simp add: dict_of_def dict_wf_def)

lemma map_of_rev_eq: "distinct (map fst ps) \<Longrightarrow> map_of (rev ps) = map_of ps"
  by (metis distinct_rev map_of_inject_set rev_map set_rev)

lemma map_of_dict_of_distinct:
  "distinct (map fst ps) \<Longrightarrow> map_of (dict_of ps) k = map_of ps k"
  by (simp add: map_of_dict_of map_of_rev_eq)

text \<open>Grouping by repeated \<open>setdefault(k, []).append(x)\<close>.\<close>

lemma map_of_setdefault_append:
  "map_of (setdefault_append k v d) =
     (map_of d)(k \<mapsto> (case map_of d k of None \<Rightarrow> [] | Some vs \<Rightarrow> vs) @ [v])"
  by (auto simp: setdefault_append_def split: option.splits)

lemma map_of_grouping:
  "map_of (fold (\<lambda>x. setdefault_append (f x) x) xs d) k =
     (case map_of d k of
        None \<Rightarrow> if filter (\<lambda>x. f x = k) xs = [] then None else Some (filter (\<lambda>x. f x = k) xs)
      | Some vs \<Rightarrow> Some (vs @ filter (\<lambda>x. f x = k) xs))"
  by (induction xs arbitrary: d) (auto simp: map_of_setdefault_append split: option.splits)

lemma dict_wf_grouping:
  "dict_wf d \<Longrightarrow> dict_wf (fold (\<lambda>x. setdefault_append (f x) x) xs d)"
  by (induction xs arbitrary: d) (auto simp: setdefault_append_def split: option.splits)

lemma mset_dict_set:
  "mset (concat (map snd (dict_set k vs d))) + (case map_of d k of None \<Rightarrow> {#} | Some ws \<Rightarrow> mset ws) =
     mset (concat (map snd d)) + mset vs"
  by (induction k vs d rule: dict_set.induct) (auto simp: ac_simps split: option.splits)

lemma mset_setdefault_append:
  "mset (concat (map snd (setdefault_append k v d))) = add_mset v (mset (concat (map snd d)))"
proof (cases "map_of d k")
  case None
  then show ?thesis using mset_dict_set [of k "[v]" d] by (simp add: setdefault_append_def)
next
  case (Some vs)
  then show ?thesis using mset_dict_set [of k "vs @ [v]" d] by (simp add: setdefault_append_def)
qed

lemma mset_grouping:
  "mset (concat (map snd (fold (\<lambda>x. setdefault_append (f x) x) xs d))) =
     mset (concat (map snd d)) + mset xs"
  by (induction xs arbitrary: d) (auto simp: mset_setdefault_append)

lemma dict_get_in: "dict_wf d \<Longrightarrow> (k, v) \<in> set d \<longleftrightarrow> map_of d k = Some v"
  by (simp add: dict_wf_def)

text \<open>Two nested loops that collect lists.\<close>

lemma map_py_nested:
  assumes "\<forall>x \<in> set xs. \<forall>y \<in> set ys. \<exists>z. f x y = Inr z \<and> P (x, y) z"
  shows "\<exists>r zs. map_py (\<lambda>x. bind_py (map_py (f x) ys) (\<lambda>ds. Inr (concat ds))) xs = Inr r \<and>
    concat r = concat zs \<and> list_all2 P (List.product xs ys) zs"
  using assms
proof (induction xs)
  case (Cons x xs)
  then obtain r zs where r: "map_py (\<lambda>x. bind_py (map_py (f x) ys) (\<lambda>ds. Inr (concat ds))) xs = Inr r"
      "concat r = concat zs" "list_all2 P (List.product xs ys) zs" by auto
  have "\<forall>y \<in> set ys. \<exists>z. f x y = Inr z \<and> P (x, y) z" using Cons.prems by simp
  from map_py_all2 [OF this] obtain ds where
    ds: "map_py (f x) ys = Inr ds" "list_all2 (\<lambda>y z. P (x, y) z) ys ds" by blast
  then have "list_all2 P (List.product (x # xs) ys) (ds @ zs)"
    using r(3) by (simp add: list_all2_appendI list_all2_map1)
  then show ?case using r ds(1) by (intro exI [of _ "concat ds # r"] exI [of _ "ds @ zs"]) simp
qed auto

end
