(* ===== verification/PySort.thy ===== *)
theory PySort
  imports Prelude
begin

text \<open>
  \<open>sorted\<close> and \<open>list.sort\<close> of CPython, which every script calls: the leading run is taken as
  it is (a strictly descending one is reversed), the remaining elements are inserted one by
  one with a binary search. This is the whole algorithm for lists of fewer than 64
  elements; longer lists are merged from such runs, and for an order that is total up to
  ties the result is the same, because a stable sort is unique. The only comparison used
  is \<open>lt\<close>, Python's \<open>__lt__\<close>.
\<close>

fun asc_run :: "('a \<Rightarrow> 'a \<Rightarrow> bool) \<Rightarrow> 'a \<Rightarrow> 'a list \<Rightarrow> 'a list \<times> 'a list" where
  "asc_run lt p [] = ([], [])"
| "asc_run lt p (x # xs) =
     (if lt x p then ([], x # xs) else (case asc_run lt x xs of (r, rest) \<Rightarrow> (x # r, rest)))"

fun desc_run :: "('a \<Rightarrow> 'a \<Rightarrow> bool) \<Rightarrow> 'a \<Rightarrow> 'a list \<Rightarrow> 'a list \<times> 'a list" where
  "desc_run lt p [] = ([], [])"
| "desc_run lt p (x # xs) =
     (if lt x p then (case desc_run lt x xs of (r, rest) \<Rightarrow> (x # r, rest)) else ([], x # xs))"

fun count_run :: "('a \<Rightarrow> 'a \<Rightarrow> bool) \<Rightarrow> 'a list \<Rightarrow> 'a list \<times> 'a list" where
  "count_run lt [] = ([], [])"
| "count_run lt [x] = ([x], [])"
| "count_run lt (x # y # zs) =
     (if lt y x then (case desc_run lt x (y # zs) of (r, rest) \<Rightarrow> (rev (x # r), rest))
      else (case asc_run lt x (y # zs) of (r, rest) \<Rightarrow> (x # r, rest)))"

text \<open>The binary search of \<open>binarysort\<close>: the first position after every element not above \<open>x\<close>.\<close>

function bin_pos :: "('a \<Rightarrow> 'a \<Rightarrow> bool) \<Rightarrow> 'a \<Rightarrow> 'a list \<Rightarrow> nat \<Rightarrow> nat \<Rightarrow> nat" where
  "bin_pos lt x ys l r =
     (if l < r then
        let p = l + (r - l) div 2
        in if lt x (ys ! p) then bin_pos lt x ys l p else bin_pos lt x ys (Suc p) r
      else l)"
  by pat_completeness auto
termination
  by (relation "measure (\<lambda>(lt, x, ys, l, r). r - l)") (auto simp: Let_def)

declare bin_pos.simps [simp del]

definition bin_insert :: "('a \<Rightarrow> 'a \<Rightarrow> bool) \<Rightarrow> 'a list \<Rightarrow> 'a \<Rightarrow> 'a list" where
  "bin_insert lt ys x =
     (let p = bin_pos lt x ys 0 (length ys) in take p ys @ x # drop p ys)"

definition py_sort :: "('a \<Rightarrow> 'a \<Rightarrow> bool) \<Rightarrow> 'a list \<Rightarrow> 'a list" where
  "py_sort lt xs = (case count_run lt xs of (run, rest) \<Rightarrow> foldl (bin_insert lt) run rest)"

text \<open>\<open>sorted(xs)\<close> and \<open>sorted(xs, key=k)\<close>: the second compares keys.\<close>

abbreviation py_sorted :: "'a::linorder list \<Rightarrow> 'a list" where
  "py_sorted \<equiv> py_sort (<)"

definition py_sorted_key :: "('a \<Rightarrow> 'b::linorder) \<Rightarrow> 'a list \<Rightarrow> 'a list" where
  "py_sorted_key k = py_sort (\<lambda>a b. k a < k b)"

section \<open>The result is a permutation\<close>

lemma asc_run_append: "asc_run lt p xs = (r, rest) \<Longrightarrow> r @ rest = xs"
  by (induction lt p xs arbitrary: r rest rule: asc_run.induct)
     (auto split: if_splits prod.splits)

lemma desc_run_append: "desc_run lt p xs = (r, rest) \<Longrightarrow> r @ rest = xs"
  by (induction lt p xs arbitrary: r rest rule: desc_run.induct)
     (auto split: if_splits prod.splits)

lemma mset_count_run: "count_run lt xs = (run, rest) \<Longrightarrow> mset run + mset rest = mset xs"
proof (induction lt xs rule: count_run.induct)
  case (3 lt x y zs)
  show ?case
  proof (cases "lt y x")
    case True
    with 3 obtain r where "desc_run lt x (y # zs) = (r, rest)" "run = rev (x # r)"
      by (auto split: prod.splits simp del: desc_run.simps)
    then show ?thesis
      using arg_cong [OF desc_run_append, of lt x "y # zs" r rest mset] by simp
  next
    case False
    with 3 obtain r where "asc_run lt x (y # zs) = (r, rest)" "run = x # r"
      by (auto split: prod.splits simp del: asc_run.simps)
    then show ?thesis
      using arg_cong [OF asc_run_append, of lt x "y # zs" r rest mset] by simp
  qed
qed auto

lemma mset_bin_insert: "mset (bin_insert lt ys x) = add_mset x (mset ys)"
proof -
  have "mset (take p ys) + mset (drop p ys) = mset ys" for p
    by (metis append_take_drop_id mset_append)
  then show ?thesis by (simp add: bin_insert_def Let_def)
qed

lemma mset_fold_insert: "mset (foldl (bin_insert lt) ys xs) = mset ys + mset xs"
  by (induction xs arbitrary: ys) (auto simp: mset_bin_insert)

lemma mset_py_sort [simp]: "mset (py_sort lt xs) = mset xs"
  using mset_count_run by (fastforce simp: py_sort_def mset_fold_insert split: prod.splits)

lemma set_py_sort [simp]: "set (py_sort lt xs) = set xs"
  using mset_eq_setD [OF mset_py_sort] .

lemma length_py_sort [simp]: "length (py_sort lt xs) = length xs"
  using mset_eq_length [OF mset_py_sort] .

lemma py_sort_eq_Nil [simp]: "py_sort lt xs = [] \<longleftrightarrow> xs = []"
  by (metis length_0_conv length_py_sort)

lemma distinct_py_sort [simp]: "distinct (py_sort lt xs) \<longleftrightarrow> distinct xs"
  by (rule mset_eq_imp_distinct_iff) simp

section \<open>The result is sorted\<close>

definition boundary :: "('a \<Rightarrow> 'a \<Rightarrow> bool) \<Rightarrow> 'a \<Rightarrow> 'a list \<Rightarrow> nat \<Rightarrow> bool" where
  "boundary lt x ys p \<longleftrightarrow>
     (\<forall>y \<in> set (take p ys). \<not> lt x y) \<and> (\<forall>y \<in> set (drop p ys). lt x y)"

text \<open>
  The contract of a comparison: on the elements of \<open>A\<close> it is a strict order up to ties.
  Sortedness and stability of the result hold for every comparison that meets it.
\<close>

locale comparison =
  fixes lt :: "'a \<Rightarrow> 'a \<Rightarrow> bool"
    and A :: "'a set"
  assumes irrefl: "a \<in> A \<Longrightarrow> \<not> lt a a"
    and trans: "a \<in> A \<Longrightarrow> b \<in> A \<Longrightarrow> c \<in> A \<Longrightarrow> lt a b \<Longrightarrow> lt b c \<Longrightarrow> lt a c"
    and le_trans: "a \<in> A \<Longrightarrow> b \<in> A \<Longrightarrow> c \<in> A \<Longrightarrow> \<not> lt b a \<Longrightarrow> \<not> lt c b \<Longrightarrow> \<not> lt c a"
begin

abbreviation ascending :: "'a list \<Rightarrow> bool" where
  "ascending \<equiv> sorted_wrt (\<lambda>a b. \<not> lt b a)"

lemma asym: "a \<in> A \<Longrightarrow> b \<in> A \<Longrightarrow> lt a b \<Longrightarrow> \<not> lt b a"
  using irrefl trans by blast

lemma asc_run_ascending:
  "asc_run lt p xs = (r, rest) \<Longrightarrow> set (p # xs) \<subseteq> A \<Longrightarrow> ascending (p # r)"
proof (induction xs arbitrary: p r rest)
  case (Cons x xs)
  show ?case
  proof (cases "lt x p")
    case False
    then obtain r' where r: "asc_run lt x xs = (r', rest)" "r = x # r'"
      using Cons.prems by (auto split: prod.splits)
    then have asc: "ascending (x # r')" using Cons by auto
    have "set r' \<subseteq> A" using asc_run_append [OF r(1)] Cons.prems by auto
    with asc False show ?thesis using Cons.prems(2) le_trans [of p x] by (auto simp: r(2))
  qed (use Cons.prems in auto)
qed simp

lemma desc_run_descending:
  "desc_run lt p xs = (r, rest) \<Longrightarrow> set (p # xs) \<subseteq> A \<Longrightarrow> sorted_wrt (\<lambda>a b. lt b a) (p # r)"
proof (induction xs arbitrary: p r rest)
  case (Cons x xs)
  show ?case
  proof (cases "lt x p")
    case True
    then obtain r' where r: "desc_run lt x xs = (r', rest)" "r = x # r'"
      using Cons.prems by (auto split: prod.splits)
    then have desc: "sorted_wrt (\<lambda>a b. lt b a) (x # r')" using Cons by auto
    have "set r' \<subseteq> A" using desc_run_append [OF r(1)] Cons.prems by auto
    with desc True show ?thesis using Cons.prems(2) trans [of _ x p] by (auto simp: r(2))
  qed (use Cons.prems in auto)
qed simp

lemma count_run_ascending:
  assumes "count_run lt xs = (run, rest)" and "set xs \<subseteq> A"
  shows "ascending run"
proof (cases "(lt, xs)" rule: count_run.cases)
  case (3 lt' x y zs)
  show ?thesis
  proof (cases "lt y x")
    case True
    with 3 assms obtain r where r: "desc_run lt x (y # zs) = (r, rest)" "run = rev (x # r)"
      by (auto split: prod.splits simp del: desc_run.simps)
    have "set (y # zs) = set r \<union> set rest"
      using arg_cong [OF desc_run_append [OF r(1)], of set] by (simp only: set_append)
    then have "set (x # r) \<subseteq> A" using 3 assms(2) by auto
    then have *: "\<not> lt a b" if "a \<in> set (x # r)" "b \<in> set (x # r)" "lt b a" for a b
      using that asym by (meson subsetD)
    have "sorted_wrt (\<lambda>a b. lt b a) (x # r)"
      using desc_run_descending [OF r(1)] 3 assms(2) by simp
    then have "sorted_wrt (\<lambda>a b. \<not> lt a b) (x # r)"
      using * by (rule sorted_wrt_mono_rel [rotated])
    then show ?thesis by (simp only: r(2) sorted_wrt_rev)
  next
    case False
    with 3 assms obtain r where r: "asc_run lt x (y # zs) = (r, rest)" "run = x # r"
      by (auto split: prod.splits simp del: asc_run.simps)
    with asc_run_ascending [OF r(1)] 3 assms show ?thesis by auto
  qed
qed (use assms in auto)

text \<open>The search returns the boundary between the elements not above \<open>x\<close> and those above.\<close>

lemma bin_pos_boundary:
  assumes "ascending ys" and "set ys \<subseteq> A" and "x \<in> A"
    and "l \<le> r" and "r \<le> length ys"
    and "\<forall>y \<in> set (take l ys). \<not> lt x y" and "\<forall>y \<in> set (drop r ys). lt x y"
  shows "boundary lt x ys (bin_pos lt x ys l r)"
  using assms
proof (induction "r - l" arbitrary: l r rule: less_induct)
  case less
  show ?case
  proof (cases "l < r")
    case True
    define p where "p = l + (r - l) div 2"
    have p: "l \<le> p" "p < r" "p < length ys" using True less.prems(5) by (auto simp: p_def)
    have split: "ascending (take p ys @ ys ! p # drop (Suc p) ys)"
      using less.prems(1) p(3) by (simp add: id_take_nth_drop [symmetric])
    have sub: "set (take p ys) \<subseteq> A" "set (drop (Suc p) ys) \<subseteq> A" "ys ! p \<in> A"
      using less.prems(2) p(3) set_take_subset [of p ys] set_drop_subset [of "Suc p" ys] by auto
    show ?thesis
    proof (cases "lt x (ys ! p)")
      case above: True
      have "lt x y" if y: "y \<in> set (drop (Suc p) ys)" for y
        using y split above sub less.prems(3) le_trans [of x y "ys ! p"] le_trans [of "ys ! p" y x]
          asym [of x "ys ! p"] by (auto simp: sorted_wrt_append)
      then have "\<forall>y \<in> set (drop p ys). lt x y"
        using above p(3) by (simp flip: Cons_nth_drop_Suc)
      then have "boundary lt x ys (bin_pos lt x ys l p)"
        using less.prems p by (intro less.hyps) auto
      then show ?thesis using True above by (subst bin_pos.simps) (simp add: p_def)
    next
      case below: False
      have "\<not> lt x y" if y: "y \<in> set (take p ys)" for y
        using y split below sub less.prems(3) le_trans [of y "ys ! p" x]
        by (auto simp: sorted_wrt_append)
      then have "\<forall>y \<in> set (take (Suc p) ys). \<not> lt x y"
        using below p(3) by (simp add: take_Suc_conv_app_nth)
      then have "boundary lt x ys (bin_pos lt x ys (Suc p) r)"
        using less.prems p by (intro less.hyps) auto
      then show ?thesis using True below by (subst bin_pos.simps) (simp add: p_def)
    qed
  next
    case False
    then show ?thesis using less.prems by (subst bin_pos.simps) (simp add: boundary_def)
  qed
qed

lemma bin_insert_ascending:
  assumes "ascending ys" and "set ys \<subseteq> A" and "x \<in> A"
  shows "ascending (bin_insert lt ys x)"
proof -
  define p where "p = bin_pos lt x ys 0 (length ys)"
  have p: "boundary lt x ys p"
    using bin_pos_boundary [OF assms, of 0 "length ys"] by (simp add: p_def)
  have sub: "set (drop p ys) \<subseteq> A" using assms(2) set_drop_subset by fast
  have "ascending (take p ys @ drop p ys)" using assms(1) by simp
  then have asc: "ascending (take p ys)" "ascending (drop p ys)"
    "\<forall>a \<in> set (take p ys). \<forall>b \<in> set (drop p ys). \<not> lt b a"
    unfolding sorted_wrt_append by blast+
  have "\<forall>b \<in> set (drop p ys). \<not> lt b x"
    using p sub assms(3) asym by (auto simp: boundary_def)
  then have "ascending (take p ys @ x # drop p ys)"
    using p asc unfolding boundary_def sorted_wrt_append by auto
  then show ?thesis by (simp only: bin_insert_def Let_def p_def)
qed

lemma fold_insert_ascending:
  "ascending ys \<Longrightarrow> set ys \<subseteq> A \<Longrightarrow> set xs \<subseteq> A \<Longrightarrow> ascending (foldl (bin_insert lt) ys xs)"
proof (induction xs arbitrary: ys)
  case (Cons x xs)
  have "set (bin_insert lt ys x) \<subseteq> A"
    using mset_eq_setD [of "bin_insert lt ys x" "x # ys"] Cons.prems by (simp add: mset_bin_insert)
  then show ?case using Cons by (simp add: bin_insert_ascending)
qed simp

lemma py_sort_ascending: "set xs \<subseteq> A \<Longrightarrow> ascending (py_sort lt xs)"
proof -
  assume xs: "set xs \<subseteq> A"
  obtain run rest where c: "count_run lt xs = (run, rest)" by fastforce
  have "set run \<union> set rest = set xs"
    using arg_cong [OF mset_count_run [OF c], of set_mset] by simp
  then show ?thesis
    using count_run_ascending [OF c xs] xs fold_insert_ascending [of run rest]
    by (auto simp: py_sort_def c)
qed

text \<open>Stability: the elements that tie with \<open>a\<close> keep their relative order.\<close>

abbreviation ties :: "'a \<Rightarrow> 'a list \<Rightarrow> 'a list" where
  "ties a \<equiv> filter (\<lambda>b. \<not> lt a b \<and> \<not> lt b a)"

lemma bin_insert_ties:
  assumes "ascending ys" and "set ys \<subseteq> A" and "x \<in> A" and "a \<in> A"
  shows "ties a (bin_insert lt ys x) = ties a ys @ ties a [x]"
proof -
  define p where "p = bin_pos lt x ys 0 (length ys)"
  have p: "boundary lt x ys p"
    using bin_pos_boundary [OF assms(1-3), of 0 "length ys"] by (simp add: p_def)
  have sub: "set (drop p ys) \<subseteq> A" using assms(2) set_drop_subset by fast
  have "ties a (drop p ys) = []" if "\<not> lt a x" "\<not> lt x a"
  proof -
    have "lt a y" if "y \<in> set (drop p ys)" for y
      using that p sub \<open>\<not> lt x a\<close> assms(3,4) le_trans [of y a x] asym [of x y]
      by (auto simp: boundary_def)
    then show ?thesis by (simp add: filter_empty_conv)
  qed
  moreover have "ties a ys = ties a (take p ys) @ ties a (drop p ys)"
    by (metis append_take_drop_id filter_append)
  ultimately show ?thesis by (auto simp: bin_insert_def Let_def p_def [symmetric])
qed

lemma fold_insert_ties:
  "ascending ys \<Longrightarrow> set ys \<subseteq> A \<Longrightarrow> set xs \<subseteq> A \<Longrightarrow> a \<in> A \<Longrightarrow>
     ties a (foldl (bin_insert lt) ys xs) = ties a ys @ ties a xs"
proof (induction xs arbitrary: ys)
  case (Cons x xs)
  have "set (bin_insert lt ys x) \<subseteq> A"
    using mset_eq_setD [of "bin_insert lt ys x" "x # ys"] Cons.prems by (simp add: mset_bin_insert)
  then show ?case
    using Cons bin_insert_ties [of ys x a] by (simp add: bin_insert_ascending)
qed simp

lemma descending_ties:
  "sorted_wrt (\<lambda>a b. lt b a) xs \<Longrightarrow> set xs \<subseteq> A \<Longrightarrow> a \<in> A \<Longrightarrow> ties a (rev xs) = ties a xs"
proof (induction xs)
  case (Cons x xs)
  have "ties a xs = []" if "\<not> lt a x" "\<not> lt x a"
    using Cons.prems that le_trans [of x a] by (auto simp: filter_empty_conv)
  then show ?case using Cons by auto
qed simp

lemma count_run_ties:
  assumes "count_run lt xs = (run, rest)" and "set xs \<subseteq> A" and "a \<in> A"
  shows "ties a run @ ties a rest = ties a xs"
proof (cases "(lt, xs)" rule: count_run.cases)
  case (3 lt' x y zs)
  show ?thesis
  proof (cases "lt y x")
    case True
    with 3 assms obtain r where r: "desc_run lt x (y # zs) = (r, rest)" "run = rev (x # r)"
      by (auto split: prod.splits simp del: desc_run.simps)
    have app: "r @ rest = y # zs" using desc_run_append [OF r(1)] .
    have "set r \<union> set rest = set (y # zs)" using arg_cong [OF app, of set] by simp
    then have "set (x # r) \<subseteq> A" using 3 assms(2) by auto
    then have "ties a run = ties a (x # r)"
      using descending_ties [of "x # r" a] desc_run_descending [OF r(1)] 3 assms(2,3)
      by (simp only: r(2) prod.inject)
    moreover have "ties a (y # zs) = ties a r @ ties a rest"
      by (simp only: app [symmetric] filter_append)
    ultimately show ?thesis
      using 3 by (simp only: prod.inject filter.simps(2) [of _ x]) simp
  next
    case False
    with 3 assms obtain r where r: "asc_run lt x (y # zs) = (r, rest)" "run = x # r"
      by (auto split: prod.splits simp del: asc_run.simps)
    have "ties a (y # zs) = ties a r @ ties a rest"
      by (simp only: asc_run_append [OF r(1), symmetric] filter_append)
    then show ?thesis
      using 3 r(2) by (simp only: prod.inject filter.simps(2) [of _ x]) simp
  qed
qed (use assms in auto)

lemma py_sort_ties:
  assumes "set xs \<subseteq> A" and "a \<in> A"
  shows "ties a (py_sort lt xs) = ties a xs"
proof -
  obtain run rest where c: "count_run lt xs = (run, rest)" by fastforce
  have "set run \<union> set rest = set xs"
    using arg_cong [OF mset_count_run [OF c], of set_mset] by simp
  then show ?thesis
    using count_run_ties [OF c assms] count_run_ascending [OF c assms(1)] assms
      fold_insert_ties [of run rest a] by (auto simp: py_sort_def c)
qed

end

text \<open>
  The comparisons the scripts sort by are instances: the order of a linearly ordered type,
  and the comparison of keys from such a type.
\<close>

interpretation linear: comparison "(<) :: 'a::linorder \<Rightarrow> 'a \<Rightarrow> bool" UNIV
  by unfold_locales auto

interpretation keyed: comparison "\<lambda>a b. (k a :: 'b::linorder) < k b" UNIV for k
  by unfold_locales auto

lemma sorted_py_sorted [simp]: "sorted (py_sorted xs)"
  using linear.py_sort_ascending [of xs] by (simp only: not_less subset_UNIV simp_thms)

lemma py_sorted_eq_sort: "py_sorted xs = sort xs"
  by (rule properties_for_sort [symmetric]) auto

lemma sorted_py_sorted_key: "sorted (map k (py_sorted_key k xs))"
  using keyed.py_sort_ascending [of xs k]
  by (simp only: py_sorted_key_def not_less sorted_map subset_UNIV simp_thms)

lemma py_sorted_key_eq_sort_key: "py_sorted_key k xs = sort_key k xs"
proof (rule properties_for_sort_key [symmetric])
  fix x
  have "(k x = k y) = (\<not> k x < k y \<and> \<not> k y < k x)" for y by auto
  then show "filter (\<lambda>y. k x = k y) (py_sorted_key k xs) = filter (\<lambda>y. k x = k y) xs"
    using keyed.py_sort_ties [of xs x k] by (simp only: py_sorted_key_def subset_UNIV UNIV_I simp_thms)
next
  show "mset (py_sorted_key k xs) = mset xs" by (simp add: py_sorted_key_def)
  show "sorted (map k (py_sorted_key k xs))" by (rule sorted_py_sorted_key)
qed

end
