(* ===== verification/PyFloat.thy ===== *)
theory PyFloat
  imports PySort "HOL-Library.Log_Nat"
begin

text \<open>
  Python's \<open>float\<close>: IEEE 754 binary64 with round-half-to-even, signed zero, infinities and
  NaN. A finite value is held as the rational it denotes; every operation computes the exact
  rational and rounds it once, as the hardware does. The rounding function is shown to be
  monotone and to fix exactly the representable numbers, which is what the bounds of the
  statistics rest on.
\<close>

section \<open>Rounding\<close>

text \<open>\<open>ilog b r\<close> is the exponent of \<open>r\<close> in base \<open>b\<close>, for positive \<open>r\<close>.\<close>

definition ilog :: "nat \<Rightarrow> rat \<Rightarrow> int" where
  "ilog b r =
     (let (n, d) = quotient_of r;
          k = int (floorlog b (nat n)) - int (floorlog b (nat d))
      in if of_nat b powi k \<le> r then k else k - 1)"

text \<open>Round half to even, on rationals.\<close>

definition rhe :: "rat \<Rightarrow> int" where
  "rhe x =
     (let q = \<lfloor>x\<rfloor>; f = x - of_int q
      in if f < 1 / 2 then q else if 1 / 2 < f then q + 1 else if even q then q else q + 1)"

text \<open>The spacing of the doubles around a positive number: 53 significant bits, and no finer
  than the smallest subnormal.\<close>

definition exponent :: "rat \<Rightarrow> int" where
  "exponent x = max (ilog 2 x - 52) (-1074)"

definition rnd :: "rat \<Rightarrow> rat" where
  "rnd r = (if r = 0 then 0
     else let q = 2 powi exponent \<bar>r\<bar> in sgn r * (of_int (rhe (\<bar>r\<bar> / q)) * q))"

section \<open>Values and operations\<close>

datatype flt = Fin rat | NegZero | PInf | NInf | NaN

fun fval :: "flt \<Rightarrow> rat" where
  "fval (Fin r) = r"
| "fval _ = 0"

fun is_finite :: "flt \<Rightarrow> bool" where
  "is_finite (Fin r) = True"
| "is_finite NegZero = True"
| "is_finite _ = False"

definition max_bound :: rat where
  "max_bound = 2 ^ 1024"

definition fl :: "rat \<Rightarrow> flt" where
  \<comment> \<open>the double nearest to an exact result\<close>
  "fl r =
     (let v = rnd r
      in if v = 0 then (if r < 0 then NegZero else Fin 0)
         else if max_bound \<le> v then PInf
         else if v \<le> - max_bound then NInf
         else Fin v)"

fun signbit :: "flt \<Rightarrow> bool" where
  "signbit (Fin r) \<longleftrightarrow> r < 0"
| "signbit NegZero \<longleftrightarrow> True"
| "signbit NInf \<longleftrightarrow> True"
| "signbit _ \<longleftrightarrow> False"

definition is_zero :: "flt \<Rightarrow> bool" where
  "is_zero x \<longleftrightarrow> x = NegZero \<or> x = Fin 0"

definition signed :: "bool \<Rightarrow> flt \<Rightarrow> flt \<Rightarrow> flt" where
  "signed s neg pos = (if s then neg else pos)"

definition fadd :: "flt \<Rightarrow> flt \<Rightarrow> flt" where
  "fadd x y =
     (if x = NaN \<or> y = NaN then NaN
      else if \<not> is_finite x then (if \<not> is_finite y \<and> y \<noteq> x then NaN else x)
      else if \<not> is_finite y then y
      else if x = NegZero \<and> y = NegZero then NegZero
      else fl (fval x + fval y))"

definition fmul :: "flt \<Rightarrow> flt \<Rightarrow> flt" where
  "fmul x y =
     (let s = (signbit x \<noteq> signbit y)
      in if x = NaN \<or> y = NaN then NaN
         else if \<not> is_finite x \<or> \<not> is_finite y then
           (if is_zero x \<or> is_zero y then NaN else signed s NInf PInf)
         else if is_zero x \<or> is_zero y then signed s NegZero (Fin 0)
         else fl (fval x * fval y))"

definition fdiv :: "flt \<Rightarrow> flt \<Rightarrow> flt py" where
  "fdiv x y =
     (let s = (signbit x \<noteq> signbit y)
      in if is_zero y then Inl ZeroDivisionError
         else Inr (if x = NaN \<or> y = NaN then NaN
           else if \<not> is_finite x then (if \<not> is_finite y then NaN else signed s NInf PInf)
           else if \<not> is_finite y then signed s NegZero (Fin 0)
           else if is_zero x then signed s NegZero (Fin 0)
           else fl (fval x / fval y)))"

fun fless :: "flt \<Rightarrow> flt \<Rightarrow> bool" where
  "fless NaN y = False"
| "fless x NaN = False"
| "fless NInf y = (y \<noteq> NInf)"
| "fless x NInf = False"
| "fless PInf y = False"
| "fless x PInf = True"
| "fless x y = (fval x < fval y)"

section \<open>Exponents\<close>

lemma powi_less_iff: "1 < B \<Longrightarrow> B powi a < B powi b \<longleftrightarrow> a < b" for B :: rat
  by (metis linorder_not_less power_int_increasing power_int_strict_increasing less_imp_le)

lemma powi_le_iff: "1 < B \<Longrightarrow> B powi a \<le> B powi b \<longleftrightarrow> a \<le> b" for B :: rat
  by (simp add: powi_less_iff flip: linorder_not_less)

lemma ilog_bounds:
  assumes b: "2 \<le> b" and r: "0 < r"
  shows "of_nat b powi (ilog b r) \<le> r" and "r < of_nat b powi (ilog b r + 1)"
proof -
  obtain n d where q: "quotient_of r = (n, d)" by (cases "quotient_of r")
  have d: "0 < d" using quotient_of_denom_pos [OF q] .
  have rq: "r = of_int n / of_int d" using quotient_of_div [OF q] .
  have n: "0 < n" using r d by (simp add: rq zero_less_divide_iff)
  define ln ld where "ln = floorlog b (nat n)" and "ld = floorlog b (nat d)"
  have bb: "1 < b" using b by simp
  have fn: "b ^ (ln - 1) \<le> nat n" "nat n < b ^ ln"
    using floorlog_bounds [of "nat n" b] n b by (auto simp: ln_def)
  have fd: "b ^ (ld - 1) \<le> nat d" "nat d < b ^ ld"
    using floorlog_bounds [of "nat d" b] d b by (auto simp: ld_def)
  have pos: "0 < ln" "0 < ld" using n d b by (auto simp: ln_def ld_def floorlog_eq_zero_iff intro!: Nat.gr0I)
  let ?B = "of_nat b :: rat"
  have B: "1 < ?B" using b by simp
  have cast: "(of_nat (b ^ k) :: rat) = ?B powi int k" for k by (simp add: power_int_of_nat)
  have N: "?B powi (int ln - 1) \<le> of_int n" "of_int n < ?B powi int ln"
    using fn n pos cast [of "ln - 1"] cast [of ln]
    by (metis of_nat_diff of_nat_1 of_nat_le_iff of_nat_nat of_int_of_nat_eq less_imp_le Suc_leI One_nat_def)
       (metis fn(2) n cast of_nat_less_iff of_nat_nat of_int_of_nat_eq less_imp_le)
  have D: "?B powi (int ld - 1) \<le> of_int d" "of_int d < ?B powi int ld"
    using fd d pos cast [of "ld - 1"] cast [of ld]
    by (metis of_nat_diff of_nat_1 of_nat_le_iff of_nat_nat of_int_of_nat_eq less_imp_le Suc_leI One_nat_def)
       (metis fd(2) d cast of_nat_less_iff of_nat_nat of_int_of_nat_eq less_imp_le)
  define k where "k = int ln - int ld"
  have "r < ?B powi int ln / ?B powi (int ld - 1)"
    unfolding rq using N D d B n by (intro frac_less) auto
  also have "\<dots> = ?B powi (k + 1)"
    using B power_int_diff [of ?B "int ln" "int ld - 1"] by (simp add: k_def algebra_simps)
  finally have up: "r < ?B powi (k + 1)" .
  have "?B powi (k - 1) = ?B powi (int ln - 1) / ?B powi int ld"
    using B power_int_diff [of ?B "int ln - 1" "int ld"] by (simp add: k_def algebra_simps)
  also have "\<dots> \<le> r"
    unfolding rq using N D d B n by (intro frac_le) auto
  finally have lo: "?B powi (k - 1) \<le> r" .
  have il: "ilog b r = (if ?B powi k \<le> r then k else k - 1)"
    by (simp add: ilog_def q ln_def ld_def k_def)
  show "?B powi (ilog b r) \<le> r" "r < ?B powi (ilog b r + 1)"
    using up lo by (auto simp: il)
qed

lemma ilog_unique:
  assumes b: "2 \<le> b" and "of_nat b powi k \<le> r" and "r < of_nat b powi (k + 1)"
  shows "ilog b r = k"
proof -
  let ?B = "of_nat b :: rat"
  have B: "1 < ?B" using b by simp
  have r: "0 < r" using assms(2) B by (meson less_le_trans not_less of_nat_0_less_iff zero_less_power_int order.strict_trans zero_less_one)
  note bounds = ilog_bounds [OF b r]
  have "?B powi k < ?B powi (ilog b r + 1)" "?B powi (ilog b r) < ?B powi (k + 1)"
    using assms bounds by auto
  then show ?thesis by (simp add: powi_less_iff [OF B])
qed

lemma ilog_mono: "2 \<le> b \<Longrightarrow> 0 < x \<Longrightarrow> x \<le> y \<Longrightarrow> ilog b x \<le> ilog b y"
proof -
  assume b: "2 \<le> b" and x: "0 < x" and xy: "x \<le> y"
  have "of_nat b powi (ilog b x) < (of_nat b powi (ilog b y + 1) :: rat)"
    using ilog_bounds(1) [OF b x] ilog_bounds(2) [OF b, of y] x xy by simp
  then show ?thesis using powi_less_iff [of "of_nat b"] b by simp
qed

section \<open>Round half to even\<close>

lemma rhe_of_int [simp]: "rhe (of_int n) = n"
  by (simp add: rhe_def)

lemma rhe_bounds: "of_int (rhe x) - x \<le> 1 / 2" "x - of_int (rhe x) \<le> 1 / 2"
proof -
  have "of_int \<lfloor>x\<rfloor> \<le> x" "x < of_int \<lfloor>x\<rfloor> + 1" by linarith+
  then show "of_int (rhe x) - x \<le> 1 / 2" "x - of_int (rhe x) \<le> 1 / 2"
    unfolding rhe_def Let_def by (simp_all split: if_split) linarith+
qed

lemma rhe_mono: "x \<le> y \<Longrightarrow> rhe x \<le> rhe y"
proof -
  assume xy: "x \<le> y"
  show ?thesis
  proof (cases "\<lfloor>x\<rfloor> = \<lfloor>y\<rfloor>")
    case True
    then show ?thesis using xy by (auto simp: rhe_def Let_def)
  next
    case False
    then have "\<lfloor>x\<rfloor> + 1 \<le> \<lfloor>y\<rfloor>" using floor_mono [OF xy] by linarith
    moreover have "rhe x \<le> \<lfloor>x\<rfloor> + 1" "\<lfloor>y\<rfloor> \<le> rhe y" by (auto simp: rhe_def Let_def)
    ultimately show ?thesis by linarith
  qed
qed

lemma rhe_le_iff_int: "x \<le> of_int n \<Longrightarrow> rhe x \<le> n"
  using rhe_mono [of x "of_int n"] by simp

lemma int_le_rhe: "of_int n \<le> x \<Longrightarrow> n \<le> rhe x"
  using rhe_mono [of "of_int n" x] by simp

lemma rhe_eqI: "\<bar>x - of_int n\<bar> < 1 / 2 \<Longrightarrow> rhe x = n"
proof -
  assume "\<bar>x - of_int n\<bar> < 1 / 2"
  then have "of_int (rhe x) < (of_int (n + 1) :: rat)" "of_int n < (of_int (rhe x + 1) :: rat)"
    using rhe_bounds [of x] unfolding of_int_add of_int_1 by linarith+
  then show ?thesis unfolding of_int_less_iff by linarith
qed

section \<open>Representable numbers\<close>

definition representable :: "rat \<Rightarrow> bool" where
  "representable x \<longleftrightarrow> (\<exists>m k. x = of_int m * 2 powi k \<and> \<bar>m\<bar> \<le> 2 ^ 53 \<and> -1074 \<le> k)"

lemma rnd_0 [simp]: "rnd 0 = 0"
  by (simp add: rnd_def)

lemma rnd_minus: "rnd (- x) = - rnd x"
  by (simp add: rnd_def Let_def)

lemma rnd_pos: "0 < x \<Longrightarrow> rnd x = of_int (rhe (x / 2 powi exponent x)) * 2 powi exponent x"
  by (simp add: rnd_def Let_def)

lemma exponent_bounds:
  assumes "0 < x"
  shows "x < 2 powi (exponent x + 53)" and "-1074 \<le> exponent x"
    and "exponent x \<noteq> -1074 \<Longrightarrow> 2 powi (exponent x + 52) \<le> x"
proof -
  have "x < 2 powi (ilog 2 x + 1)" using ilog_bounds(2) [of 2 x] assms by simp
  also have "\<dots> \<le> 2 powi (exponent x + 53)" by (simp add: powi_le_iff exponent_def)
  finally show "x < 2 powi (exponent x + 53)" .
  show "-1074 \<le> exponent x" by (simp add: exponent_def)
  assume "exponent x \<noteq> -1074"
  then have "ilog 2 x = exponent x + 52" by (auto simp: exponent_def max_def split: if_splits)
  then show "2 powi (exponent x + 52) \<le> x" using ilog_bounds(1) [of 2 x] assms by simp
qed

lemma powi_mult_int: "e \<le> k \<Longrightarrow> of_int m * 2 powi k = of_int (m * 2 ^ nat (k - e)) * (2 powi e :: rat)"
proof -
  assume "e \<le> k"
  then have "(2 powi k :: rat) = 2 ^ nat (k - e) * 2 powi e"
    by (simp flip: power_int_of_nat power_int_add)
  then show ?thesis by simp
qed

lemma rnd_ge_grid:
  assumes "0 < x" and "exponent x \<le> k" and "of_int m * 2 powi k \<le> x"
  shows "of_int m * 2 powi k \<le> rnd x"
proof -
  let ?q = "2 powi exponent x :: rat"
  have m: "of_int m * 2 powi k = of_int (m * 2 ^ nat (k - exponent x)) * ?q"
    using powi_mult_int [OF assms(2)] .
  then have "of_int (m * 2 ^ nat (k - exponent x)) \<le> x / ?q"
    using assms(3) by (simp only: m pos_le_divide_eq [of ?q] zero_less_power_int zero_less_numeral)
  from int_le_rhe [OF this] show ?thesis
    unfolding rnd_pos [OF assms(1)] m by (intro mult_right_mono) (simp_all only: of_int_le_iff, simp)
qed

lemma rnd_le_grid:
  assumes "0 < x" and "exponent x \<le> k" and "x \<le> of_int m * 2 powi k"
  shows "rnd x \<le> of_int m * 2 powi k"
proof -
  let ?q = "2 powi exponent x :: rat"
  have m: "of_int m * 2 powi k = of_int (m * 2 ^ nat (k - exponent x)) * ?q"
    using powi_mult_int [OF assms(2)] .
  then have "x / ?q \<le> of_int (m * 2 ^ nat (k - exponent x))"
    using assms(3) by (simp only: m pos_divide_le_eq [of ?q] zero_less_power_int zero_less_numeral)
  from rhe_le_iff_int [OF this] show ?thesis
    unfolding rnd_pos [OF assms(1)] m by (intro mult_right_mono) (simp_all only: of_int_le_iff, simp)
qed

lemma rnd_nonneg: "0 \<le> x \<Longrightarrow> 0 \<le> rnd x"
  using rnd_ge_grid [of x "exponent x" 0] by (cases "x = 0") auto

lemma rnd_mono_pos:
  assumes "0 < x" and "x \<le> y"
  shows "rnd x \<le> rnd y"
proof (cases "exponent x = exponent y")
  case True
  then have "rhe (x / 2 powi exponent x) \<le> rhe (y / 2 powi exponent y)"
    using assms by (intro rhe_mono) (simp add: divide_right_mono)
  then show ?thesis using assms True by (simp add: rnd_pos)
next
  case False
  have "exponent x \<le> exponent y"
    using ilog_mono [of 2 x y] assms by (auto simp: exponent_def)
  with False have less: "exponent x + 1 \<le> exponent y" by simp
  then have "exponent y \<noteq> -1074" using exponent_bounds(2) [OF assms(1)] by simp
  then have y: "of_int 1 * 2 powi (exponent y + 52) \<le> y"
    using exponent_bounds(3) [of y] assms by simp
  have "x \<le> 2 powi (exponent x + 53)" using exponent_bounds(1) [OF assms(1)] by simp
  also have "\<dots> \<le> of_int 1 * 2 powi (exponent y + 52)" using less by (simp add: powi_le_iff)
  finally have "rnd x \<le> of_int 1 * 2 powi (exponent y + 52)"
    using assms less by (intro rnd_le_grid) auto
  also have "\<dots> \<le> rnd y" using y assms by (intro rnd_ge_grid) auto
  finally show ?thesis .
qed

lemma rnd_mono: "x \<le> y \<Longrightarrow> rnd x \<le> rnd y"
proof -
  assume xy: "x \<le> y"
  consider "0 < x" | "x \<le> 0" "0 \<le> y" | "y < 0" using xy by linarith
  then show ?thesis
  proof cases
    case 1
    then show ?thesis using rnd_mono_pos xy by blast
  next
    case 2
    then show ?thesis
      using rnd_nonneg [of y] rnd_nonneg [of "- x"] by (simp add: rnd_minus)
  next
    case 3
    then show ?thesis using rnd_mono_pos [of "- y" "- x"] xy by (simp add: rnd_minus)
  qed
qed

lemma rnd_representable_pos: "0 < x \<Longrightarrow> representable x \<Longrightarrow> rnd x = x"
proof -
  assume x: "0 < x" and "representable x"
  then obtain m k where mk: "x = of_int m * 2 powi k" "\<bar>m\<bar> \<le> 2 ^ 53" "-1074 \<le> k"
    by (auto simp: representable_def)
  have grid: "\<exists>m' k'. x = of_int m' * 2 powi k' \<and> exponent x \<le> k'"
  proof (cases "exponent x \<le> k")
    case False
    have "(2 powi (exponent x + 52) :: rat) \<le> of_int m * 2 powi k"
      using exponent_bounds(3) [OF x] False mk by auto
    also have "\<dots> \<le> 2 powi (k + 53)"
    proof -
      have "(of_int m :: rat) \<le> 2 ^ 53"
        using mk(2) by (metis abs_le_D1 of_int_le_iff of_int_numeral of_int_power)
      then have "of_int m * (2 powi k :: rat) \<le> 2 ^ 53 * 2 powi k" by (simp add: mult_right_mono)
      also have "\<dots> = 2 powi (k + 53)" by (simp add: power_int_add)
      finally show ?thesis .
    qed
    finally have "exponent x = k + 1" using False by (simp add: powi_le_iff)
    then have "2 powi (k + 53) \<le> x" using exponent_bounds(3) [OF x] mk(3) by (simp add: add.commute)
    then have "x = of_int 1 * 2 powi (k + 53)"
      using \<open>of_int m * 2 powi k \<le> 2 powi (k + 53)\<close> mk(1) by simp
    then show ?thesis using \<open>exponent x = k + 1\<close> by (intro exI [of _ 1] exI [of _ "k + 53"]) simp
  qed (use mk in blast)
  then show "rnd x = x"
    using rnd_le_grid [OF x] rnd_ge_grid [OF x] by (metis order.antisym order.refl)
qed

lemma representable_minus [simp]: "representable (- x) \<longleftrightarrow> representable x"
proof -
  have "representable (- y)" if "representable y" for y
    using that unfolding representable_def
  proof (elim exE conjE)
    fix m k assume "y = of_int m * 2 powi k" "\<bar>m\<bar> \<le> 2 ^ 53" "-1074 \<le> k"
    then show "\<exists>m k. - y = of_int m * 2 powi k \<and> \<bar>m\<bar> \<le> 2 ^ 53 \<and> -1074 \<le> k"
      by (intro exI [of _ "- m"] exI [of _ k]) simp
  qed
  from this [of x] this [of "- x"] show ?thesis by auto
qed

lemma representable_0 [simp]: "representable 0"
  unfolding representable_def by (intro exI [of _ 0]) simp

lemma rnd_representable [simp]: "representable x \<Longrightarrow> rnd x = x"
  using rnd_representable_pos [of x] rnd_representable_pos [of "- x"]
  by (cases x "0 :: rat" rule: linorder_cases) (auto simp: rnd_minus)

lemma representable_rnd_pos: "0 < x \<Longrightarrow> representable (rnd x)"
proof -
  assume x: "0 < x"
  have "x / 2 powi exponent x \<le> of_int (2 ^ 53)"
    using exponent_bounds(1) [OF x] by (simp add: pos_divide_le_eq power_int_add mult.commute)
  then have "rhe (x / 2 powi exponent x) \<le> 2 ^ 53" by (rule rhe_le_iff_int)
  moreover have "0 \<le> rhe (x / 2 powi exponent x)" using x by (intro int_le_rhe) simp
  ultimately show ?thesis
    using exponent_bounds(2) [OF x] unfolding representable_def rnd_pos [OF x]
    by (intro exI conjI refl) auto
qed

lemma representable_rnd [simp]: "representable (rnd x)"
proof (cases x "0 :: rat" rule: linorder_cases)
  case less
  then show ?thesis
    using representable_rnd_pos [of "- x"] by (simp add: rnd_minus)
qed (auto intro: representable_rnd_pos)

lemma rnd_idem: "rnd (rnd x) = rnd x"
  by simp

lemma representable_iff_rnd: "representable x \<longleftrightarrow> rnd x = x"
  by (metis representable_rnd rnd_representable)

lemma representable_double: "representable x \<Longrightarrow> representable (2 * x)"
  unfolding representable_def
proof (elim exE conjE)
  fix m k assume "x = of_int m * 2 powi k" "\<bar>m\<bar> \<le> 2 ^ 53" "-1074 \<le> k"
  then show "\<exists>m k. 2 * x = of_int m * 2 powi k \<and> \<bar>m\<bar> \<le> 2 ^ 53 \<and> -1074 \<le> k"
    by (intro exI [of _ m] exI [of _ "k + 1"]) (simp add: power_int_add)
qed

lemma representable_of_int: "\<bar>n\<bar> \<le> 2 ^ 53 \<Longrightarrow> representable (of_int n)"
  unfolding representable_def by (intro exI [of _ n] exI [of _ 0]) simp

lemma rnd_between: "representable a \<Longrightarrow> representable b \<Longrightarrow> a \<le> x \<Longrightarrow> x \<le> b \<Longrightarrow> a \<le> rnd x \<and> rnd x \<le> b"
  using rnd_mono [of a x] rnd_mono [of x b] by simp

section \<open>Rounding on the integer grid\<close>

text \<open>With \<open>j\<close> bits too many, rounding drops \<open>j\<close> bits.\<close>

lemma rnd_grid:
  assumes "2 ^ (52 + j) \<le> N" and "N < 2 ^ (53 + j)" and "-1074 \<le> k"
  shows "rnd (of_int N * 2 powi k) = of_int (rhe (of_int N / 2 ^ j)) * 2 powi (k + int j)"
proof -
  let ?x = "of_int N * 2 powi k :: rat"
  have N: "0 < N" using assms(1) by (rule less_le_trans [rotated]) simp
  have lo: "(2 ^ (52 + j) :: rat) \<le> of_int N"
    using assms(1) by (metis of_int_le_iff of_int_numeral of_int_power)
  have hi: "of_int N < (2 ^ (53 + j) :: rat)"
    using assms(2) by (metis of_int_less_iff of_int_numeral of_int_power)
  have split: "2 powi (k + int i) = (2 ^ i * 2 powi k :: rat)" for i
    by (simp add: power_int_add)
  have "of_nat 2 powi (k + int (52 + j)) \<le> ?x"
    using lo by (simp only: split of_nat_numeral) (intro mult_right_mono, simp_all)
  moreover have "?x < of_nat 2 powi (k + int (52 + j) + 1)"
    using hi split [of "53 + j"] by (simp add: mult_less_cancel_right algebra_simps)
  ultimately have "ilog 2 ?x = k + int (52 + j)" by (intro ilog_unique) auto
  then have e: "exponent ?x = k + int j" using assms(3) by (simp add: exponent_def)
  have "?x / 2 powi (k + int j) = of_int N / 2 ^ j" by (simp add: split)
  then show ?thesis using N by (simp add: rnd_pos e)
qed

lemma rhe_tie: "rhe (of_int n + 1 / 2) = (if even n then n else n + 1)"
proof -
  have "\<lfloor>of_int n + 1 / 2 :: rat\<rfloor> = n" by linarith
  then show ?thesis unfolding rhe_def Let_def by simp
qed

lemma rhe_quarter:
  "\<bar>d\<bar> \<le> 1 \<or> \<bar>d\<bar> = 2 \<and> even m \<Longrightarrow> rhe (of_int (4 * m + d) / 4) = m"
proof -
  assume d: "\<bar>d\<bar> \<le> 1 \<or> \<bar>d\<bar> = 2 \<and> even m"
  consider "\<bar>d\<bar> \<le> 1" | "d = 2" "even m" | "d = -2" "even m" using d by linarith
  then show ?thesis
  proof cases
    case 1
    then have "\<bar>of_int d :: rat\<bar> \<le> 1" by linarith
    then show ?thesis by (intro rhe_eqI) (simp add: add_divide_distrib abs_le_iff abs_less_iff)
  next
    case 2
    have "of_int (4 * m + d) / (4 :: rat) = of_int m + 1 / 2" by (simp add: 2 field_simps)
    then show ?thesis using 2 by (simp only: rhe_tie if_True)
  next
    case 3
    have "of_int (4 * m + d) / (4 :: rat) = of_int (m - 1) + 1 / 2" by (simp add: 3 field_simps)
    then show ?thesis using 3 by (simp only: rhe_tie) simp
  qed
qed

lemma rhe_half: "\<bar>d\<bar> \<le> 1 \<Longrightarrow> rhe (of_int (4 * m + d) / 2) = 2 * m"
proof -
  assume "\<bar>d\<bar> \<le> 1"
  then consider "d = 0" | "d = 1" | "d = -1" by linarith
  then show ?thesis
  proof cases
    case 1
    then have "of_int (4 * m + d) / (2 :: rat) = of_int (2 * m)" by simp
    then show ?thesis by (simp only: rhe_of_int)
  next
    case 2
    have "of_int (4 * m + d) / (2 :: rat) = of_int (2 * m) + 1 / 2" by (simp add: 2 field_simps)
    then show ?thesis by (simp only: rhe_tie) simp
  next
    case 3
    have "of_int (4 * m + d) / (2 :: rat) = of_int (2 * m - 1) + 1 / 2" by (simp add: 3 field_simps)
    then show ?thesis by (simp only: rhe_tie) simp
  qed
qed

text \<open>
  \<open>3 * a + a\<close>, rounded after each step, is \<open>4 * a\<close>: the fact behind the quartiles staying
  within the data they interpolate.
\<close>

lemma three_rounded:
  assumes "2 ^ 53 \<le> 3 * m" and "m \<le> 2 ^ 53" and "-1074 \<le> k"
  shows "\<exists>d. rnd (of_int (3 * m) * 2 powi k) = of_int (3 * m + d) * 2 powi k \<and>
    (\<bar>d\<bar> \<le> 1 \<and> 3 * m < 2 ^ 54 \<or> 2 ^ 54 \<le> 3 * m \<and> (\<bar>d\<bar> \<le> 1 \<or> \<bar>d\<bar> = 2 \<and> even m))"
proof (cases "3 * m < 2 ^ 54")
  case True
  define n where "n = rhe (of_int (3 * m) / 2)"
  have r: "rnd (of_int (3 * m) * 2 powi k) = of_int n * 2 powi (k + 1)"
    using rnd_grid [of 1 "3 * m" k] assms True by (simp add: n_def)
  have "\<bar>2 * n - 3 * m\<bar> \<le> 1"
    using rhe_bounds [of "of_int (3 * m) / 2"] unfolding n_def [symmetric] by linarith
  moreover have "of_int n * 2 powi (k + 1) = (of_int (3 * m + (2 * n - 3 * m)) * 2 powi k :: rat)"
    by (simp add: power_int_add)
  ultimately show ?thesis using r True by (intro exI [of _ "2 * n - 3 * m"]) simp
next
  case False
  define n where "n = rhe (of_int (3 * m) / 4)"
  have r: "rnd (of_int (3 * m) * 2 powi k) = of_int n * 2 powi (k + 2)"
    using rnd_grid [of 2 "3 * m" k] assms False by (simp add: n_def)
  have d: "\<bar>4 * n - 3 * m\<bar> \<le> 2"
    using rhe_bounds [of "of_int (3 * m) / 4"] unfolding n_def [symmetric] by linarith
  moreover have "\<bar>4 * n - 3 * m\<bar> = 2 \<Longrightarrow> even m" by presburger
  moreover have "of_int n * 2 powi (k + 2) = (of_int (3 * m + (4 * n - 3 * m)) * 2 powi k :: rat)"
    by (simp add: power_int_add)
  ultimately show ?thesis using r False by (intro exI [of _ "4 * n - 3 * m"]) auto
qed

lemma four_rounded:
  assumes "\<bar>d\<bar> \<le> 1 \<and> 2 ^ 53 \<le> 3 * m \<and> 3 * m < 2 ^ 54 \<or>
      2 ^ 54 \<le> 3 * m \<and> (\<bar>d\<bar> \<le> 1 \<or> \<bar>d\<bar> = 2 \<and> even m)"
    and "m \<le> 2 ^ 53" and "-1074 \<le> k"
  shows "rnd (of_int (4 * m + d) * 2 powi k) = of_int (4 * m) * 2 powi k"
proof -
  consider (half) "\<bar>d\<bar> \<le> 1" "2 ^ 53 \<le> 4 * m + d" "4 * m + d < 2 ^ 54"
    | (quarter) "\<bar>d\<bar> \<le> 1 \<or> \<bar>d\<bar> = 2 \<and> even m" "2 ^ 54 \<le> 4 * m + d" "4 * m + d < 2 ^ 55"
    | (eighth) "m = 2 ^ 53" "\<bar>d\<bar> \<le> 2" "2 ^ 55 \<le> 4 * m + d"
    using assms(1,2) by fastforce
  then show ?thesis
  proof cases
    case half
    then show ?thesis
      using rnd_grid [of 1 "4 * m + d" k] assms(3) rhe_half [of d m] by (simp add: power_int_add)
  next
    case quarter
    then show ?thesis
      using rnd_grid [of 2 "4 * m + d" k] assms(3) rhe_quarter [of d m] by (simp add: power_int_add)
  next
    case eighth
    have "rhe (of_int (4 * m + d) / 2 ^ 3) = 2 ^ 52"
    proof (rule rhe_eqI)
      have "\<bar>of_int d :: rat\<bar> \<le> 2" using eighth(2) by linarith
      then show "\<bar>of_int (4 * m + d) / 2 ^ 3 - of_int (2 ^ 52)\<bar> < (1 / 2 :: rat)"
        by (simp add: eighth(1) abs_less_iff abs_le_iff field_simps)
    qed
    then show ?thesis
      using rnd_grid [of 3 "4 * m + d" k] assms(3) eighth by (simp add: power_int_add)
  qed
qed

lemma rnd_three_plus_one_pos:
  assumes "0 < a" and "representable a"
  shows "rnd (rnd (3 * a) + a) = 4 * a"
proof -
  obtain m k where mk: "a = of_int m * 2 powi k" "m \<le> 2 ^ 53" "-1074 \<le> k"
    using assms(2) by (auto simp: representable_def)
  have m: "0 < m" using assms(1) zero_less_mult_pos2 [of "of_int m" "2 powi k :: rat"] by (simp add: mk(1))
  have a3: "3 * a = of_int (3 * m) * 2 powi k" and a4: "4 * a = of_int (4 * m) * 2 powi k"
    by (simp_all add: mk(1))
  show ?thesis
  proof (cases "2 ^ 53 \<le> 3 * m")
    case True
    obtain d where d: "rnd (3 * a) = of_int (3 * m + d) * 2 powi k"
      "\<bar>d\<bar> \<le> 1 \<and> 3 * m < 2 ^ 54 \<or> 2 ^ 54 \<le> 3 * m \<and> (\<bar>d\<bar> \<le> 1 \<or> \<bar>d\<bar> = 2 \<and> even m)"
      using three_rounded [OF True mk(2,3)] unfolding a3 [symmetric] by blast
    have "rnd (3 * a) + a = of_int (4 * m + d) * 2 powi k"
      unfolding d(1) by (simp add: mk(1) algebra_simps)
    then show ?thesis using four_rounded [of d m k] d(2) True mk(2,3) a4 by metis
  next
    case False
    have "representable (3 * a)"
      unfolding representable_def using False m mk by (intro exI [of _ "3 * m"] exI [of _ k]) simp
    moreover have "representable (4 * a)"
      using representable_double [OF representable_double [OF assms(2)]] by simp
    ultimately show ?thesis by simp
  qed
qed

lemma rnd_three_plus_one: "representable a \<Longrightarrow> rnd (rnd (3 * a) + a) = 4 * a"
  using rnd_three_plus_one_pos [of a] rnd_three_plus_one_pos [of "- a"] rnd_minus [of "3 * a"]
    rnd_minus [of "rnd (3 * a) + a"]
  by (cases a "0 :: rat" rule: linorder_cases) auto

section \<open>Rounding error\<close>

lemma rnd_error_pos: "0 < x \<Longrightarrow> \<bar>rnd x - x\<bar> \<le> 2 powi exponent x / 2"
proof -
  assume x: "0 < x"
  let ?q = "2 powi exponent x :: rat"
  have "rnd x - x = (of_int (rhe (x / ?q)) - x / ?q) * ?q"
    by (simp add: rnd_pos [OF x] left_diff_distrib)
  moreover have "\<bar>of_int (rhe (x / ?q)) - x / ?q\<bar> \<le> 1 / 2"
    using rhe_bounds [of "x / ?q"] by (intro abs_leI) linarith+
  ultimately have "\<bar>rnd x - x\<bar> \<le> 1 / 2 * ?q"
    using mult_right_mono [of _ "1 / 2" ?q] by (simp add: abs_mult)
  then show ?thesis by simp
qed

text \<open>In the normal range the relative error of one rounding is at most \<open>2\<close> to the \<open>-53\<close>.\<close>

lemma rnd_rel_error_pos:
  assumes "2 powi -1022 \<le> x"
  shows "\<bar>rnd x - x\<bar> \<le> x / 2 ^ 53"
proof -
  have x: "0 < x" using assms by (rule less_le_trans [rotated]) simp
  have "-1022 \<le> ilog 2 x"
    using ilog_mono [of 2 "2 powi -1022" x] ilog_unique [of 2 "-1022" "2 powi -1022"] assms
    by (simp add: powi_less_iff)
  then have "exponent x = ilog 2 x - 52" by (simp add: exponent_def)
  then have "2 powi exponent x = 2 powi (ilog 2 x) / (2 powi 52 :: rat)"
    using power_int_diff [of "2 :: rat" "ilog 2 x" 52] by simp
  also have "\<dots> \<le> x / 2 powi 52" using ilog_bounds(1) [of 2 x] x by (intro divide_right_mono) auto
  finally have "2 powi exponent x / 2 \<le> x / 2 ^ 53" by simp
  then show ?thesis using rnd_error_pos [OF x] by simp
qed

lemma rnd_rel_error: "2 powi -1022 \<le> \<bar>x\<bar> \<Longrightarrow> \<bar>rnd x - x\<bar> \<le> \<bar>x\<bar> / 2 ^ 53"
  using rnd_rel_error_pos [of x] rnd_rel_error_pos [of "- x"]
  by (cases "0 \<le> x") (auto simp: rnd_minus abs_minus_commute)

section \<open>The values the operations produce\<close>

text \<open>Every finite result is a double.\<close>

fun flt_wf :: "flt \<Rightarrow> bool" where
  "flt_wf (Fin r) \<longleftrightarrow> rnd r = r \<and> \<bar>r\<bar> < max_bound"
| "flt_wf _ \<longleftrightarrow> True"

lemma max_bound_pos: "0 < max_bound"
  by (simp add: max_bound_def)

lemma fl_wf [simp]: "flt_wf (fl r)"
  using max_bound_pos by (auto simp: fl_def Let_def rnd_idem)

lemma fval_fl [simp]: "\<bar>rnd r\<bar> < max_bound \<Longrightarrow> fval (fl r) = rnd r"
  by (auto simp: fl_def Let_def)

lemma is_finite_fl: "is_finite (fl r) \<longleftrightarrow> \<bar>rnd r\<bar> < max_bound"
  using max_bound_pos by (auto simp: fl_def Let_def abs_if)

lemma fl_not_NaN [simp]: "fl r \<noteq> NaN"
  by (auto simp: fl_def Let_def)

lemma flt_wf_ops [simp]:
  "flt_wf x \<Longrightarrow> flt_wf y \<Longrightarrow> flt_wf (fadd x y)"
  "flt_wf (fmul x y)"
  "fdiv x y = Inr z \<Longrightarrow> flt_wf z"
  using max_bound_pos by (auto simp: fadd_def fmul_def fdiv_def signed_def Let_def split: if_splits)

lemma flt_wf_bound: "flt_wf x \<Longrightarrow> rnd (fval x) = fval x \<and> \<bar>fval x\<bar> < max_bound"
  using max_bound_pos by (cases x) auto

lemma fless_finite: "is_finite x \<Longrightarrow> is_finite y \<Longrightarrow> fless x y \<longleftrightarrow> fval x < fval y"
  by (cases x; cases y) auto

interpretation float: comparison fless "{x. x \<noteq> NaN}"
proof unfold_locales
  fix a b c :: flt
  assume "a \<in> {x. x \<noteq> NaN}" "b \<in> {x. x \<noteq> NaN}" "c \<in> {x. x \<noteq> NaN}"
  then show "fless a b \<Longrightarrow> fless b c \<Longrightarrow> fless a c" "\<not> fless b a \<Longrightarrow> \<not> fless c b \<Longrightarrow> \<not> fless c a"
    by (cases a; cases b; cases c; auto)+
next
  fix a :: flt
  show "\<not> fless a a" by (cases a) auto
qed

text \<open>\<open>sorted\<close> on data without NaN.\<close>

abbreviation fsorted :: "flt list \<Rightarrow> flt list" where
  "fsorted \<equiv> py_sort fless"

lemma fsorted_sorted:
  assumes "\<forall>x \<in> set xs. is_finite x"
  shows "sorted (map fval (fsorted xs))"
proof -
  have "set xs \<subseteq> {x. x \<noteq> NaN}" using assms by auto
  from float.py_sort_ascending [OF this]
  have "sorted_wrt (\<lambda>a b. fval a \<le> fval b) (fsorted xs)"
  proof (rule sorted_wrt_mono_rel [rotated])
    fix a b assume "a \<in> set (fsorted xs)" "b \<in> set (fsorted xs)" "\<not> fless b a"
    then show "fval a \<le> fval b" using assms by (simp add: fless_finite not_less)
  qed
  then show ?thesis by (simp add: sorted_map)
qed

section \<open>Evaluation\<close>

text \<open>
  Code equations that compute with integers where the definitions above use natural numbers, so
  that a concrete run evaluates in binary.
\<close>

function flog :: "int \<Rightarrow> int \<Rightarrow> int" where
  "flog b n = (if n \<le> 0 \<or> b \<le> 1 then 0 else 1 + flog b (n div b))"
  by pat_completeness auto
termination
proof (relation "measure (\<lambda>(b, n). nat n)")
  fix b n :: int assume "\<not> (n \<le> 0 \<or> b \<le> 1)"
  then have "n div b < n" "0 < n" by (auto simp: int_div_less_self)
  then show "((b, n div b), (b, n)) \<in> measure (\<lambda>(b, n). nat n)" by simp
qed simp

declare flog.simps [simp del]

lemma flog_floorlog: "flog (int b) n = int (floorlog b (nat n))"
proof (induction "int b" n rule: flog.induct)
  case (1 n)
  show ?case
  proof (cases "n \<le> 0 \<or> int b \<le> 1")
    case False
    then show ?thesis using 1
      by (simp add: flog.simps [of _ n] compute_floorlog [of b "nat n"] nat_div_distrib)
  qed (auto simp: flog.simps floorlog_def)
qed

lemma powi_of_int:
  "of_int b powi k = (if 0 \<le> k then of_int (b ^ nat k) else 1 / (of_int (b ^ nat (- k)) :: rat))"
  by (simp add: power_int_def inverse_eq_divide power_one_over)

lemma ilog_code [code]:
  "ilog b r =
     (let (n, d) = quotient_of r; k = flog (int b) n - flog (int b) d
      in if (if 0 \<le> k then of_int (int b ^ nat k) \<le> r else 1 \<le> r * of_int (int b ^ nat (- k))) then k else k - 1)"
proof (cases "b = 0")
  case True
  have "flog 0 n = 0" for n by (subst flog.simps) simp
  then show ?thesis using True by (auto simp: ilog_def Let_def floorlog_def split: prod.splits)
next
  case False
  then show ?thesis
    using powi_of_int [of "int b"]
    by (auto simp: ilog_def flog_floorlog Let_def pos_divide_le_eq split: prod.splits)
qed

lemma rnd_code [code]:
  "rnd r = (if r = 0 then 0
     else let e = exponent \<bar>r\<bar>
       in if 0 \<le> e then (let q = of_int (2 ^ nat e) in sgn r * (of_int (rhe (\<bar>r\<bar> / q)) * q))
          else (let q = of_int (2 ^ nat (- e)) in sgn r * (of_int (rhe (\<bar>r\<bar> * q)) / q)))"
  using powi_of_int [of 2] by (auto simp: rnd_def Let_def)
lemma max_bound_code [code]: "max_bound = of_int (((((2 ^ 4) ^ 4) ^ 4) ^ 4) ^ 4)"
  by (simp add: max_bound_def flip: power_mult)

end
