(* ===== verification/PyNumText.thy ===== *)
theory PyNumText
  imports PyFloat
begin

text \<open>
  Numbers as text: \<open>float(s)\<close>, \<open>format(v, ".6g")\<close> and \<open>str(n)\<close> as the scripts use them. The
  parser accepts what CPython's does on ASCII text: surrounding white space, a sign, digits
  with single underscores between them, a fraction, an exponent, and the words for infinity
  and NaN in any case. The formatter rounds the exact value of the double to six significant
  digits, half to even, and drops trailing zeros.
\<close>

section \<open>Decimal digits\<close>

definition digit_char :: "nat \<Rightarrow> char" where
  "digit_char d = char_of (48 + d)"

definition digit_val :: "char \<Rightarrow> nat" where
  "digit_val c = of_char c - 48"

definition is_digit :: "char \<Rightarrow> bool" where
  "is_digit c \<longleftrightarrow> 48 \<le> (of_char c :: nat) \<and> (of_char c :: nat) \<le> 57"

fun show_nat :: "nat \<Rightarrow> string" where
  "show_nat n = (if n < 10 then [digit_char n] else show_nat (n div 10) @ [digit_char (n mod 10)])"

declare show_nat.simps [simp del]

definition show_int :: "int \<Rightarrow> string" where
  "show_int i = (if i < 0 then CHR ''-'' # show_nat (nat (- i)) else show_nat (nat i))"

definition read_nat :: "string \<Rightarrow> nat" where
  "read_nat s = foldl (\<lambda>a c. 10 * a + digit_val c) 0 s"

section \<open>Reading a float\<close>

definition is_space :: "char \<Rightarrow> bool" where
  "is_space c \<longleftrightarrow> (let n = (of_char c :: nat) in n = 32 \<or> 9 \<le> n \<and> n \<le> 13 \<or> 28 \<le> n \<and> n \<le> 31)"

definition strip :: "string \<Rightarrow> string" where
  "strip s = rev (dropWhile is_space (rev (dropWhile is_space s)))"

text \<open>An underscore is allowed only between two digits.\<close>

fun drop_underscores :: "bool \<Rightarrow> string \<Rightarrow> string option" where
  "drop_underscores prev [] = Some []"
| "drop_underscores prev (c # s) =
     (if c = CHR ''_'' then
        (case s of
           [] \<Rightarrow> None
         | d # _ \<Rightarrow> if prev \<and> is_digit d then drop_underscores False s else None)
      else map_option ((#) c) (drop_underscores (is_digit c) s))"

definition read_sign :: "string \<Rightarrow> bool \<times> string" where
  "read_sign s =
     (case s of
        [] \<Rightarrow> (False, [])
      | c # r \<Rightarrow> if c = CHR ''-'' then (True, r) else if c = CHR ''+'' then (False, r) else (False, s))"

definition read_exponent :: "string \<Rightarrow> int option" where
  "read_exponent s =
     (case s of
        [] \<Rightarrow> Some 0
      | c # r \<Rightarrow>
          if c = CHR ''e'' \<or> c = CHR ''E'' then
            (case read_sign r of (neg, ds) \<Rightarrow>
               if ds \<noteq> [] \<and> list_all is_digit ds
               then Some (if neg then - int (read_nat ds) else int (read_nat ds)) else None)
          else None)"

definition read_decimal :: "string \<Rightarrow> rat option" where
  "read_decimal s =
     (let ip = takeWhile is_digit s;
          r1 = dropWhile is_digit s;
          fp = (case r1 of [] \<Rightarrow> [] | c # r \<Rightarrow> if c = CHR ''.'' then takeWhile is_digit r else []);
          r2 = (case r1 of [] \<Rightarrow> [] | c # r \<Rightarrow> if c = CHR ''.'' then dropWhile is_digit r else r1)
      in if ip = [] \<and> fp = [] then None
         else map_option (\<lambda>e. of_nat (read_nat (ip @ fp)) * 10 powi (e - int (length fp)))
                (read_exponent r2))"

definition lower :: "char \<Rightarrow> char" where
  "lower c = (let n = (of_char c :: nat) in if 65 \<le> n \<and> n \<le> 90 then char_of (n + 32) else c)"

definition py_float :: "string \<Rightarrow> flt option" where
  "py_float s0 =
     (case drop_underscores False (strip s0) of
        None \<Rightarrow> None
      | Some s1 \<Rightarrow>
          (case read_sign s1 of (neg, s) \<Rightarrow>
             let w = map lower s
             in if w = ''inf'' \<or> w = ''infinity'' then Some (signed neg NInf PInf)
                else if w = ''nan'' then Some NaN
                else map_option
                  (\<lambda>r. if r = 0 then signed neg NegZero (Fin 0) else fl (if neg then - r else r))
                  (read_decimal s)))"

section \<open>Formatting with six significant digits\<close>

definition sig6 :: "rat \<Rightarrow> int \<times> int" where
  \<comment> \<open>six digits and the decimal exponent of a positive number\<close>
  "sig6 r =
     (let x = ilog 10 r; d = rhe (r / 10 powi (x - 5))
      in if d = 1000000 then (100000, x + 1) else (d, x))"

definition strip_zeros :: "string \<Rightarrow> string" where
  "strip_zeros s = rev (dropWhile (\<lambda>c. c = CHR ''0'') (rev s))"

definition dotted :: "string \<Rightarrow> string" where
  "dotted fp = (if fp = [] then [] else CHR ''.'' # fp)"

definition show_exponent :: "int \<Rightarrow> string" where
  "show_exponent x =
     CHR ''e'' # (if x < 0 then CHR ''-'' else CHR ''+'') #
       (let s = show_nat (nat \<bar>x\<bar>) in if length s < 2 then CHR ''0'' # s else s)"

definition show_g6 :: "rat \<Rightarrow> string" where
  "show_g6 r =
     (case sig6 r of (d, x) \<Rightarrow>
        let ds = show_nat (nat d)
        in if -4 \<le> x \<and> x < 6 then
             (if 0 \<le> x then take (nat x + 1) ds @ dotted (strip_zeros (drop (nat x + 1) ds))
              else ''0'' @ dotted (replicate (nat (- x) - 1) CHR ''0'' @ strip_zeros ds))
           else take 1 ds @ dotted (strip_zeros (drop 1 ds)) @ show_exponent x)"

fun format_g6 :: "flt \<Rightarrow> string" where
  "format_g6 (Fin r) =
     (if r = 0 then ''0'' else if r < 0 then CHR ''-'' # show_g6 (- r) else show_g6 r)"
| "format_g6 NegZero = ''-0''"
| "format_g6 PInf = ''inf''"
| "format_g6 NInf = ''-inf''"
| "format_g6 NaN = ''nan''"

section \<open>Digits round trip\<close>

lemma of_char_digit_char: "d < 10 \<Longrightarrow> of_char (digit_char d) = 48 + d"
  by (simp add: digit_char_def)

lemma digit_val_digit_char [simp]: "d < 10 \<Longrightarrow> digit_val (digit_char d) = d"
  by (simp add: digit_val_def of_char_digit_char)

lemma is_digit_digit_char [simp]: "d < 10 \<Longrightarrow> is_digit (digit_char d)"
  by (simp add: is_digit_def of_char_digit_char)

lemma is_digit_0 [simp]: "is_digit CHR ''0''"
  by (simp add: is_digit_def)

lemma digit_val_0 [simp]: "digit_val CHR ''0'' = 0"
  by (simp add: digit_val_def)

lemma not_digit [simp]:
  "\<not> is_digit CHR ''.''" "\<not> is_digit CHR ''e''" "\<not> is_digit CHR ''-''" "\<not> is_digit CHR ''+''"
  "\<not> is_digit CHR '',''" "\<not> is_digit CHR ''_''"
  by (simp_all add: is_digit_def)

lemma read_nat_Nil [simp]: "read_nat [] = 0"
  by (simp add: read_nat_def)

lemma read_nat_snoc: "read_nat (s @ [c]) = 10 * read_nat s + digit_val c"
  by (simp add: read_nat_def)

lemma show_nat_digits: "\<forall>c \<in> set (show_nat n). is_digit c"
proof (induction n rule: show_nat.induct)
  case (1 n)
  then show ?case by (cases "n < 10") (simp_all add: show_nat.simps [of n])
qed

lemma show_nat_not_Nil [simp]: "show_nat n \<noteq> []"
  by (subst show_nat.simps) simp

lemma read_show_nat [simp]: "read_nat (show_nat n) = n"
proof (induction n rule: show_nat.induct)
  case (1 n)
  then show ?case
    using read_nat_snoc [of "[]" "digit_char n"]
    by (cases "n < 10") (simp_all add: show_nat.simps [of n] read_nat_snoc)
qed

lemma length_show_nat: "10 ^ k \<le> n \<Longrightarrow> n < 10 ^ Suc k \<Longrightarrow> length (show_nat n) = Suc k"
proof (induction k arbitrary: n)
  case 0
  then show ?case by (subst show_nat.simps) simp
next
  case (Suc k)
  have "10 ^ k \<le> n div 10" "n div 10 < 10 ^ Suc k"
    using Suc.prems by (simp_all add: less_eq_div_iff_mult_less_eq div_less_iff_less_mult mult.commute)
  moreover have "\<not> n < 10"
    using Suc.prems(1) self_le_power [of "10 :: nat" "Suc k"] by linarith
  ultimately show ?case using Suc.IH by (subst show_nat.simps) simp
qed

lemma read_nat_append: "read_nat (s @ t) = read_nat s * 10 ^ length t + read_nat t"
proof (induction t rule: rev_induct)
  case (snoc c t)
  have "read_nat (s @ t @ [c]) = 10 * read_nat (s @ t) + digit_val c"
    using read_nat_snoc [of "s @ t" c] by simp
  then show ?case using snoc by (simp add: read_nat_snoc algebra_simps)
qed simp

lemma read_nat_zeros [simp]: "read_nat (replicate k CHR ''0'') = 0"
  by (induction k) (simp_all add: read_nat_snoc flip: replicate_append_same)

section \<open>What a decimal string denotes\<close>

text \<open>The value of an integer part, a fraction and an exponent.\<close>

definition decimal_value :: "string \<Rightarrow> string \<Rightarrow> int \<Rightarrow> rat" where
  "decimal_value ip fp e = of_nat (read_nat (ip @ fp)) * 10 powi (e - int (length fp))"

lemma decimal_value_zeros:
  "decimal_value ip (fp @ replicate k CHR ''0'') e = decimal_value ip fp e"
proof -
  have "10 powi (e - int (length fp)) = (10 ^ k * 10 powi (e - int (length fp + k)) :: rat)"
    using power_int_add [of "10 :: rat" "int k" "e - int (length fp + k)"] by simp
  then show ?thesis
    using read_nat_append [of "ip @ fp" "replicate k CHR ''0''"] by (simp add: decimal_value_def)
qed

lemma strip_zeros_split: "\<exists>k. s = strip_zeros s @ replicate k CHR ''0''"
proof -
  let ?z = "\<lambda>c. c = CHR ''0''"
  have "rev s = takeWhile ?z (rev s) @ dropWhile ?z (rev s)" by simp
  then have "s = strip_zeros s @ rev (takeWhile ?z (rev s))"
    by (metis rev_append rev_rev_ident strip_zeros_def)
  moreover have "takeWhile ?z (rev s) = replicate (length (takeWhile ?z (rev s))) CHR ''0''"
    by (metis (full_types) replicate_length_same set_takeWhileD)
  ultimately show ?thesis by (metis rev_replicate)
qed

lemma decimal_value_strip: "decimal_value ip (strip_zeros fp) e = decimal_value ip fp e"
  using strip_zeros_split [of fp] decimal_value_zeros [of ip "strip_zeros fp"] by metis

lemma decimal_value_shift: "decimal_value (ip @ s) fp e = decimal_value ip (s @ fp) (e + int (length s))"
  by (simp add: decimal_value_def)

lemma set_strip_zeros: "set (strip_zeros s) \<subseteq> set s"
  using strip_zeros_split [of s] by (metis Un_iff set_append subsetI)

text \<open>A text of digits, an optional fraction and an optional exponent reads as its value.\<close>

lemma takeWhile_digits: "list_all is_digit s \<Longrightarrow> \<not> is_digit c \<Longrightarrow> takeWhile is_digit (s @ c # t) = s"
  "list_all is_digit s \<Longrightarrow> \<not> is_digit c \<Longrightarrow> dropWhile is_digit (s @ c # t) = c # t"
  "list_all is_digit s \<Longrightarrow> takeWhile is_digit s = s" "list_all is_digit s \<Longrightarrow> dropWhile is_digit s = []"
  by (induction s) auto

lemma read_decimal_text:
  assumes ip: "list_all is_digit ip" "ip \<noteq> []" and fp: "list_all is_digit fp"
    and e: "read_exponent es = Some e" "es = [] \<or> (\<exists>r. es = CHR ''e'' # r)"
  shows "read_decimal (ip @ dotted fp @ es) = Some (decimal_value ip fp e)"
  using assms
  by (auto simp: read_decimal_def dotted_def decimal_value_def takeWhile_digits)

lemma read_exponent_show: "read_exponent (show_exponent x) = Some x"
proof -
  have dig: "list_all is_digit (show_nat n)" for n
    using show_nat_digits by (simp add: list_all_iff)
  have "read_nat (CHR ''0'' # s) = read_nat s" for s
    using read_nat_append [of "''0''" s] read_nat_snoc [of "[]" "CHR ''0''"] by simp
  then show ?thesis
    using dig by (auto simp: show_exponent_def read_exponent_def read_sign_def Let_def)
qed

section \<open>Six digits\<close>

definition dec6 :: "rat \<Rightarrow> rat" where
  "dec6 r = (case sig6 r of (d, x) \<Rightarrow> of_int d * 10 powi (x - 5))"

lemma sig6_range:
  assumes "0 < r" and "sig6 r = (d, x)"
  shows "100000 \<le> d" and "d < 1000000"
proof -
  let ?x = "ilog 10 r"
  let ?u = "10 powi (?x - 5) :: rat"
  have b: "10 powi ?x \<le> r" "r < 10 powi (?x + 1)" using ilog_bounds [of 10 r] assms(1) by simp_all
  have "10 powi ?x = (of_int 100000 * ?u :: rat)" "10 powi (?x + 1) = (of_int 1000000 * ?u :: rat)"
    using power_int_add [of "10 :: rat" "?x - 5" 5] power_int_add [of "10 :: rat" "?x - 5" 6] by (simp_all add: add.commute)
  then have "of_int 100000 \<le> r / ?u" "r / ?u \<le> of_int 1000000"
    using b by (simp_all add: pos_le_divide_eq pos_divide_le_eq)
  then have "100000 \<le> rhe (r / ?u)" "rhe (r / ?u) \<le> 1000000"
    by (blast intro: int_le_rhe rhe_le_iff_int)+
  then show "100000 \<le> d" "d < 1000000"
    using assms(2) by (auto simp: sig6_def Let_def split: if_splits)
qed

text \<open>Six digits are off by at most half a unit of the sixth digit.\<close>

lemma dec6_error:
  assumes "10 powi x \<le> r" and "r < 10 powi (x + 1)"
  shows "\<exists>m :: int. dec6 r = of_int m * 10 powi (x - 5) \<and> \<bar>dec6 r - r\<bar> \<le> 10 powi (x - 5) / 2"
proof -
  let ?u = "10 powi (x - 5) :: rat"
  let ?d = "rhe (r / ?u)"
  have "0 < r" using assms(1) zero_less_power_int [of "10 :: rat" x] by linarith
  then have x: "ilog 10 r = x" using ilog_unique [of 10 x r] assms by simp
  have "10 powi (x + 1 - 5) = (10 * ?u :: rat)"
    using power_int_add [of "10 :: rat" "x - 5" 1] by (simp add: algebra_simps)
  then have d: "dec6 r = of_int ?d * ?u" by (auto simp: dec6_def sig6_def Let_def x)
  then have "dec6 r - r = (of_int ?d - r / ?u) * ?u" by (simp add: left_diff_distrib)
  moreover have "\<bar>of_int ?d - r / ?u\<bar> \<le> 1 / 2"
    using rhe_bounds [of "r / ?u"] by (intro abs_leI) linarith+
  ultimately have "\<bar>dec6 r - r\<bar> \<le> 1 / 2 * ?u"
    using mult_right_mono [of _ "1 / 2" ?u] by (simp add: abs_mult)
  then show ?thesis using d by auto
qed

lemma show_sig6:
  assumes "0 < r" and "sig6 r = (d, x)"
  shows "length (show_nat (nat d)) = 6" and "list_all is_digit (show_nat (nat d))"
  using length_show_nat [of 5 "nat d"] sig6_range [OF assms] show_nat_digits [of "nat d"]
  by (auto simp: list_all_iff nat_less_iff le_nat_iff)

lemma dec6_value:
  assumes r: "0 < r" and s: "sig6 r = (d, x)" and k: "k \<le> 6" and ds: "ds = show_nat (nat d)"
  shows "decimal_value (take k ds) (drop k ds) (x - int k + 1) = dec6 r"
proof -
  have "nat d = read_nat ds" by (simp add: ds)
  moreover have "0 \<le> d" using sig6_range [OF r s] by simp
  ultimately have "of_nat (read_nat ds) = (of_int d :: rat)"
    by (metis of_int_of_nat_eq int_nat_eq)
  moreover have "length ds = 6" using show_sig6 [OF r s] by (simp add: ds)
  ultimately show ?thesis
    using k by (simp add: decimal_value_def dec6_def s of_nat_diff algebra_simps)
qed

lemma read_show_g6:
  assumes r: "0 < r"
  shows "read_decimal (show_g6 r) = Some (dec6 r)"
proof -
  obtain d x where s: "sig6 r = (d, x)" by (cases "sig6 r")
  define ds where "ds = show_nat (nat d)"
  have len: "length ds = 6" and dig: "list_all is_digit ds"
    using show_sig6 [OF r s] by (auto simp: ds_def)
  have sub: "list_all is_digit (take k ds)" "list_all is_digit (strip_zeros (drop k ds))"
    "list_all is_digit (strip_zeros ds)" for k
    using dig set_take_subset [of k ds] set_drop_subset [of k ds] set_strip_zeros [of ds] set_strip_zeros [of "drop k ds"]
    by (auto simp: list_all_iff)
  have ne: "take (Suc k) ds \<noteq> []" for k using len by auto
  have e0: "read_exponent [] = Some 0" by (simp add: read_exponent_def)
  consider (int) "-4 \<le> x" "x < 6" "0 \<le> x" | (frac) "-4 \<le> x" "x < 0" | (exp) "\<not> (-4 \<le> x \<and> x < 6)"
    by linarith
  then show ?thesis
  proof cases
    case int
    have "show_g6 r = take (Suc (nat x)) ds @ dotted (strip_zeros (drop (Suc (nat x)) ds)) @ []"
      using int by (simp add: show_g6_def s ds_def Let_def)
    moreover have "decimal_value (take (Suc (nat x)) ds) (drop (Suc (nat x)) ds) 0 = dec6 r"
      using dec6_value [OF r s _ ds_def, of "Suc (nat x)"] int by simp
    ultimately show ?thesis
      using read_decimal_text [OF sub(1) ne sub(2) e0] by (simp only: decimal_value_strip) simp
  next
    case frac
    let ?z = "replicate (nat (- x) - 1) CHR ''0''"
    have txt6: "show_g6 r = ''0'' @ dotted (?z @ strip_zeros ds) @ []"
      using frac by (simp add: show_g6_def s ds_def Let_def)
    have "decimal_value ''0'' (?z @ strip_zeros ds) 0 = decimal_value (''0'' @ ?z) (strip_zeros ds) (x + 1)"
      using frac by (simp add: decimal_value_def algebra_simps)
    also have "\<dots> = decimal_value (''0'' @ ?z) ds (x + 1)" by (rule decimal_value_strip)
    also have "\<dots> = decimal_value [] ds (x + 1)"
      using read_nat_append [of "''0'' @ ?z" ds] read_nat_zeros [of "Suc (nat (- x) - 1)"]
      by (simp add: decimal_value_def)
    also have "\<dots> = dec6 r" using dec6_value [OF r s _ ds_def, of 0] by simp
    finally have "decimal_value ''0'' (?z @ strip_zeros ds) 0 = dec6 r" .
    moreover have "list_all is_digit (?z @ strip_zeros ds)"
      using sub(3) by (auto simp: list_all_iff)
    ultimately show ?thesis
      using read_decimal_text [of "''0''" "?z @ strip_zeros ds" "[]" 0] e0 by (simp add: txt6)
  next
    case exp
    have "show_g6 r = take (Suc 0) ds @ dotted (strip_zeros (drop (Suc 0) ds)) @ show_exponent x"
      using exp by (auto simp: show_g6_def s ds_def Let_def)
    moreover have "decimal_value (take (Suc 0) ds) (drop (Suc 0) ds) x = dec6 r"
      using dec6_value [OF r s _ ds_def, of 1] by simp
    moreover have "\<exists>t. show_exponent x = CHR ''e'' # t" by (simp add: show_exponent_def)
    ultimately show ?thesis
      using read_decimal_text [OF sub(1) ne sub(2) read_exponent_show]
      by (simp add: decimal_value_strip)
  qed
qed

section \<open>A formatted number reads back\<close>

definition plain :: "char \<Rightarrow> bool" where
  "plain c \<longleftrightarrow> is_digit c \<or> c \<in> set ''.e+-''"

lemma plain_chars:
  "plain c \<Longrightarrow> \<not> is_space c" "plain c \<Longrightarrow> c \<noteq> CHR ''_''" "plain c \<Longrightarrow> c \<noteq> CHR '',''"
  by (auto simp: plain_def is_space_def is_digit_def)

lemma list_all_plain_digits: "list_all is_digit s \<Longrightarrow> list_all plain s"
  by (auto simp: list_all_iff plain_def)

lemma plain_show_exponent: "list_all plain (show_exponent x)"
  using show_nat_digits [of "nat \<bar>x\<bar>"]
  by (auto simp: show_exponent_def Let_def list_all_iff plain_def)

lemma plain_dotted: "list_all is_digit s \<Longrightarrow> list_all plain (dotted s)"
  by (auto simp: dotted_def list_all_iff plain_def)

lemma plain_show_g6:
  assumes "0 < r"
  shows "list_all plain (show_g6 r)" and "\<exists>c s. show_g6 r = c # s \<and> is_digit c"
proof -
  obtain d x where s: "sig6 r = (d, x)" by (cases "sig6 r")
  define ds where "ds = show_nat (nat d)"
  have len: "length ds = 6" and dig: "list_all is_digit ds"
    using show_sig6 [OF assms s] by (auto simp: ds_def)
  then obtain c t where c: "ds = c # t" "is_digit c" by (cases ds) auto
  have sub: "list_all is_digit (take k ds)" "list_all is_digit (strip_zeros (drop k ds))"
    "list_all is_digit (replicate n CHR ''0'' @ strip_zeros ds)" for k n
    using dig set_take_subset [of k ds] set_drop_subset [of k ds] set_strip_zeros [of ds]
      set_strip_zeros [of "drop k ds"]
    by (auto simp: list_all_iff)
  note chars = sub(1) [THEN list_all_plain_digits] plain_dotted [OF sub(2)] plain_dotted [OF sub(3)]
    plain_show_exponent
  show "list_all plain (show_g6 r)"
    unfolding show_g6_def s prod.case Let_def ds_def [symmetric]
    by (simp add: chars [simplified] plain_def)
  show "\<exists>c s. show_g6 r = c # s \<and> is_digit c"
    using c by (auto simp: show_g6_def s Let_def ds_def [symmetric])
qed

lemma strip_id: "list_all plain s \<Longrightarrow> strip s = s"
proof -
  have "dropWhile is_space t = t" if "list_all plain t" for t
    using that by (cases t) (auto simp: plain_chars)
  then show "list_all plain s \<Longrightarrow> strip s = s" by (simp add: strip_def list_all_rev)
qed

lemma drop_underscores_id: "list_all plain s \<Longrightarrow> drop_underscores p s = Some s"
  by (induction s arbitrary: p) (auto simp: plain_chars)

lemma lower_digit: "is_digit c \<Longrightarrow> lower c = c"
  by (simp add: lower_def is_digit_def Let_def)

lemma dec6_pos: "0 < r \<Longrightarrow> 0 < dec6 r"
  using sig6_range [of r] by (cases "sig6 r") (force simp: dec6_def intro!: mult_pos_pos)

lemma py_float_show_g6:
  assumes "0 < r"
  shows "py_float (show_g6 r) = Some (fl (dec6 r))"
    and "py_float (CHR ''-'' # show_g6 r) = Some (fl (- dec6 r))"
proof -
  obtain c t where c: "show_g6 r = c # t" "is_digit c" using plain_show_g6(2) [OF assms] by blast
  have plain: "list_all plain (show_g6 r)" "list_all plain (CHR ''-'' # show_g6 r)"
    using plain_show_g6(1) [OF assms] by (simp_all add: plain_def)
  have sign: "read_sign (show_g6 r) = (False, show_g6 r)" "read_sign (CHR ''-'' # show_g6 r) = (True, show_g6 r)"
    using c by (auto simp: read_sign_def)
  have word: "map lower (show_g6 r) \<noteq> ''inf''" "map lower (show_g6 r) \<noteq> ''infinity''"
    "map lower (show_g6 r) \<noteq> ''nan''"
    using c lower_digit [OF c(2)] by (auto simp: is_digit_def)
  show "py_float (show_g6 r) = Some (fl (dec6 r))"
    "py_float (CHR ''-'' # show_g6 r) = Some (fl (- dec6 r))"
    unfolding py_float_def strip_id [OF plain(1)] strip_id [OF plain(2)]
      drop_underscores_id [OF plain(1)] drop_underscores_id [OF plain(2)]
    using word dec6_pos [OF assms] by (simp_all add: sign read_show_g6 [OF assms] Let_def)
qed

section \<open>Evaluation\<close>

text \<open>Code equations that compute with integers, for concrete runs.\<close>

function show_digits :: "int \<Rightarrow> string" where
  "show_digits n = (if n < 10 then [digit_char (nat n)]
     else show_digits (n div 10) @ [digit_char (nat (n mod 10))])"
  by pat_completeness auto
termination
  by (relation "measure nat") auto

declare show_digits.simps [simp del]

lemma show_digits_nat: "show_digits (int n) = show_nat n"
proof (induction n rule: show_nat.induct)
  case (1 n)
  then show ?case
    by (simp add: show_digits.simps [of "int n"] show_nat.simps [of n] zdiv_int zmod_int nat_mod_distrib)
qed

lemma show_nat_code [code]: "show_nat n = show_digits (int n)"
  by (simp add: show_digits_nat)

lemma show_g6_code [code]:
  "show_g6 r =
     (case sig6 r of (d, x) \<Rightarrow>
        let ds = show_digits (max 0 d)
        in if -4 \<le> x \<and> x < 6 then
             (if 0 \<le> x then take (nat x + 1) ds @ dotted (strip_zeros (drop (nat x + 1) ds))
              else ''0'' @ dotted (replicate (nat (- x) - 1) CHR ''0'' @ strip_zeros ds))
           else take 1 ds @ dotted (strip_zeros (drop 1 ds)) @ show_exponent x)"
proof -
  have "show_digits (max 0 d) = show_nat (nat d)" for d
    using show_digits_nat [of "nat d"] by (cases "0 \<le> d") simp_all
  then show ?thesis by (simp only: show_g6_def)
qed

definition read_int :: "string \<Rightarrow> int" where
  "read_int s = foldl (\<lambda>a c. 10 * a + int (digit_val c)) 0 s"

lemma read_int_nat: "read_int s = int (read_nat s)"
  by (induction s rule: rev_induct) (simp_all add: read_int_def read_nat_snoc)

lemma read_decimal_code [code]:
  "read_decimal s =
     (let ip = takeWhile is_digit s;
          r1 = dropWhile is_digit s;
          fp = (case r1 of [] \<Rightarrow> [] | c # r \<Rightarrow> if c = CHR ''.'' then takeWhile is_digit r else []);
          r2 = (case r1 of [] \<Rightarrow> [] | c # r \<Rightarrow> if c = CHR ''.'' then dropWhile is_digit r else r1)
      in if ip = [] \<and> fp = [] then None
         else map_option (\<lambda>e. of_int (read_int (ip @ fp)) * 10 powi (e - int (length fp)))
                (read_exponent r2))"
  by (simp only: read_decimal_def read_int_nat of_int_of_nat_eq)

section \<open>One digit after the point\<close>

definition show_f1 :: "rat \<Rightarrow> string" where
  \<comment> \<open>\<open>format(v, ".1f")\<close> of a non-negative number\<close>
  "show_f1 r =
     (let d = rhe (r * 10) in show_int (d div 10) @ ''.'' @ show_int (d mod 10))"

fun format_f1 :: "flt \<Rightarrow> string" where
  "format_f1 (Fin r) = (if r < 0 then CHR ''-'' # show_f1 (- r) else show_f1 r)"
| "format_f1 NegZero = ''-0.0''"
| "format_f1 PInf = ''inf''"
| "format_f1 NInf = ''-inf''"
| "format_f1 NaN = ''nan''"

text \<open>Equality of floats: zeros are equal, NaN equals nothing.\<close>

definition feq :: "flt \<Rightarrow> flt \<Rightarrow> bool" where
  "feq x y \<longleftrightarrow> x \<noteq> NaN \<and> y \<noteq> NaN \<and> (x = y \<or> is_zero x \<and> is_zero y)"

end
