(* ===== verification/PyStatistics.thy ===== *)
theory PyStatistics
  imports PyNumText
begin

text \<open>
  The functions of Python's \<open>statistics\<close> and \<open>math\<close> modules that the scripts call, as of
  CPython 3.12, the version that most notebooks of the repository record: \<open>fsum\<close>, \<open>fmean\<close>, \<open>median\<close>, \<open>quantiles\<close> with the exclusive method, and
  \<open>stdev\<close>, whose variance is computed in exact rationals and whose square root is the integer
  square root rounded to odd. The lemmas bound their results by the data.
\<close>

section \<open>Definitions\<close>

text \<open>\<open>fsum\<close> keeps the sum of the finite items exact and raises once it leaves the range.\<close>

fun fsum_acc :: "rat \<Rightarrow> flt list \<Rightarrow> rat py" where
  "fsum_acc s [] = Inr s"
| "fsum_acc s (x # xs) =
     (if is_finite (fl (s + fval x)) then fsum_acc (s + fval x) xs else Inl OverflowError)"

definition fsum :: "flt list \<Rightarrow> flt py" where
  "fsum xs = bind_py (fsum_acc 0 xs) (\<lambda>s.
     if PInf \<in> set xs \<and> NInf \<in> set xs then Inl ValueError
     else if NaN \<in> set xs then Inr NaN
     else if PInf \<in> set xs then Inr PInf
     else if NInf \<in> set xs then Inr NInf
     else Inr (fl s))"

definition fmean :: "flt list \<Rightarrow> flt py" where
  "fmean xs = bind_py (fsum xs) (\<lambda>total.
     if xs = [] then Inl StatisticsError else fdiv total (Fin (of_nat (length xs))))"

definition median :: "flt list \<Rightarrow> flt py" where
  "median xs =
     (let ys = fsorted xs; n = length ys
      in if n = 0 then Inl StatisticsError
         else if odd n then Inr (ys ! (n div 2))
         else fdiv (fadd (ys ! (n div 2 - 1)) (ys ! (n div 2))) (Fin 2))"

definition quantile_cut :: "flt list \<Rightarrow> nat \<Rightarrow> nat \<Rightarrow> flt py" where
  \<comment> \<open>the \<open>i\<close>-th of \<open>n - 1\<close> cut points of sorted data\<close>
  "quantile_cut ys n i =
     (let ld = int (length ys); m = ld + 1;
          j0 = (int i * m) div int n;
          j = (if j0 < 1 then 1 else if j0 > ld - 1 then ld - 1 else j0);
          delta = int i * m - j * int n
      in fdiv (fadd (fmul (ys ! nat (j - 1)) (Fin (of_int (int n - delta))))
                 (fmul (ys ! nat j) (Fin (of_int delta))))
           (Fin (of_nat n)))"

definition quantiles :: "flt list \<Rightarrow> nat \<Rightarrow> flt list py" where
  "quantiles xs n =
     (let ys = fsorted xs
      in if n < 1 \<or> length ys < 2 then Inl StatisticsError
         else map_py (quantile_cut ys n) [1..<n])"

fun isqrt :: "nat \<Rightarrow> nat" where
  "isqrt n = (if n = 0 then 0
     else let s = 2 * isqrt (n div 4) in if (s + 1) * (s + 1) \<le> n then s + 1 else s)"

declare isqrt.simps [simp del]

definition sqrt_round_to_odd :: "nat \<Rightarrow> nat \<Rightarrow> nat" where
  "sqrt_round_to_odd n m =
     (let a = isqrt (n div m) in if a * a * m \<noteq> n \<and> even a then a + 1 else a)"

definition float_sqrt_of_frac :: "nat \<Rightarrow> nat \<Rightarrow> flt py" where
  "float_sqrt_of_frac n m =
     (let q = (bitlen (int n) - bitlen (int m) - 109) div 2;
          x = (if 0 \<le> q
               then fl (of_nat (sqrt_round_to_odd n (m * 2 ^ (2 * nat q)) * 2 ^ nat q))
               else fl (of_nat (sqrt_round_to_odd (n * 2 ^ (2 * nat (- q))) m) / 2 ^ nat (- q)))
      in if is_finite x then Inr x else Inl OverflowError)"

definition sum_sq_dev :: "rat list \<Rightarrow> rat" where
  \<comment> \<open>\<open>_ss\<close>: the exact sum of squared deviations from the mean\<close>
  "sum_sq_dev xs =
     (let n = of_nat (length xs); sx = sum_list xs; sxx = sum_list (map (\<lambda>x. x * x) xs)
      in (n * sxx - sx * sx) / n)"

text \<open>
  The mean square deviation is a \<open>Fraction\<close>, or a \<open>float\<close> when the data have infinities or NaNs:
  \<open>_ss\<close> then returns their sum alone. The square root is taken of its numerator and denominator, and
  a \<open>float\<close> does not have these attributes. (Before CPython 3.11 the square root of the \<open>float\<close> was taken.)
\<close>

datatype deviation = Frac rat | Float flt

definition mean_sq_dev :: "flt list \<Rightarrow> deviation" where
  "mean_sq_dev xs =
     (case filter (\<lambda>x. \<not> is_finite x) xs of
        [] \<Rightarrow> Frac (sum_sq_dev (map fval xs) / of_nat (length xs - 1))
      | y # ys \<Rightarrow> Float (projr (fdiv (fold (\<lambda>x s. fadd s x) ys y) (Fin (of_nat (length xs - 1))))))"

fun ratio_of :: "deviation \<Rightarrow> (int \<times> int) py" where
  \<comment> \<open>\<open>.numerator\<close> and \<open>.denominator\<close>\<close>
  "ratio_of (Frac r) = Inr (quotient_of r)"
| "ratio_of (Float _) = Inl AttributeError"

definition stdev :: "flt list \<Rightarrow> flt py" where
  "stdev xs =
     (if length xs < 2 then Inl StatisticsError
      else bind_py (ratio_of (mean_sq_dev xs)) (\<lambda>(n, d). float_sqrt_of_frac (nat n) (nat d)))"

lemma stdev_cases:
  "stdev xs =
     (if length xs < 2 then Inl StatisticsError
      else if \<not> list_all is_finite xs then Inl AttributeError
      else case quotient_of (sum_sq_dev (map fval xs) / of_nat (length xs - 1)) of
        (n, d) \<Rightarrow> float_sqrt_of_frac (nat n) (nat d))"
proof (cases "filter (\<lambda>x. \<not> is_finite x) xs")
  case Nil
  then have "list_all is_finite xs" by (auto simp: filter_empty_conv list_all_iff)
  then show ?thesis by (simp add: stdev_def mean_sq_dev_def Nil)
next
  case (Cons y ys)
  then have "y \<in> set xs" "\<not> is_finite y" by (auto simp: filter_eq_Cons_iff)
  then have "\<not> list_all is_finite xs" by (auto simp: list_all_iff)
  then show ?thesis by (simp add: stdev_def mean_sq_dev_def Cons)
qed

section \<open>Operations on values of moderate size\<close>

text \<open>Far from overflow, an operation on doubles is one rounding of the exact result.\<close>

definition pow2 :: "nat \<Rightarrow> rat" where
  "pow2 k = 2 ^ k"

definition moderate :: "flt \<Rightarrow> bool" where
  "moderate x \<longleftrightarrow> is_finite x \<and> flt_wf x \<and> \<bar>fval x\<bar> \<le> pow2 1000"

lemma pow2_steps: "pow2 1001 = 2 * pow2 1000" "pow2 1002 = 4 * pow2 1000" "pow2 1003 = 8 * pow2 1000"
  by (simp_all add: pow2_def)

lemma pow2_pos [simp]: "0 < pow2 k"
  by (simp add: pow2_def)

lemma representable_pow2: "representable (pow2 k)"
  unfolding representable_def pow2_def by (intro exI [of _ 1] exI [of _ "int k"]) simp

lemma rnd_bounded: "\<bar>x\<bar> \<le> pow2 k \<Longrightarrow> \<bar>rnd x\<bar> \<le> pow2 k"
  using rnd_between [of "- pow2 k" "pow2 k" x] by (simp add: representable_pow2 abs_le_iff)

lemma pow2_less_max: "k < 1024 \<Longrightarrow> pow2 k < max_bound"
  unfolding max_bound_def pow2_def by (rule power_strict_increasing) auto

lemma rnd_in_range: "k < 1024 \<Longrightarrow> \<bar>x\<bar> \<le> pow2 k \<Longrightarrow> \<bar>rnd x\<bar> < max_bound"
  using rnd_bounded pow2_less_max by (meson le_less_trans)

lemma fadd_exact:
  assumes "is_finite x" and "is_finite y" and "\<bar>fval x + fval y\<bar> \<le> pow2 k" and "k < 1024"
  shows "is_finite (fadd x y)" and "fval (fadd x y) = rnd (fval x + fval y)"
  using assms rnd_in_range [OF assms(4,3)] by (auto simp: fadd_def is_finite_fl)

lemma fmul_exact:
  assumes "is_finite x" and "is_finite y" and "\<bar>fval x * fval y\<bar> \<le> pow2 k" and "k < 1024"
  shows "is_finite (fmul x y)" and "fval (fmul x y) = rnd (fval x * fval y)"
  using assms rnd_in_range [OF assms(4,3)]
  by (auto simp: fmul_def is_finite_fl is_zero_def signed_def Let_def)

lemma fdiv_exact:
  assumes "is_finite x" and "c \<noteq> 0" and "\<bar>fval x / c\<bar> \<le> pow2 k" and "k < 1024"
  shows "\<exists>z. fdiv x (Fin c) = Inr z \<and> is_finite z \<and> fval z = rnd (fval x / c)"
  using assms rnd_in_range [OF assms(4,3)]
  by (auto simp: fdiv_def is_finite_fl is_zero_def signed_def Let_def)

lemma moderate_rnd: "moderate x \<Longrightarrow> rnd (fval x) = fval x"
  using flt_wf_bound by (auto simp: moderate_def)

lemma pow2_scale: "\<bar>x\<bar> \<le> pow2 1000 \<Longrightarrow> \<bar>c\<bar> \<le> 4 \<Longrightarrow> \<bar>x * c\<bar> \<le> pow2 1002"
  using mult_mono [of "\<bar>x\<bar>" "pow2 1000" "\<bar>c\<bar>" 4] pow2_pos [of 1000]
  by (simp add: abs_mult pow2_steps)

section \<open>The midpoint of two doubles\<close>

lemma midpoint_between:
  assumes x: "moderate x" and y: "moderate y" and le: "fval x \<le> fval y"
  shows "\<exists>z. fdiv (fadd x y) (Fin 2) = Inr z \<and> is_finite z \<and> fval x \<le> fval z \<and> fval z \<le> fval y"
proof -
  let ?a = "fval x" and ?b = "fval y"
  have rep: "representable ?a" "representable ?b"
    using moderate_rnd x y by (auto simp: representable_iff_rnd)
  have "\<bar>?a + ?b\<bar> \<le> pow2 1001"
    using x y unfolding moderate_def pow2_steps by linarith
  note add = fadd_exact [OF _ _ this]
  have s: "is_finite (fadd x y)" "fval (fadd x y) = rnd (?a + ?b)"
    using add x y by (auto simp: moderate_def)
  have dbl: "2 * ?a \<le> rnd (?a + ?b)" "rnd (?a + ?b) \<le> 2 * ?b"
    using rnd_between [OF representable_double [OF rep(1)] representable_double [OF rep(2)], of "?a + ?b"] le
    by auto
  then have mid: "?a \<le> rnd (?a + ?b) / 2" "rnd (?a + ?b) / 2 \<le> ?b" by auto
  then have "\<bar>rnd (?a + ?b) / 2\<bar> \<le> pow2 1000" using x y unfolding moderate_def by linarith
  then obtain z where "fdiv (fadd x y) (Fin 2) = Inr z" "is_finite z" "fval z = rnd (rnd (?a + ?b) / 2)"
    using fdiv_exact [OF s(1), of 2 1000] s(2) by auto
  then show ?thesis using rnd_between [OF rep mid] by auto
qed

section \<open>A quarter-weighted mean of two doubles\<close>

lemma weights_sum:
  assumes "representable a" and "w \<in> {0, 1, 2, 3, 4 :: int}"
  shows "rnd (rnd (a * of_int (4 - w)) + rnd (a * of_int w)) = 4 * a"
proof -
  have r2: "rnd (a * 2) = 2 * a" "rnd (a * 4) = 4 * a" "rnd (4 * a) = 4 * a"
    using representable_double [OF assms(1)] representable_double [OF representable_double [OF assms(1)]]
    by (auto simp: mult.commute)
  have r3: "rnd (rnd (a * 3) + a) = 4 * a" "rnd (a + rnd (a * 3)) = 4 * a"
    using rnd_three_plus_one [OF assms(1)] by (simp_all add: mult.commute add.commute)
  show ?thesis using assms r2 r3 by auto
qed

lemma interpolation_between:
  assumes x: "moderate x" and y: "moderate y" and le: "fval x \<le> fval y"
    and w: "w \<in> {0, 1, 2, 3, 4 :: int}"
  shows "\<exists>z. fdiv (fadd (fmul x (Fin (of_int (4 - w)))) (fmul y (Fin (of_int w)))) (Fin 4) = Inr z
    \<and> is_finite z \<and> fval x \<le> fval z \<and> fval z \<le> fval y"
proof -
  let ?a = "fval x" and ?b = "fval y"
  let ?u = "of_int (4 - w) :: rat" and ?v = "of_int w :: rat"
  have rep: "representable ?a" "representable ?b"
    using moderate_rnd x y by (auto simp: representable_iff_rnd)
  have uv: "0 \<le> ?u" "0 \<le> ?v" "\<bar>?u\<bar> \<le> 4" "\<bar>?v\<bar> \<le> 4" using w by auto
  have "\<bar>?a * ?u\<bar> \<le> pow2 1002" "\<bar>?b * ?v\<bar> \<le> pow2 1002"
    using pow2_scale uv x y by (auto simp: moderate_def)
  note products = fmul_exact [of x "Fin ?u" 1002] fmul_exact [of y "Fin ?v" 1002] this
  define p q where "p = fmul x (Fin ?u)" and "q = fmul y (Fin ?v)"
  have p: "is_finite p" "fval p = rnd (?a * ?u)" "\<bar>fval p\<bar> \<le> pow2 1002"
    and q: "is_finite q" "fval q = rnd (?b * ?v)" "\<bar>fval q\<bar> \<le> pow2 1002"
    using products rnd_bounded x y by (auto simp: p_def q_def moderate_def)
  have "\<bar>fval p + fval q\<bar> \<le> pow2 1003"
    using p q unfolding pow2_steps by linarith
  then have s: "is_finite (fadd p q)" "fval (fadd p q) = rnd (fval p + fval q)"
    using fadd_exact p(1) q(1) by auto
  have "rnd (?a * ?u) + rnd (?a * ?v) \<le> fval p + fval q" "fval p + fval q \<le> rnd (?b * ?u) + rnd (?b * ?v)"
    unfolding p(2) q(2) using le uv by (auto intro!: add_mono rnd_mono mult_right_mono)
  then have "4 * ?a \<le> rnd (fval p + fval q)" "rnd (fval p + fval q) \<le> 4 * ?b"
    using rnd_mono weights_sum [OF rep(1) w] weights_sum [OF rep(2) w] by metis+
  then have mid: "?a \<le> rnd (fval p + fval q) / 4" "rnd (fval p + fval q) / 4 \<le> ?b" by auto
  then have "\<bar>rnd (fval p + fval q) / 4\<bar> \<le> pow2 1000"
    using x y unfolding moderate_def by linarith
  then obtain z where "fdiv (fadd p q) (Fin 4) = Inr z" "is_finite z" "fval z = rnd (rnd (fval p + fval q) / 4)"
    using fdiv_exact [OF s(1), of 4 1000] s(2) by auto
  then show ?thesis using rnd_between [OF rep mid] by (auto simp: p_def q_def)
qed

section \<open>Median and quartiles lie in the data\<close>

lemma moderate_nth: "\<forall>x \<in> set xs. moderate x \<Longrightarrow> i < length xs \<Longrightarrow> moderate (fsorted xs ! i)"
  by (metis length_py_sort nth_mem set_py_sort)

lemma fsorted_nth_mono:
  assumes "\<forall>x \<in> set xs. moderate x" and "i \<le> j" and "j < length xs"
  shows "fval (fsorted xs ! i) \<le> fval (fsorted xs ! j)"
proof -
  have "sorted (map fval (fsorted xs))"
    using assms(1) by (intro fsorted_sorted) (auto simp: moderate_def)
  then show ?thesis using sorted_nth_mono [of "map fval (fsorted xs)" i j] assms(2,3) by simp
qed

text \<open>The median is between the two middle elements, which coincide for odd lengths.\<close>

lemma median_middle:
  assumes "xs \<noteq> []" and mod: "\<forall>x \<in> set xs. moderate x"
  shows "\<exists>m. median xs = Inr m \<and> is_finite m \<and>
    fval (fsorted xs ! ((length xs - 1) div 2)) \<le> fval m \<and> fval m \<le> fval (fsorted xs ! (length xs div 2))"
proof (cases "odd (length xs)")
  case True
  then have "(length xs - 1) div 2 = length xs div 2" by (auto elim!: oddE)
  moreover have "moderate (fsorted xs ! (length xs div 2))"
    using moderate_nth [OF mod] assms(1) by simp
  ultimately show ?thesis using True assms(1) by (auto simp: median_def Let_def moderate_def)
next
  case False
  then have i: "(length xs - 1) div 2 = length xs div 2 - 1" "length xs div 2 < length xs"
    using assms(1) by (auto elim!: evenE)
  have i': "length xs div 2 - 1 < length xs" using assms(1) by (cases xs) auto
  have "fval (fsorted xs ! (length xs div 2 - 1)) \<le> fval (fsorted xs ! (length xs div 2))"
    using i by (intro fsorted_nth_mono [OF mod]) auto
  with midpoint_between [OF moderate_nth [OF mod] moderate_nth [OF mod] this] i i' False assms(1)
  show ?thesis by (auto simp: median_def Let_def)
qed

lemma quantile_cut_between:
  assumes mod: "\<forall>x \<in> set xs. moderate x" and n: "4 \<le> length xs" and i: "1 \<le> i" "i \<le> 3"
    and j: "j = i * (length xs + 1) div 4"
  shows "\<exists>z. quantile_cut (fsorted xs) 4 i = Inr z \<and> is_finite z \<and>
    fval (fsorted xs ! (j - 1)) \<le> fval z \<and> fval z \<le> fval (fsorted xs ! j)"
proof -
  define m where "m = length xs + 1"
  have bounds: "1 \<le> j" "j < length xs"
  proof -
    have "i = 1 \<or> i = 2 \<or> i = 3" using i by linarith
    then show "1 \<le> j" "j < length xs" using n by (auto simp: j)
  qed
  define w where "w = int (i * m mod 4)"
  have jw: "int i * (int (length xs) + 1) - int j * 4 = w"
    using div_mult_mod_eq [of "i * m" 4] unfolding w_def j m_def [symmetric]
    by (simp add: m_def zdiv_int zmod_int algebra_simps minus_div_mult_eq_mod)
  have jd: "int i * (int (length xs) + 1) div 4 = int j"
    by (simp add: j zdiv_int algebra_simps)
  have w: "w \<in> {0, 1, 2, 3, 4}" by (auto simp: w_def) 
  have wr: "rat_of_nat i * (rat_of_nat (length xs) + 1) - rat_of_nat j * 4 = of_int w"
    using arg_cong [OF jw, of rat_of_int] by simp
  have cut: "quantile_cut (fsorted xs) 4 i =
      fdiv (fadd (fmul (fsorted xs ! (j - 1)) (Fin (of_int (4 - w)))) (fmul (fsorted xs ! j) (Fin (of_int w)))) (Fin 4)"
    using bounds by (auto simp: quantile_cut_def Let_def jd wr nat_diff_distrib)
  show ?thesis
    unfolding cut using bounds w
    by (intro interpolation_between moderate_nth [OF mod] fsorted_nth_mono [OF mod]) auto
qed

lemma quartiles_between:
  assumes mod: "\<forall>x \<in> set xs. moderate x" and n: "4 \<le> length xs"
  shows "\<exists>a b c. quantiles xs 4 = Inr [a, b, c] \<and> is_finite a \<and> is_finite c \<and>
    fval (fsorted xs ! 0) \<le> fval a \<and> fval a \<le> fval (fsorted xs ! ((length xs - 1) div 2)) \<and>
    fval (fsorted xs ! (length xs div 2)) \<le> fval c \<and> fval c \<le> fval (fsorted xs ! (length xs - 1))"
proof -
  note cut = quantile_cut_between [OF mod n]
  obtain a b c where cuts: "quantile_cut (fsorted xs) 4 1 = Inr a" "quantile_cut (fsorted xs) 4 2 = Inr b"
      "quantile_cut (fsorted xs) 4 3 = Inr c" and fin: "is_finite a" "is_finite c"
    and a: "fval (fsorted xs ! ((length xs + 1) div 4 - 1)) \<le> fval a"
      "fval a \<le> fval (fsorted xs ! ((length xs + 1) div 4))"
    and c: "fval (fsorted xs ! (3 * (length xs + 1) div 4 - 1)) \<le> fval c"
      "fval c \<le> fval (fsorted xs ! (3 * (length xs + 1) div 4))"
    using cut [of 1] cut [of 2] cut [of 3] by auto
  have "[1..<4] = [1, 2, 3]" by (simp add: upt_rec)
  then have "quantiles xs 4 = Inr [a, b, c]" using n cuts by (simp add: quantiles_def Let_def)
  moreover have "fval (fsorted xs ! 0) \<le> fval (fsorted xs ! ((length xs + 1) div 4 - 1))"
    using n by (intro fsorted_nth_mono [OF mod]) auto
  moreover have "fval (fsorted xs ! ((length xs + 1) div 4)) \<le> fval (fsorted xs ! ((length xs - 1) div 2))"
    using n by (intro fsorted_nth_mono [OF mod]) auto
  moreover have "fval (fsorted xs ! (length xs div 2)) \<le> fval (fsorted xs ! (3 * (length xs + 1) div 4 - 1))"
    using n by (intro fsorted_nth_mono [OF mod]) auto
  moreover have "fval (fsorted xs ! (3 * (length xs + 1) div 4)) \<le> fval (fsorted xs ! (length xs - 1))"
    using n by (intro fsorted_nth_mono [OF mod]) auto
  ultimately show ?thesis using a c fin by (meson order_trans)
qed

section \<open>The mean\<close>

lemma fsum_acc_exact:
  assumes "\<forall>x \<in> set xs. \<bar>fval x\<bar> \<le> B" and "\<bar>s\<bar> + of_nat (length xs) * B \<le> pow2 k" and "k < 1024" and "0 \<le> B"
  shows "fsum_acc s xs = Inr (s + sum_list (map fval xs))"
  using assms
proof (induction xs arbitrary: s)
  case (Cons x xs)
  have rest: "\<bar>s + fval x\<bar> + of_nat (length xs) * B \<le> pow2 k"
    using Cons.prems(1,2) by (simp add: algebra_simps) linarith
  have "0 \<le> of_nat (length xs) * B" using Cons.prems(4) by simp
  then have "\<bar>s + fval x\<bar> \<le> pow2 k" using rest by linarith
  then have "is_finite (fl (s + fval x))" using rnd_in_range Cons.prems(3) by (simp add: is_finite_fl)
  then show ?case using Cons rest by simp
qed simp

definition exact_mean :: "flt list \<Rightarrow> rat" where
  "exact_mean xs = sum_list (map fval xs) / of_nat (length xs)"

lemma pow2_split: "of_nat n \<le> pow2 20 \<Longrightarrow> of_nat n * pow2 1000 \<le> pow2 1020"
  using mult_right_mono [of "of_nat n" "pow2 20" "pow2 1000"] by (simp add: pow2_def flip: power_add)

lemma sum_list_abs: "\<forall>x \<in> set xs. \<bar>fval x\<bar> \<le> B \<Longrightarrow> \<bar>sum_list (map fval xs)\<bar> \<le> of_nat (length xs) * B"
proof (induction xs)
  case (Cons x xs)
  then have "\<bar>fval x\<bar> \<le> B" "\<bar>sum_list (map fval xs)\<bar> \<le> of_nat (length xs) * B" by auto
  then show ?case by (simp add: algebra_simps)
qed simp

lemma fmean_rounded:
  assumes "xs \<noteq> []" and mod: "\<forall>x \<in> set xs. moderate x" and len: "length xs \<le> 2 ^ 20"
  shows "\<exists>m. fmean xs = Inr m \<and> is_finite m \<and>
    fval m = rnd (rnd (sum_list (map fval xs)) / of_nat (length xs))"
proof -
  let ?n = "of_nat (length xs) :: rat" and ?S = "sum_list (map fval xs)"
  have B: "\<forall>x \<in> set xs. \<bar>fval x\<bar> \<le> pow2 1000" using mod by (auto simp: moderate_def)
  have "?n \<le> of_nat (2 ^ 20)" using len of_nat_le_iff by blast
  then have n: "?n \<le> pow2 20" by (simp add: pow2_def)
  have S: "\<bar>?S\<bar> \<le> pow2 1020" using sum_list_abs [OF B] pow2_split [OF n] by linarith
  have "fsum_acc 0 xs = Inr (0 + ?S)"
    using B pow2_split [OF n] by (intro fsum_acc_exact [of _ "pow2 1000" _ 1020]) (auto simp: less_imp_le)
  then have "fsum xs = Inr (fl ?S)"
    using mod by (auto simp: fsum_def moderate_def)
  moreover have fin: "is_finite (fl ?S)" "fval (fl ?S) = rnd ?S"
    using rnd_in_range [OF _ S] by (auto simp: is_finite_fl)
  moreover have "\<bar>rnd ?S / ?n\<bar> \<le> pow2 1020"
  proof -
    have "1 \<le> ?n" using assms(1) by (cases xs) auto
    then have "\<bar>rnd ?S\<bar> / ?n \<le> \<bar>rnd ?S\<bar> / 1" by (intro divide_left_mono) auto
    then show ?thesis using rnd_bounded [OF S] by simp
  qed
  ultimately show ?thesis
    using fdiv_exact [of "fl ?S" ?n 1020] assms(1) by (auto simp: fmean_def)
qed

text \<open>
  Both roundings of the mean are relative to the exact value: for positive data of normal
  size the result is within three half-units in the last place of the exact mean.
\<close>

lemma two_roundings:
  assumes "2 powi -1000 \<le> S" and "1 \<le> n" and "n \<le> pow2 20"
  shows "\<bar>rnd (rnd S / n) - S / n\<bar> \<le> 3 / 2 ^ 53 * (S / n)"
proof -
  have S: "0 < S" using assms(1) by (rule less_le_trans [rotated]) simp
  have n: "0 < n" using assms(2) by simp
  have "(2 powi -1022 :: rat) \<le> 2 powi -1000" by (simp add: powi_le_iff)
  then have e1: "\<bar>rnd S - S\<bar> \<le> S / 2 ^ 53" using assms(1) S by (intro order_trans [OF rnd_rel_error]) auto
  have "S / 2 ^ 53 \<le> S / 2" using S by simp
  then have half: "S / 2 \<le> rnd S" using e1 by linarith
  have "2 powi -1022 * n \<le> 2 powi -1022 * pow2 20" using assms(3) by (intro mult_left_mono) auto
  also have "\<dots> \<le> 2 powi -1000 / 2" by (simp add: pow2_def)
  also have "\<dots> \<le> rnd S" using half assms(1) by linarith
  finally have "2 powi -1022 \<le> rnd S / n" using n by (simp add: pos_le_divide_eq)
  then have e2: "\<bar>rnd (rnd S / n) - rnd S / n\<bar> \<le> rnd S / n / 2 ^ 53"
    by (rule rnd_rel_error_pos)
  have "\<bar>rnd S / n - S / n\<bar> = \<bar>rnd S - S\<bar> / n" using n by (simp add: abs_divide flip: diff_divide_distrib)
  also have "\<dots> \<le> S / n / 2 ^ 53" using e1 n by (simp add: divide_right_mono field_simps)
  finally have e3: "\<bar>rnd S / n - S / n\<bar> \<le> S / n / 2 ^ 53" .
  moreover have "S / n / 2 ^ 53 \<le> S / n / 1" using S n by (intro divide_left_mono) auto
  ultimately have "rnd S / n \<le> 2 * (S / n)" by linarith
  then have "rnd S / n / 2 ^ 53 \<le> 2 * (S / n) / 2 ^ 53" by (rule divide_right_mono) simp
  moreover have "2 * (S / n) / 2 ^ 53 = 2 * (S / n / 2 ^ 53)" "3 / 2 ^ 53 * (S / n) = 3 * (S / n / 2 ^ 53)"
    by simp_all
  ultimately show ?thesis using e2 e3 by linarith
qed

section \<open>Deviation\<close>

lemma isqrt_bounds: "isqrt n * isqrt n \<le> n \<and> n < (isqrt n + 1) * (isqrt n + 1)"
proof (induction n rule: isqrt.induct)
  case (1 n)
  show ?case
  proof (cases "n = 0")
    case False
    define s where "s = isqrt (n div 4)"
    have "s * s \<le> n div 4" "n div 4 < (s + 1) * (s + 1)" using 1 False by (auto simp: s_def)
    then have "4 * (s * s) \<le> n" "n < 4 * ((s + 1) * (s + 1))" by linarith+
    then show ?thesis
      using False by (auto simp: isqrt.simps [of n] s_def [symmetric] Let_def algebra_simps)
  qed (simp add: isqrt.simps)
qed

lemma sum_sq_dev_const: "sum_sq_dev (replicate n a) = 0"
  by (cases n) (simp_all add: sum_sq_dev_def sum_list_replicate Let_def algebra_simps)

lemma float_sqrt_zero: "float_sqrt_of_frac 0 1 = Inr (Fin 0)"
proof -
  have "sqrt_round_to_odd 0 m = 0" for m by (simp add: sqrt_round_to_odd_def isqrt.simps)
  then show ?thesis by (simp add: float_sqrt_of_frac_def Let_def fl_def)
qed

lemma stdev_const:
  assumes "2 \<le> n" and "is_finite a"
  shows "stdev (replicate n a) = Inr (Fin 0)"
  using assms sum_sq_dev_const [of n "fval a"] float_sqrt_zero
  by (simp add: stdev_cases list_all_iff)

text \<open>The square root of a fraction of moderate size does not overflow.\<close>

lemma sqrt_round_bound: "sqrt_round_to_odd n m \<le> isqrt (n div m) + 1"
  by (simp add: sqrt_round_to_odd_def Let_def)

lemma square_le_power4: "a * a \<le> (4::nat) ^ k \<Longrightarrow> a \<le> 2 ^ k"
  using power2_le_imp_le [of a "2 ^ k"] by (simp add: power2_eq_square flip: power_mult_distrib)

lemma isqrt_frac_bound:
  assumes "0 < m" and "n \<le> 4 ^ k * m"
  shows "isqrt (n div m) \<le> 2 ^ k"
proof (rule square_le_power4)
  have "isqrt (n div m) * isqrt (n div m) \<le> n div m" using isqrt_bounds by simp
  also have "\<dots> \<le> 4 ^ k * m div m" using assms(2) by (rule div_le_mono)
  finally show "isqrt (n div m) * isqrt (n div m) \<le> 4 ^ k" using assms(1) by simp
qed

lemma bitlen_bound:
  assumes "0 < m" and "n \<le> 4 ^ k * m"
  shows "bitlen (int n) \<le> 2 * int k + bitlen (int m)"
proof -
  have "m < 2 ^ nat (bitlen (int m))" using bitlen_bounds [of "int m"] assms(1) by (simp flip: of_nat_less_iff)
  then have "4 ^ k * m < 4 ^ k * 2 ^ nat (bitlen (int m))" by simp
  also have "\<dots> = 2 ^ (2 * k + nat (bitlen (int m)))" by (simp add: power_add power_mult)
  finally have "n < 2 ^ (2 * k + nat (bitlen (int m)))" using assms(2) by simp
  then have "int n < 2 ^ (2 * k + nat (bitlen (int m)))" by (metis of_nat_less_iff of_nat_numeral of_nat_power)
  then have "bitlen (int n) \<le> int (2 * k + nat (bitlen (int m)))"
    by (subst bitlen_le_iff_power) (auto simp: nat_add_distrib nat_mult_distrib bitlen_nonneg)
  then show ?thesis using bitlen_nonneg [of "int m"] by simp
qed

lemma two_power_double: "(2::nat) ^ (2 * k) = 4 ^ k"
  by (simp add: power_mult)

lemma succ_power_le: "(2::nat) ^ k + 1 \<le> 2 ^ (k + 1)"
proof -
  have "(1::nat) \<le> 2 ^ k" by simp
  then show ?thesis unfolding power_add power_one_right by linarith
qed

lemma float_sqrt_total:
  assumes "0 < m" and "n \<le> 4 ^ k * m" and "k < 1023"
  shows "\<exists>x. float_sqrt_of_frac n m = Inr x \<and> is_finite x \<and> 0 \<le> fval x \<and> \<bar>fval x\<bar> \<le> pow2 (k + 1)"
proof -
  define q where "q = (bitlen (int n) - bitlen (int m) - 109) div 2"
  define v :: rat where "v = (if 0 \<le> q
    then of_nat (sqrt_round_to_odd n (m * 2 ^ (2 * nat q)) * 2 ^ nat q)
    else of_nat (sqrt_round_to_odd (n * 2 ^ (2 * nat (- q))) m) / 2 ^ nat (- q))"
  have "v \<le> pow2 (k + 1)"
  proof (cases "0 \<le> q")
    case True
    have qk: "nat q \<le> k" using bitlen_bound [OF assms(1,2)] True by (simp add: q_def)
    then obtain d where d: "k = d + nat q" using le_Suc_ex by (metis add.commute)
    have "n \<le> 4 ^ d * (m * 2 ^ (2 * nat q))"
      using assms(2) unfolding two_power_double by (simp add: d power_add mult.commute mult.left_commute)
    then have "isqrt (n div (m * 2 ^ (2 * nat q))) \<le> 2 ^ d" using assms(1) by (intro isqrt_frac_bound) auto
    then have "sqrt_round_to_odd n (m * 2 ^ (2 * nat q)) \<le> 2 ^ d + 1"
      using sqrt_round_bound by (meson add_le_mono1 order_trans)
    then have "sqrt_round_to_odd n (m * 2 ^ (2 * nat q)) \<le> 2 ^ (d + 1)"
      using succ_power_le by (rule order_trans)
    then have "sqrt_round_to_odd n (m * 2 ^ (2 * nat q)) * 2 ^ nat q \<le> 2 ^ (d + 1) * 2 ^ nat q"
      by (rule mult_le_mono1)
    then have "of_nat (sqrt_round_to_odd n (m * 2 ^ (2 * nat q)) * 2 ^ nat q) \<le> (of_nat (2 ^ (k + 1)) :: rat)"
      unfolding of_nat_le_iff by (simp add: d power_add)
    then show ?thesis using True by (simp add: v_def pow2_def)
  next
    case False
    let ?p = "nat (- q)"
    have "n * 2 ^ (2 * ?p) \<le> 4 ^ (k + ?p) * m"
      using assms(2) unfolding two_power_double by (simp add: power_add mult.commute mult.left_commute)
    then have "isqrt (n * 2 ^ (2 * ?p) div m) \<le> 2 ^ (k + ?p)" using assms(1) by (intro isqrt_frac_bound) auto
    then have "sqrt_round_to_odd (n * 2 ^ (2 * ?p)) m \<le> 2 ^ (k + ?p) + 1"
      using sqrt_round_bound by (meson add_le_mono1 order_trans)
    also have "\<dots> \<le> 2 ^ (k + ?p + 1)" by (rule succ_power_le)
    also have "\<dots> = 2 ^ (k + 1) * 2 ^ ?p" by (simp add: power_add)
    finally have "of_nat (sqrt_round_to_odd (n * 2 ^ (2 * ?p)) m) \<le> (of_nat (2 ^ (k + 1) * 2 ^ ?p) :: rat)"
      unfolding of_nat_le_iff .
    then show ?thesis using False by (simp add: v_def pow2_def pos_divide_le_eq)
  qed
  moreover have v0: "0 \<le> v" by (simp add: v_def)
  ultimately have v: "\<bar>v\<bar> \<le> pow2 (k + 1)" by simp
  then have fin: "is_finite (fl v)" "fval (fl v) = rnd v"
    using rnd_in_range [OF _ v] assms(3) by (auto simp: is_finite_fl)
  have "float_sqrt_of_frac n m = (if is_finite (fl v) then Inr (fl v) else Inl OverflowError)"
    by (simp add: float_sqrt_of_frac_def q_def [symmetric] v_def Let_def)
  moreover have "0 \<le> rnd v" using rnd_mono [OF v0] by simp
  ultimately show ?thesis using fin rnd_bounded [OF v] by auto
qed

lemma sum_sq_dev_bound:
  assumes "xs \<noteq> []" and "\<forall>x \<in> set xs. \<bar>x\<bar> \<le> B"
  shows "sum_sq_dev xs \<le> of_nat (length xs) * (B * B)"
proof -
  have "sum_list (map (\<lambda>x. x * x) xs) \<le> of_nat (length xs) * (B * B)"
    using assms(2)
  proof (induction xs)
    case (Cons x xs)
    have "\<bar>x\<bar> * \<bar>x\<bar> \<le> B * B" using Cons.prems by (intro mult_mono) auto
    then show ?case using Cons by (simp add: algebra_simps)
  qed simp
  moreover have "sum_sq_dev xs \<le> sum_list (map (\<lambda>x. x * x) xs)"
    using assms(1) by (simp add: sum_sq_dev_def Let_def field_simps)
  ultimately show ?thesis by linarith
qed

lemma quotient_le:
  assumes "quotient_of v = (n, d)" and "v \<le> of_nat b"
  shows "0 < d \<and> nat n \<le> b * nat d"
proof -
  have d: "0 < d" using quotient_of_denom_pos [OF assms(1)] .
  have "v = of_int n / of_int d" using quotient_of_div [OF assms(1)] .
  then have "of_int n \<le> (of_int (int b * d) :: rat)" using assms(2) d by (simp add: pos_divide_le_eq)
  then have "n \<le> int b * d" unfolding of_int_le_iff .
  then have "nat n \<le> nat (int b * d)" by (rule nat_mono)
  then show ?thesis using d by (simp add: nat_mult_distrib)
qed

lemma stdev_total:
  assumes mod: "\<forall>x \<in> set xs. moderate x" and len: "2 \<le> length xs"
  shows "\<exists>sd. stdev xs = Inr sd \<and> is_finite sd \<and> 0 \<le> fval sd \<and> \<bar>fval sd\<bar> \<le> pow2 1002"
proof -
  let ?n = "of_nat (length xs) :: rat" and ?B = "pow2 1000"
  define v where "v = sum_sq_dev (map fval xs) / of_nat (length xs - 1)"
  have n1: "of_nat (length xs - 1) = ?n - 1" "2 \<le> ?n" using len by (auto simp: of_nat_diff)
  have "sum_sq_dev (map fval xs) \<le> ?n * (?B * ?B)"
    using sum_sq_dev_bound [of "map fval xs" ?B] mod len by (force simp: moderate_def)
  also have "\<dots> \<le> (2 * (?n - 1)) * (?B * ?B)" using n1 by (intro mult_right_mono) auto
  also have "\<dots> \<le> (4 * (?B * ?B)) * (?n - 1)" using n1 by simp
  also have "4 * (?B * ?B) = of_nat (4 ^ 1001)" by (simp add: pow2_def flip: power_mult_distrib)
  finally have "v \<le> of_nat (4 ^ 1001)" using n1 unfolding v_def by (subst pos_divide_le_eq) auto
  moreover obtain a d where q: "quotient_of v = (a, d)" by (cases "quotient_of v")
  ultimately have ad: "0 < nat d" "nat a \<le> 4 ^ 1001 * nat d" using quotient_le [of v a d "4 ^ 1001"] by auto
  have "stdev xs = float_sqrt_of_frac (nat a) (nat d)"
    using mod len q by (auto simp: stdev_cases v_def list_all_iff moderate_def)
  then show ?thesis using float_sqrt_total [OF ad] by simp
qed

section \<open>Evaluation\<close>

text \<open>Code equations that compute with integers, for concrete runs.\<close>

definition sqrt_step :: "int \<Rightarrow> int \<Rightarrow> int" where
  "sqrt_step n s = (if (s + 1) * (s + 1) \<le> n then s + 1 else s)"

function isqrt_int :: "int \<Rightarrow> int" where
  "isqrt_int n = (if n \<le> 0 then 0 else sqrt_step n (2 * isqrt_int (n div 4)))"
  by pat_completeness auto
termination
  by (relation "measure nat") auto

declare isqrt_int.simps [simp del]

lemma isqrt_int_nat: "isqrt_int (int n) = int (isqrt n)"
proof (induction n rule: isqrt.induct)
  case (1 n)
  show ?case
  proof (cases "n = 0")
    case False
    define s where "s = isqrt (n div 4)"
    have s: "isqrt_int (int n div 4) = int s" using 1 False by (simp add: s_def zdiv_int)
    have "int ((2 * s + 1) * (2 * s + 1)) \<le> int n \<longleftrightarrow> (2 * s + 1) * (2 * s + 1) \<le> n"
      by (rule of_nat_le_iff)
    then show ?thesis using False
      by (simp add: isqrt_int.simps [of "int n"] isqrt.simps [of n] sqrt_step_def Let_def s algebra_simps flip: s_def)
  qed (simp add: isqrt_int.simps isqrt.simps)
qed

definition round_to_odd_int :: "int \<Rightarrow> int \<Rightarrow> int" where
  "round_to_odd_int n m = (let a = isqrt_int (n div m) in if a * a * m \<noteq> n \<and> even a then a + 1 else a)"

lemma round_to_odd_int_nat: "round_to_odd_int (int n) (int m) = int (sqrt_round_to_odd n m)"
proof -
  have "int (a * a * m) = int n \<longleftrightarrow> a * a * m = n" for a by (rule of_nat_eq_iff)
  then show ?thesis
    using isqrt_int_nat [of "n div m"]
    by (simp add: round_to_odd_int_def sqrt_round_to_odd_def Let_def zdiv_int)
qed

definition float_sqrt_int :: "int \<Rightarrow> int \<Rightarrow> flt py" where
  "float_sqrt_int n m =
     (let q = (bitlen n - bitlen m - 109) div 2;
          x = (if 0 \<le> q
               then fl (of_int (round_to_odd_int n (m * 2 ^ (2 * nat q)) * 2 ^ nat q))
               else fl (of_int (round_to_odd_int (n * 2 ^ (2 * nat (- q))) m) / of_int (2 ^ nat (- q))))
      in if is_finite x then Inr x else Inl OverflowError)"

lemma float_sqrt_int_nat: "float_sqrt_int (int n) (int m) = float_sqrt_of_frac n m"
  using round_to_odd_int_nat [of n "m * 2 ^ (2 * k)" for k] round_to_odd_int_nat [of "n * 2 ^ (2 * k)" m for k]
  by (simp add: float_sqrt_int_def float_sqrt_of_frac_def Let_def)

lemma stdev_code [code]:
  "stdev xs =
     (if length xs < 2 then Inl StatisticsError
      else if \<not> list_all is_finite xs then Inl AttributeError
      else case quotient_of (sum_sq_dev (map fval xs) / of_nat (length xs - 1)) of
        (n, d) \<Rightarrow> float_sqrt_int (max 0 n) (max 0 d))"
proof -
  have "float_sqrt_int (max 0 n) (max 0 d) = float_sqrt_of_frac (nat n) (nat d)" for n d
    using float_sqrt_int_nat [of "nat n" "nat d"] by (simp add: max_def split: if_splits)
  then show ?thesis by (simp only: stdev_cases)
qed

end
