(* ===== verification/PyCsv.thy ===== *)
theory PyCsv
  imports Prelude
begin

text \<open>
  Python's \<open>csv\<close> module as the scripts use it: delimiter \<open>;\<close>, the other settings those of the
  \<open>excel\<close> dialect. The reader is the state machine of the C implementation fed line by line;
  a file opened with \<open>newline=""\<close> yields lines that keep their terminators. The writer quotes
  only the fields that need it and ends each row with a carriage return and a line feed.
  The reader's limit on the length of a field, 131072 characters unless a program changes it, is not
  modelled: the files have fields of a few dozen.
\<close>

section \<open>The reader\<close>

abbreviation delim :: char where "delim \<equiv> CHR '';''"
abbreviation quote :: char where "quote \<equiv> CHR 0x22"
abbreviation CR :: char where "CR \<equiv> CHR 0x0D"
abbreviation LF :: char where "LF \<equiv> CHR 0x0A"

datatype csv_state =
  START_RECORD | START_FIELD | IN_FIELD | IN_QUOTED_FIELD | QUOTE_IN_QUOTED_FIELD | EAT_CRNL

text \<open>What the parser is fed: the characters of a line and the end of the line.\<close>

datatype csv_event = C char | EOL

record csv_parser =
  st :: csv_state
  field :: string
  saved :: "string list"

definition parse_reset :: csv_parser where
  "parse_reset = \<lparr>st = START_RECORD, field = [], saved = []\<rparr>"

definition parse_save_field :: "csv_parser \<Rightarrow> csv_parser" where
  "parse_save_field p = p\<lparr>field := [], saved := saved p @ [field p]\<rparr>"

definition parse_add_char :: "csv_parser \<Rightarrow> char \<Rightarrow> csv_parser" where
  "parse_add_char p c = p\<lparr>field := field p @ [c]\<rparr>"

definition is_newline :: "csv_event \<Rightarrow> bool" where
  "is_newline e \<longleftrightarrow> e = C LF \<or> e = C CR"

text \<open>The end of an unquoted field at a line end.\<close>

definition end_of_row :: "csv_parser \<Rightarrow> csv_event \<Rightarrow> csv_parser" where
  "end_of_row p e = (parse_save_field p)\<lparr>st := if e = EOL then START_RECORD else EAT_CRNL\<rparr>"

fun start_field :: "csv_parser \<Rightarrow> csv_event \<Rightarrow> csv_parser" where
  "start_field p EOL = end_of_row p EOL"
| "start_field p (C c) =
     (if is_newline (C c) then end_of_row p (C c)
      else if c = quote then p\<lparr>st := IN_QUOTED_FIELD\<rparr>
      else if c = delim then (parse_save_field p)\<lparr>st := START_FIELD\<rparr>
      else (parse_add_char p c)\<lparr>st := IN_FIELD\<rparr>)"

fun in_field :: "csv_parser \<Rightarrow> csv_event \<Rightarrow> csv_parser" where
  "in_field p EOL = end_of_row p EOL"
| "in_field p (C c) =
     (if is_newline (C c) then end_of_row p (C c)
      else if c = delim then (parse_save_field p)\<lparr>st := START_FIELD\<rparr>
      else parse_add_char p c)"

fun in_quoted_field :: "csv_parser \<Rightarrow> csv_event \<Rightarrow> csv_parser" where
  "in_quoted_field p EOL = p"
| "in_quoted_field p (C c) =
     (if c = quote then p\<lparr>st := QUOTE_IN_QUOTED_FIELD\<rparr> else parse_add_char p c)"

fun quote_in_quoted :: "csv_parser \<Rightarrow> csv_event \<Rightarrow> csv_parser" where
  "quote_in_quoted p EOL = end_of_row p EOL"
| "quote_in_quoted p (C c) =
     (if c = quote then (parse_add_char p c)\<lparr>st := IN_QUOTED_FIELD\<rparr>
      else if c = delim then (parse_save_field p)\<lparr>st := START_FIELD\<rparr>
      else if is_newline (C c) then end_of_row p (C c)
      else (parse_add_char p c)\<lparr>st := IN_FIELD\<rparr>)"

fun parse_process_char :: "csv_parser \<Rightarrow> csv_event \<Rightarrow> csv_parser py" where
  "parse_process_char p e =
     (case st p of
        START_RECORD \<Rightarrow>
          Inr (if e = EOL then p
               else if is_newline e then p\<lparr>st := EAT_CRNL\<rparr>
               else start_field (p\<lparr>st := START_FIELD\<rparr>) e)
      | START_FIELD \<Rightarrow> Inr (start_field p e)
      | IN_FIELD \<Rightarrow> Inr (in_field p e)
      | IN_QUOTED_FIELD \<Rightarrow> Inr (in_quoted_field p e)
      | QUOTE_IN_QUOTED_FIELD \<Rightarrow> Inr (quote_in_quoted p e)
      | EAT_CRNL \<Rightarrow>
          (if is_newline e then Inr p
           else if e = EOL then Inr (p\<lparr>st := START_RECORD\<rparr>)
           else Inl CsvError))"

declare parse_process_char.simps [simp del]

text \<open>A record is complete when a line ends in \<open>START_RECORD\<close>; at the end of the input a pending
  field is kept.\<close>

fun csv_run :: "csv_parser \<Rightarrow> csv_event list \<Rightarrow> string list list py" where
  "csv_run p [] =
     Inr (if field p \<noteq> [] \<or> st p = IN_QUOTED_FIELD then [saved p @ [field p]] else [])"
| "csv_run p (e # es) =
     bind_py (parse_process_char p e) (\<lambda>p'.
       if e = EOL \<and> st p' = START_RECORD
       then bind_py (csv_run parse_reset es) (\<lambda>rs. Inr (saved p' # rs))
       else csv_run p' es)"

text \<open>The lines of a file: a line ends after a line feed, a carriage return or both.\<close>

fun line_events :: "string \<Rightarrow> csv_event list" where
  "line_events [] = []"
| "line_events (c # s) =
     (if c = LF then C c # EOL # line_events s
      else if c = CR then
        (case s of
           [] \<Rightarrow> [C c, EOL]
         | d # r \<Rightarrow> if d = LF then C c # C d # EOL # line_events r else C c # EOL # line_events s)
      else (case s of [] \<Rightarrow> [C c, EOL] | _ # _ \<Rightarrow> C c # line_events s))"

definition csv_reader :: "string \<Rightarrow> string list list py" where
  "csv_reader txt = csv_run parse_reset (line_events txt)"

section \<open>Rows as dictionaries\<close>

text \<open>
  \<open>DictReader\<close>: the first record names the fields, empty records are skipped, a short record
  is completed with \<open>None\<close>. The surplus of a long record is stored under the key \<open>None\<close>, which no
  script reads; it is left out.
\<close>

type_synonym csv_row = "(string, string option) dict"

definition dict_row :: "string list \<Rightarrow> string list \<Rightarrow> csv_row" where
  "dict_row fieldnames row =
     dict_of (zip fieldnames (map Some row) @
       map (\<lambda>k. (k, None)) (drop (length row) fieldnames))"

definition dict_reader :: "string \<Rightarrow> (string list option \<times> csv_row list) py" where
  "dict_reader txt = bind_py (csv_reader txt) (\<lambda>records.
     case records of
       [] \<Rightarrow> Inr (None, [])
     | h # rs \<Rightarrow> Inr (Some h, map (dict_row h) (filter (\<lambda>r. r \<noteq> []) rs)))"

section \<open>The writer\<close>

definition needs_quotes :: "string \<Rightarrow> bool" where
  "needs_quotes f \<longleftrightarrow> (\<exists>c \<in> set f. c = delim \<or> c = quote \<or> c = CR \<or> c = LF)"

definition double_quotes :: "string \<Rightarrow> string" where
  "double_quotes f = concat (map (\<lambda>c. if c = quote then [quote, quote] else [c]) f)"

definition write_field :: "string \<Rightarrow> string" where
  "write_field f = (if needs_quotes f then quote # double_quotes f @ [quote] else f)"

fun join_fields :: "string list \<Rightarrow> string" where
  "join_fields [] = []"
| "join_fields [f] = write_field f"
| "join_fields (f # fs) = write_field f @ delim # join_fields fs"

definition writerow :: "string list \<Rightarrow> string" where
  \<comment> \<open>a row of one empty field is written as a quoted empty field\<close>
  "writerow fs = (if fs = [[]] then [quote, quote] else join_fields fs) @ [CR, LF]"

section \<open>Written rows read back\<close>

lemmas csv_defs = parse_process_char.simps is_newline_def end_of_row_def parse_save_field_def
  parse_add_char_def

lemma line_events_plain [simp]:
  "c \<noteq> CR \<Longrightarrow> c \<noteq> LF \<Longrightarrow> line_events (c # d # s) = C c # line_events (d # s)"
  by simp

lemma line_events_newline [simp]: "line_events (CR # LF # s) = C CR # C LF # EOL # line_events s"
  by simp

declare line_events.simps(2) [simp del]

lemma run_unquoted:
  assumes "\<not> needs_quotes f"
  shows "csv_run \<lparr>st = IN_FIELD, field = g, saved = fs\<rparr> (line_events (f @ x # s)) =
    csv_run \<lparr>st = IN_FIELD, field = g @ f, saved = fs\<rparr> (line_events (x # s))"
  using assms
proof (induction f arbitrary: g)
  case (Cons c f)
  have c: "c \<noteq> delim" "c \<noteq> quote" "c \<noteq> CR" "c \<noteq> LF" using Cons.prems by (auto simp: needs_quotes_def)
  obtain d t where "f @ x # s = d # t" by (cases f) auto
  then have "line_events ((c # f) @ x # s) = C c # line_events (f @ x # s)" using c by simp
  moreover have "\<not> needs_quotes f" using Cons.prems by (auto simp: needs_quotes_def)
  ultimately show ?case using Cons.IH [of "g @ [c]"] c by (simp add: csv_defs)
qed simp

lemma run_quoted:
  "csv_run \<lparr>st = IN_QUOTED_FIELD, field = g, saved = fs\<rparr> (line_events (double_quotes f @ quote # x # s)) =
    csv_run \<lparr>st = QUOTE_IN_QUOTED_FIELD, field = g @ f, saved = fs\<rparr> (line_events (x # s))"
proof (induction f arbitrary: g rule: length_induct)
  case (1 f)
  show ?case
  proof (cases f)
    case Nil
    then show ?thesis by (simp add: double_quotes_def csv_defs)
  next
    case (Cons c f')
    have dq: "double_quotes f = (if c = quote then [quote, quote] else [c]) @ double_quotes f'"
      by (simp add: Cons double_quotes_def)
    have IH: "csv_run \<lparr>st = IN_QUOTED_FIELD, field = g', saved = fs\<rparr> (line_events (double_quotes h @ quote # x # s)) =
        csv_run \<lparr>st = QUOTE_IN_QUOTED_FIELD, field = g' @ h, saved = fs\<rparr> (line_events (x # s))"
      if "length h < length f" for h g' using 1 that by blast
    obtain d t where next_char: "double_quotes f' @ quote # x # s = d # t" by (cases "double_quotes f'") auto
    show ?thesis
    proof (cases "c = CR \<and> d = LF")
      case True
      then obtain h where h: "f' = LF # h" "t = double_quotes h @ quote # x # s"
        using next_char by (cases f') (auto simp: double_quotes_def split: if_splits)
      have "line_events (double_quotes f @ quote # x # s) =
          C CR # C LF # EOL # line_events (double_quotes h @ quote # x # s)"
        using True by (simp add: Cons h(1) double_quotes_def)
      then show ?thesis
        using IH [of h "g @ [CR, LF]"] True h(1) Cons by (simp add: csv_defs)
    next
      case False
      have len: "length f' < length f" by (simp add: Cons)
      have ev: "line_events (c # double_quotes f' @ quote # x # s) =
          (if c = CR \<or> c = LF then [C c, EOL] else [C c]) @ line_events (double_quotes f' @ quote # x # s)"
        using False unfolding next_char by (auto simp: line_events.simps(2) [of c])
      show ?thesis
      proof (cases "c = quote")
        case True
        have "line_events (double_quotes f @ quote # x # s) = C quote # C quote # line_events (double_quotes f' @ quote # x # s)"
          unfolding dq next_char append.simps append_assoc if_P [OF True] by simp
        then show ?thesis using IH [OF len, of "g @ [c]"] True by (simp add: csv_defs Cons)
      next
        case nq: False
        then have "double_quotes f @ quote # x # s = c # double_quotes f' @ quote # x # s" by (simp add: dq)
        then show ?thesis using IH [OF len, of "g @ [c]"] ev nq by (auto simp: csv_defs Cons)
      qed
    qed
  qed
qed

lemma run_empty_field:
  "csv_run \<lparr>st = IN_FIELD, field = g, saved = fs\<rparr> (line_events (delim # x # s)) =
     csv_run \<lparr>st = START_FIELD, field = [], saved = fs @ [g]\<rparr> (line_events (x # s))"
  "csv_run \<lparr>st = QUOTE_IN_QUOTED_FIELD, field = g, saved = fs\<rparr> (line_events (delim # x # s)) =
     csv_run \<lparr>st = START_FIELD, field = [], saved = fs @ [g]\<rparr> (line_events (x # s))"
  "csv_run \<lparr>st = START_FIELD, field = [], saved = fs\<rparr> (line_events (delim # x # s)) =
     csv_run \<lparr>st = START_FIELD, field = [], saved = fs @ [[]]\<rparr> (line_events (x # s))"
  by (simp_all add: csv_defs)

text \<open>Every state that ends a field closes the record at the row terminator.\<close>

lemma run_row_end:
  "k \<in> {IN_FIELD, QUOTE_IN_QUOTED_FIELD, START_FIELD} \<Longrightarrow>
     csv_run \<lparr>st = k, field = g, saved = fs\<rparr> (line_events (CR # LF # s)) =
       bind_py (csv_run parse_reset (line_events s)) (\<lambda>rs. Inr ((fs @ [g]) # rs))"
  by (auto simp: csv_defs)

text \<open>A written field leaves the parser in a state that ends the field with its text.\<close>

lemma run_write_field:
  "\<exists>k \<in> {IN_FIELD, QUOTE_IN_QUOTED_FIELD, START_FIELD}. \<forall>x s. (k = START_FIELD \<longrightarrow> f = []) \<and>
     csv_run \<lparr>st = START_FIELD, field = [], saved = fs\<rparr> (line_events (write_field f @ x # s)) =
       csv_run \<lparr>st = k, field = f, saved = fs\<rparr> (line_events (x # s))"
proof (cases "needs_quotes f")
  case True
  have "csv_run \<lparr>st = START_FIELD, field = [], saved = fs\<rparr> (line_events (write_field f @ x # s)) =
      csv_run \<lparr>st = QUOTE_IN_QUOTED_FIELD, field = f, saved = fs\<rparr> (line_events (x # s))" for x s
  proof -
    obtain d t where d: "double_quotes f @ quote # x # s = d # t" by (cases "double_quotes f") auto
    have "line_events (write_field f @ x # s) = C quote # line_events (double_quotes f @ quote # x # s)"
      using True by (simp add: write_field_def d)
    then show ?thesis using run_quoted [of "[]" fs f x s] by (simp add: csv_defs)
  qed
  then show ?thesis by blast
next
  case raw: False
  show ?thesis
  proof (cases f)
    case Nil
    then show ?thesis by (auto simp: write_field_def needs_quotes_def)
  next
    case (Cons c f')
    have c: "c \<noteq> delim" "c \<noteq> quote" "c \<noteq> CR" "c \<noteq> LF" and f': "\<not> needs_quotes f'"
      using raw by (auto simp: needs_quotes_def Cons)
    have "csv_run \<lparr>st = START_FIELD, field = [], saved = fs\<rparr> (line_events (write_field f @ x # s)) =
        csv_run \<lparr>st = IN_FIELD, field = f, saved = fs\<rparr> (line_events (x # s))" for x s
    proof -
      obtain d t where d: "f' @ x # s = d # t" by (cases f') auto
      have "line_events (write_field f @ x # s) = C c # line_events (f' @ x # s)"
        using raw c by (simp add: write_field_def Cons d)
      then show ?thesis using run_unquoted [OF f', of "[c]" fs x s] c by (simp add: csv_defs Cons)
    qed
    then show ?thesis by blast
  qed
qed

lemma run_field_delim:
  "csv_run \<lparr>st = START_FIELD, field = [], saved = fs\<rparr> (line_events (write_field f @ delim # x # s)) =
     csv_run \<lparr>st = START_FIELD, field = [], saved = fs @ [f]\<rparr> (line_events (x # s))"
  using run_write_field [of f fs] run_empty_field by auto

lemma run_field_row_end:
  "csv_run \<lparr>st = START_FIELD, field = [], saved = fs\<rparr> (line_events (write_field f @ CR # LF # s)) =
     bind_py (csv_run parse_reset (line_events s)) (\<lambda>rs. Inr ((fs @ [f]) # rs))"
  using run_write_field [of f fs] run_row_end [of _ f fs s]
  by (auto simp del: line_events_newline)

lemma run_join_fields:
  "row \<noteq> [] \<Longrightarrow>
     csv_run \<lparr>st = START_FIELD, field = [], saved = fs\<rparr> (line_events (join_fields row @ CR # LF # s)) =
       bind_py (csv_run parse_reset (line_events s)) (\<lambda>rs. Inr ((fs @ row) # rs))"
proof (induction row arbitrary: fs rule: join_fields.induct)
  case (3 f g gs)
  obtain x t where x: "join_fields (g # gs) @ CR # LF # s = x # t" by (cases "join_fields (g # gs)") auto
  have "line_events (join_fields (f # g # gs) @ CR # LF # s) =
      line_events (write_field f @ delim # (join_fields (g # gs) @ CR # LF # s))" by simp
  then show ?case
    using "3.IH" [of "fs @ [f]"] by (simp only: x run_field_delim) (simp flip: x)
qed (auto simp: run_field_row_end simp del: line_events_newline)

lemma start_record_eq:
  "s = [] \<or> hd s \<noteq> CR \<and> hd s \<noteq> LF \<Longrightarrow> s \<noteq> [] \<Longrightarrow>
     csv_run parse_reset (line_events s) = csv_run \<lparr>st = START_FIELD, field = [], saved = []\<rparr> (line_events s)"
  by (cases s) (auto simp: parse_reset_def csv_defs line_events.simps(2) split: list.splits)

lemma hd_join_fields:
  "row \<noteq> [] \<Longrightarrow> row \<noteq> [[]] \<Longrightarrow> join_fields row \<noteq> [] \<and> hd (join_fields row) \<noteq> CR \<and> hd (join_fields row) \<noteq> LF"
proof -
  have hd: "write_field f \<noteq> [] \<Longrightarrow> hd (write_field f) \<noteq> CR \<and> hd (write_field f) \<noteq> LF" for f
    by (cases f) (auto simp: write_field_def needs_quotes_def)
  have ne: "f \<noteq> [] \<Longrightarrow> write_field f \<noteq> []" for f by (simp add: write_field_def)
  assume "row \<noteq> []" "row \<noteq> [[]]"
  then show ?thesis
  proof (cases row rule: join_fields.cases)
    case (3 f g gs)
    then show ?thesis using hd [of f] by (cases "write_field f = []") auto
  qed (use hd ne in auto)
qed

lemma run_writerow:
  "csv_run parse_reset (line_events (writerow row @ s)) =
     bind_py (csv_run parse_reset (line_events s)) (\<lambda>rs. Inr (row # rs))"
proof -
  consider "row = []" | "row = [[]]" | "row \<noteq> []" "row \<noteq> [[]]" by blast
  then show ?thesis
  proof cases
    case 1
    then show ?thesis by (simp add: writerow_def parse_reset_def csv_defs)
  next
    case 2
    then show ?thesis by (simp add: writerow_def parse_reset_def csv_defs)
  next
    case 3
    let ?t = "join_fields row @ CR # LF # s"
    have "hd ?t \<noteq> CR \<and> hd ?t \<noteq> LF" using hd_join_fields [OF 3] by simp
    then have "csv_run parse_reset (line_events ?t) = csv_run \<lparr>st = START_FIELD, field = [], saved = []\<rparr> (line_events ?t)"
      by (intro start_record_eq) auto
    then show ?thesis
      using run_join_fields [OF 3(1), of "[]" s] 3 by (simp add: writerow_def)
  qed
qed

lemma csv_roundtrip: "csv_reader (concat (map writerow rows)) = Inr rows"
proof (induction rows)
  case Nil
  then show ?case by (simp add: csv_reader_def parse_reset_def)
next
  case (Cons row rows)
  then show ?case using run_writerow [of row "concat (map writerow rows)"] by (simp add: csv_reader_def)
qed

end
