(* ===== verification/PySortErr.thy ===== *)
theory PySortErr
  imports PySort
begin

text \<open>
  The same sort for a comparison that may raise, as \<open>__lt__\<close> of tuples does when it meets a missing value: the first
  comparison that raises ends the sort. As in \<open>PySort\<close> this is the algorithm for lists of fewer than 64 elements.
  Which elements a run compares is not observable, except that any two that are neighbours in the result were compared.
\<close>

fun asc_run_py :: "('a \<Rightarrow> 'a \<Rightarrow> bool py) \<Rightarrow> 'a \<Rightarrow> 'a list \<Rightarrow> ('a list \<times> 'a list) py" where
  "asc_run_py lt p [] = Inr ([], [])"
| "asc_run_py lt p (x # xs) =
     bind_py (lt x p) (\<lambda>less. if less then Inr ([], x # xs)
       else bind_py (asc_run_py lt x xs) (\<lambda>(r, rest). Inr (x # r, rest)))"

fun desc_run_py :: "('a \<Rightarrow> 'a \<Rightarrow> bool py) \<Rightarrow> 'a \<Rightarrow> 'a list \<Rightarrow> ('a list \<times> 'a list) py" where
  "desc_run_py lt p [] = Inr ([], [])"
| "desc_run_py lt p (x # xs) =
     bind_py (lt x p) (\<lambda>less. if less then bind_py (desc_run_py lt x xs) (\<lambda>(r, rest). Inr (x # r, rest))
       else Inr ([], x # xs))"

fun count_run_py :: "('a \<Rightarrow> 'a \<Rightarrow> bool py) \<Rightarrow> 'a list \<Rightarrow> ('a list \<times> 'a list) py" where
  "count_run_py lt [] = Inr ([], [])"
| "count_run_py lt [x] = Inr ([x], [])"
| "count_run_py lt (x # y # zs) =
     bind_py (lt y x) (\<lambda>less. if less then bind_py (desc_run_py lt x (y # zs)) (\<lambda>(r, rest). Inr (rev (x # r), rest))
       else bind_py (asc_run_py lt x (y # zs)) (\<lambda>(r, rest). Inr (x # r, rest)))"

function bin_pos_py :: "('a \<Rightarrow> 'a \<Rightarrow> bool py) \<Rightarrow> 'a \<Rightarrow> 'a list \<Rightarrow> nat \<Rightarrow> nat \<Rightarrow> nat py" where
  "bin_pos_py lt x ys l r =
     (if l < r then
        let p = l + (r - l) div 2
        in bind_py (lt x (ys ! p)) (\<lambda>less. if less then bin_pos_py lt x ys l p else bin_pos_py lt x ys (Suc p) r)
      else Inr l)"
  by pat_completeness auto
termination
  by (relation "measure (\<lambda>(lt, x, ys, l, r). r - l)") (auto simp: Let_def)

declare bin_pos_py.simps [simp del]

definition bin_insert_py :: "('a \<Rightarrow> 'a \<Rightarrow> bool py) \<Rightarrow> 'a list \<Rightarrow> 'a \<Rightarrow> 'a list py" where
  "bin_insert_py lt ys x = bind_py (bin_pos_py lt x ys 0 (length ys)) (\<lambda>p. Inr (take p ys @ x # drop p ys))"

fun insert_all_py :: "('a \<Rightarrow> 'a \<Rightarrow> bool py) \<Rightarrow> 'a list \<Rightarrow> 'a list \<Rightarrow> 'a list py" where
  "insert_all_py lt ys [] = Inr ys"
| "insert_all_py lt ys (x # xs) = bind_py (bin_insert_py lt ys x) (\<lambda>zs. insert_all_py lt zs xs)"

definition sort_py :: "('a \<Rightarrow> 'a \<Rightarrow> bool py) \<Rightarrow> 'a list \<Rightarrow> 'a list py" where
  "sort_py lt xs = bind_py (count_run_py lt xs) (\<lambda>(run, rest). insert_all_py lt run rest)"

section \<open>Neighbours were compared\<close>

definition compared :: "('a \<Rightarrow> 'a \<Rightarrow> bool py) \<Rightarrow> 'a \<Rightarrow> 'a \<Rightarrow> bool" where
  "compared lt a b \<longleftrightarrow> lt b a = Inr False \<or> lt a b = Inr True"

lemma asc_run_py_Inr:
  "asc_run_py lt p xs = Inr (r, rest) \<Longrightarrow> p # xs = (p # r) @ rest \<and> successively (compared lt) (p # r)"
proof (induction lt p xs arbitrary: r rest rule: asc_run_py.induct)
  case (2 lt p x xs)
  then show ?case by (auto simp: bind_py_eq_Inr compared_def split: if_splits prod.splits)
qed auto

lemma desc_run_py_Inr:
  "desc_run_py lt p xs = Inr (r, rest) \<Longrightarrow> p # xs = (p # r) @ rest \<and> successively (\<lambda>a b. compared lt b a) (p # r)"
proof (induction lt p xs arbitrary: r rest rule: desc_run_py.induct)
  case (2 lt p x xs)
  then show ?case by (auto simp: bind_py_eq_Inr compared_def split: if_splits prod.splits)
qed auto

lemma count_run_py_Inr:
  assumes "count_run_py lt xs = Inr (run, rest)"
  shows "mset run + mset rest = mset xs \<and> successively (compared lt) run"
proof (cases "(lt, xs)" rule: count_run_py.cases)
  case (3 lt' x y zs)
  then have xs: "xs = x # y # zs" "lt' = lt" by auto
  obtain b where b: "lt y x = Inr b" using assms xs by (auto simp: bind_py_eq_Inr)
  show ?thesis
  proof (cases b)
    case True
    then obtain r where r: "desc_run_py lt x (y # zs) = Inr (r, rest)" "run = rev (x # r)"
      using assms xs b by (auto simp: bind_py_eq_Inr simp del: desc_run_py.simps)
    note d = desc_run_py_Inr [OF r(1)]
    have "mset run + mset rest = mset ((x # r) @ rest)" by (simp add: r(2))
    then have "mset run + mset rest = mset xs" using d by (simp only: xs(1))
    moreover have "successively (compared lt) (rev (x # r))" using d unfolding successively_rev by blast
    ultimately show ?thesis by (simp only: r(2) simp_thms)
  next
    case False
    then obtain r where r: "asc_run_py lt x (y # zs) = Inr (r, rest)" "run = x # r"
      using assms xs b by (auto simp: bind_py_eq_Inr simp del: asc_run_py.simps)
    note d = asc_run_py_Inr [OF r(1)]
    have "mset run + mset rest = mset ((x # r) @ rest)" by (simp add: r(2))
    then have "mset run + mset rest = mset xs" using d by (simp only: xs(1))
    then show ?thesis using d by (simp only: r(2) simp_thms)
  qed
qed (use assms in auto)

lemma bin_pos_py_Inr:
  assumes "bin_pos_py lt x ys l r = Inr p" and "l \<le> r" and "r \<le> length ys"
    and "l = 0 \<or> lt x (ys ! (l - 1)) = Inr False" and "r = length ys \<or> lt x (ys ! r) = Inr True"
  shows "p \<le> length ys \<and> (p = 0 \<or> lt x (ys ! (p - 1)) = Inr False) \<and> (p = length ys \<or> lt x (ys ! p) = Inr True)"
  using assms
proof (induction "r - l" arbitrary: l r rule: less_induct)
  case less
  show ?case
  proof (cases "l < r")
    case True
    define q where "q = l + (r - l) div 2"
    have q: "l \<le> q" "q < r" using True by (auto simp: q_def)
    obtain b where b: "lt x (ys ! q) = Inr b" "(if b then bin_pos_py lt x ys l q else bin_pos_py lt x ys (Suc q) r) = Inr p"
      using less.prems(1) True unfolding bin_pos_py.simps [of lt x ys l r] Let_def q_def [symmetric]
      by (auto simp: bind_py_eq_Inr)
    show ?thesis
    proof (cases b)
      case True
      then show ?thesis using less.hyps [of q l] less.prems b q by auto
    next
      case False
      then show ?thesis using less.hyps [of r "Suc q"] less.prems b q by auto
    qed
  next
    case False
    then show ?thesis using less.prems by (subst (asm) bin_pos_py.simps) auto
  qed
qed

lemma successively_insert:
  assumes "successively P ys" and "p \<le> length ys" and "p = 0 \<or> P (ys ! (p - 1)) x" and "p = length ys \<or> P x (ys ! p)"
  shows "successively P (take p ys @ x # drop p ys)"
proof -
  have "successively P (take p ys @ drop p ys)" using assms(1) by simp
  then have s: "successively P (take p ys)" "successively P (drop p ys)" unfolding successively_append_iff by blast+
  have "take p ys \<noteq> [] \<Longrightarrow> P (last (take p ys)) x"
    using assms(2,3) by (auto simp: last_conv_nth)
  moreover have "drop p ys \<noteq> [] \<Longrightarrow> P x (hd (drop p ys))"
    using assms(2,4) by (auto simp: hd_drop_conv_nth)
  ultimately show ?thesis using s by (auto simp: successively_append_iff successively_Cons)
qed

lemma bin_insert_py_Inr:
  assumes "bin_insert_py lt ys x = Inr zs" and "successively (compared lt) ys"
  shows "mset zs = add_mset x (mset ys) \<and> successively (compared lt) zs"
proof -
  obtain p where p: "bin_pos_py lt x ys 0 (length ys) = Inr p" "zs = take p ys @ x # drop p ys"
    using assms(1) by (auto simp: bin_insert_py_def bind_py_eq_Inr)
  have "mset (take p ys) + mset (drop p ys) = mset ys" by (metis append_take_drop_id mset_append)
  then show ?thesis
    using bin_pos_py_Inr [OF p(1)] successively_insert [OF assms(2), of p x] by (auto simp: p(2) compared_def)
qed

lemma insert_all_py_Inr:
  "insert_all_py lt ys xs = Inr zs \<Longrightarrow> successively (compared lt) ys \<Longrightarrow>
    mset zs = mset ys + mset xs \<and> successively (compared lt) zs"
proof (induction xs arbitrary: ys)
  case (Cons x xs)
  then obtain ys' where ys: "bin_insert_py lt ys x = Inr ys'" "insert_all_py lt ys' xs = Inr zs" by (auto simp: bind_py_eq_Inr)
  then show ?case using Cons.IH [OF ys(2)] bin_insert_py_Inr [OF ys(1) Cons.prems(2)] by simp
qed simp

lemma sort_py_Inr:
  assumes "sort_py lt xs = Inr ys"
  shows "mset ys = mset xs \<and> successively (compared lt) ys"
proof -
  obtain run rest where c: "count_run_py lt xs = Inr (run, rest)" "insert_all_py lt run rest = Inr ys"
    using assms by (auto simp: sort_py_def bind_py_eq_Inr)
  then show ?thesis using count_run_py_Inr [OF c(1)] insert_all_py_Inr [OF c(2)] by auto
qed

section \<open>Errors come from comparisons\<close>

lemma asc_run_py_Inl: "asc_run_py lt p xs = Inl e \<Longrightarrow> \<exists>a \<in> set (p # xs). \<exists>b \<in> set (p # xs). lt a b = Inl e"
  by (induction lt p xs rule: asc_run_py.induct) (auto simp: bind_py_eq_Inl split: if_splits)

lemma desc_run_py_Inl: "desc_run_py lt p xs = Inl e \<Longrightarrow> \<exists>a \<in> set (p # xs). \<exists>b \<in> set (p # xs). lt a b = Inl e"
  by (induction lt p xs rule: desc_run_py.induct) (auto simp: bind_py_eq_Inl split: if_splits)

lemma count_run_py_Inl:
  assumes "count_run_py lt xs = Inl e"
  shows "\<exists>a \<in> set xs. \<exists>b \<in> set xs. lt a b = Inl e"
proof (cases "(lt, xs)" rule: count_run_py.cases)
  case (3 lt' x y zs)
  then show ?thesis
    using assms asc_run_py_Inl [of lt x "y # zs" e] desc_run_py_Inl [of lt x "y # zs" e]
    by (auto simp: bind_py_eq_Inl split: if_splits simp del: asc_run_py.simps desc_run_py.simps)
qed (use assms in auto)

lemma bin_pos_py_Inl: "bin_pos_py lt x ys l r = Inl e \<Longrightarrow> r \<le> length ys \<Longrightarrow> \<exists>b \<in> set ys. lt x b = Inl e"
proof (induction "r - l" arbitrary: l r rule: less_induct)
  case less
  have lr: "l < r" using less.prems(1) by (subst (asm) bin_pos_py.simps) (auto split: if_splits)
  define q where "q = l + (r - l) div 2"
  have q: "l \<le> q" "q < r" using lr by (auto simp: q_def)
  have "lt x (ys ! q) = Inl e \<or> bin_pos_py lt x ys l q = Inl e \<or> bin_pos_py lt x ys (Suc q) r = Inl e"
    using less.prems(1) lr unfolding bin_pos_py.simps [of lt x ys l r] by (auto simp: Let_def bind_py_eq_Inl q_def split: if_splits)
  then show ?case using less.hyps [of q l] less.hyps [of r "Suc q"] less.prems(2) q nth_mem [of q ys] by auto
qed

lemma insert_all_py_Inl:
  "insert_all_py lt ys xs = Inl e \<Longrightarrow> \<exists>a \<in> set ys \<union> set xs. \<exists>b \<in> set ys \<union> set xs. lt a b = Inl e"
proof (induction xs arbitrary: ys)
  case (Cons x xs)
  show ?case
  proof (cases "bin_insert_py lt ys x")
    case (Inl e')
    then show ?thesis
      using Cons.prems bin_pos_py_Inl [of lt x ys 0 "length ys" e] by (auto simp: bin_insert_py_def bind_py_eq_Inl)
  next
    case (Inr zs)
    then have "set zs = insert x (set ys)"
      by (auto simp: bin_insert_py_def bind_py_eq_Inr simp flip: set_append [of "take _ ys" "drop _ ys"])
    then have "set zs \<union> set xs = set ys \<union> set (x # xs)" by auto
    moreover have "insert_all_py lt zs xs = Inl e" using Cons.prems Inr by simp
    ultimately show ?thesis using Cons.IH [of zs] by simp
  qed
qed simp

lemma sort_py_Inl:
  assumes "sort_py lt xs = Inl e"
  shows "\<exists>a \<in> set xs. \<exists>b \<in> set xs. lt a b = Inl e"
proof (cases "count_run_py lt xs")
  case (Inl e')
  then show ?thesis using assms count_run_py_Inl [of lt xs] by (simp add: sort_py_def)
next
  case (Inr rr)
  obtain run rest where rr: "rr = (run, rest)" by fastforce
  have "set run \<union> set rest = set xs"
    using arg_cong [OF conjunct1 [OF count_run_py_Inr [OF Inr [unfolded rr]]], of set_mset] by simp
  then show ?thesis using assms insert_all_py_Inl [of lt run rest e] Inr rr by (simp add: sort_py_def)
qed

end
