(* ===== verification/Aggregate.thy ===== *)
theory Aggregate
  imports PyStatistics PyCsv PySortErr
begin

text \<open>
  \<open>scripts/aggregate.py\<close>: per-trial benchmark rows are grouped by configuration and each group
  is summarised. The input file is its text, the output file the list of rows handed to the
  CSV writer, and what the script prints is a list of structured messages.
\<close>

section \<open>Columns\<close>

definition NON_KEY_COLUMNS :: "string list" where
  "NON_KEY_COLUMNS =
     [''total_ops'', ''read_ops'', ''write_ops'', ''ops_s'', ''ns_op'',
      ''fairness_min'', ''fairness_max'', ''fairness_ratio'',
      ''gets'', ''puts'', ''removes'', ''hostname'', ''seconds'']"

definition METRICS :: "string list" where
  "METRICS = [''ops_s'', ''ns_op'', ''fairness_ratio'']"

section \<open>Numbers\<close>

definition replace_char :: "char \<Rightarrow> char \<Rightarrow> string \<Rightarrow> string" where
  \<comment> \<open>\<open>s.replace(a, b)\<close> for single characters\<close>
  "replace_char a b s = map (\<lambda>c. if c = a then b else c) s"

definition parse_num :: "string option \<Rightarrow> flt option" where
  "parse_num s =
     (case s of
        None \<Rightarrow> None
      | Some t \<Rightarrow> if t = [] then None else py_float (replace_char CHR '','' CHR ''.'' t))"

definition fmt_num :: "flt option \<Rightarrow> string" where
  "fmt_num v =
     (case v of
        None \<Rightarrow> ''''
      | Some x \<Rightarrow> if x = NaN then '''' else replace_char CHR ''.'' CHR '','' (format_g6 x))"

definition cov_pct :: "flt list \<Rightarrow> flt option py" where
  "cov_pct values =
     (if length values < 2 then Inr None
      else bind_py (fmean values) (\<lambda>m.
        if is_zero m then Inr None
        else bind_py (stdev values) (\<lambda>sd.
          bind_py (fdiv (fmul (Fin 100) sd) m) (\<lambda>c. Inr (Some c)))))"

section \<open>One metric of one group\<close>

record summary =
  med :: flt
  mean :: flt
  p25 :: flt
  p75 :: flt
  vmin :: flt
  vmax :: flt
  cov :: "flt option"

text \<open>The statistics of the parsed values of a metric; the caller has checked there is one.\<close>

definition summarize :: "flt list \<Rightarrow> summary py" where
  "summarize vals =
     (let vals_sorted = fsorted vals; n = length vals_sorted
      in bind_py (median vals_sorted) (\<lambda>md.
         bind_py (fmean vals_sorted) (\<lambda>mn.
         bind_py (if 4 \<le> n then bind_py (quantiles vals_sorted 4) (\<lambda>q. Inr (q ! 0))
                  else Inr (vals_sorted ! 0)) (\<lambda>lo.
         bind_py (if 4 \<le> n then bind_py (quantiles vals_sorted 4) (\<lambda>q. Inr (q ! 2))
                  else Inr (vals_sorted ! (n - 1))) (\<lambda>hi.
         bind_py (cov_pct vals_sorted) (\<lambda>cv.
           Inr \<lparr>med = md, mean = mn, p25 = lo, p75 = hi,
                vmin = vals_sorted ! 0, vmax = vals_sorted ! (n - 1), cov = cv\<rparr>))))))"

definition summary_cells :: "summary \<Rightarrow> string list" where
  "summary_cells s =
     [fmt_num (Some (med s)), fmt_num (Some (mean s)), fmt_num (Some (p25 s)), fmt_num (Some (p75 s)),
      fmt_num (Some (vmin s)), fmt_num (Some (vmax s)), fmt_num (cov s)]"

definition row_get :: "csv_row \<Rightarrow> string \<Rightarrow> string option" where
  \<comment> \<open>\<open>row.get(c, "")\<close>; the value itself may be \<open>None\<close>\<close>
  "row_get row c = (case map_of row c of None \<Rightarrow> Some '''' | Some v \<Rightarrow> v)"

definition metric_values :: "string \<Rightarrow> csv_row list \<Rightarrow> flt list" where
  "metric_values m rows = List.map_filter (\<lambda>r. parse_num (row_get r m)) rows"

definition metric_summary :: "csv_row list \<Rightarrow> string \<Rightarrow> summary option py" where
  "metric_summary rows m =
     (let vals = metric_values m rows
      in if vals = [] then Inr None else bind_py (summarize vals) (\<lambda>s. Inr (Some s)))"

definition metric_cells :: "summary option \<Rightarrow> string list" where
  "metric_cells s = (case s of None \<Rightarrow> replicate 7 '''' | Some s \<Rightarrow> summary_cells s)"

section \<open>Groups\<close>

type_synonym group_key = "string option list"
type_synonym groups = "(group_key, csv_row list) dict"

definition group_key_of :: "string list \<Rightarrow> csv_row \<Rightarrow> group_key" where
  "group_key_of key_cols row = map (row_get row) key_cols"

definition group_rows :: "string list \<Rightarrow> csv_row list \<Rightarrow> groups" where
  "group_rows key_cols rows =
     fold (\<lambda>row. setdefault_append (group_key_of key_cols row) row) rows []"

text \<open>
  Sorting the groups compares their keys as tuples: the first position at which they differ
  decides, and comparing \<open>None\<close> with a string there raises. The rows of two groups are never compared, since
  their keys differ.
\<close>

fun key_lt :: "group_key \<Rightarrow> group_key \<Rightarrow> bool py" where
  "key_lt [] (b # bs) = Inr True"
| "key_lt (a # as) (b # bs) =
     (if a = b then key_lt as bs else (case (a, b) of (Some x, Some y) \<Rightarrow> Inr (x < y) | _ \<Rightarrow> Inl TypeError))"
| "key_lt _ [] = Inr False"

definition sorted_groups :: "groups \<Rightarrow> groups py" where
  "sorted_groups gs = sort_py (\<lambda>a b. key_lt (fst a) (fst b)) gs"

section \<open>The whole run\<close>

datatype message =
    NoHeader
  | NoDataRows
  | NoMetricColumn
  | Wrote nat
  | WarnCount nat
  | WarnGroup flt nat "(string \<times> string) list"
  | AndMore nat
  | NotFound

text \<open>
  What a call leaves behind: the rows handed to the writer (\<open>None\<close> when the output file is never
  opened), the value returned or the exception that escaped, and the messages printed. An exception
  in the middle leaves the rows written so far in the file.
\<close>

record run =
  written :: "string list list option"
  outcome :: "int py"
  messages :: "message list"

record noisy =
  noisy_key :: group_key
  noisy_cov :: flt
  noisy_n :: nat

definition key_cell :: "string option \<Rightarrow> string" where
  "key_cell v = (case v of None \<Rightarrow> '''' | Some s \<Rightarrow> s)"

definition out_columns :: "string list \<Rightarrow> string list \<Rightarrow> string list" where
  "out_columns key_cols metric_cols =
     key_cols @ [''n''] @
     concat (map (\<lambda>m. map (\<lambda>s. m @ s)
       [''_median'', ''_mean'', ''_p25'', ''_p75'', ''_min'', ''_max'', ''_cov_pct'']) metric_cols)"

text \<open>The row of a group, and the warning its throughput may give rise to.\<close>

definition noise_of :: "group_key \<Rightarrow> csv_row list \<Rightarrow> flt \<Rightarrow> string \<Rightarrow> summary option \<Rightarrow> noisy list" where
  "noise_of key rows cov_warn m s =
     (case Option.bind s cov of
        None \<Rightarrow> []
      | Some c \<Rightarrow>
          if m = ''ops_s'' \<and> fless cov_warn c
          then [\<lparr>noisy_key = key, noisy_cov = c, noisy_n = length (metric_values m rows)\<rparr>] else [])"

definition group_output ::
  "string list \<Rightarrow> flt \<Rightarrow> group_key \<times> csv_row list \<Rightarrow> (string list \<times> noisy list) py" where
  "group_output metric_cols cov_warn g =
     (case g of (key, rows) \<Rightarrow>
        bind_py (map_py (metric_summary rows) metric_cols) (\<lambda>ss.
          Inr (map key_cell key @ [show_nat (length rows)] @ concat (map metric_cells ss),
            concat (map (\<lambda>(m, s). noise_of key rows cov_warn m s) (zip metric_cols ss)))))"

definition warn_line :: "string list \<Rightarrow> noisy \<Rightarrow> message" where
  "warn_line key_cols w =
     WarnGroup (noisy_cov w) (noisy_n w)
       (map (\<lambda>(k, v). (k, key_cell v))
         (filter (\<lambda>(k, v). key_cell v \<noteq> '''') (zip key_cols (noisy_key w))))"

definition warnings :: "string list \<Rightarrow> noisy list \<Rightarrow> message list" where
  "warnings key_cols high_cov =
     (if high_cov = [] then []
      else WarnCount (length high_cov) #
        map (warn_line key_cols)
          (take 20 (py_sort (\<lambda>a b. fless (noisy_cov b) (noisy_cov a)) high_cov)) @
        (if 20 < length high_cov then [AndMore (length high_cov - 20)] else []))"

definition fail :: "message \<Rightarrow> run" where
  "fail m = \<lparr>written = None, outcome = Inr 2, messages = [m]\<rparr>"

definition key_columns :: "string list \<Rightarrow> string list" where
  "key_columns all_cols = filter (\<lambda>c. c \<notin> set NON_KEY_COLUMNS) all_cols"

definition metric_columns :: "string list \<Rightarrow> string list" where
  "metric_columns all_cols = filter (\<lambda>c. c \<in> set all_cols) METRICS"

text \<open>The loop over the sorted groups: the rows written, and the noisy groups collected.\<close>

fun emit :: "string list \<Rightarrow> flt \<Rightarrow> groups \<Rightarrow> string list list \<times> noisy list py" where
  "emit metric_cols cov_warn [] = ([], Inr [])"
| "emit metric_cols cov_warn (g # gs) =
     (case group_output metric_cols cov_warn g of
        Inl e \<Rightarrow> ([], Inl e)
      | Inr (row, noise) \<Rightarrow>
          (case emit metric_cols cov_warn gs of
             (rows, res) \<Rightarrow> (row # rows, bind_py res (\<lambda>ns. Inr (noise @ ns)))))"

definition write_groups :: "string list \<Rightarrow> string list \<Rightarrow> flt \<Rightarrow> groups \<Rightarrow> run" where
  "write_groups key_cols metric_cols cov_warn groups =
     (let header = out_columns key_cols metric_cols
      in case sorted_groups groups of
           Inl e \<Rightarrow> \<lparr>written = Some [header], outcome = Inl e, messages = []\<rparr>
         | Inr gs \<Rightarrow>
             (case emit metric_cols cov_warn gs of
                (rows, Inl e) \<Rightarrow> \<lparr>written = Some (header # rows), outcome = Inl e, messages = []\<rparr>
              | (rows, Inr high_cov) \<Rightarrow>
                  \<lparr>written = Some (header # rows), outcome = Inr 0,
                   messages = Wrote (length groups) # warnings key_cols high_cov\<rparr>))"

definition aggregate :: "string \<Rightarrow> flt \<Rightarrow> run" where
  "aggregate txt cov_warn =
     (case dict_reader txt of
        Inl e \<Rightarrow> \<lparr>written = None, outcome = Inl e, messages = []\<rparr>
      | Inr (None, rows) \<Rightarrow> fail NoHeader
      | Inr (Some all_cols, rows) \<Rightarrow>
          if rows = [] then fail NoDataRows
          else if metric_columns all_cols = [] then fail NoMetricColumn
          else write_groups (key_columns all_cols) (metric_columns all_cols) cov_warn
                 (group_rows (key_columns all_cols) rows))"

text \<open>The command line: the output defaults to the input with its suffix replaced.\<close>

type_synonym path = "string list"

definition with_suffix :: "string \<Rightarrow> string \<Rightarrow> string" where
  \<comment> \<open>a suffix starts at the last dot, which is neither the first nor the last character\<close>
  "with_suffix name suffix =
     (let tail = takeWhile (\<lambda>c. c \<noteq> CHR ''.'') (rev name);
          stem = rev (drop (Suc (length tail)) (rev name))
      in if CHR ''.'' \<in> set name \<and> tail \<noteq> [] \<and> stem \<noteq> [] then stem @ suffix else name @ suffix)"

definition agg_main ::
  "(path \<rightharpoonup> string) \<Rightarrow> path \<Rightarrow> path option \<Rightarrow> flt \<Rightarrow> run \<times> (path \<rightharpoonup> string)" where
  "agg_main fs input out cov_warn =
     (case fs input of
        None \<Rightarrow> (fail NotFound, fs)
      | Some txt \<Rightarrow>
          (let target = (case out of
                 Some p \<Rightarrow> p
               | None \<Rightarrow> butlast input @ [with_suffix (last input) ''.agg.csv'']);
               r = aggregate txt cov_warn
           in (r, case written r of
                    None \<Rightarrow> fs
                  | Some rows \<Rightarrow> fs(target \<mapsto> concat (map writerow rows)))))"

section \<open>The summary of a metric\<close>

text \<open>Sorting sorted data again leaves the values in place.\<close>

lemma fsorted_again:
  assumes "\<forall>x \<in> set xs. is_finite x"
  shows "map fval (fsorted (fsorted xs)) = map fval (fsorted xs)"
proof -
  have "sort (map fval xs) = map fval (fsorted xs)"
    by (rule properties_for_sort) (simp_all add: assms fsorted_sorted)
  moreover have "sort (map fval xs) = map fval (fsorted (fsorted xs))"
    by (rule properties_for_sort) (simp_all add: assms fsorted_sorted)
  ultimately show ?thesis by simp
qed

lemma fsorted_again_nth:
  assumes "\<forall>x \<in> set xs. moderate x" and "i < length xs"
  shows "fval (fsorted (fsorted xs) ! i) = fval (fsorted xs ! i)"
  using arg_cong [OF fsorted_again [of xs], of "\<lambda>ys. ys ! i"] assms by (simp add: moderate_def)

lemma cov_pct_total:
  assumes "\<forall>x \<in> set xs. moderate x" and "xs \<noteq> []" and "length xs \<le> 2 ^ 20"
  shows "\<exists>c. cov_pct xs = Inr c"
proof (cases "length xs < 2")
  case False
  then obtain m sd where m: "fmean xs = Inr m" "is_finite m" and sd: "stdev xs = Inr sd"
    using fmean_rounded [OF assms(2,1,3)] stdev_total [OF assms(1)] by auto
  have "\<exists>z. fdiv (fmul (Fin 100) sd) m = Inr z" if "\<not> is_zero m"
    using that by (auto simp: fdiv_def Let_def)
  then show ?thesis using False m sd by (auto simp: cov_pct_def)
qed (auto simp: cov_pct_def)

lemma summarize_values:
  assumes mod: "\<forall>x \<in> set xs. moderate x" and ne: "xs \<noteq> []" and len: "length xs \<le> 2 ^ 20"
  shows "\<exists>s. summarize xs = Inr s \<and>
    vmin s = fsorted xs ! 0 \<and> vmax s = fsorted xs ! (length xs - 1) \<and>
    fmean (fsorted xs) = Inr (mean s) \<and> cov_pct (fsorted xs) = Inr (cov s) \<and>
    fval (vmin s) \<le> fval (p25 s) \<and> fval (p25 s) \<le> fval (med s) \<and>
    fval (med s) \<le> fval (p75 s) \<and> fval (p75 s) \<le> fval (vmax s)"
proof -
  let ?ys = "fsorted xs" and ?n = "length xs"
  have ys: "\<forall>x \<in> set ?ys. moderate x" "?ys \<noteq> []" "length ?ys \<le> 2 ^ 20" using assms by auto
  have n: "0 < ?n" using ne by simp
  note again = fsorted_again_nth [OF mod]
  obtain md where md: "median ?ys = Inr md" "fval (?ys ! ((?n - 1) div 2)) \<le> fval md"
      "fval md \<le> fval (?ys ! (?n div 2))"
    using median_middle [OF ys(2,1)] n by (auto simp: again)
  obtain mn where mn: "fmean ?ys = Inr mn" using fmean_rounded [OF ys(2,1,3)] by auto
  obtain cv where cv: "cov_pct ?ys = Inr cv" using cov_pct_total [OF ys] by auto
  show ?thesis
  proof (cases "4 \<le> ?n")
    case True
    then have "4 \<le> length ?ys" by simp
    from quartiles_between [OF ys(1) this] obtain a b c where q: "quantiles ?ys 4 = Inr [a, b, c]"
        "fval (?ys ! 0) \<le> fval a" "fval a \<le> fval (?ys ! ((?n - 1) div 2))"
        "fval (?ys ! (?n div 2)) \<le> fval c" "fval c \<le> fval (?ys ! (?n - 1))"
      using n by (auto simp: again)
    then show ?thesis using True md mn cv by (auto simp: summarize_def Let_def)
  next
    case False
    have "(?n - 1) div 2 < ?n" "?n div 2 \<le> ?n - 1" using n by linarith+
    then have "fval (?ys ! 0) \<le> fval (?ys ! ((?n - 1) div 2))" "fval (?ys ! (?n div 2)) \<le> fval (?ys ! (?n - 1))"
      using n by (auto intro!: fsorted_nth_mono [OF mod])
    then show ?thesis using False md mn cv by (auto simp: summarize_def Let_def)
  qed
qed

lemma fsorted_ends:
  assumes mod: "\<forall>x \<in> set xs. moderate x" and ne: "xs \<noteq> []"
  shows "fval (fsorted xs ! 0) = Min (fval ` set xs)"
    and "fval (fsorted xs ! (length xs - 1)) = Max (fval ` set xs)"
proof -
  have n: "0 < length xs" using ne by simp
  have at: "\<exists>i < length xs. x = fsorted xs ! i" if "x \<in> set xs" for x
    using that by (metis in_set_conv_nth length_py_sort set_py_sort)
  have mem: "fsorted xs ! i \<in> set xs" if "i < length xs" for i
    using that by (metis length_py_sort nth_mem set_py_sort)
  have "fval (fsorted xs ! 0) \<le> fval x" "fval x \<le> fval (fsorted xs ! (length xs - 1))" if "x \<in> set xs" for x
    using at [OF that] n by (auto intro!: fsorted_nth_mono [OF mod])
  then show "fval (fsorted xs ! 0) = Min (fval ` set xs)"
    and "fval (fsorted xs ! (length xs - 1)) = Max (fval ` set xs)"
    using mem n by (auto intro!: Min_eqI [symmetric] Max_eqI [symmetric])
qed

text \<open>
  C1. For every non-empty group of values of moderate size the summary is computed without an
  exception, its extremes are the minimum and the maximum of the data, and its five numbers are
  ordered: minimum, first quartile, median, third quartile, maximum. The rounding of the
  interpolations cannot break the order.
\<close>

theorem summarize_ordered:
  assumes "xs \<noteq> []" and "\<forall>x \<in> set xs. moderate x" and "length xs \<le> 2 ^ 20"
  shows "\<exists>s. summarize xs = Inr s \<and>
    fval (vmin s) = Min (fval ` set xs) \<and> fval (vmin s) \<le> fval (p25 s) \<and>
    fval (p25 s) \<le> fval (med s) \<and> fval (med s) \<le> fval (p75 s) \<and>
    fval (p75 s) \<le> fval (vmax s) \<and> fval (vmax s) = Max (fval ` set xs)"
  using summarize_values [OF assms(2,1,3)] fsorted_ends [OF assms(2,1)] by metis

lemma moderate_of_int:
  assumes "\<bar>n\<bar> \<le> 2 ^ 53"
  shows "moderate (Fin (of_int n))"
proof -
  have "of_int \<bar>n\<bar> \<le> (of_int (2 ^ 53) :: rat)" using assms by (simp only: of_int_le_iff)
  then have "\<bar>of_int n\<bar> \<le> pow2 53" by (simp add: pow2_def)
  moreover have "pow2 53 \<le> pow2 1000" unfolding pow2_def by (rule power_increasing) auto
  ultimately have "\<bar>of_int n\<bar> \<le> pow2 1000" by (rule order_trans)
  then show ?thesis
    using rnd_representable [OF representable_of_int [OF assms]] pow2_less_max [of 1000]
    by (auto simp: moderate_def intro: le_less_trans)
qed

lemma moderate_numeral:
  "numeral w \<le> (2 ^ 53 :: int) \<Longrightarrow> moderate (Fin (numeral w))"
  using moderate_of_int [of "numeral w"] by simp

theorem summarize_ordered_witness:
  "\<exists>s. summarize (map Fin [30, 10, 70, 20, 95]) = Inr s \<and>
    fval (vmin s) = Min (fval ` set (map Fin [30, 10, 70, 20, 95])) \<and> fval (vmin s) \<le> fval (p25 s) \<and>
    fval (p25 s) \<le> fval (med s) \<and> fval (med s) \<le> fval (p75 s) \<and>
    fval (p75 s) \<le> fval (vmax s) \<and> fval (vmax s) = Max (fval ` set (map Fin [30, 10, 70, 20, 95]))"
  by (rule summarize_ordered) (auto intro!: moderate_numeral)

section \<open>Numbers written and read back\<close>

lemma replace_char_eq_Nil [simp]: "replace_char a b s = [] \<longleftrightarrow> s = []"
  by (simp add: replace_char_def)

lemma replace_char_back:
  "b \<notin> set s \<Longrightarrow> replace_char b a (replace_char a b s) = s"
  by (induction s) (auto simp: replace_char_def)

lemma comma_not_in: "list_all plain s \<Longrightarrow> CHR '','' \<notin> set s"
  using plain_chars(3) by (auto simp: list_all_iff)

lemma format_g6_plain: "list_all plain (format_g6 (Fin r))" "format_g6 (Fin r) \<noteq> []"
  using plain_show_g6 [of r] plain_show_g6 [of "- r"]
  by (auto simp: plain_def is_digit_def not_less)

lemma parse_fmt_num: "parse_num (Some (fmt_num (Some (Fin r)))) = py_float (format_g6 (Fin r))"
  using format_g6_plain [of r] replace_char_back [OF comma_not_in [OF format_g6_plain(1) [of r]], of "CHR ''.''"]
  by (simp add: parse_num_def fmt_num_def del: format_g6.simps)

text \<open>
  C7. A finite value written to the summary and read back by the parser of the same script is the
  double nearest to a decimal of six significant digits, a multiple of the unit of the sixth digit of the value, that is
  within half of that unit of the value; zero is read back as zero.
\<close>

theorem fmt_num_roundtrip:
  "(r = 0 \<longrightarrow> parse_num (Some (fmt_num (Some (Fin r)))) = Some (Fin 0)) \<and>
   (\<forall>x. 10 powi x \<le> \<bar>r\<bar> \<longrightarrow> \<bar>r\<bar> < 10 powi (x + 1) \<longrightarrow>
     (\<exists>m :: int. parse_num (Some (fmt_num (Some (Fin r)))) = Some (fl (of_int m * 10 powi (x - 5))) \<and>
        \<bar>of_int m * 10 powi (x - 5) - r\<bar> \<le> 10 powi (x - 5) / 2))"
proof (intro conjI allI impI)
  assume "r = 0"
  moreover have "py_float ''0'' = Some (Fin 0)" by code_simp
  ultimately show "parse_num (Some (fmt_num (Some (Fin r)))) = Some (Fin 0)" unfolding parse_fmt_num by simp
next
  fix x :: int
  assume x: "10 powi x \<le> \<bar>r\<bar>" "\<bar>r\<bar> < 10 powi (x + 1)"
  have "0 < \<bar>r\<bar>" using x(1) zero_less_power_int [of "10 :: rat" x] by linarith
  then have r: "0 < \<bar>r\<bar>" "r \<noteq> 0" by auto
  obtain m :: int where m: "dec6 \<bar>r\<bar> = of_int m * 10 powi (x - 5)" "\<bar>dec6 \<bar>r\<bar> - \<bar>r\<bar>\<bar> \<le> 10 powi (x - 5) / 2"
    using dec6_error [OF x] by blast
  show "\<exists>m :: int. parse_num (Some (fmt_num (Some (Fin r)))) = Some (fl (of_int m * 10 powi (x - 5))) \<and>
        \<bar>of_int m * 10 powi (x - 5) - r\<bar> \<le> 10 powi (x - 5) / 2"
  proof (cases "0 < r")
    case True
    then show ?thesis unfolding parse_fmt_num using py_float_show_g6(1) [OF r(1)] m by (intro exI [of _ m]) auto
  next
    case False
    then have neg: "\<bar>r\<bar> = - r" "r < 0" using r(2) by simp_all
    moreover have "\<bar>of_int (- m) * 10 powi (x - 5) - r\<bar> = \<bar>of_int m * 10 powi (x - 5) - \<bar>r\<bar>\<bar>"
      using abs_minus_commute [of "of_int (- m) * 10 powi (x - 5)" r] neg(1) by (simp add: add.commute)
    ultimately show ?thesis unfolding parse_fmt_num using py_float_show_g6(2) [OF r(1)] m by (intro exI [of _ "- m"]) auto
  qed
qed

theorem fmt_num_roundtrip_witness:
  "\<exists>m :: int. parse_num (Some (fmt_num (Some (Fin (999996 / 100000))))) = Some (fl (of_int m * 10 powi (0 - 5))) \<and>
     \<bar>of_int m * 10 powi (0 - 5) - 999996 / 100000\<bar> \<le> (10 powi (0 - 5) / 2 :: rat)"
proof -
  have "(10 :: rat) powi 0 \<le> \<bar>999996 / 100000\<bar>" "\<bar>999996 / 100000\<bar> < (10 :: rat) powi (0 + 1)" by simp_all
  then show ?thesis using conjunct2 [OF fmt_num_roundtrip [of "999996 / 100000"], THEN spec [of _ 0]] by blast
qed

section \<open>Groups\<close>

text \<open>
  The groups partition the rows: keys are distinct, the group of a key holds exactly the rows
  with that key in file order, a key without rows has no group, and no row is lost or duplicated.
\<close>

theorem group_rows_partition:
  "dict_wf (group_rows ks rows) \<and>
   (\<forall>k. map_of (group_rows ks rows) k =
      (if filter (\<lambda>r. group_key_of ks r = k) rows = [] then None
       else Some (filter (\<lambda>r. group_key_of ks r = k) rows))) \<and>
   mset (concat (map snd (group_rows ks rows))) = mset rows"
  unfolding group_rows_def
  by (simp add: map_of_grouping mset_grouping dict_wf_grouping dict_wf_def [of "[]"])

lemma group_rows_get:
  "map_of (group_rows ks rows) k = Some g \<longleftrightarrow>
     g = filter (\<lambda>r. group_key_of ks r = k) rows \<and> k \<in> group_key_of ks ` set rows"
  by (auto simp: group_rows_def map_of_grouping filter_empty_conv)

lemma group_rows_in:
  "(k, g) \<in> set (group_rows ks rows) \<longleftrightarrow>
     g = filter (\<lambda>r. group_key_of ks r = k) rows \<and> k \<in> group_key_of ks ` set rows"
  using group_rows_get [of ks rows k g] dict_wf_grouping [of "[]" "group_key_of ks" rows]
  by (simp add: group_rows_def dict_wf_def)

lemma group_rows_keys: "fst ` set (group_rows ks rows) = group_key_of ks ` set rows"
proof (intro equalityI subsetI)
  fix k assume "k \<in> fst ` set (group_rows ks rows)"
  then obtain g where "(k, g) \<in> set (group_rows ks rows)" by auto
  then show "k \<in> group_key_of ks ` set rows" by (simp add: group_rows_in)
next
  fix k assume "k \<in> group_key_of ks ` set rows"
  then have "(k, filter (\<lambda>r. group_key_of ks r = k) rows) \<in> set (group_rows ks rows)"
    by (simp add: group_rows_in)
  then show "k \<in> fst ` set (group_rows ks rows)" by force
qed

lemma distinct_group_keys: "distinct (map fst (group_rows ks rows))"
  using dict_wf_grouping [of "[]" "group_key_of ks" rows] by (simp add: group_rows_def dict_wf_def)

lemma length_group_key [simp]: "length (group_key_of ks r) = length ks"
  by (simp add: group_key_of_def)

section \<open>The order of the output\<close>

text \<open>Two keys that cannot be compared: where they first differ, one has no value.\<close>

fun key_clash :: "group_key \<Rightarrow> group_key \<Rightarrow> bool" where
  "key_clash (a # as) (b # bs) = (if a = b then key_clash as bs else a = None \<or> b = None)"
| "key_clash _ _ = False"

lemma key_lt_Inl: "key_lt a b = Inl e \<longleftrightarrow> e = TypeError \<and> key_clash a b"
  by (induction a b rule: key_lt.induct) (auto split: option.splits)

lemma key_clash_sym: "key_clash a b \<longleftrightarrow> key_clash b a"
  by (induction a b rule: key_clash.induct) auto

lemma key_clash_same [simp]: "\<not> key_clash a a"
  by (induction a) auto

lemma key_lt_trans: "key_lt a b = Inr True \<Longrightarrow> key_lt b c = Inr True \<Longrightarrow> key_lt a c = Inr True"
proof (induction a b arbitrary: c rule: key_lt.induct)
  case (1 b bs)
  then show ?case by (cases c) auto
next
  case (2 a as b bs)
  then show ?case by (cases c) (auto split: if_splits option.splits)
qed auto

lemma key_lt_total: "length a = length b \<Longrightarrow> key_lt b a = Inr False \<Longrightarrow> a \<noteq> b \<Longrightarrow> key_lt a b = Inr True"
  by (induction a b rule: key_lt.induct) (auto split: if_splits option.splits)

text \<open>Keys compare as the cells written for them.\<close>

lemma key_lt_cells: "length a = length b \<Longrightarrow> key_lt a b = Inr True \<Longrightarrow> map key_cell a < map key_cell b"
proof (induction a b rule: key_lt.induct)
  case (2 a as b bs)
  then show ?case by (cases "a = b") (auto simp: key_cell_def split: option.splits)
qed auto

lemma sorted_groups_strict:
  assumes "sorted_groups gs = Inr ss" and "\<forall>g \<in> set gs. length (fst g) = n" and "distinct (map fst gs)"
  shows "mset ss = mset gs" and "sorted_wrt (\<lambda>a b. key_lt (fst a) (fst b) = Inr True) ss"
proof -
  let ?lt = "\<lambda>a b. key_lt (fst a) (fst b)"
  show m: "mset ss = mset gs" using sort_py_Inr [of ?lt gs ss] assms(1) by (simp add: sorted_groups_def)
  have "distinct (map fst ss)" using assms(3) m by (metis mset_eq_imp_distinct_iff mset_map)
  moreover have "\<forall>g \<in> set ss. length (fst g) = n" using assms(2) mset_eq_setD [OF m] by simp
  moreover have "successively (compared ?lt) ss" using sort_py_Inr [of ?lt gs ss] assms(1) by (simp add: sorted_groups_def)
  ultimately have "successively (\<lambda>a b. ?lt a b = Inr True) ss"
  proof (induction ss rule: induct_list012)
    case (3 a b ss)
    have "?lt a b = Inr True"
      using 3 key_lt_total [of "fst a" "fst b"] by (auto simp: compared_def)
    then show ?case using 3 by simp
  qed auto
  then show "sorted_wrt (\<lambda>a b. ?lt a b = Inr True) ss"
    using successively_iff_sorted_wrt_strong [of ss "\<lambda>a b. ?lt a b = Inr True"] key_lt_trans by blast
qed

lemma sorted_groups_order:
  assumes gs: "sorted_groups gs = Inr ss" and len: "\<forall>g \<in> set gs. length (fst g) = n"
    and dist: "distinct (map fst gs)"
  shows "mset ss = mset gs" and "sorted_wrt (<) (map (\<lambda>g. map key_cell (fst g)) ss)"
proof -
  note strict = sorted_groups_strict [OF assms]
  show "mset ss = mset gs" by (rule strict(1))
  then have "set ss = set gs" by (rule mset_eq_setD)
  then have "sorted_wrt (\<lambda>a b. map key_cell (fst a) < map key_cell (fst b)) ss"
    using sorted_wrt_mono_rel [OF _ strict(2)] key_lt_cells len by (metis (no_types, lifting))
  then show "sorted_wrt (<) (map (\<lambda>g. map key_cell (fst g)) ss)" by (simp add: sorted_wrt_map)
qed

text \<open>The sort meets a pair that cannot be compared exactly if there is one.\<close>

lemma sorted_groups_raises:
  assumes "\<forall>g \<in> set gs. length (fst g) = n" and "distinct (map fst gs)"
  shows "(\<exists>a \<in> set gs. \<exists>b \<in> set gs. key_clash (fst a) (fst b)) \<longleftrightarrow> sorted_groups gs = Inl TypeError"
    and "sorted_groups gs = Inl e \<Longrightarrow> e = TypeError"
proof -
  show e: "e = TypeError" if "sorted_groups gs = Inl e" for e
    using sort_py_Inl [of "\<lambda>a b. key_lt (fst a) (fst b)" gs e] that by (auto simp: sorted_groups_def key_lt_Inl)
  have "\<not> key_clash (fst a) (fst b)" if ss: "sorted_groups gs = Inr ss" and ab: "a \<in> set gs" "b \<in> set gs" for ss a b
  proof -
    note strict = sorted_groups_strict [OF ss assms]
    have set: "set ss = set gs" using mset_eq_setD [OF strict(1)] .
    then obtain i j where ij: "i < length ss" "j < length ss" "a = ss ! i" "b = ss ! j"
      using ab unfolding in_set_conv_nth by (metis in_set_conv_nth)
    have lt: "key_lt (fst (ss ! k)) (fst (ss ! l)) = Inr True" if "k < l" "l < length ss" for k l
      using sorted_wrt_nth_less [OF strict(2) that] .
    have no: "\<not> key_clash (fst (ss ! k)) (fst (ss ! l))" if "k < l" "l < length ss" for k l
      using lt [OF that] key_lt_Inl [of "fst (ss ! k)" "fst (ss ! l)" TypeError] by auto
    show ?thesis
      using no [of i j] no [of j i] ij key_clash_sym [of "fst a" "fst b"] by (cases i j rule: linorder_cases) auto
  qed
  moreover have "\<exists>a \<in> set gs. \<exists>b \<in> set gs. key_clash (fst a) (fst b)" if "sorted_groups gs = Inl TypeError"
    using sort_py_Inl [of "\<lambda>a b. key_lt (fst a) (fst b)" gs TypeError] that by (auto simp: sorted_groups_def key_lt_Inl)
  ultimately show "(\<exists>a \<in> set gs. \<exists>b \<in> set gs. key_clash (fst a) (fst b)) \<longleftrightarrow> sorted_groups gs = Inl TypeError"
    using e by (cases "sorted_groups gs") auto
qed

lemma set_sorted_groups: "sorted_groups gs = Inr ss \<Longrightarrow> set ss = set gs"
  using sort_py_Inr mset_eq_setD unfolding sorted_groups_def by metis

section \<open>The rows of the output\<close>

lemma group_output_row:
  assumes "group_output ms w (k, g) = Inr (row, ns)"
  shows "\<exists>cells. row = map key_cell k @ show_nat (length g) # cells \<and> length cells = 7 * length ms"
proof -
  have seven: "length (metric_cells x) = 7" for x
    by (cases x) (simp_all add: metric_cells_def summary_cells_def)
  obtain ss where ss: "map_py (metric_summary g) ms = Inr ss"
      "row = map key_cell k @ show_nat (length g) # concat (map metric_cells ss)"
    using assms by (auto simp: group_output_def bind_py_eq_Inr)
  have "length (concat (map metric_cells ss)) = 7 * length ss"
    by (induction ss) (simp_all add: seven)
  then show ?thesis using ss map_py_length [OF ss(1)] by auto
qed

lemma length_out_columns: "length (out_columns ks ms) = length ks + 1 + 7 * length ms"
  by (induction ms) (simp_all add: out_columns_def)

lemma emit_rows:
  "emit ms w gs = (rows, Inr ns) \<Longrightarrow>
     \<exists>outs. list_all2 (\<lambda>g out. group_output ms w g = Inr out) gs outs \<and>
       rows = map fst outs \<and> ns = concat (map snd outs)"
proof (induction gs arbitrary: rows ns)
  case (Cons g gs)
  obtain row noise where g: "group_output ms w g = Inr (row, noise)"
    using Cons.prems by (cases "group_output ms w g") auto
  obtain rs res where e: "emit ms w gs = (rs, res)" by fastforce
  obtain ms' where m: "res = Inr ms'" "rows = row # rs" "ns = noise @ ms'"
    using Cons.prems by (auto simp: g e bind_py_eq_Inr)
  from Cons.IH [OF e [unfolded m(1)]] obtain outs where
    "list_all2 (\<lambda>g out. group_output ms w g = Inr out) gs outs" "rs = map fst outs" "ms' = concat (map snd outs)"
    by blast
  then show ?case using g m by (intro exI [of _ "(row, noise) # outs"]) simp
qed simp

lemma emit_width:
  "emit ms w gs = (rows, res) \<Longrightarrow> row \<in> set rows \<Longrightarrow>
     \<exists>g \<in> set gs. length row = length (fst g) + 1 + 7 * length ms"
proof (induction gs arbitrary: rows res)
  case (Cons g gs)
  obtain k rs where g: "g = (k, rs)" by fastforce
  show ?case
    using Cons group_output_row [of ms w k rs]
    by (fastforce simp: g split: sum.splits prod.splits)
qed simp

lemma emit_keys:
  assumes "emit ms w gs = (rows, Inr ns)" and "\<forall>g \<in> set gs. length (fst g) = n"
  shows "map (take (Suc n)) rows = map (\<lambda>g. map key_cell (fst g) @ [show_nat (length (snd g))]) gs"
proof -
  obtain outs where outs: "list_all2 (\<lambda>g out. group_output ms w g = Inr out) gs outs" "rows = map fst outs"
    using emit_rows [OF assms(1)] by blast
  from outs(1) have "list_all2 (\<lambda>g out. take (Suc n) (fst out) = map key_cell (fst g) @ [show_nat (length (snd g))]) gs outs"
  proof (rule list.rel_mono_strong)
    fix g out assume "g \<in> set gs" and out: "group_output ms w g = Inr out"
    then have "length (fst g) = n" using assms(2) by simp
    moreover have "group_output ms w (fst g, snd g) = Inr (fst out, snd out)" using out by simp
    ultimately show "take (Suc n) (fst out) = map key_cell (fst g) @ [show_nat (length (snd g))]"
      using group_output_row by fastforce
  qed
  then have "map (\<lambda>out. take (Suc n) (fst out)) outs =
      map (\<lambda>g. map key_cell (fst g) @ [show_nat (length (snd g))]) gs"
    by (induction rule: list_all2_induct) auto
  then show ?thesis by (simp add: outs(2) comp_def)
qed

lemma write_groups_ok:
  assumes "outcome (write_groups ks ms w gs) = Inr 0"
  obtains ss rows ns where "sorted_groups gs = Inr ss" and "emit ms w ss = (rows, Inr ns)"
    and "written (write_groups ks ms w gs) = Some (out_columns ks ms # rows)"
    and "messages (write_groups ks ms w gs) = Wrote (length gs) # warnings ks ns"
  using assms that by (auto simp: write_groups_def Let_def split: sum.splits prod.splits)

lemma aggregate_ok:
  assumes "dict_reader txt = Inr (cols, rows)" and "outcome (aggregate txt w) \<noteq> Inr 2"
  obtains all_cols where "cols = Some all_cols" and "rows \<noteq> []" and "metric_columns all_cols \<noteq> []"
    and "aggregate txt w = write_groups (key_columns all_cols) (metric_columns all_cols) w
      (group_rows (key_columns all_cols) rows)"
  using assms that by (auto simp: aggregate_def fail_def split: option.splits if_splits)

text \<open>
  C2. On success the file holds the header and one row per configuration that occurs in the input,
  in strictly ascending order of the key cells, each followed by the number of input rows with that
  configuration.
\<close>

theorem aggregate_rows:
  assumes "dict_reader txt = Inr (Some cols, rows)" and "outcome (aggregate txt w) = Inr 0"
    and "ks = key_columns cols"
  shows "\<exists>out. written (aggregate txt w) = Some (out_columns ks (metric_columns cols) # out) \<and>
    sorted_wrt (<) (map (take (length ks)) out) \<and>
    take (Suc (length ks)) ` set out =
      (\<lambda>k. map key_cell k @ [show_nat (length (filter (\<lambda>r. group_key_of ks r = k) rows))])
        ` group_key_of ks ` set rows"
proof -
  let ?gs = "group_rows ks rows"
  have "outcome (aggregate txt w) \<noteq> Inr 2" using assms(2) by simp
  from aggregate_ok [OF assms(1) this]
  have run: "aggregate txt w = write_groups ks (metric_columns cols) w ?gs"
    using assms(3) by blast
  then have "outcome (write_groups ks (metric_columns cols) w ?gs) = Inr 0" using assms(2) by simp
  then obtain ss out ns where ss: "sorted_groups ?gs = Inr ss" and e: "emit (metric_columns cols) w ss = (out, Inr ns)"
    and wr: "written (aggregate txt w) = Some (out_columns ks (metric_columns cols) # out)"
    using write_groups_ok run by metis
  have len: "\<forall>g \<in> set ?gs. length (fst g) = length ks"
    using group_rows_keys [of ks rows] by force
  note order = sorted_groups_order [OF ss len distinct_group_keys]
  have set: "set ss = set ?gs" using order(1) by (rule mset_eq_setD)
  have keys: "map (take (Suc (length ks))) out = map (\<lambda>g. map key_cell (fst g) @ [show_nat (length (snd g))]) ss"
    using emit_keys [OF e] len set by simp
  have "map (take (length ks)) out = map (take (length ks)) (map (take (Suc (length ks))) out)"
    by simp
  also have "\<dots> = map (\<lambda>g. map key_cell (fst g)) ss" using len by (simp add: keys set)
  finally have "sorted_wrt (<) (map (take (length ks)) out)" using order(2) by simp
  moreover have "take (Suc (length ks)) ` set out = set (map (take (Suc (length ks))) out)" by simp
  then have "take (Suc (length ks)) ` set out =
      (\<lambda>g. map key_cell (fst g) @ [show_nat (length (snd g))]) ` set ?gs"
    unfolding keys by (simp add: set)
  moreover have "set ?gs = (\<lambda>k. (k, filter (\<lambda>r. group_key_of ks r = k) rows)) ` group_key_of ks ` set rows"
    using group_rows_in [of _ _ ks rows] by auto
  ultimately show ?thesis using wr by (simp add: image_image)
qed

definition sample_csv :: string where
  "sample_csv = concat (map (\<lambda>l. l @ [LF])
     [''lock;threads;ops_s'', ''tas;2;100'', ''mcs;2;50'', ''tas;2;100''])"

definition sample_cols :: "string list" where
  "sample_cols = [''lock'', ''threads'', ''ops_s'']"

definition sample_rows :: "csv_row list" where
  "sample_rows =
     [[(''lock'', Some ''tas''), (''threads'', Some ''2''), (''ops_s'', Some ''100'')],
      [(''lock'', Some ''mcs''), (''threads'', Some ''2''), (''ops_s'', Some ''50'')],
      [(''lock'', Some ''tas''), (''threads'', Some ''2''), (''ops_s'', Some ''100'')]]"

lemma sample_read: "dict_reader sample_csv = Inr (Some sample_cols, sample_rows)"
  by code_simp

lemma sample_outcome: "outcome (aggregate sample_csv (Fin 10)) = Inr 0"
  by code_simp

theorem aggregate_rows_witness:
  "\<exists>out. written (aggregate sample_csv (Fin 10)) =
      Some (out_columns [''lock'', ''threads''] (metric_columns sample_cols) # out) \<and>
    sorted_wrt (<) (map (take (length [''lock'', ''threads''])) out) \<and>
    take (Suc (length [''lock'', ''threads''])) ` set out =
      (\<lambda>k. map key_cell k @ [show_nat (length (filter (\<lambda>r. group_key_of [''lock'', ''threads''] r = k) sample_rows))])
        ` group_key_of [''lock'', ''threads''] ` set sample_rows"
proof (rule aggregate_rows [OF sample_read sample_outcome])
  show "[''lock'', ''threads''] = key_columns sample_cols" by code_simp
qed

lemma written_aggregate:
  assumes "written (aggregate txt w) = Some rows"
  obtains cols data where "dict_reader txt = Inr (Some cols, data)" and "data \<noteq> []"
    and "metric_columns cols \<noteq> []"
    and "aggregate txt w = write_groups (key_columns cols) (metric_columns cols) w
      (group_rows (key_columns cols) data)"
  using assms that by (auto simp: aggregate_def fail_def split: sum.splits option.splits if_splits)

lemma write_groups_width:
  assumes "written (write_groups ks ms w gs) = Some rows" and "\<forall>g \<in> set gs. length (fst g) = length ks"
  shows "list_all (\<lambda>row. length row = length (out_columns ks ms)) rows"
proof (cases "sorted_groups gs")
  case (Inl e)
  then show ?thesis using assms(1) by (auto simp: write_groups_def Let_def)
next
  case (Inr ss)
  obtain out res where e: "emit ms w ss = (out, res)" by fastforce
  have "set ss = set gs" using Inr by (rule set_sorted_groups)
  then have "length row = length (out_columns ks ms)" if "row \<in> set out" for row
    using emit_width [OF e that] assms(2) by (auto simp: length_out_columns)
  then show ?thesis
    using assms(1) Inr e by (auto simp: write_groups_def Let_def list_all_iff split: sum.splits)
qed

text \<open>
  C6. Whatever happens, no file but the target changes, and it changes only if the run got as far
  as opening it. What it then holds is read back by a reader of the same dialect as the rows
  written, all as wide as the header, also when an exception cut the run short.
\<close>

theorem agg_main_file:
  "case agg_main fs input out w of (r, fs') \<Rightarrow>
     (case written r of
        None \<Rightarrow> fs' = fs
      | Some rows \<Rightarrow>
          (\<exists>file. fs' = fs((case out of Some p \<Rightarrow> p
             | None \<Rightarrow> butlast input @ [with_suffix (last input) ''.agg.csv'']) \<mapsto> file) \<and>
             csv_reader file = Inr rows) \<and>
          list_all (\<lambda>row. length row = length (hd rows)) rows)"
proof -
  have "list_all (\<lambda>row. length row = length (hd rows)) rows"
    if w: "written (aggregate t w) = Some rows" for t rows
  proof -
    obtain cols data where run: "aggregate t w = write_groups (key_columns cols) (metric_columns cols) w
        (group_rows (key_columns cols) data)"
      using written_aggregate [OF w] .
    let ?ks = "key_columns cols"
    have len: "\<forall>g \<in> set (group_rows ?ks data). length (fst g) = length ?ks"
      using group_rows_keys [of ?ks data] by force
    have "list_all (\<lambda>row. length row = length (out_columns ?ks (metric_columns cols))) rows"
      using write_groups_width [OF _ len] w run by simp
    moreover have "hd rows = out_columns ?ks (metric_columns cols)"
      using w run by (auto simp: write_groups_def Let_def split: sum.splits prod.splits)
    ultimately show ?thesis by simp
  qed
  then show ?thesis
    by (auto simp: agg_main_def fail_def Let_def csv_roundtrip split: option.splits)
qed

text \<open>
  Given a file, the script returns 2 exactly when the input has no header, no data rows or no metric column,
  and then it has not touched the output; the output is untouched in no other case but a malformed
  CSV file.
\<close>

theorem aggregate_exit:
  "(outcome (aggregate txt w) = Inr 2 \<longleftrightarrow>
      (\<exists>cols rows. dict_reader txt = Inr (cols, rows) \<and>
         (cols = None \<or> rows = [] \<or> metric_columns (the cols) = []))) \<and>
   (written (aggregate txt w) = None \<longleftrightarrow>
      outcome (aggregate txt w) = Inr 2 \<or> (\<exists>e. dict_reader txt = Inl e))"
proof -
  have wg: "written (write_groups ks ms w gs) \<noteq> None" "outcome (write_groups ks ms w gs) \<noteq> Inr 2" for ks ms gs
    by (auto simp: write_groups_def Let_def split: sum.splits prod.splits)
  show ?thesis
  proof (cases "dict_reader txt")
    case (Inr p)
    then show ?thesis using wg
      by (cases p; cases "fst p") (auto simp: aggregate_def fail_def)
  qed (auto simp: aggregate_def)
qed

section \<open>Aggregating an aggregate\<close>

lemma no_metric_in_output: "metric_columns (out_columns (key_columns cols) (metric_columns cols)) = []"
proof -
  have "m \<notin> set (key_columns cols)" "m \<noteq> ''n''" if "m \<in> set METRICS" for m
    using that by (auto simp: METRICS_def key_columns_def NON_KEY_COLUMNS_def)
  moreover have "m \<noteq> x @ s" if "m \<in> set METRICS" "x \<in> set (metric_columns cols)"
    "s \<in> set [''_median'', ''_mean'', ''_p25'', ''_p75'', ''_min'', ''_max'', ''_cov_pct'']" for m x s
    using that by (auto simp: METRICS_def metric_columns_def)
  ultimately have "m \<notin> set (out_columns (key_columns cols) (metric_columns cols))" if "m \<in> set METRICS" for m
    using that by (auto simp: out_columns_def)
  then show ?thesis by (subst metric_columns_def) (simp add: filter_empty_conv)
qed

lemma sorted_groups_empty: "sorted_groups gs = Inr [] \<Longrightarrow> gs = []"
  using set_sorted_groups [of gs "[]"] by simp

lemma emit_length: "emit ms w gs = (rows, Inr ns) \<Longrightarrow> length rows = length gs"
  by (drule emit_rows) (auto dest: list_all2_lengthD)

lemma aggregate_output_read:
  assumes "outcome (aggregate txt w) = Inr 0" and "written (aggregate txt w) = Some out"
    and "csv_reader file = Inr out"
  shows "aggregate file w' = fail NoMetricColumn"
proof -
  obtain cols data where data: "data \<noteq> []" and run: "aggregate txt w =
      write_groups (key_columns cols) (metric_columns cols) w (group_rows (key_columns cols) data)"
    using written_aggregate [OF assms(2)] by blast
  let ?ks = "key_columns cols" and ?ms = "metric_columns cols" and ?gs = "group_rows (key_columns cols) data"
  have "outcome (write_groups ?ks ?ms w ?gs) = Inr 0" using assms(1) run by simp
  from write_groups_ok [OF this] obtain ss rows ns where
    ss: "sorted_groups ?gs = Inr ss" and e: "emit ?ms w ss = (rows, Inr ns)" and "out = out_columns ?ks ?ms # rows"
    using assms(2) run by (metis option.inject)
  moreover have "?gs \<noteq> []" using data group_rows_keys [of ?ks data] by force
  then have "rows \<noteq> []" using sorted_groups_empty ss emit_length [OF e] by fastforce
  moreover have "[] \<notin> set rows" using emit_width [OF e] by fastforce
  ultimately have "\<exists>rs. dict_reader file = Inr (Some (out_columns ?ks ?ms), rs) \<and> rs \<noteq> []"
    using assms(3) by (auto simp: dict_reader_def filter_empty_conv) (metis list.set_intros(1) neq_Nil_conv)
  then show ?thesis by (auto simp: aggregate_def no_metric_in_output)
qed

text \<open>
  C15. The script does not aggregate its own output: run on the file a successful run has written,
  wherever that file was put, it finds no metric column, returns 2 and changes no file.
\<close>

theorem aggregate_twice:
  assumes "agg_main fs input out w = (r, fs')" and "outcome r = Inr 0"
    and "target = (case out of Some p \<Rightarrow> p | None \<Rightarrow> butlast input @ [with_suffix (last input) ''.agg.csv''])"
  shows "agg_main fs' target out' w' = (fail NoMetricColumn, fs')"
proof -
  obtain t where t: "fs input = Some t"
    using assms(1,2) by (auto simp: agg_main_def fail_def split: option.splits)
  then have r: "r = aggregate t w" using assms(1) by (auto simp: agg_main_def Let_def)
  have "written r \<noteq> None"
    using assms(2) unfolding r
    by (auto simp: aggregate_def fail_def write_groups_def Let_def split: sum.splits option.splits prod.splits if_splits)
  then obtain rows where rows: "written r = Some rows" by blast
  then have "fs' target = Some (concat (map writerow rows))"
    using assms(1) t r by (auto simp: agg_main_def Let_def assms(3))
  moreover have "aggregate (concat (map writerow rows)) w' = fail NoMetricColumn"
    using aggregate_output_read [OF _ _ csv_roundtrip] assms(2) rows r by simp
  ultimately show ?thesis by (simp add: agg_main_def Let_def fail_def)
qed

theorem aggregate_twice_witness:
  "agg_main (snd (agg_main [[''raw.csv''] \<mapsto> sample_csv] [''raw.csv''] None (Fin 10))) [''raw.agg.csv''] None (Fin 10) =
    (fail NoMetricColumn, snd (agg_main [[''raw.csv''] \<mapsto> sample_csv] [''raw.csv''] None (Fin 10)))"
proof (rule aggregate_twice)
  show "[''raw.agg.csv''] = (case None of Some p \<Rightarrow> p | None \<Rightarrow> butlast [''raw.csv''] @ [with_suffix (last [''raw.csv'']) ''.agg.csv''])"
    by code_simp
  show "agg_main [[''raw.csv''] \<mapsto> sample_csv] [''raw.csv''] None (Fin 10) =
      (aggregate sample_csv (Fin 10), snd (agg_main [[''raw.csv''] \<mapsto> sample_csv] [''raw.csv''] None (Fin 10)))"
    by (simp add: agg_main_def Let_def)
  show "outcome (aggregate sample_csv (Fin 10)) = Inr 0" by (rule sample_outcome)
qed

section \<open>Exceptions\<close>

lemma fdiv_no_type_error [simp]: "fdiv x y \<noteq> Inl TypeError"
  by (simp add: fdiv_def Let_def)

lemma fsum_acc_no_type_error [simp]: "fsum_acc s xs \<noteq> Inl TypeError"
  by (induction xs arbitrary: s) auto

lemma fmean_no_type_error [simp]: "fmean xs \<noteq> Inl TypeError"
  by (auto simp: fmean_def fsum_def bind_py_eq_Inl)

lemma summarize_no_type_error [simp]: "summarize xs \<noteq> Inl TypeError"
proof -
  have median: "median ys \<noteq> Inl TypeError" for ys by (simp add: median_def Let_def)
  have "quantile_cut ys n i \<noteq> Inl TypeError" for ys n i by (simp add: quantile_cut_def Let_def)
  then have quantiles: "quantiles ys n \<noteq> Inl TypeError" for ys n
    using map_py_Inl [of "quantile_cut (fsorted ys) n" "[1..<n]" TypeError]
    by (auto simp: quantiles_def Let_def)
  have stdev: "stdev ys \<noteq> Inl TypeError" for ys
    by (auto simp: stdev_cases float_sqrt_of_frac_def Let_def split: prod.splits)
  have "cov_pct ys \<noteq> Inl TypeError" for ys using stdev by (auto simp: cov_pct_def bind_py_eq_Inl)
  then show ?thesis using median quantiles
    by (auto simp: summarize_def Let_def bind_py_eq_Inl)
qed

lemma group_output_no_type_error [simp]: "group_output ms w g \<noteq> Inl TypeError"
proof -
  obtain k rows where g: "g = (k, rows)" by fastforce
  have "metric_summary rows m \<noteq> Inl TypeError" for m
    by (auto simp: metric_summary_def Let_def bind_py_eq_Inl)
  then have "map_py (metric_summary rows) ms \<noteq> Inl TypeError" using map_py_Inl by metis
  then show ?thesis by (auto simp: g group_output_def bind_py_eq_Inl)
qed

lemma emit_no_type_error: "snd (emit ms w gs) \<noteq> Inl TypeError"
proof (induction gs)
  case (Cons g gs)
  then show ?case
    by (cases "emit ms w gs")
       (auto simp: bind_py_eq_Inl split: sum.splits prod.splits)
qed simp

text \<open>
  C16. With a metric to aggregate, the run fails with a \<open>TypeError\<close> exactly when two rows have keys
  whose first difference is a missing field against a present one; the file then holds the header
  only.
\<close>

theorem aggregate_type_error:
  assumes "dict_reader txt = Inr (Some cols, rows)" and "metric_columns cols \<noteq> []"
    and "ks = key_columns cols"
  shows "(outcome (aggregate txt w) = Inl TypeError \<longleftrightarrow>
      (\<exists>r \<in> set rows. \<exists>s \<in> set rows. key_clash (group_key_of ks r) (group_key_of ks s))) \<and>
    (outcome (aggregate txt w) = Inl TypeError \<longrightarrow>
      written (aggregate txt w) = Some [out_columns ks (metric_columns cols)])"
proof (cases "rows = []")
  case True
  then show ?thesis using assms by (simp add: aggregate_def fail_def)
next
  case False
  let ?gs = "group_rows ks rows"
  have run: "aggregate txt w = write_groups ks (metric_columns cols) w ?gs"
    using assms False by (simp add: aggregate_def)
  have len: "\<forall>g \<in> set ?gs. length (fst g) = length ks" "distinct (map fst ?gs)"
    using group_rows_keys [of ks rows] distinct_group_keys by force+
  have "(\<exists>a \<in> set ?gs. \<exists>b \<in> set ?gs. key_clash (fst a) (fst b)) \<longleftrightarrow>
      (\<exists>a \<in> fst ` set ?gs. \<exists>b \<in> fst ` set ?gs. key_clash a b)" by auto
  then have clash: "sorted_groups ?gs = Inl TypeError \<longleftrightarrow>
      (\<exists>r \<in> set rows. \<exists>s \<in> set rows. key_clash (group_key_of ks r) (group_key_of ks s))"
    unfolding group_rows_keys sorted_groups_raises(1) [OF len] by simp
  show ?thesis
  proof (cases "sorted_groups ?gs")
    case (Inl e)
    then show ?thesis
      using clash sorted_groups_raises(2) [OF len Inl] by (auto simp: run write_groups_def Let_def)
  next
    case (Inr ss)
    moreover have "outcome (write_groups ks (metric_columns cols) w ?gs) \<noteq> Inl TypeError"
      using Inr emit_no_type_error [of "metric_columns cols" w ss]
      by (auto simp: write_groups_def Let_def split: prod.splits sum.splits)
    ultimately show ?thesis using run clash by simp
  qed
qed

definition short_row_csv :: string where
  "short_row_csv = concat (map (\<lambda>l. l @ [LF]) [''ops_s;lock'', ''100;tas'', ''50''])"

lemma short_row_read:
  "dict_reader short_row_csv = Inr (Some [''ops_s'', ''lock''],
     [[(''ops_s'', Some ''100''), (''lock'', Some ''tas'')], [(''ops_s'', Some ''50''), (''lock'', None)]])"
  by code_simp

theorem aggregate_type_error_witness:
  "outcome (aggregate short_row_csv (Fin 10)) = Inl TypeError \<and>
   written (aggregate short_row_csv (Fin 10)) = Some [out_columns [''lock''] [''ops_s'']]"
proof -
  have cols: "metric_columns [''ops_s'', ''lock''] = [''ops_s'']" "key_columns [''ops_s'', ''lock''] = [''lock'']"
    by code_simp+
  show ?thesis
    using aggregate_type_error [OF short_row_read, of "[''lock'']" "Fin 10"]
    by (simp add: cols group_key_of_def row_get_def)
qed

lemma fdiv_nonzero: "c \<noteq> 0 \<Longrightarrow> \<exists>z. fdiv x (Fin c) = Inr z"
  by (auto simp: fdiv_def is_zero_def Let_def)

lemma median_total: "xs \<noteq> [] \<Longrightarrow> \<exists>m. median xs = Inr m"
  using fdiv_nonzero [of 2] by (auto simp: median_def Let_def)

lemma quantiles_total:
  assumes "2 \<le> length xs"
  shows "\<exists>q. quantiles xs 4 = Inr q"
proof -
  have "\<exists>z. quantile_cut (fsorted xs) 4 i = Inr z" for i
    using fdiv_nonzero [of 4] by (auto simp: quantile_cut_def Let_def)
  then obtain f where f: "quantile_cut (fsorted xs) 4 i = Inr (f i)" for i by metis
  then have "quantile_cut (fsorted xs) 4 = (\<lambda>i. Inr (f i))" by auto
  then show ?thesis using assms by (auto simp: quantiles_def Let_def map_py_total)
qed

lemma fmean_nonfinite:
  assumes bound: "\<forall>x \<in> set xs. is_finite x \<longrightarrow> moderate x" and len: "length xs \<le> 2 ^ 20"
    and bad: "\<exists>x \<in> set xs. \<not> is_finite x" and inf: "\<not> (PInf \<in> set xs \<and> NInf \<in> set xs)"
  shows "\<exists>m. fmean xs = Inr m \<and> \<not> is_finite m"
proof -
  let ?n = "of_nat (length xs) :: rat"
  have B: "\<forall>x \<in> set xs. \<bar>fval x\<bar> \<le> pow2 1000"
  proof
    fix x assume "x \<in> set xs"
    then have "is_finite x \<longrightarrow> moderate x" using bound by blast
    moreover have "fval x = 0" if "\<not> is_finite x" using that by (induction x) auto
    ultimately show "\<bar>fval x\<bar> \<le> pow2 1000" by (auto simp: moderate_def less_imp_le)
  qed
  have "?n \<le> of_nat (2 ^ 20)" using len of_nat_le_iff by blast
  then have n: "?n \<le> pow2 20" by (simp add: pow2_def)
  have "fsum_acc 0 xs = Inr (0 + sum_list (map fval xs))"
    using B pow2_split [OF n] by (intro fsum_acc_exact [of _ "pow2 1000" _ 1020]) (auto simp: less_imp_le)
  moreover have "NaN \<in> set xs \<or> PInf \<in> set xs \<or> NInf \<in> set xs"
    using bad by (metis is_finite.simps(1,2) flt.exhaust)
  ultimately obtain t where t: "fsum xs = Inr t" "\<not> is_finite t"
    using inf by (cases "NaN \<in> set xs"; cases "PInf \<in> set xs") (auto simp: fsum_def)
  have "xs \<noteq> []" using bad by auto
  then show ?thesis
    using t by (auto simp: fmean_def fdiv_def is_zero_def signed_def Let_def)
qed

text \<open>
  A group of two or more values of a metric, one of which is infinite or NaN, does not get a
  summary: the run ends in an \<open>AttributeError\<close> raised by the standard deviation, unless infinities
  of both signs make the mean itself fail.
\<close>

theorem summarize_nonfinite:
  assumes "2 \<le> length xs" and "length xs \<le> 2 ^ 20" and "\<exists>x \<in> set xs. \<not> is_finite x"
    and "\<forall>x \<in> set xs. is_finite x \<longrightarrow> moderate x" and "\<not> (PInf \<in> set xs \<and> NInf \<in> set xs)"
  shows "summarize xs = Inl AttributeError"
proof -
  let ?ys = "fsorted xs"
  obtain m where m: "fmean ?ys = Inr m" "\<not> is_finite m"
    using fmean_nonfinite [of ?ys] assms by auto
  have "xs \<noteq> []" using assms(1) by auto
  then obtain md where md: "median ?ys = Inr md" using median_total [of ?ys] by auto
  have "stdev ?ys = Inl AttributeError" using assms(1,3) by (auto simp: stdev_cases list_all_iff)
  then have "cov_pct ?ys = Inl AttributeError"
    using m assms(1) by (auto simp: cov_pct_def is_zero_def)
  moreover obtain q where "quantiles ?ys 4 = Inr q" using quantiles_total [of ?ys] assms(1) by auto
  ultimately show ?thesis using m(1) md by (auto simp: summarize_def Let_def)
qed

theorem summarize_nonfinite_witness: "summarize [Fin 3, PInf] = Inl AttributeError"
  by (rule summarize_nonfinite) (auto intro!: moderate_numeral)

section \<open>Accuracy of mean and deviation\<close>

lemma sum_fsorted: "sum_list (map fval (fsorted xs)) = sum_list (map fval xs)"
  by (metis mset_map mset_py_sort sum_mset_sum_list)

lemma sum_list_lower:
  assumes "xs \<noteq> []" and "\<forall>x \<in> set xs. b \<le> fval x" and "0 \<le> b"
  shows "b \<le> sum_list (map fval xs)"
proof -
  obtain x ys where xs: "xs = x # ys" using assms(1) by (cases xs) auto
  have "0 \<le> sum_list (map fval ys)" using assms(2,3) by (intro sum_list_nonneg) (force simp: xs)
  then show ?thesis using assms(2) by (simp add: xs)
qed

text \<open>
  C40. For positive values of normal size the reported mean is within three half-units in the last
  place of the exact mean of the data, in any order of the rows.
\<close>

theorem summarize_mean_accurate:
  assumes "xs \<noteq> []" and "\<forall>x \<in> set xs. moderate x \<and> 2 powi -1000 \<le> fval x" and "length xs \<le> 2 ^ 20"
  shows "\<exists>s. summarize xs = Inr s \<and> \<bar>fval (mean s) - exact_mean xs\<bar> \<le> 3 / 2 ^ 53 * exact_mean xs"
proof -
  let ?n = "of_nat (length xs) :: rat" and ?S = "sum_list (map fval xs)"
  have mod: "\<forall>x \<in> set xs. moderate x" using assms(2) by simp
  obtain s where s: "summarize xs = Inr s" "fmean (fsorted xs) = Inr (mean s)"
    using summarize_values [OF mod assms(1,3)] by blast
  have "fsorted xs \<noteq> []" "\<forall>x \<in> set (fsorted xs). moderate x" "length (fsorted xs) \<le> 2 ^ 20"
    using mod assms(1,3) by auto
  from fmean_rounded [OF this] have m: "fval (mean s) = rnd (rnd ?S / ?n)"
    using s(2) by (auto simp: sum_fsorted)
  have "2 powi -1000 \<le> ?S" using assms(1,2) by (intro sum_list_lower) auto
  moreover have "1 \<le> ?n" using assms(1) by (cases xs) auto
  moreover have "?n \<le> of_nat (2 ^ 20)" using assms(3) of_nat_le_iff by blast
  then have "?n \<le> pow2 20" by (simp add: pow2_def)
  ultimately have "\<bar>rnd (rnd ?S / ?n) - ?S / ?n\<bar> \<le> 3 / 2 ^ 53 * (?S / ?n)" by (rule two_roundings)
  then show ?thesis using s(1) m by (auto simp: exact_mean_def)
qed

lemma tiny_le_numeral: "(2 powi -1000 :: rat) \<le> numeral k"
proof -
  have "(2 powi -1000 :: rat) \<le> 2 powi 0" by (subst powi_le_iff) auto
  also have "\<dots> \<le> numeral k" by simp
  finally show ?thesis .
qed

theorem summarize_mean_accurate_witness:
  "\<exists>s. summarize (map Fin [10, 20, 25]) = Inr s \<and>
     \<bar>fval (mean s) - exact_mean (map Fin [10, 20, 25])\<bar> \<le> 3 / 2 ^ 53 * exact_mean (map Fin [10, 20, 25])"
proof (rule summarize_mean_accurate)
  show "\<forall>x \<in> set (map Fin [10, 20, 25]). moderate x \<and> 2 powi -1000 \<le> fval x"
    by (simp add: moderate_numeral tiny_le_numeral del: power_int_minus_left)
qed simp_all

lemma fmean_const_positive:
  assumes "moderate x" and "2 powi -1000 \<le> fval x" and "2 \<le> n" and "n \<le> 2 ^ 20"
  shows "\<exists>m. fmean (replicate n x) = Inr m \<and> is_finite m \<and> 0 < fval m"
proof -
  let ?xs = "replicate n x" and ?n = "of_nat n :: rat"
  have xs: "?xs \<noteq> []" "\<forall>y \<in> set ?xs. moderate y" "length ?xs \<le> 2 ^ 20" using assms by auto
  obtain m where m: "fmean ?xs = Inr m" "is_finite m" "fval m = rnd (rnd (sum_list (map fval ?xs)) / ?n)"
    using fmean_rounded [OF xs] by auto
  have pos: "0 < fval x" using assms(2) by (rule less_le_trans [rotated]) simp
  have "2 powi -1000 \<le> sum_list (map fval ?xs)" using assms xs(1) by (intro sum_list_lower) auto
  moreover have "?n \<le> of_nat (2 ^ 20)" using assms(4) of_nat_le_iff by blast
  then have "?n \<le> pow2 20" by (simp add: pow2_def)
  ultimately have "\<bar>fval m - fval x\<bar> \<le> 3 / 2 ^ 53 * fval x"
    using two_roundings [of "sum_list (map fval ?xs)" ?n] assms(3) unfolding m(3)
    by (simp add: sum_list_replicate)
  moreover have "3 / 2 ^ 53 * fval x < fval x" using pos by simp
  ultimately have "0 < fval m" by linarith
  then show ?thesis using m(1,2) by blast
qed

text \<open>
  Identical positive trials have a coefficient of variation of exactly zero: the rounding of
  the mean does not leak into the deviation, which is computed in exact arithmetic.
\<close>

theorem cov_pct_identical:
  assumes "moderate x" and "2 powi -1000 \<le> fval x" and "2 \<le> n" and "n \<le> 2 ^ 20"
  shows "cov_pct (replicate n x) = Inr (Some (Fin 0))"
proof -
  obtain m where m: "fmean (replicate n x) = Inr m" "is_finite m" "0 < fval m"
    using fmean_const_positive [OF assms] by blast
  then obtain r where "m = Fin r" "0 < r" by (cases m) auto
  moreover have "stdev (replicate n x) = Inr (Fin 0)"
    using assms by (intro stdev_const) (auto simp: moderate_def)
  moreover have "fmul (Fin 100) (Fin 0) = Fin 0"
    by (simp add: fmul_def is_zero_def signed_def Let_def)
  ultimately show ?thesis
    using m(1) assms(3) by (simp add: cov_pct_def fdiv_def is_zero_def signed_def Let_def)
qed

theorem cov_pct_identical_witness: "cov_pct (replicate 3 (Fin 7)) = Inr (Some (Fin 0))"
  by (rule cov_pct_identical) (simp_all add: moderate_numeral tiny_le_numeral del: power_int_minus_left)

section \<open>Warnings\<close>








end
