(* ===== verification/Frame.thy ===== *)
theory Frame
  imports PyNumText
begin

text \<open>
  The interface between the plotting scripts and pandas. A data frame is a value of an abstract
  type \<open>'f\<close>; the operations the scripts call on it are the fields of a record, so that every
  definition of the development that uses pandas takes that record as an argument. The locale
  \<open>dataframe\<close> states what pandas documents about these operations, and nothing more: for
  instance \<open>sort_values\<close> is not stable by default, so ties may come out in any order,
  nothing is said of the rounding of \<open>mean\<close>, and nothing of \<open>apply(axis=1)\<close> on a frame without rows. The lemmas the scripts share are proved inside the
  locale; it is interpreted on an implementation by lists.
\<close>

section \<open>Rows\<close>

text \<open>
  The columns of the benchmark files that the scripts read, and those they add. Where a script
  reads a file without naming the decimal comma, the columns with fractions stay text until it
  converts them; \<open>raw\<close> columns hold what \<open>read_csv\<close> made of them.
\<close>

datatype cell = CStr string | CInt int | CFlt flt

record sample =
  col_arch :: string
  col_lock :: string
  col_dist :: string
  col_zipf_theta :: flt
  col_threads :: int
  col_key_range :: int
  col_read_pct :: int
  col_insert_pct :: int
  col_ops_s :: flt
  col_fairness_ratio :: flt
  col_bench :: string
  col_lk :: string
  col_workload :: string
  raw_zipf_theta :: cell
  raw_fairness_ratio :: cell
  col_hostname :: string
  raw_ns_op :: cell
  col_ns_op :: flt
  col_stream_len :: int
  col_buckets :: int
  col_cache_regime :: string
  col_skew_tier :: string
  col_mix :: string
  col_ops_s_p25 :: flt
  col_ops_s_p75 :: flt
  col_n :: nat
  col_cov_pct :: flt

definition millions :: "sample \<Rightarrow> flt" where
  \<comment> \<open>\<open>ops_s / 1e6\<close>\<close>
  "millions r = projr (fdiv (col_ops_s r) (Fin 1000000))"

definition by_threads :: "sample \<Rightarrow> flt" where
  "by_threads r = Fin (of_int (col_threads r))"

section \<open>String operations the scripts apply to columns\<close>

text \<open>\<open>s.replace(p, "")\<close>: every occurrence is removed, from left to right.\<close>

function remove_all :: "string \<Rightarrow> string \<Rightarrow> string" where
  "remove_all p s =
     (case s of
        [] \<Rightarrow> []
      | c # r \<Rightarrow> if p \<noteq> [] \<and> take (length p) s = p then remove_all p (drop (length p) s)
                else c # remove_all p r)"
  by pat_completeness auto
termination
  by (relation "measure (length \<circ> snd)") auto

declare remove_all.simps [simp del]

lemma fless_by_threads: "fless (by_threads a) (by_threads b) \<longleftrightarrow> col_threads a < col_threads b"
  by (simp add: by_threads_def)

section \<open>Operations on frames\<close>

text \<open>A table with labelled rows and columns; a cell without data is NaN.\<close>

record pivot =
  pv_index :: "string list"
  pv_columns :: "string list"
  pv_cell :: "string \<Rightarrow> string \<Rightarrow> flt"

record 'f pandas =
  rows_of :: "'f \<Rightarrow> sample list"
  has_arch :: "'f \<Rightarrow> bool"
  select :: "(sample \<Rightarrow> bool) \<Rightarrow> 'f \<Rightarrow> 'f"
  assign :: "(sample \<Rightarrow> sample) \<Rightarrow> 'f \<Rightarrow> 'f"
  apply_rows :: "(sample \<Rightarrow> sample) \<Rightarrow> 'f \<Rightarrow> 'f py"
  sort_values :: "(sample \<Rightarrow> flt) \<Rightarrow> bool \<Rightarrow> 'f \<Rightarrow> 'f"
  unique_of :: "(sample \<Rightarrow> string) \<Rightarrow> 'f \<Rightarrow> string list"
  max_of :: "(sample \<Rightarrow> int) \<Rightarrow> 'f \<Rightarrow> int option"
  mean_of :: "(sample \<Rightarrow> flt) \<Rightarrow> 'f \<Rightarrow> flt"
  median_of :: "(sample \<Rightarrow> flt) \<Rightarrow> 'f \<Rightarrow> flt"
  min_of :: "(sample \<Rightarrow> flt) \<Rightarrow> 'f \<Rightarrow> flt"
  std_of :: "(sample \<Rightarrow> flt) \<Rightarrow> 'f \<Rightarrow> flt"
  percentile_of :: "rat \<Rightarrow> (sample \<Rightarrow> flt) \<Rightarrow> 'f \<Rightarrow> flt"
  quantile_of :: "rat \<Rightarrow> (sample \<Rightarrow> flt) \<Rightarrow> 'f \<Rightarrow> flt"
  idxmax_of :: "(sample \<Rightarrow> flt) \<Rightarrow> 'f \<Rightarrow> sample option"
  groupby :: "(sample \<Rightarrow> cell list) \<Rightarrow> 'f \<Rightarrow> (cell list \<times> 'f) list"
  group_all :: "(sample \<Rightarrow> cell list) \<Rightarrow> 'f \<Rightarrow> (cell list \<times> 'f) list"
  pivot_mean :: "(sample \<Rightarrow> string) \<Rightarrow> (sample \<Rightarrow> string) \<Rightarrow> (sample \<Rightarrow> flt) \<Rightarrow> 'f \<Rightarrow> pivot"
  concat_frames :: "'f list \<Rightarrow> 'f"
  from_rows :: "sample list \<Rightarrow> 'f"

text \<open>
  The fields: the rows in order; whether the file had an \<open>arch\<close> column; boolean indexing; adding
  or replacing columns row by row; \<open>df[c] = df.apply(f, axis=1)\<close>, a column computed row by row, which
  may raise; \<open>sort_values(by, ascending)\<close>; \<open>unique()\<close>; \<open>max()\<close>, which is
  \<open>NaN\<close> (here \<open>None\<close>) on an empty frame; \<open>mean()\<close>; \<open>median()\<close>; \<open>min()\<close>;
  \<open>std()\<close>, the sample deviation, which one row does not have; \<open>quantile(q)\<close> and numpy's
  \<open>percentile\<close>; the row at \<open>idxmax()\<close>;
  \<open>groupby\<close>, which leaves out the rows whose key holds a NaN, and \<open>groupby(dropna=False)\<close>, which does
  not; \<open>pivot_table(index, columns, values, aggfunc="mean")\<close>, which keeps the labels with some value in
  ascending order; \<open>concat(ignore_index=True)\<close>;
  and the frame that \<open>reset_index()\<close> makes of one row per group.
\<close>

definition nan_key :: "cell list \<Rightarrow> bool" where
  "nan_key k \<longleftrightarrow> CFlt NaN \<in> set k"

locale dataframe =
  fixes pd :: "'f pandas"
  assumes rows_select: "rows_of pd (select pd P f) = filter P (rows_of pd f)"
    and rows_assign: "rows_of pd (assign pd g f) = map g (rows_of pd f)"
    and apply_rows_Inr: "rows_of pd f \<noteq> [] \<Longrightarrow> apply_rows pd g f = Inr (assign pd g f)"
    and mset_sort: "mset (rows_of pd (sort_values pd k asc f)) = mset (rows_of pd f)"
    and sorted_sort: "\<forall>r \<in> set (rows_of pd f). k r \<noteq> NaN \<Longrightarrow>
      sorted_wrt (\<lambda>a b. if asc then \<not> fless (k b) (k a) else \<not> fless (k a) (k b))
        (rows_of pd (sort_values pd k asc f))"
    and set_unique: "set (unique_of pd c f) = c ` set (rows_of pd f)"
    and distinct_unique: "distinct (unique_of pd c f)"
    and max_empty: "rows_of pd f = [] \<Longrightarrow> max_of pd i f = None"
    and max_value: "rows_of pd f \<noteq> [] \<Longrightarrow> max_of pd i f = Some (Max (i ` set (rows_of pd f)))"
    and mean_single: "rows_of pd f = [r] \<Longrightarrow> mean_of pd k f = k r"
    and median_single: "rows_of pd f = [r] \<Longrightarrow> median_of pd k f = k r"
    and min_value: "rows_of pd f \<noteq> [] \<Longrightarrow> \<forall>r \<in> set (rows_of pd f). k r \<noteq> NaN \<Longrightarrow>
      min_of pd k f \<in> k ` set (rows_of pd f) \<and> (\<forall>r \<in> set (rows_of pd f). \<not> fless (k r) (min_of pd k f))"
    and std_single: "rows_of pd f = [r] \<Longrightarrow> std_of pd k f = NaN"
    and quantile_single: "rows_of pd f = [r] \<Longrightarrow> quantile_of pd q k f = k r"
    and percentile_single: "rows_of pd f = [r] \<Longrightarrow> percentile_of pd q k f = k r"
    and idxmax_empty: "rows_of pd f = [] \<Longrightarrow> idxmax_of pd k f = None"
    and idxmax_row: "rows_of pd f \<noteq> [] \<Longrightarrow> \<forall>r \<in> set (rows_of pd f). k r \<noteq> NaN \<Longrightarrow>
      \<exists>b. idxmax_of pd k f = Some b \<and> b \<in> set (rows_of pd f) \<and>
        (\<forall>r \<in> set (rows_of pd f). \<not> fless (k b) (k r))"
    and distinct_groups: "distinct (map fst (groupby pd key f))"
    and group_keys: "fst ` set (groupby pd key f) = {v \<in> key ` set (rows_of pd f). \<not> nan_key v}"
    and rows_group: "(v, h) \<in> set (groupby pd key f) \<Longrightarrow>
      rows_of pd h = filter (\<lambda>r. key r = v) (rows_of pd f)"
    and distinct_all: "distinct (map fst (group_all pd key f))"
    and all_keys: "fst ` set (group_all pd key f) = key ` set (rows_of pd f)"
    and rows_all: "(v, h) \<in> set (group_all pd key f) \<Longrightarrow>
      rows_of pd h = filter (\<lambda>r. key r = v) (rows_of pd f)"
    and pivot_cell: "pv_cell (pivot_mean pd ci cc k f) x y =
      (if \<exists>r \<in> set (rows_of pd f). ci r = x \<and> cc r = y then mean_of pd k (select pd (\<lambda>r. ci r = x \<and> cc r = y) f) else NaN)"
    and pivot_index: "pv_index (pivot_mean pd ci cc k f) =
      filter (\<lambda>x. \<exists>y. pv_cell (pivot_mean pd ci cc k f) x y \<noteq> NaN) (py_sorted (unique_of pd ci f))"
    and pivot_columns: "pv_columns (pivot_mean pd ci cc k f) =
      filter (\<lambda>y. \<exists>x. pv_cell (pivot_mean pd ci cc k f) x y \<noteq> NaN) (py_sorted (unique_of pd cc f))"
    and rows_concat: "rows_of pd (concat_frames pd fs) = concat (map (rows_of pd) fs)"
    and rows_from: "rows_of pd (from_rows pd rs) = rs"
begin

lemma sort_set: "set (rows_of pd (sort_values pd k asc f)) = set (rows_of pd f)"
  using mset_sort by (rule mset_eq_setD)

lemma sort_length: "length (rows_of pd (sort_values pd k asc f)) = length (rows_of pd f)"
  using mset_sort by (rule mset_eq_length)

lemma sort_empty: "rows_of pd (sort_values pd k asc f) = [] \<longleftrightarrow> rows_of pd f = []"
  using sort_length [of k asc f] by (metis length_0_conv)

lemma sorted_threads:
  "sorted (map col_threads (rows_of pd (sort_values pd by_threads True f)))"
proof -
  have "\<forall>r \<in> set (rows_of pd f). by_threads r \<noteq> NaN" by (simp add: by_threads_def)
  from sorted_sort [OF this, of True] show ?thesis
    by (simp add: sorted_map fless_by_threads not_less)
qed

lemma sorted_unique:
  "sorted_wrt (<) (py_sorted (unique_of pd c f))" "set (py_sorted (unique_of pd c f)) = c ` set (rows_of pd f)"
  using distinct_unique [of c f] by (simp_all add: strict_sorted_iff set_unique)

lemma unique_eq_Nil: "unique_of pd c f = [] \<longleftrightarrow> rows_of pd f = []"
  using set_unique [of c f] by (metis image_is_empty set_empty)

lemmas frame_simps = rows_select rows_assign sort_set sort_length sort_empty set_unique unique_eq_Nil
  rows_concat rows_from

end

section \<open>An implementation by lists\<close>

fun first_occurrences :: "'a list \<Rightarrow> 'a list" where
  "first_occurrences [] = []"
| "first_occurrences (x # xs) = x # filter (\<lambda>y. y \<noteq> x) (first_occurrences xs)"

lemma set_first_occurrences [simp]: "set (first_occurrences xs) = set xs"
  by (induction xs) auto

lemma distinct_first_occurrences [simp]: "distinct (first_occurrences xs)"
  by (induction xs) auto

fun best_row :: "(sample \<Rightarrow> flt) \<Rightarrow> sample list \<Rightarrow> sample option" where
  "best_row k [] = None"
| "best_row k (r # rs) =
     (case best_row k rs of
        None \<Rightarrow> Some r
      | Some b \<Rightarrow> Some (if fless (k r) (k b) then b else r))"

definition mid_value :: "flt list \<Rightarrow> flt" where
  "mid_value xs = (case fsorted xs of [] \<Rightarrow> NaN | x # ys \<Rightarrow> (x # ys) ! (length ys div 2))"

fun least_value :: "flt list \<Rightarrow> flt" where
  "least_value [] = NaN"
| "least_value [x] = x"
| "least_value (x # xs) = (let y = least_value xs in if fless y x then y else x)"

definition list_mean :: "(sample \<Rightarrow> flt) \<Rightarrow> sample list \<Rightarrow> flt" where
  "list_mean k f =
     (case f of [r] \<Rightarrow> k r | _ \<Rightarrow> projr (fdiv (foldr fadd (map k f) (Fin 0)) (Fin (of_nat (length f)))))"

definition list_pivot :: "(sample \<Rightarrow> string) \<Rightarrow> (sample \<Rightarrow> string) \<Rightarrow> (sample \<Rightarrow> flt) \<Rightarrow> sample list \<Rightarrow> pivot" where
  "list_pivot i c k f =
     (let cell = (\<lambda>x y. case filter (\<lambda>r. i r = x \<and> c r = y) f of [] \<Rightarrow> NaN | r # rs \<Rightarrow> list_mean k (r # rs));
          xs = py_sorted (first_occurrences (map i f)); ys = py_sorted (first_occurrences (map c f))
      in \<lparr>pv_index = filter (\<lambda>x. \<exists>y \<in> set ys. cell x y \<noteq> NaN) xs, pv_columns = filter (\<lambda>y. \<exists>x \<in> set xs. cell x y \<noteq> NaN) ys,
          pv_cell = cell\<rparr>)"

definition list_pandas :: "sample list pandas" where
  "list_pandas = \<lparr>
     rows_of = \<lambda>f. f,
     has_arch = \<lambda>f. True,
     select = filter,
     assign = map,
     apply_rows = \<lambda>g f. if f = [] then Inl ValueError else Inr (map g f),
     sort_values = \<lambda>k asc. py_sort (\<lambda>a b. if asc then fless (k a) (k b) else fless (k b) (k a)),
     unique_of = \<lambda>c f. first_occurrences (map c f),
     max_of = \<lambda>i f. if f = [] then None else Some (Max (set (map i f))),
     mean_of = list_mean,
     median_of = \<lambda>k f. mid_value (map k f),
     min_of = \<lambda>k f. least_value (map k f),
     std_of = \<lambda>k f. (case f of [r] \<Rightarrow> NaN | _ \<Rightarrow> Fin 0),
     percentile_of = \<lambda>q k f. mid_value (map k f),
     quantile_of = \<lambda>q k f. mid_value (map k f),
     idxmax_of = best_row,
     groupby = \<lambda>key f. map (\<lambda>k. (k, filter (\<lambda>r. key r = k) f))
       (filter (\<lambda>k. \<not> nan_key k) (first_occurrences (map key f))),
     group_all = \<lambda>key f. map (\<lambda>k. (k, filter (\<lambda>r. key r = k) f)) (first_occurrences (map key f)),
     pivot_mean = list_pivot,
     concat_frames = concat,
     from_rows = \<lambda>rs. rs\<rparr>"

lemma best_row_max:
  "f \<noteq> [] \<Longrightarrow> \<forall>r \<in> set f. k r \<noteq> NaN \<Longrightarrow>
     \<exists>b. best_row k f = Some b \<and> b \<in> set f \<and> (\<forall>r \<in> set f. \<not> fless (k b) (k r))"
proof (induction f)
  case (Cons r rs)
  show ?case
  proof (cases "rs = []")
    case True
    then show ?thesis using float.irrefl [of "k r"] Cons.prems by simp
  next
    case False
    then obtain b where b: "best_row k rs = Some b" "b \<in> set rs" "\<forall>r \<in> set rs. \<not> fless (k b) (k r)"
      using Cons by auto
    note nn = Cons.prems(2)
    show ?thesis
    proof (cases "fless (k r) (k b)")
      case True
      then show ?thesis using b nn float.asym [of "k r" "k b"] by auto
    next
      case False
      then have "\<not> fless (k r) (k x)" if "x \<in> set rs" for x
        using that b(2,3) nn float.le_trans [of "k x" "k b" "k r"] by auto
      then show ?thesis using False b float.irrefl [of "k r"] nn by auto
    qed
  qed
qed simp

lemma least_value_min:
  "xs \<noteq> [] \<Longrightarrow> NaN \<notin> set xs \<Longrightarrow> least_value xs \<in> set xs \<and> (\<forall>x \<in> set xs. \<not> fless x (least_value xs))"
proof (induction xs rule: least_value.induct)
  case (2 x)
  then show ?case using float.irrefl [of x] by auto
next
  case (3 x y ys)
  let ?m = "least_value (y # ys)"
  have m: "?m \<in> set (y # ys)" "\<forall>z \<in> set (y # ys). \<not> fless z ?m" using 3 by auto
  have nn: "x \<noteq> NaN" "z \<in> set (y # ys) \<Longrightarrow> z \<noteq> NaN" for z using 3 by auto
  show ?case
  proof (cases "fless ?m x")
    case True
    then show ?thesis using m nn float.asym [of ?m x] by auto
  next
    case False
    have "\<not> fless z x" if "z \<in> set (y # ys)" for z
      using that False m nn(1) nn(2) [OF that] nn(2) [OF m(1)] float.le_trans [of x ?m z] by auto
    then show ?thesis using False float.irrefl [of x] nn(1) by auto
  qed
qed simp

lemma comparison_ascending:
  assumes "\<forall>r \<in> A. k r \<noteq> NaN"
  shows "comparison (\<lambda>a b. fless (k a) (k b)) A"
proof
  fix a b c assume "a \<in> A" "b \<in> A" "c \<in> A"
  then have "k a \<noteq> NaN" "k b \<noteq> NaN" "k c \<noteq> NaN" using assms by auto
  then show "fless (k a) (k b) \<Longrightarrow> fless (k b) (k c) \<Longrightarrow> fless (k a) (k c)"
    and "\<not> fless (k b) (k a) \<Longrightarrow> \<not> fless (k c) (k b) \<Longrightarrow> \<not> fless (k c) (k a)"
    using float.trans [of "k a" "k b" "k c"] float.le_trans [of "k a" "k b" "k c"] by auto
next
  fix a assume "a \<in> A"
  then show "\<not> fless (k a) (k a)" using assms float.irrefl by auto
qed

lemma comparison_converse: "comparison lt A \<Longrightarrow> comparison (\<lambda>a b. lt b a) A"
  unfolding comparison_def by blast

lemma list_pivot_cell:
  "pv_cell (list_pivot i c k f) x y =
     (if \<exists>r \<in> set f. i r = x \<and> c r = y then list_mean k (filter (\<lambda>r. i r = x \<and> c r = y) f) else NaN)"
  by (auto simp: list_pivot_def Let_def filter_empty_conv split: list.splits)

lemma list_pivot_labels:
  "pv_index (list_pivot i c k f) = filter (\<lambda>x. \<exists>y. pv_cell (list_pivot i c k f) x y \<noteq> NaN) (py_sorted (first_occurrences (map i f)))"
  "pv_columns (list_pivot i c k f) = filter (\<lambda>y. \<exists>x. pv_cell (list_pivot i c k f) x y \<noteq> NaN) (py_sorted (first_occurrences (map c f)))"
proof -
  let ?cell = "pv_cell (list_pivot i c k f)"
  have "x \<in> i ` set f \<and> y \<in> c ` set f" if "?cell x y \<noteq> NaN" for x y
    using that by (auto simp: list_pivot_cell split: if_splits)
  then have ex: "(\<exists>y. ?cell x y \<noteq> NaN) \<longleftrightarrow> (\<exists>y \<in> c ` set f. ?cell x y \<noteq> NaN)"
    "(\<exists>x. ?cell x y \<noteq> NaN) \<longleftrightarrow> (\<exists>x \<in> i ` set f. ?cell x y \<noteq> NaN)" for x y by blast+
  show "pv_index (list_pivot i c k f) = filter (\<lambda>x. \<exists>y. ?cell x y \<noteq> NaN) (py_sorted (first_occurrences (map i f)))"
    unfolding ex by (simp add: list_pivot_def Let_def)
  show "pv_columns (list_pivot i c k f) = filter (\<lambda>y. \<exists>x. ?cell x y \<noteq> NaN) (py_sorted (first_occurrences (map c f)))"
    unfolding ex by (simp add: list_pivot_def Let_def)
qed

interpretation rows: dataframe list_pandas
proof unfold_locales
  fix f :: "sample list" and k :: "sample \<Rightarrow> flt" and asc
  assume "\<forall>r \<in> set (rows_of list_pandas f). k r \<noteq> NaN"
  then have "comparison (\<lambda>a b. if asc then fless (k a) (k b) else fless (k b) (k a)) (set f)"
    using comparison_ascending [of "set f" k] comparison_converse [of "\<lambda>a b. fless (k a) (k b)" "set f"]
    by (cases asc) (auto simp: list_pandas_def)
  from comparison.py_sort_ascending [OF this order_refl]
  show "sorted_wrt (\<lambda>a b. if asc then \<not> fless (k b) (k a) else \<not> fless (k a) (k b))
      (rows_of list_pandas (sort_values list_pandas k asc f))"
    by (cases asc) (simp_all add: list_pandas_def)
next
  fix f :: "sample list" and k :: "sample \<Rightarrow> flt"
  assume "rows_of list_pandas f \<noteq> []" "\<forall>r \<in> set (rows_of list_pandas f). k r \<noteq> NaN"
  then show "\<exists>b. idxmax_of list_pandas k f = Some b \<and> b \<in> set (rows_of list_pandas f) \<and>
      (\<forall>r \<in> set (rows_of list_pandas f). \<not> fless (k b) (k r))"
    using best_row_max by (simp add: list_pandas_def)
next
  fix f :: "sample list" and k :: "sample \<Rightarrow> flt"
  assume "rows_of list_pandas f \<noteq> []" "\<forall>r \<in> set (rows_of list_pandas f). k r \<noteq> NaN"
  then have "map k f \<noteq> []" "NaN \<notin> set (map k f)" by (auto simp: list_pandas_def)
  from least_value_min [OF this] show "min_of list_pandas k f \<in> k ` set (rows_of list_pandas f) \<and>
      (\<forall>r \<in> set (rows_of list_pandas f). \<not> fless (k r) (min_of list_pandas k f))"
    by (simp add: list_pandas_def)
next
  fix f :: "sample list" and r and k :: "sample \<Rightarrow> flt" and q
  assume one: "rows_of list_pandas f = [r]"
  have "py_sort fless [x] = [x]" for x by (simp add: py_sort_def)
  with one show "quantile_of list_pandas q k f = k r" "percentile_of list_pandas q k f = k r"
    by (simp_all add: list_pandas_def mid_value_def)
next
  fix f :: "sample list" and r and k :: "sample \<Rightarrow> flt"
  assume "rows_of list_pandas f = [r]"
  moreover have "py_sort fless [x] = [x]" for x by (simp add: py_sort_def)
  ultimately show "median_of list_pandas k f = k r"
    by (simp add: list_pandas_def mid_value_def)
next
  fix f :: "sample list" and r and k :: "sample \<Rightarrow> flt"
  assume "rows_of list_pandas f = [r]"
  then show "mean_of list_pandas k f = k r" by (simp add: list_pandas_def list_mean_def)
qed (auto simp: list_pandas_def list_pivot_cell list_pivot_labels distinct_map inj_on_def filter_id_conv comp_def image_image split: list.splits)

end
