(* ===== verification/Labels.thy ===== *)
theory Labels
  imports Frame
begin

text \<open>
  Texts the scripts build from a row: a distribution followed by the read, insert and remove
  percentages. The lemmas recover the parts from the text, which is what the scripts rely on when
  they use the text as the identity of a workload.
\<close>

definition mix_label :: "char \<Rightarrow> char \<Rightarrow> string \<Rightarrow> int \<Rightarrow> int \<Rightarrow> string" where
  \<comment> \<open>\<open>f"{dist} {rd}/{ins}/{100-rd-ins}"\<close>, for the two separators used\<close>
  "mix_label a b d rd ins =
     d @ a # show_int rd @ b # show_int ins @ b # show_int (100 - rd - ins)"

definition mix_of :: "sample \<Rightarrow> string \<times> int \<times> int" where
  "mix_of row = (col_dist row, col_read_pct row, col_insert_pct row)"

lemma split_at_first:
  "c \<notin> set a \<Longrightarrow> c \<notin> set b \<Longrightarrow> a @ c # x = b @ c # y \<longleftrightarrow> a = b \<and> x = y"
proof (induction a arbitrary: b)
  case Nil
  then show ?case by (cases b) auto
next
  case (Cons d a)
  then show ?case by (cases b) auto
qed

lemma show_int_inj: "show_int x = show_int y \<longleftrightarrow> x = y"
proof
  assume eq: "show_int x = show_int y"
  have minus: "CHR ''-'' \<notin> set (show_nat n)" for n
    using show_nat_digits [of n] by (auto simp: is_digit_def)
  then have "hd (show_nat n) \<noteq> CHR ''-''" for n by (metis hd_in_set show_nat_not_Nil)
  then have ne: "show_nat n \<noteq> CHR ''-'' # show_nat m" for n m by (metis list.sel(1))
  have nat: "n = m" if "show_nat n = show_nat m" for n m using that by (metis read_show_nat)
  show "x = y"
    using eq ne ne [symmetric] nat [of "nat x" "nat y"] nat [of "nat (- x)" "nat (- y)"]
    by (auto simp: show_int_def split: if_splits)
qed simp

lemma show_int_chars: "c \<in> set (show_int x) \<Longrightarrow> is_digit c \<or> c = CHR ''-''"
  using show_nat_digits by (auto simp: show_int_def split: if_splits)

lemma mix_label_inj:
  assumes "a \<notin> set d" and "a \<notin> set d'" and "\<not> is_digit b" and "b \<noteq> CHR ''-''"
    and "mix_label a b d r i @ s = mix_label a b d' r' i' @ s'"
  shows "d = d' \<and> r = r' \<and> i = i'"
proof -
  have b: "b \<notin> set (show_int x)" for x using show_int_chars assms(3,4) by blast
  have "d @ a # (show_int r @ b # show_int i @ b # show_int (100 - r - i) @ s) =
      d' @ a # (show_int r' @ b # show_int i' @ b # show_int (100 - r' - i') @ s')"
    using assms(5) by (simp add: mix_label_def)
  then show ?thesis using assms(1,2) b by (simp add: split_at_first show_int_inj)
qed

text \<open>The first space becomes a line break: \<open>w.replace(" ", "\n", 1)\<close>.\<close>

fun break_first_space :: "string \<Rightarrow> string" where
  "break_first_space [] = []"
| "break_first_space (c # s) = (if c = CHR '' '' then CHR 0x0A # s else c # break_first_space s)"

text \<open>Removing a prefix that occurs once leaves the rest.\<close>

lemma remove_all_unchanged: "hd p \<notin> set s \<Longrightarrow> p \<noteq> [] \<Longrightarrow> remove_all p s = s"
proof (induction s)
  case Nil
  then show ?case by (simp add: remove_all.simps)
next
  case (Cons c s)
  have "take (length p) (c # s) \<noteq> p"
  proof
    assume "take (length p) (c # s) = p"
    then have "hd p = c" using Cons.prems(2) by (cases p) auto
    then show False using Cons.prems(1) by simp
  qed
  then show ?case using Cons by (simp add: remove_all.simps [of _ "c # s"])
qed

text \<open>A label that is a mix label with a suffix determined by the mix identifies the mix.\<close>

lemma suffixed_mix_inj:
  assumes "a \<notin> set d" and "a \<notin> set d'" and "\<not> is_digit b" and "b \<noteq> CHR ''-''"
  shows "mix_label a b d r i @ s (r, i) = mix_label a b d' r' i' @ s (r', i') \<longleftrightarrow> d = d' \<and> r = r' \<and> i = i'"
  using mix_label_inj [OF assms] by auto

end
