(* ===== verification/Figure.thy ===== *)
theory Figure
  imports Labels
begin

text \<open>
  What the scripts ask of matplotlib, as data: a figure is the list of its axes, each the list of
  the drawing calls made on it in order (a bar call has its positions, heights and width; the
  colour and opacity of a single bar are set by its index; a filled band has its two edges and a line with error bars their lengths; a bar call over categories has their names
  and colours; a text can stand above a bar at a height; histograms, scattered points, heat maps, bars with error
  bars, bars that lie, boxes over samples and the closed line of a radar chart have their values; points have sizes, and a
  note stands at a point), together with the calls on the figure and the file it is
  saved to. Keyword arguments keep the text of the source. The idiom shared by all line plots
  (select, sort by threads, skip when empty, plot millions of operations per second) is proved to
  draw exactly the selected rows.
\<close>

type_synonym attrs = "(string \<times> string) list"
type_synonym path = "string list"

datatype draw =
    Plot "int list" "flt list" attrs
  | Bar "flt list" "flt list" flt attrs
  | BarColor nat string
  | BarAlpha nat flt
  | FillBetween "int list" "flt list" "flt list" attrs
  | ErrorBar "int list" "flt list" "flt list" "flt list" attrs
  | CatBar "string list" "flt list" "string list" attrs
  | BarText nat flt string attrs
  | YLim flt flt
  | Hist "flt list" attrs
  | Scatter "int list" "flt list" attrs
  | Heat "flt list list" attrs
  | BarErr "flt list" "flt list" "flt list" flt attrs
  | Radar "flt list" attrs
  | Points "flt list" "flt list" "int list" attrs
  | Curve "flt list" "flt list" attrs
  | Note string flt flt attrs
  | HBarErr "flt list" "flt list" "flt list" flt attrs
  | BoxPlot "flt list list" attrs
  | Call string "string list" attrs

record figure =
  fig_args :: attrs
  fig_axes :: "draw list list"
  fig_calls :: "draw list"
  fig_file :: path

datatype event = Saved figure | Printed string

text \<open>Characters outside ASCII that occur in titles.\<close>

definition em_dash :: string where "em_dash = [CHR 0xE2, CHR 0x80, CHR 0x94]"
definition mid_dot :: string where "mid_dot = [CHR 0xC2, CHR 0xB7]"
definition times_sign :: string where "times_sign = [CHR 0xC3, CHR 0x97]"
definition arrow :: string where "arrow = [CHR 0xE2, CHR 0x86, CHR 0x92]"
definition minus_sign :: string where "minus_sign = [CHR 0xE2, CHR 0x88, CHR 0x92]"
definition star :: string where "star = [CHR 0xE2, CHR 0x98, CHR 0x85]"

section \<open>Shared idioms\<close>

text \<open>\<open>g = g.sort_values("threads")\<close>, nothing if it is empty, else one line.\<close>

definition series :: "'f pandas \<Rightarrow> 'f \<Rightarrow> attrs py \<Rightarrow> draw list py" where
  "series pd g kwargs =
     (let s = sort_values pd by_threads True g
      in if rows_of pd s = [] then Inr []
         else bind_py kwargs (\<lambda>a.
           Inr [Plot (map col_threads (rows_of pd s)) (map millions (rows_of pd s)) a]))"

text \<open>\<open>for ax, wkl in zip(axes.flat, workloads)\<close> on a grid of two by two axes.\<close>

definition grid_2x2 :: "('a \<Rightarrow> draw list py) \<Rightarrow> 'a list \<Rightarrow> draw list list py" where
  "grid_2x2 body ws =
     bind_py (map_py body (take 4 ws)) (\<lambda>ps. Inr (ps @ replicate (4 - length ps) []))"

text \<open>\<open>g.ops_s.mean() / 1e6 if len(g) else 0\<close>.\<close>

definition mean_millions :: "'f pandas \<Rightarrow> 'f \<Rightarrow> flt" where
  "mean_millions pd g =
     (if rows_of pd g = [] then Fin 0
      else projr (fdiv (mean_of pd col_ops_s g) (Fin 1000000)))"

text \<open>\<open>[x + offset for x in range(n)]\<close> with \<open>offset = c * width\<close>.\<close>

definition bar_positions :: "nat \<Rightarrow> flt \<Rightarrow> flt list" where
  "bar_positions n offset = map (\<lambda>x. fadd (Fin (of_nat x)) offset) [0..<n]"

text \<open>\<open>int(df.threads.max())\<close>: the maximum of an empty column is NaN, which has no integer.\<close>

definition max_threads :: "'f pandas \<Rightarrow> 'f \<Rightarrow> int py" where
  "max_threads pd f = (case max_of pd col_threads f of None \<Rightarrow> Inl ValueError | Some t \<Rightarrow> Inr t)"

section \<open>What a line shows\<close>

definition points :: "sample list \<Rightarrow> (int \<times> flt) multiset" where
  "points rs = image_mset (\<lambda>r. (col_threads r, millions r)) (mset rs)"

definition drawn :: "sample list \<Rightarrow> attrs \<Rightarrow> draw list \<Rightarrow> bool" where
  \<comment> \<open>nothing for no rows, else one line through all points with ascending thread counts\<close>
  "drawn rs a ds \<longleftrightarrow>
     (if rs = [] then ds = []
      else \<exists>xs ys. ds = [Plot xs ys a] \<and> length ys = length xs \<and> sorted xs \<and> mset (zip xs ys) = points rs)"

fun is_plot :: "draw \<Rightarrow> bool" where
  "is_plot (Plot _ _ _) \<longleftrightarrow> True"
| "is_plot _ \<longleftrightarrow> False"

lemma drawn_is_plot: "drawn rs a ds \<Longrightarrow> filter is_plot ds = ds"
  by (auto simp: drawn_def split: if_splits)

lemma zip_map_same: "zip (map f xs) (map g xs) = map (\<lambda>x. (f x, g x)) xs"
  by (induction xs) auto

context dataframe
begin

lemma series_drawn:
  assumes "rows_of pd g \<noteq> [] \<Longrightarrow> kwargs = Inr a"
  shows "\<exists>ds. series pd g kwargs = Inr ds \<and> drawn (rows_of pd g) a ds"
proof (cases "rows_of pd g = []")
  case True
  then show ?thesis by (simp add: series_def drawn_def frame_simps)
next
  case False
  let ?s = "rows_of pd (sort_values pd by_threads True g)"
  have "mset (zip (map col_threads ?s) (map millions ?s)) = points (rows_of pd g)"
    by (simp add: zip_map_same points_def mset_sort)
  then show ?thesis
    using False assms sorted_threads [of g]
    by (simp add: series_def drawn_def frame_simps Let_def)
qed

lemma max_threads_value:
  "rows_of pd f \<noteq> [] \<Longrightarrow> max_threads pd f = Inr (Max (col_threads ` set (rows_of pd f)))"
  by (simp add: max_threads_def max_value)

lemma max_threads_empty: "rows_of pd f = [] \<Longrightarrow> max_threads pd f = Inl ValueError"
  by (simp add: max_threads_def max_empty)

lemma mean_millions_single: "rows_of pd g = [r] \<Longrightarrow> mean_millions pd g = millions r"
  by (simp add: mean_millions_def mean_single millions_def)

text \<open>A loop over locks draws one line per lock that has rows.\<close>

lemma lines_of_locks:
  assumes "\<forall>lk \<in> set lks. rows_of pd (sub lk) \<noteq> [] \<longrightarrow> kwargs lk = Inr (a lk)"
  shows "\<exists>dss. map_py (\<lambda>lk. series pd (sub lk) (kwargs lk)) lks = Inr dss \<and>
    list_all2 (\<lambda>lk ds. drawn (rows_of pd (sub lk)) (a lk) ds) lks dss"
  using assms by (intro map_py_all2) (auto intro!: series_drawn)

end

lemma list_all2_drawn_plots:
  "list_all2 (\<lambda>lk ds. drawn (r lk) (a lk) ds) lks dss \<Longrightarrow> filter is_plot (concat dss) = concat dss"
  by (induction rule: list_all2_induct) (auto dest: drawn_is_plot)

lemma grid_2x2_panels:
  assumes "\<forall>w \<in> set ws. \<exists>ds. body w = Inr ds \<and> P w ds"
  shows "\<exists>ps. grid_2x2 body ws = Inr ps \<and> length ps = 4 \<and>
    list_all2 P (take 4 ws) (take (min 4 (length ws)) ps)"
proof -
  have "\<forall>w \<in> set (take 4 ws). \<exists>ds. body w = Inr ds \<and> P w ds" using assms by (meson in_set_takeD)
  from map_py_all2 [OF this] obtain ps where ps: "map_py body (take 4 ws) = Inr ps" "list_all2 P (take 4 ws) ps"
    by blast
  moreover have "length ps = min 4 (length ws)" using list_all2_lengthD [OF ps(2)] by simp
  ultimately show ?thesis by (intro exI [of _ "ps @ replicate (4 - length ps) []"]) (auto simp: grid_2x2_def)
qed

definition lock_rows :: "sample list \<Rightarrow> string \<Rightarrow> string \<Rightarrow> sample list" where
  "lock_rows rs wkl lk = filter (\<lambda>r. col_workload r = wkl \<and> col_lk r = lk) rs"

definition panel_shows :: "sample list \<Rightarrow> string list \<Rightarrow> (string \<Rightarrow> attrs py) \<Rightarrow> string \<Rightarrow> draw list \<Rightarrow> bool" where
  \<comment> \<open>one line per lock that has rows in the workload, in the order of the locks\<close>
  "panel_shows rs lks kwargs wkl ds \<longleftrightarrow>
     (\<exists>dss. filter is_plot ds = concat dss \<and>
        list_all2 (\<lambda>lk d. \<exists>a. kwargs lk = Inr a \<and> drawn (lock_rows rs wkl lk) a d) lks dss)"


context dataframe
begin

lemma panel_lines:
  assumes "\<forall>lk \<in> set lks. \<exists>a. kwargs lk = Inr a" and "\<And>lk. rows_of pd (sub lk) = lock_rows rs wkl lk"
    and "filter is_plot tail = []"
  shows "\<exists>ds. bind_py (map_py (\<lambda>lk. series pd (sub lk) (kwargs lk)) lks) (\<lambda>dss. Inr (concat dss @ tail)) = Inr ds \<and>
    panel_shows rs lks kwargs wkl ds"
proof -
  obtain a where a: "\<forall>lk \<in> set lks. kwargs lk = Inr (a lk)" using assms(1) by metis
  then obtain dss where dss: "map_py (\<lambda>lk. series pd (sub lk) (kwargs lk)) lks = Inr dss"
      "list_all2 (\<lambda>lk ds. drawn (lock_rows rs wkl lk) (a lk) ds) lks dss"
    using lines_of_locks [of lks sub kwargs a] by (auto simp: assms(2))
  have "list_all2 (\<lambda>lk d. \<exists>a. kwargs lk = Inr a \<and> drawn (lock_rows rs wkl lk) a d) lks dss"
    using dss(2) by (rule list.rel_mono_strong) (use a in blast)
  then have "panel_shows rs lks kwargs wkl (concat dss @ tail)"
    using list_all2_drawn_plots [OF dss(2)] assms(3) by (auto simp: panel_shows_def)
  then show ?thesis using dss(1) by simp
qed

end

section \<open>Arithmetic of positions\<close>

fun fneg :: "flt \<Rightarrow> flt" where
  "fneg (Fin r) = (if r = 0 then NegZero else Fin (- r))"
| "fneg NegZero = Fin 0"
| "fneg PInf = NInf"
| "fneg NInf = PInf"
| "fneg NaN = NaN"

definition fsub :: "flt \<Rightarrow> flt \<Rightarrow> flt" where
  "fsub x y = fadd x (fneg y)"

text \<open>Text forms of lists in messages: \<open>", ".join\<close> and the \<open>repr\<close> of a list of plain strings.\<close>

fun join_with :: "string \<Rightarrow> string list \<Rightarrow> string" where
  "join_with sep [] = []"
| "join_with sep [s] = s"
| "join_with sep (s # ss) = s @ sep @ join_with sep ss"

definition repr_list :: "string list \<Rightarrow> string" where
  "repr_list ss = ''['' @ join_with '', '' (map (\<lambda>s. CHR 0x27 # s @ [CHR 0x27]) ss) @ '']''"

text \<open>A list of numpy integers, as numpy 2 prints it.\<close>

definition repr_np_ints :: "int list \<Rightarrow> string" where
  "repr_np_ints ns = ''['' @ join_with '', '' (map (\<lambda>n. ''np.int64('' @ show_int n @ '')'') ns) @ '']''"

text \<open>The files an events list saves.\<close>

fun saved_file :: "event \<Rightarrow> path list" where
  "saved_file (Saved f) = [fig_file f]"
| "saved_file (Printed _) = []"

definition saved_files :: "event list \<Rightarrow> path list" where
  "saved_files evs = concat (map saved_file evs)"

lemma saved_files_simps [simp]:
  "saved_files [] = []"
  "saved_files (e # evs) = saved_file e @ saved_files evs"
  "saved_files (evs @ evs') = saved_files evs @ saved_files evs'"
  by (simp_all add: saved_files_def)

end
