(* ===== verification/PlotCompare.thy ===== *)
theory PlotCompare
  imports Figure
begin

text \<open>
  \<open>scripts/plot_compare.py\<close>: one grid of line plots from a \<open>cdsbench\<close> result file, one panel per
  workload and one line per stripe lock found in the data.
\<close>

definition workload_label :: "sample \<Rightarrow> string" where
  "workload_label row =
     (let rd = col_read_pct row; ins = col_insert_pct row
      in if rd = 80 \<and> ins = 10 then col_dist row @ '' 80/10/10''
         else if rd = 90 \<and> ins = 5 then ''uniform 90/5/5 read-heavy''
         else if rd = 20 \<and> ins = 40 then ''zipfian 20/40/40 write-heavy''
         else mix_label CHR '' '' CHR ''/'' (col_dist row) rd ins)"

definition load_cds :: "'f pandas \<Rightarrow> 'f \<Rightarrow> 'f py" where
  "load_cds pd cds =
     apply_rows pd (\<lambda>r. r\<lparr>col_workload := workload_label r\<rparr>)
       (assign pd (\<lambda>r. r\<lparr>col_lk := remove_all ''cds-'' (col_lock r)\<rparr>) cds)"

definition lock_key :: "sample \<Rightarrow> cell list" where
  "lock_key r = [CStr (col_lk r)]"

fun key_text :: "cell list \<Rightarrow> string" where
  "key_text (CStr s # _) = s"
| "key_text _ = []"

definition compare_attrs :: "string \<Rightarrow> attrs" where
  "compare_attrs lk = [(''marker'', ''o''), (''label'', lk)]"

definition compare_panel :: "'f pandas \<Rightarrow> 'f \<Rightarrow> string \<Rightarrow> draw list py" where
  "compare_panel pd cds wkl =
     (let sub = select pd (\<lambda>r. col_workload r = wkl) cds
      in bind_py (map_py (\<lambda>(lk, g). series pd g (Inr (compare_attrs (key_text lk)))) (groupby pd lock_key sub)) (\<lambda>dss.
         Inr (concat dss @
           [Call ''set_title'' [wkl] [], Call ''set_xlabel'' [''Threads''] [],
            Call ''set_ylabel'' [''M ops/s''] [], Call ''legend'' [] [(''fontsize'', ''8'')],
            Call ''grid'' [''True''] [(''alpha'', ''0.3'')]])))"

definition compare_script :: "'f pandas \<Rightarrow> (string \<Rightarrow> 'f) \<Rightarrow> string list \<Rightarrow> event list py" where
  \<comment> \<open>the arguments are those of the command line after the script's name\<close>
  "compare_script pd read_csv args =
     (case args of
        cds_csv # out_dir # _ \<Rightarrow>
          bind_py (load_cds pd (read_csv cds_csv)) (\<lambda>cds.
            let workloads = py_sorted (unique_of pd col_workload cds)
            in bind_py (grid_2x2 (compare_panel pd cds) workloads) (\<lambda>axes.
                Inr [Saved \<lparr>fig_args = [(''figsize'', ''(13, 9)'')], fig_axes = axes,
                       fig_calls = [Call ''suptitle''
                         [''libcds StripedMap '' @ em_dash @ '' stripe-lock comparison (cdsbench)'']
                         [(''fontsize'', ''12'')], Call ''tight_layout'' [] []],
                       fig_file = [out_dir, ''cds_locks.png'']\<rparr>,
                     Printed (''Wrote '' @ out_dir @ ''/cds_locks.png'')]))
      | _ \<Rightarrow> Inl IndexError)"

section \<open>What the figure shows\<close>

definition panel_complete :: "sample list \<Rightarrow> string \<Rightarrow> draw list \<Rightarrow> bool" where
  \<comment> \<open>exactly one line for every lock that occurs in the workload\<close>
  "panel_complete rs wkl ds \<longleftrightarrow>
     (\<exists>lks dss. distinct lks \<and> set lks = col_lk ` {r \<in> set rs. col_workload r = wkl} \<and>
        filter is_plot ds = concat dss \<and>
        list_all2 (\<lambda>lk d. drawn (lock_rows rs wkl lk) (compare_attrs lk) d) lks dss)"

context dataframe
begin

lemma lock_groups:
  "distinct (map (key_text \<circ> fst) (groupby pd lock_key f))"
  "set (map (key_text \<circ> fst) (groupby pd lock_key f)) = col_lk ` set (rows_of pd f)"
  "(k, g) \<in> set (groupby pd lock_key f) \<Longrightarrow> rows_of pd g = filter (\<lambda>r. col_lk r = key_text k) (rows_of pd f)"
proof -
  have "\<not> nan_key (lock_key r)" for r by (simp add: nan_key_def lock_key_def)
  then have keys: "fst ` set (groupby pd lock_key f) = lock_key ` set (rows_of pd f)"
    using group_keys [of lock_key f] by auto
  then have "inj_on key_text (fst ` set (groupby pd lock_key f))"
    by (auto simp: inj_on_def lock_key_def)
  then show "distinct (map (key_text \<circ> fst) (groupby pd lock_key f))"
    using distinct_groups [of lock_key f] by (simp add: distinct_map comp_inj_on)
  have "set (map (key_text \<circ> fst) (groupby pd lock_key f)) = key_text ` lock_key ` set (rows_of pd f)"
    unfolding keys [symmetric] by (simp add: image_image)
  then show "set (map (key_text \<circ> fst) (groupby pd lock_key f)) = col_lk ` set (rows_of pd f)"
    by (simp add: image_image lock_key_def)
  assume k: "(k, g) \<in> set (groupby pd lock_key f)"
  then have "k \<in> lock_key ` set (rows_of pd f)" using keys by force
  then have "lock_key r = k \<longleftrightarrow> col_lk r = key_text k" for r by (auto simp: lock_key_def)
  then show "rows_of pd g = filter (\<lambda>r. col_lk r = key_text k) (rows_of pd f)"
    using rows_group [OF k] by simp
qed

lemma compare_panel_complete:
  "\<exists>ds. compare_panel pd cds wkl = Inr ds \<and> panel_complete (rows_of pd cds) wkl ds"
proof -
  let ?sub = "select pd (\<lambda>r. col_workload r = wkl) cds"
  let ?gs = "groupby pd lock_key ?sub" and ?rs = "rows_of pd cds"
  have "\<forall>p \<in> set ?gs. \<exists>d. (case p of (lk, g) \<Rightarrow> series pd g (Inr (compare_attrs (key_text lk)))) = Inr d \<and>
      drawn (lock_rows ?rs wkl (key_text (fst p))) (compare_attrs (key_text (fst p))) d"
  proof
    fix p assume p: "p \<in> set ?gs"
    obtain k g where kg: "p = (k, g)" by fastforce
    have "rows_of pd g = lock_rows ?rs wkl (key_text k)"
      using lock_groups(3) [of k g ?sub] p by (simp add: kg frame_simps lock_rows_def conj_commute)
    then show "\<exists>d. (case p of (lk, g) \<Rightarrow> series pd g (Inr (compare_attrs (key_text lk)))) = Inr d \<and>
        drawn (lock_rows ?rs wkl (key_text (fst p))) (compare_attrs (key_text (fst p))) d"
      using series_drawn [of g "Inr (compare_attrs (key_text k))" "compare_attrs (key_text k)"] by (simp add: kg)
  qed
  from map_py_all2 [OF this] obtain dss where
    dss: "map_py (\<lambda>(lk, g). series pd g (Inr (compare_attrs (key_text lk)))) ?gs = Inr dss"
      "list_all2 (\<lambda>p d. drawn (lock_rows ?rs wkl (key_text (fst p))) (compare_attrs (key_text (fst p))) d) ?gs dss"
    by blast
  then have all: "list_all2 (\<lambda>lk d. drawn (lock_rows ?rs wkl lk) (compare_attrs lk) d)
      (map (key_text \<circ> fst) ?gs) dss" by (simp add: list_all2_map1 comp_def)
  have "set (map (key_text \<circ> fst) ?gs) = col_lk ` {r \<in> set ?rs. col_workload r = wkl}"
    by (simp only: lock_groups(2) frame_simps set_filter)
  then have "panel_complete ?rs wkl (concat dss @ tail)" if "filter is_plot tail = []" for tail
    using lock_groups(1) [of ?sub] list_all2_drawn_plots [OF all] all that
    unfolding panel_complete_def
    by (intro exI [of _ "map (key_text \<circ> fst) ?gs"] exI [of _ dss]) simp
  then show ?thesis using dss(1) by (simp add: compare_panel_def Let_def)
qed

end

text \<open>
  The script draws, for each of the first four workload labels in sorted order, one panel
  with exactly one line for every lock that occurs in that workload, through exactly the points of
  that lock in ascending order of threads.
\<close>

theorem compare_script_shows:
  assumes "dataframe pd" and "load_cds pd (read_csv csv) = Inr cds"
    and "ws = py_sorted (unique_of pd col_workload cds)"
  shows "\<exists>f msg. compare_script pd read_csv (csv # dir # args) = Inr [Saved f, Printed msg] \<and>
    fig_file f = [dir, ''cds_locks.png''] \<and> length (fig_axes f) = 4 \<and>
    list_all2 (panel_complete (rows_of pd cds)) (take 4 ws) (take (min 4 (length ws)) (fig_axes f))"
proof -
  obtain ps where ps: "grid_2x2 (compare_panel pd cds) ws = Inr ps" "length ps = 4"
      "list_all2 (panel_complete (rows_of pd cds)) (take 4 ws) (take (min 4 (length ws)) ps)"
    using grid_2x2_panels dataframe.compare_panel_complete [OF assms(1)] by metis
  then show ?thesis using assms(2,3) by (simp add: compare_script_def Let_def)
qed

definition std_row :: sample where
  "std_row = \<lparr>col_arch = ''xeon'', col_lock = ''cds-std'', col_dist = ''uniform'',
     col_zipf_theta = Fin (99 / 100), col_threads = 4, col_key_range = 1000, col_read_pct = 80,
     col_insert_pct = 10, col_ops_s = Fin 5000000, col_fairness_ratio = Fin 1, col_bench = ''cds'',
     col_lk = [], col_workload = [],
     raw_zipf_theta = CStr ''0,990000'', raw_fairness_ratio = CStr ''1,000000'', col_hostname = ''host'', raw_ns_op = CStr [], col_ns_op = NaN, col_stream_len = 0,
      col_buckets = 0, col_cache_regime = [], col_skew_tier = [], col_mix = [], col_ops_s_p25 = NaN, col_ops_s_p75 = NaN, col_n = 0, col_cov_pct = NaN\<rparr>"

definition labelled :: "sample \<Rightarrow> sample" where
  "labelled r = (let s = r\<lparr>col_lk := remove_all ''cds-'' (col_lock r)\<rparr> in s\<lparr>col_workload := workload_label s\<rparr>)"

theorem compare_script_shows_witness:
  "\<exists>f msg. compare_script list_pandas (\<lambda>_. [std_row]) [''cds.csv'', ''out''] = Inr [Saved f, Printed msg] \<and>
    fig_file f = [''out'', ''cds_locks.png''] \<and> length (fig_axes f) = 4 \<and>
    list_all2 (panel_complete (rows_of list_pandas [labelled std_row]))
      (take 4 (py_sorted (unique_of list_pandas col_workload [labelled std_row])))
      (take (min 4 (length (py_sorted (unique_of list_pandas col_workload [labelled std_row])))) (fig_axes f))"
  by (rule compare_script_shows [OF rows.dataframe_axioms, where args = "[]"])
     (simp_all add: load_cds_def list_pandas_def labelled_def Let_def)

end
