(* ===== verification/Deck.thy ===== *)
theory Deck
  imports Figure
begin

text \<open>
  Slides as the scripts build them through python-pptx: a presentation is the list of its slides,
  a slide the list of its shapes in the order they were added. A length is a number of inches
  (the conversion to the integer units of the file format is not modelled, nor are the fonts of table cells).
  What python-pptx finds in an image file is an argument: the image's own width and height, or the
  exception with which it refuses the file.
\<close>

type_synonym inches = rat

text \<open>A paragraph: its text, level, font size in points and other attributes.\<close>

datatype para = Para string nat nat attrs

datatype shape =
    TextBox inches inches inches inches "para list"
  | Picture path inches inches inches inches
  | Table nat nat inches inches inches inches "inches list" "string list list"

type_synonym slide = "shape list"
type_synonym deck = "slide list"

text \<open>A bullet has a level: a plain string is a bullet of level zero.\<close>

type_synonym bullet = "nat \<times> string"

definition bold :: attrs where "bold = [(''bold'', ''True'')]"

text \<open>
  \<open>add_picture\<close>: of a picture given only one dimension the other follows from the proportions of the
  image, and one given none has the image's own size.
\<close>

type_synonym images = "path \<Rightarrow> (inches \<times> inches) py"

fun picture_size :: "inches \<times> inches \<Rightarrow> inches option \<Rightarrow> inches option \<Rightarrow> inches \<times> inches" where
  "picture_size _ (Some w) (Some h) = (w, h)"
| "picture_size (iw, ih) (Some w) None = (w, w * ih / iw)"
| "picture_size (iw, ih) None (Some h) = (h * iw / ih, h)"
| "picture_size own None None = own"

definition add_picture :: "images \<Rightarrow> path \<Rightarrow> inches \<Rightarrow> inches \<Rightarrow> inches option \<Rightarrow> inches option \<Rightarrow> shape py" where
  "add_picture images p x y w h =
     bind_py (images p) (\<lambda>own. let (pw, ph) = picture_size own w h in Inr (Picture p x y pw ph))"

text \<open>Whether a shape lies within a slide.\<close>

definition box_fits :: "inches \<Rightarrow> inches \<Rightarrow> inches \<Rightarrow> inches \<Rightarrow> inches \<Rightarrow> inches \<Rightarrow> bool" where
  "box_fits sw sh x y w h \<longleftrightarrow>
     0 \<le> x \<and> 0 \<le> y \<and> x + w \<le> sw \<and> y + h \<le> sh"

fun shape_fits :: "inches \<Rightarrow> inches \<Rightarrow> shape \<Rightarrow> bool" where
  "shape_fits sw sh (TextBox x y w h _) = box_fits sw sh x y w h"
| "shape_fits sw sh (Table _ _ x y w h _ _) = box_fits sw sh x y w h"
| "shape_fits sw sh (Picture _ x y w h) = box_fits sw sh x y w h"

text \<open>The pictures of a deck, in order.\<close>

fun pictures_of :: "shape \<Rightarrow> path list" where
  "pictures_of (Picture p _ _ _ _) = [p]"
| "pictures_of _ = []"

definition deck_pictures :: "deck \<Rightarrow> path list" where
  "deck_pictures d = concat (map pictures_of (concat d))"

text \<open>Texts of a slide, for comparing decks.\<close>

fun texts_of :: "shape \<Rightarrow> string list" where
  "texts_of (TextBox _ _ _ _ ps) = map (\<lambda>p. case p of Para t _ _ _ \<Rightarrow> t) ps"
| "texts_of (Table _ _ _ _ _ _ _ rows) = concat rows"
| "texts_of (Picture _ _ _ _ _) = []"

text \<open>
  Filling the cells of a table row by row: writing to a column the table does not have raises.
  The cells that no row writes stay empty.
\<close>

definition fill_rows :: "nat \<Rightarrow> string list list \<Rightarrow> string list list py" where
  "fill_rows n_cols rows =
     map_py (\<lambda>row. if length row \<le> n_cols then Inr (row @ replicate (n_cols - length row) []) else Inl IndexError) rows"

lemma fill_rows_rectangular:
  "list_all (\<lambda>row. length row = n) rows \<Longrightarrow> fill_rows n rows = Inr rows"
  unfolding fill_rows_def by (induction rows) auto

lemma fill_rows_Inr: "fill_rows n rows = Inr cells \<Longrightarrow> list_all (\<lambda>row. length row = n) cells \<and> length cells = length rows"
  unfolding fill_rows_def
  by (induction rows arbitrary: cells) (auto simp: bind_py_eq_Inr split: if_splits)

section \<open>Running a list of calls\<close>

text \<open>
  Every deck script is a sequence of calls of its slide helpers. What a script relies on is that a
  call with well-formed arguments adds one slide, whose shapes lie within the slide.
\<close>

definition deck_fits :: "inches \<Rightarrow> inches \<Rightarrow> deck \<Rightarrow> bool" where
  "deck_fits sw sh d \<longleftrightarrow> list_all (list_all (shape_fits sw sh)) d"

locale slide_helpers =
  fixes run :: "'c \<Rightarrow> slide py" and ok :: "'c \<Rightarrow> bool" and sw sh :: inches
  assumes run_ok: "ok c \<Longrightarrow> \<exists>s. run c = Inr s \<and> list_all (shape_fits sw sh) s"
begin

lemma run_calls:
  assumes "list_all ok calls"
  shows "\<exists>d. map_py run calls = Inr d \<and> length d = length calls \<and> deck_fits sw sh d"
proof -
  have "\<forall>c \<in> set calls. \<exists>s. run c = Inr s \<and> list_all (shape_fits sw sh) s"
    using assms run_ok by (auto simp: list_all_iff)
  then obtain d where "map_py run calls = Inr d" and all2: "list_all2 (\<lambda>c s. list_all (shape_fits sw sh) s) calls d"
    using map_py_all2 [of calls run "\<lambda>c s. list_all (shape_fits sw sh) s"] by blast
  moreover have "deck_fits sw sh d"
    using all2 by (auto simp: deck_fits_def list_all_length list_all2_conv_all_nth)
  ultimately show ?thesis using list_all2_lengthD [OF all2] by auto
qed

lemma run_calls_Inr:
  "list_all ok calls \<Longrightarrow> map_py run calls = Inr d \<Longrightarrow> length d = length calls \<and> deck_fits sw sh d"
  using run_calls by fastforce

end

end
