(* ===== verification/PlotWormhole.thy ===== *)
theory PlotWormhole
  imports Figure
begin

text \<open>
  \<open>scripts/plot_wormhole.py\<close>: for every architecture with a Wormhole result file, a grid of line
  plots, a bar chart at the largest thread count and a grid that highlights \<open>occ-opt\<close>. The file
  system and pandas are arguments.
\<close>

section \<open>Constants and labels\<close>

definition LOCKS :: "string list" where
  "LOCKS = [''default'', ''rw'', ''tas'', ''ttas'', ''cas'', ''occ'', ''occ-opt'']"

definition PALETTE :: "(string, string) dict" where
  "PALETTE =
     [(''default'', ''#888''), (''rw'', ''#444''), (''tas'', ''tab:blue''), (''ttas'', ''tab:green''),
      (''cas'', ''tab:orange''), (''occ'', ''tab:purple''), (''occ-opt'', ''tab:red'')]"

definition STYLES :: "(string, string) dict" where
  "STYLES = dict_of (map (\<lambda>lk. (lk, if lk = ''default'' then ''--'' else ''-'')) LOCKS)"

definition workload :: "sample \<Rightarrow> string" where
  "workload row =
     (let rd = col_read_pct row; ins = col_insert_pct row
      in if rd = 80 \<and> ins = 10 then col_dist row @ '' 80/10/10''
         else if rd = 90 \<and> ins = 5 then ''uniform 90/5/5 read-heavy''
         else if rd = 20 \<and> ins = 40 then ''zipfian 20/40/40 write-heavy''
         else mix_label CHR '' '' CHR ''/'' (col_dist row) rd ins)"

definition load_one :: "'f pandas \<Rightarrow> 'f \<Rightarrow> 'f py" where
  "load_one pd df =
     apply_rows pd (\<lambda>r. r\<lparr>col_workload := workload r\<rparr>)
       (assign pd (\<lambda>r. r\<lparr>col_lk := remove_all ''wh-'' (col_lock r)\<rparr>) df)"

section \<open>The three figures of an architecture\<close>

definition rows_for :: "'f pandas \<Rightarrow> 'f \<Rightarrow> string \<Rightarrow> string \<Rightarrow> 'f" where
  \<comment> \<open>\<open>sub = df[df.workload == wkl]\<close>, then \<open>sub[sub.lk == lk]\<close>\<close>
  "rows_for pd df wkl lk = select pd (\<lambda>r. col_lk r = lk) (select pd (\<lambda>r. col_workload r = wkl) df)"

definition line_attrs :: "string \<Rightarrow> attrs py" where
  "line_attrs lk =
     bind_py (get_item PALETTE lk) (\<lambda>color. bind_py (get_item STYLES lk) (\<lambda>style.
       Inr [(''marker'', ''o''), (''color'', color), (''linestyle'', style), (''linewidth'', ''2''),
            (''label'', lk)]))"

definition locks_panel :: "'f pandas \<Rightarrow> 'f \<Rightarrow> string \<Rightarrow> draw list py" where
  "locks_panel pd df wkl =
     bind_py (map_py (\<lambda>lk. series pd (rows_for pd df wkl lk) (line_attrs lk)) LOCKS) (\<lambda>dss.
       Inr (concat dss @
         [Call ''set_title'' [wkl] [(''fontsize'', ''11'')], Call ''set_xlabel'' [''Threads''] [],
          Call ''set_ylabel'' [''M ops/s''] [], Call ''legend'' [] [(''fontsize'', ''8''), (''ncol'', ''2'')],
          Call ''grid'' [''True''] [(''alpha'', ''0.3'')], Call ''set_xscale'' [''log''] [(''base'', ''2'')]]))"

definition locks_figure :: "'f pandas \<Rightarrow> string \<Rightarrow> path \<Rightarrow> 'f \<Rightarrow> string list \<Rightarrow> figure py" where
  "locks_figure pd arch out_dir df workloads =
     bind_py (grid_2x2 (locks_panel pd df) workloads) (\<lambda>axes.
       Inr \<lparr>fig_args = [(''figsize'', ''(13, 9)'')], fig_axes = axes,
            fig_calls = [Call ''suptitle''
              [''Wormhole '' @ em_dash @ '' pluggable lock comparison ('' @ arch @ '')'']
              [(''fontsize'', ''13''), (''y'', ''0.995'')], Call ''tight_layout'' [] []],
            fig_file = out_dir @ [''wh_locks.png'']\<rparr>)"

definition bar_width :: flt where
  "bar_width = fl (12 / 100)"

definition bar_of_lock :: "'f pandas \<Rightarrow> 'f \<Rightarrow> string list \<Rightarrow> int \<Rightarrow> nat \<times> string \<Rightarrow> draw py" where
  "bar_of_lock pd df workloads max_t = (\<lambda>(i, lk).
     let ys = map (\<lambda>wkl. mean_millions pd (select pd (\<lambda>r.
                col_workload r = wkl \<and> col_lk r = lk \<and> col_threads r = max_t) df)) workloads;
         offset = fmul (Fin (of_int (int i - 3))) bar_width
     in bind_py (get_item PALETTE lk) (\<lambda>color.
          Inr (Bar (bar_positions (length workloads) offset) ys bar_width
            [(''color'', color), (''label'', lk), (''edgecolor'', ''black''), (''linewidth'', ''0.4'')])))"

definition bars_figure :: "'f pandas \<Rightarrow> string \<Rightarrow> path \<Rightarrow> 'f \<Rightarrow> string list \<Rightarrow> int \<Rightarrow> figure py" where
  "bars_figure pd arch out_dir df workloads max_t =
     bind_py (map_py (bar_of_lock pd df workloads max_t) (zip [0..<length LOCKS] LOCKS)) (\<lambda>bars.
       Inr \<lparr>fig_args = [(''figsize'', ''(13, 5.5)'')],
            fig_axes = [bars @
              [Call ''set_xticks'' (map show_nat [0..<length workloads]) [],
               Call ''set_xticklabels'' (map break_first_space workloads) [(''fontsize'', ''10'')],
               Call ''set_ylabel'' [''M ops/s @ '' @ show_int max_t @ '' threads''] [],
               Call ''set_title'' [''Wormhole '' @ em_dash @ '' '' @ show_int max_t @
                 ''-thread throughput by lock variant ('' @ arch @ '')''] [(''fontsize'', ''12'')],
               Call ''legend'' [] [(''fontsize'', ''9''), (''ncol'', ''7''), (''loc'', ''upper right'')],
               Call ''grid'' [''True''] [(''axis'', ''y''), (''alpha'', ''0.3'')]]],
            fig_calls = [Call ''tight_layout'' [] []],
            fig_file = out_dir @ [''wh_threads_max.png'']\<rparr>)"

definition focus_locks :: "string list" where
  "focus_locks = [''default'', ''rw'', ''cas'', ''occ'', ''occ-opt'']"

definition focus_attrs :: "string \<Rightarrow> attrs py" where
  "focus_attrs lk =
     (let is_occopt = (lk = ''occ-opt'')
      in bind_py (get_item PALETTE lk) (\<lambda>color. bind_py (get_item STYLES lk) (\<lambda>style.
       Inr [(''marker'', if is_occopt then ''*'' else ''o''),
            (''markersize'', if is_occopt then ''14'' else ''7''), (''color'', color), (''linestyle'', style),
            (''linewidth'', if is_occopt then ''3'' else ''1.5''),
            (''label'', lk @ (if is_occopt then '' '' @ star else ''''))])))"

definition focus_panel :: "'f pandas \<Rightarrow> 'f \<Rightarrow> string \<Rightarrow> draw list py" where
  "focus_panel pd df wkl =
     bind_py (map_py (\<lambda>lk. series pd (rows_for pd df wkl lk) (focus_attrs lk)) focus_locks) (\<lambda>dss.
       Inr (concat dss @
         [Call ''set_title'' [wkl] [(''fontsize'', ''11'')], Call ''set_xlabel'' [''Threads''] [],
          Call ''set_ylabel'' [''M ops/s''] [], Call ''legend'' [] [(''fontsize'', ''9'')],
          Call ''grid'' [''True''] [(''alpha'', ''0.3'')], Call ''set_xscale'' [''log''] [(''base'', ''2'')]]))"

definition focus_figure :: "'f pandas \<Rightarrow> string \<Rightarrow> path \<Rightarrow> 'f \<Rightarrow> string list \<Rightarrow> figure py" where
  "focus_figure pd arch out_dir df workloads =
     bind_py (grid_2x2 (focus_panel pd df) workloads) (\<lambda>axes.
       Inr \<lparr>fig_args = [(''figsize'', ''(13, 9)'')], fig_axes = axes,
            fig_calls = [Call ''suptitle''
              [''Wormhole '' @ em_dash @ '' occ-opt ('' @ star @ '') vs locked baselines ('' @ arch @ '')'']
              [(''fontsize'', ''13''), (''y'', ''0.995'')], Call ''tight_layout'' [] []],
            fig_file = out_dir @ [''wh_occopt_focus.png'']\<rparr>)"

definition path_text :: "path \<Rightarrow> string" where
  "path_text p = concat (map (\<lambda>c. CHR ''/'' # c) p)"

definition save :: "figure \<Rightarrow> event list" where
  "save f = [Saved f, Printed (''Wrote '' @ path_text (fig_file f))]"

definition plot_arch :: "'f pandas \<Rightarrow> string \<Rightarrow> path \<Rightarrow> 'f \<Rightarrow> event list py" where
  "plot_arch pd arch csv_path csv =
     (let out_dir = butlast csv_path
      in bind_py (load_one pd csv) (\<lambda>df. let workloads = py_sorted (unique_of pd col_workload df) in
         bind_py (max_threads pd df) (\<lambda>max_t.
         bind_py (locks_figure pd arch out_dir df workloads) (\<lambda>f1.
         bind_py (bars_figure pd arch out_dir df workloads max_t) (\<lambda>f2.
         bind_py (focus_figure pd arch out_dir df workloads) (\<lambda>f3.
           Inr (save f1 @ save f2 @ save f3)))))))"

section \<open>Discovery of result files\<close>

text \<open>The files that match a pattern below the root, whether a file exists, and its contents.\<close>

record 'f world =
  root :: path
  glob_files :: "string \<Rightarrow> path list"
  path_exists :: "path \<Rightarrow> bool"
  csv_frame :: "path \<Rightarrow> 'f"

text \<open>Reading a file by name: one that is not there raises.\<close>

definition read_results :: "'f world \<Rightarrow> path \<Rightarrow> 'f py" where
  "read_results fs p = (if path_exists fs p then Inr (csv_frame fs p) else Inl FileNotFoundError)"

definition find_csvs :: "'f world \<Rightarrow> path list" where
  "find_csvs fs =
     (let csvs = py_sorted (glob_files fs ''results/*/wh_compare/wh.csv'');
          legacy = root fs @ [''results'', ''wh_compare'', ''wh.csv'']
      in if csvs = [] \<and> path_exists fs legacy then [legacy] else csvs)"

definition arch_of :: "'f world \<Rightarrow> path \<Rightarrow> string" where
  "arch_of fs csv =
     (let dir = butlast (butlast csv)
      in if dir \<noteq> root fs @ [''results''] then last dir else ''default'')"

definition wh_main :: "'f pandas \<Rightarrow> 'f world \<Rightarrow> event list py" where
  "wh_main pd fs =
     (let csvs = find_csvs fs
      in if csvs = [] then Inr [Printed ''No wh.csv found under results/. Run scripts/wh_compare.sh first.'']
         else bind_py (map_py (\<lambda>csv. plot_arch pd (arch_of fs csv) csv (csv_frame fs csv)) csvs) (\<lambda>evs.
           Inr (concat evs)))"

section \<open>Labels that coincide\<close>

definition named_mix :: "int \<Rightarrow> int \<Rightarrow> bool" where
  \<comment> \<open>mixes whose label does not depend on the distribution\<close>
  "named_mix rd ins \<longleftrightarrow> rd = 90 \<and> ins = 5 \<or> rd = 20 \<and> ins = 40"

lemma workload_text:
  "workload row =
     mix_label CHR '' '' CHR ''/''
       (if col_read_pct row = 90 \<and> col_insert_pct row = 5 then ''uniform''
        else if col_read_pct row = 20 \<and> col_insert_pct row = 40 then ''zipfian'' else col_dist row)
       (col_read_pct row) (col_insert_pct row) @
     (\<lambda>(rd, ins). if rd = 90 \<and> ins = 5 then '' read-heavy''
       else if rd = 20 \<and> ins = 40 then '' write-heavy'' else []) (col_read_pct row, col_insert_pct row)"
proof -
  have texts: "show_int 80 = ''80''" "show_int 10 = ''10''" "show_int 90 = ''90''" "show_int 5 = ''5''"
    "show_int 20 = ''20''" "show_int 40 = ''40''"
    by code_simp+
  show ?thesis by (auto simp: workload_def mix_label_def texts Let_def)
qed

text \<open>
  C5. Two rows of the two distributions in use get the same workload label exactly when they have
  the same percentages and the same distribution, except for the mixes 90/5/5 and 20/40/40, where
  the label ignores the distribution: zipfian 90/5/5 rows are labelled, and plotted, as uniform.
\<close>

theorem workload_collisions:
  assumes "col_dist a \<in> {''uniform'', ''zipfian''}" and "col_dist b \<in> {''uniform'', ''zipfian''}"
  shows "workload a = workload b \<longleftrightarrow>
    col_read_pct a = col_read_pct b \<and> col_insert_pct a = col_insert_pct b \<and>
    (col_dist a = col_dist b \<or> named_mix (col_read_pct a) (col_insert_pct a))"
proof -
  have "CHR '' '' \<notin> set (if P then ''uniform'' else if Q then ''zipfian'' else col_dist r)"
    if "col_dist r \<in> {''uniform'', ''zipfian''}" for P Q r
    using that by auto
  note space = this [OF assms(1)] this [OF assms(2)]
  have slash: "\<not> is_digit CHR ''/''" "CHR ''/'' \<noteq> CHR ''-''" by (simp_all add: is_digit_def)
  show ?thesis
    unfolding workload_text suffixed_mix_inj [OF space slash] by (auto simp: named_mix_def)
qed

definition zipfian_reads :: sample where
  "zipfian_reads = \<lparr>col_arch = ''x86_64'', col_lock = ''wh-tas'', col_dist = ''zipfian'',
     col_zipf_theta = Fin (99 / 100), col_threads = 8, col_key_range = 1000, col_read_pct = 90,
     col_insert_pct = 5, col_ops_s = Fin 7000000, col_fairness_ratio = Fin 1, col_bench = ''wh'',
     col_lk = ''tas'', col_workload = [],
     raw_zipf_theta = CStr ''0,990000'', raw_fairness_ratio = CStr ''1,000000'', col_hostname = ''host'', raw_ns_op = CStr [], col_ns_op = NaN, col_stream_len = 0,
      col_buckets = 0, col_cache_regime = [], col_skew_tier = [], col_mix = [], col_ops_s_p25 = NaN, col_ops_s_p75 = NaN, col_n = 0, col_cov_pct = NaN\<rparr>"

theorem workload_collisions_witness:
  "workload zipfian_reads = workload (zipfian_reads\<lparr>col_dist := ''uniform''\<rparr>)"
  by (subst workload_collisions) (simp_all add: zipfian_reads_def named_mix_def)

section \<open>What the figures show\<close>

definition annotate :: "sample \<Rightarrow> sample" where
  "annotate r = r\<lparr>col_lk := remove_all ''wh-'' (col_lock r), col_workload := workload r\<rparr>"

lemma workload_lk [simp]: "workload (r\<lparr>col_lk := l\<rparr>) = workload r"
  by (simp add: workload_def Let_def)

lemma attrs_total:
  assumes "lk \<in> set LOCKS"
  shows "\<exists>a. line_attrs lk = Inr a" and "\<exists>a. focus_attrs lk = Inr a" and "\<exists>c. get_item PALETTE lk = Inr c"
proof -
  have "list_all (\<lambda>lk. map_of PALETTE lk \<noteq> None \<and> map_of STYLES lk \<noteq> None) LOCKS" by code_simp
  then obtain c s where "map_of PALETTE lk = Some c" "map_of STYLES lk = Some s"
    using assms by (auto simp: list_all_iff)
  then show "\<exists>a. line_attrs lk = Inr a" and "\<exists>a. focus_attrs lk = Inr a" and "\<exists>c. get_item PALETTE lk = Inr c"
    by (simp_all add: line_attrs_def focus_attrs_def get_item_def Let_def)
qed

definition bars_show :: "'f pandas \<Rightarrow> 'f \<Rightarrow> string list \<Rightarrow> int \<Rightarrow> draw list \<Rightarrow> bool" where
  \<comment> \<open>one bar series per lock, one bar per workload, zero where there is no row\<close>
  "bars_show pd df ws max_t ds \<longleftrightarrow>
     list_all2 (\<lambda>lk d. \<exists>xs a. d = Bar xs (map (\<lambda>wkl. mean_millions pd (select pd (\<lambda>r.
        col_workload r = wkl \<and> col_lk r = lk \<and> col_threads r = max_t) df)) ws) bar_width a \<and> length xs = length ws)
       LOCKS (take (length LOCKS) ds)"

lemma bars_figure_shows:
  "\<exists>f. bars_figure pd arch out_dir df ws max_t = Inr f \<and> fig_file f = out_dir @ [''wh_threads_max.png''] \<and>
     (\<exists>ds. fig_axes f = [ds] \<and> bars_show pd df ws max_t ds)"
proof -
  let ?P = "\<lambda>(i :: nat, lk) d. \<exists>xs a. d = Bar xs (map (\<lambda>wkl. mean_millions pd (select pd (\<lambda>r.
      col_workload r = wkl \<and> col_lk r = lk \<and> col_threads r = max_t) df)) ws) bar_width a \<and> length xs = length ws"
  have "\<forall>p \<in> set (zip [0..<length LOCKS] LOCKS). \<exists>d. bar_of_lock pd df ws max_t p = Inr d \<and> ?P p d"
  proof
    fix p assume "p \<in> set (zip [0..<length LOCKS] LOCKS)"
    moreover obtain i lk where p: "p = (i, lk)" by fastforce
    ultimately have "lk \<in> set LOCKS" by (auto dest: set_zip_rightD)
    then obtain c where "get_item PALETTE lk = Inr c" using attrs_total(3) by blast
    then show "\<exists>d. bar_of_lock pd df ws max_t p = Inr d \<and> ?P p d"
      by (simp add: p bar_of_lock_def bar_positions_def Let_def)
  qed
  from map_py_all2 [OF this] obtain bars where
    bars: "map_py (bar_of_lock pd df ws max_t) (zip [0..<length LOCKS] LOCKS) = Inr bars"
      "list_all2 ?P (zip [0..<length LOCKS] LOCKS) bars" by blast
  have len: "length bars = length LOCKS" using list_all2_lengthD [OF bars(2)] by simp
  have "list_all2 (\<lambda>lk d. \<exists>xs a. d = Bar xs (map (\<lambda>wkl. mean_millions pd (select pd (\<lambda>r.
      col_workload r = wkl \<and> col_lk r = lk \<and> col_threads r = max_t) df)) ws) bar_width a \<and> length xs = length ws) LOCKS bars"
    using bars(2) by (auto simp: list_all2_conv_all_nth)
  then show ?thesis using bars(1) len by (auto simp: bars_figure_def bars_show_def)
qed

context dataframe
begin

lemma rows_load_one:
  "rows_of pd csv \<noteq> [] \<Longrightarrow> load_one pd csv = Inr df \<Longrightarrow> rows_of pd df = map annotate (rows_of pd csv)"
  by (auto simp: load_one_def apply_rows_Inr frame_simps annotate_def comp_def)

lemma rows_rows_for: "rows_of pd (rows_for pd df wkl lk) = lock_rows (rows_of pd df) wkl lk"
  by (simp add: rows_for_def lock_rows_def frame_simps conj_commute)

lemma locks_panel_shows:
  "\<exists>ds. locks_panel pd df wkl = Inr ds \<and> panel_shows (rows_of pd df) LOCKS line_attrs wkl ds"
  unfolding locks_panel_def
  by (rule panel_lines) (auto simp: rows_rows_for attrs_total)

lemma focus_panel_shows:
  "\<exists>ds. focus_panel pd df wkl = Inr ds \<and> panel_shows (rows_of pd df) focus_locks focus_attrs wkl ds"
proof -
  have "set focus_locks \<subseteq> set LOCKS" by (simp add: focus_locks_def LOCKS_def)
  then show ?thesis
    unfolding focus_panel_def
    by (intro panel_lines) (auto simp: rows_rows_for attrs_total)
qed

lemma plot_arch_figures:
  assumes "rows_of pd csv \<noteq> []"
    and "load_one pd csv = Inr df" and "ws = py_sorted (unique_of pd col_workload df)"
    and "max_t = Max (col_threads ` set (rows_of pd csv))"
  shows "\<exists>f1 f2 f3 ds. plot_arch pd arch path csv = Inr (save f1 @ save f2 @ save f3) \<and>
    map fig_file [f1, f2, f3] = map (\<lambda>n. butlast path @ [n])
      [''wh_locks.png'', ''wh_threads_max.png'', ''wh_occopt_focus.png''] \<and>
    length (fig_axes f1) = 4 \<and> length (fig_axes f3) = 4 \<and>
    list_all2 (panel_shows (rows_of pd df) LOCKS line_attrs) (take 4 ws)
      (take (min 4 (length ws)) (fig_axes f1)) \<and>
    fig_axes f2 = [ds] \<and> bars_show pd df ws max_t ds \<and>
    list_all2 (panel_shows (rows_of pd df) focus_locks focus_attrs) (take 4 ws)
      (take (min 4 (length ws)) (fig_axes f3))"
proof -
  have "rows_of pd df \<noteq> []" using assms(1) rows_load_one [OF assms(1,2)] by simp
  moreover have "col_threads ` set (rows_of pd df) = col_threads ` set (rows_of pd csv)"
    using rows_load_one [OF assms(1,2)] by (simp add: image_image annotate_def)
  ultimately have t: "max_threads pd df = Inr max_t" by (simp add: max_threads_value assms(4))
  obtain a1 where a1: "grid_2x2 (locks_panel pd df) ws = Inr a1" "length a1 = 4"
      "list_all2 (panel_shows (rows_of pd df) LOCKS line_attrs) (take 4 ws) (take (min 4 (length ws)) a1)"
    using grid_2x2_panels locks_panel_shows by metis
  obtain a3 where a3: "grid_2x2 (focus_panel pd df) ws = Inr a3" "length a3 = 4"
      "list_all2 (panel_shows (rows_of pd df) focus_locks focus_attrs) (take 4 ws) (take (min 4 (length ws)) a3)"
    using grid_2x2_panels focus_panel_shows by metis
  obtain f2 ds where f2: "bars_figure pd arch (butlast path) df ws max_t = Inr f2"
      "fig_file f2 = butlast path @ [''wh_threads_max.png'']" "fig_axes f2 = [ds]" "bars_show pd df ws max_t ds"
    using bars_figure_shows by metis
  obtain f1 where f1: "locks_figure pd arch (butlast path) df ws = Inr f1" "fig_axes f1 = a1"
      "fig_file f1 = butlast path @ [''wh_locks.png'']"
    using a1(1) by (simp add: locks_figure_def)
  obtain f3 where f3: "focus_figure pd arch (butlast path) df ws = Inr f3" "fig_axes f3 = a3"
      "fig_file f3 = butlast path @ [''wh_occopt_focus.png'']"
    using a3(1) by (simp add: focus_figure_def)
  have "plot_arch pd arch path csv = Inr (save f1 @ save f2 @ save f3)"
    using t f1(1) f2(1) f3(1) assms(2) unfolding assms(3) by (simp add: plot_arch_def Let_def)
  then show ?thesis using a1(2,3) a3(2,3) f1(2,3) f2(2-4) f3(2,3) by auto
qed

end

text \<open>
  C8. For a non-empty result file the script saves three figures next to it. In the line grids
  the first four workload labels in sorted order get a panel each, in which every lock with rows
  has one line through exactly its points, in ascending order of threads; the bar chart has one
  series per lock with the mean throughput at the largest thread count, zero where a lock has no
  row. The grids have four panels whatever the number of labels: a fifth label is not drawn.
\<close>

theorem plot_arch_shows:
  assumes "dataframe pd" and "rows_of pd csv \<noteq> []"
    and "load_one pd csv = Inr df" and "ws = py_sorted (unique_of pd col_workload df)"
    and "max_t = Max (col_threads ` set (rows_of pd csv))"
  shows "\<exists>f1 f2 f3 ds. plot_arch pd arch path csv = Inr (save f1 @ save f2 @ save f3) \<and>
    map fig_file [f1, f2, f3] = map (\<lambda>n. butlast path @ [n])
      [''wh_locks.png'', ''wh_threads_max.png'', ''wh_occopt_focus.png''] \<and>
    length (fig_axes f1) = 4 \<and> length (fig_axes f3) = 4 \<and>
    list_all2 (panel_shows (rows_of pd df) LOCKS line_attrs) (take 4 ws)
      (take (min 4 (length ws)) (fig_axes f1)) \<and>
    fig_axes f2 = [ds] \<and> bars_show pd df ws max_t ds \<and>
    list_all2 (panel_shows (rows_of pd df) focus_locks focus_attrs) (take 4 ws)
      (take (min 4 (length ws)) (fig_axes f3))"
  using assms(2-5) by (rule dataframe.plot_arch_figures [OF assms(1)])

theorem plot_arch_shows_witness:
  "\<exists>f1 f2 f3 ds. plot_arch list_pandas ''x86_64'' [''wh.csv''] [zipfian_reads] = Inr (save f1 @ save f2 @ save f3) \<and>
    map fig_file [f1, f2, f3] = map (\<lambda>n. butlast [''wh.csv''] @ [n])
      [''wh_locks.png'', ''wh_threads_max.png'', ''wh_occopt_focus.png''] \<and>
    length (fig_axes f1) = 4 \<and> length (fig_axes f3) = 4 \<and>
    list_all2 (panel_shows (rows_of list_pandas [annotate zipfian_reads]) LOCKS line_attrs)
      (take 4 (py_sorted (unique_of list_pandas col_workload [annotate zipfian_reads])))
      (take (min 4 (length (py_sorted (unique_of list_pandas col_workload [annotate zipfian_reads]))))
        (fig_axes f1)) \<and>
    fig_axes f2 = [ds] \<and>
    bars_show list_pandas [annotate zipfian_reads]
      (py_sorted (unique_of list_pandas col_workload [annotate zipfian_reads])) 8 ds \<and>
    list_all2 (panel_shows (rows_of list_pandas [annotate zipfian_reads]) focus_locks focus_attrs)
      (take 4 (py_sorted (unique_of list_pandas col_workload [annotate zipfian_reads])))
      (take (min 4 (length (py_sorted (unique_of list_pandas col_workload [annotate zipfian_reads]))))
        (fig_axes f3))"
  by (rule plot_arch_shows [OF rows.dataframe_axioms _ _ refl])
     (simp_all add: list_pandas_def zipfian_reads_def load_one_def annotate_def workload_def)


end
