(* ===== verification/PlotCrossArch.thy ===== *)
theory PlotCrossArch
  imports PlotWormhole PyStatistics
begin

text \<open>
  \<open>scripts/plot_cross_arch.py\<close>: the result files of all architectures are concatenated, and for
  every benchmark and workload a throughput overlay and a fairness chart are saved.
\<close>

section \<open>Loading\<close>

definition workload :: "sample \<Rightarrow> string" where
  "workload row =
     (let rd = col_read_pct row; ins = col_insert_pct row
      in if rd = 80 \<and> ins = 10 then col_dist row @ ''_80_10_10''
         else if rd = 90 \<and> ins = 5 then ''uniform_90_5_5_read_heavy''
         else if rd = 20 \<and> ins = 40 then ''zipfian_20_40_40_write_heavy''
         else mix_label CHR ''_'' CHR ''_'' (col_dist row) rd ins)"

definition PREFIXES :: "(string, string) dict" where
  "PREFIXES = [(''wh'', ''wh-''), (''cds'', ''cds-''), (''avl'', ''avl-'')]"

definition load_csv :: "'f pandas \<Rightarrow> 'f world \<Rightarrow> string \<Rightarrow> path \<Rightarrow> 'f py" where
  "load_csv pd fs bench csv =
     (let df0 = csv_frame fs csv;
          df1 = (if has_arch pd df0 then df0
                 else assign pd (\<lambda>r. r\<lparr>col_arch := last (butlast (butlast csv))\<rparr>) df0)
      in bind_py (get_item PREFIXES bench) (\<lambda>prefix.
           apply_rows pd (\<lambda>r. r\<lparr>col_workload := workload r\<rparr>)
             (assign pd (\<lambda>r. r\<lparr>col_lk := remove_all prefix (col_lock r)\<rparr>) df1)))"

definition load_bench :: "'f pandas \<Rightarrow> 'f world \<Rightarrow> string \<Rightarrow> string \<Rightarrow> 'f option py" where
  "load_bench pd fs bench csv_glob =
     (let csvs = py_sorted (glob_files fs csv_glob)
      in if csvs = [] then Inr None
         else bind_py (map_py (load_csv pd fs bench) csvs) (\<lambda>frames.
           Inr (Some (concat_frames pd frames))))"

section \<open>Locks, palettes and styles\<close>

definition WH_LOCKS :: "string list" where
  "WH_LOCKS = [''default'', ''rw'', ''tas'', ''ttas'', ''cas'', ''occ'', ''occ-opt'']"

definition CDS_LOCKS :: "string list" where
  "CDS_LOCKS = [''std'', ''tas'', ''ttas'', ''cas'', ''ticket'']"

definition AVL_LOCKS :: "string list" where
  "AVL_LOCKS = CDS_LOCKS"

definition PALETTES :: "(string, (string, string) dict) dict" where
  "PALETTES =
     [(''wh'', [(''default'', ''#888''), (''rw'', ''#444''), (''tas'', ''tab:blue''), (''ttas'', ''tab:green''),
        (''cas'', ''tab:orange''), (''occ'', ''tab:purple''), (''occ-opt'', ''tab:red'')]),
      (''cds'', [(''std'', ''#888''), (''tas'', ''tab:blue''), (''ttas'', ''tab:green''), (''cas'', ''tab:orange''),
        (''ticket'', ''tab:red'')]),
      (''avl'', [(''std'', ''#888''), (''tas'', ''tab:blue''), (''ttas'', ''tab:green''), (''cas'', ''tab:orange''),
        (''ticket'', ''tab:red'')])]"

definition LOCK_SETS :: "(string, string list) dict" where
  "LOCK_SETS = [(''wh'', WH_LOCKS), (''cds'', CDS_LOCKS), (''avl'', AVL_LOCKS)]"

definition ARCH_STYLES :: "string list" where
  "ARCH_STYLES = [''-'', ''--'', '':'', ''-.'']"

definition ARCH_MARKERS :: "string list" where
  "ARCH_MARKERS = [''o'', ''s'', ''^'', ''D'']"

section \<open>Throughput overlays\<close>

definition overlay_attrs :: "(string, string) dict \<Rightarrow> nat \<Rightarrow> string \<Rightarrow> string \<Rightarrow> attrs py" where
  "overlay_attrs palette ai arch lk =
     bind_py (get_item palette lk) (\<lambda>color.
       Inr [(''marker'', ARCH_MARKERS ! (ai mod 4)), (''linestyle'', ARCH_STYLES ! (ai mod 4)),
            (''color'', color), (''linewidth'', ''2''), (''label'', lk @ '' ('' @ arch @ '')'')])"

definition overlay_figure ::
  "'f pandas \<Rightarrow> path \<Rightarrow> string \<Rightarrow> string \<Rightarrow> string list \<Rightarrow> (string, string) dict \<Rightarrow> string list \<Rightarrow> 'f \<Rightarrow> string \<Rightarrow> figure py" where
  "overlay_figure pd out_dir bench label locks palette arches sub wkl =
     bind_py (map_py (\<lambda>(ai, arch).
         bind_py (map_py (\<lambda>lk. series pd (select pd (\<lambda>r. col_arch r = arch \<and> col_lk r = lk) sub)
             (overlay_attrs palette ai arch lk)) locks) (\<lambda>dss. Inr (concat dss)))
       (zip [0..<length arches] arches)) (\<lambda>lines.
       Inr \<lparr>fig_args = [(''figsize'', ''(13, 7)'')],
            fig_axes = [concat lines @
              [Call ''set_xlabel'' [''Threads (log scale)''] [], Call ''set_ylabel'' [''M ops/s''] [],
               Call ''set_xscale'' [''log''] [(''base'', ''2'')],
               Call ''set_title'' [label @ '' '' @ em_dash @ '' throughput across architectures '' @ em_dash @ '' '' @ wkl]
                 [(''fontsize'', ''12'')],
               Call ''grid'' [''True''] [(''alpha'', ''0.3'')],
               Call ''legend'' [] [(''fontsize'', ''8''), (''ncol'', ''2''), (''loc'', ''best'')]]],
            fig_calls = [Call ''tight_layout'' [] []],
            fig_file = out_dir @ [''throughput_'' @ bench @ ''_'' @ wkl @ ''.png'']\<rparr>)"

definition plot_throughput :: "'f pandas \<Rightarrow> path \<Rightarrow> string \<Rightarrow> 'f \<Rightarrow> string \<Rightarrow> event list py" where
  "plot_throughput pd out_dir bench df label =
     (let arches = py_sorted (unique_of pd col_arch df);
          workloads = py_sorted (unique_of pd col_workload df)
      in bind_py (get_item LOCK_SETS bench) (\<lambda>locks. bind_py (get_item PALETTES bench) (\<lambda>palette.
         bind_py (map_py (\<lambda>wkl.
             let sub = select pd (\<lambda>r. col_workload r = wkl) df
             in if rows_of pd sub = [] then Inr []
                else bind_py (overlay_figure pd out_dir bench label locks palette arches sub wkl) (\<lambda>f. Inr (save f)))
           workloads) (\<lambda>evs. Inr (concat evs)))))"

section \<open>Fairness charts\<close>

definition alpha_of :: "nat \<Rightarrow> nat \<Rightarrow> flt py" where
  \<comment> \<open>\<open>0.5 + 0.5 * (n_arch - 1 - ai) / max(1, n_arch - 1)\<close>\<close>
  "alpha_of n_arch ai =
     bind_py (fdiv (fmul (fl (1 / 2)) (Fin (of_int (int n_arch - 1 - int ai)))) (Fin (of_int (max 1 (int n_arch - 1)))))
       (\<lambda>q. Inr (fadd (fl (1 / 2)) q))"

definition bar_offset :: "nat \<Rightarrow> flt \<Rightarrow> nat \<Rightarrow> flt" where
  \<comment> \<open>\<open>(ai - (n_arch - 1) / 2) * width\<close>\<close>
  "bar_offset n_arch width ai = fmul (fsub (Fin (of_nat ai)) (fl (of_int (int n_arch - 1) / 2))) width"

definition mean_fairness :: "'f pandas \<Rightarrow> 'f \<Rightarrow> flt" where
  "mean_fairness pd g = (if rows_of pd g = [] then Fin 0 else mean_of pd col_fairness_ratio g)"

definition fairness_bars ::
  "'f pandas \<Rightarrow> string list \<Rightarrow> (string, string) dict \<Rightarrow> nat \<Rightarrow> flt \<Rightarrow> 'f \<Rightarrow> nat \<times> string \<Rightarrow> draw list py" where
  "fairness_bars pd locks palette n_arch width sub = (\<lambda>(ai, arch).
     let arch_sub = select pd (\<lambda>r. col_arch r = arch) sub
     in if rows_of pd arch_sub = [] then Inr []
        else bind_py (max_threads pd arch_sub) (\<lambda>max_t.
          let ys = map (\<lambda>lk. mean_fairness pd (select pd (\<lambda>r. col_lk r = lk \<and> col_threads r = max_t) arch_sub)) locks
          in bind_py (map_py (\<lambda>(i, lk). bind_py (get_item palette lk) (\<lambda>color. bind_py (alpha_of n_arch ai) (\<lambda>a.
                 Inr [BarColor i color, BarAlpha i a]))) (zip [0..<length locks] locks)) (\<lambda>styles.
             Inr (Bar (bar_positions (length locks) (bar_offset n_arch width ai)) ys width
                    [(''label'', arch @ '' ('' @ show_int max_t @ ''T)''), (''edgecolor'', ''black''), (''linewidth'', ''0.4'')]
                  # concat styles))))"

definition fairness_figure ::
  "'f pandas \<Rightarrow> path \<Rightarrow> string \<Rightarrow> string \<Rightarrow> string list \<Rightarrow> (string, string) dict \<Rightarrow> string list \<Rightarrow> 'f \<Rightarrow> string \<Rightarrow> figure py" where
  "fairness_figure pd out_dir bench label locks palette arches sub wkl =
     (let n_arch = length arches
      in bind_py (fdiv (fl (8 / 10)) (Fin (of_nat (max 1 n_arch)))) (\<lambda>width.
         bind_py (map_py (fairness_bars pd locks palette n_arch width sub) (zip [0..<n_arch] arches)) (\<lambda>bars.
           Inr \<lparr>fig_args = [(''figsize'', ''(13, 5.5)'')],
                fig_axes = [concat bars @
                  [Call ''set_xticks'' (map show_nat [0..<length locks]) [],
                   Call ''set_xticklabels'' locks [(''fontsize'', ''10'')],
                   Call ''set_ylim'' [''0'', ''1.05''] [],
                   Call ''axhline'' [''1.0''] [(''color'', ''green''), (''linewidth'', ''0.5''), (''linestyle'', ''--''), (''alpha'', ''0.5'')],
                   Call ''set_ylabel'' [''Fairness ratio (min/max per-thread ops; 1.0 = perfect)''] [],
                   Call ''set_title'' [label @ '' '' @ em_dash @ '' fairness at max-threads-per-arch '' @ em_dash @ '' '' @ wkl]
                     [(''fontsize'', ''12'')],
                   Call ''legend'' [] [(''fontsize'', ''9'')],
                   Call ''grid'' [''True''] [(''axis'', ''y''), (''alpha'', ''0.3'')]]],
                fig_calls = [Call ''tight_layout'' [] []],
                fig_file = out_dir @ [''fairness_'' @ bench @ ''_'' @ wkl @ ''.png'']\<rparr>)))"

definition plot_fairness :: "'f pandas \<Rightarrow> path \<Rightarrow> string \<Rightarrow> 'f \<Rightarrow> string \<Rightarrow> event list py" where
  "plot_fairness pd out_dir bench df label =
     (let arches = py_sorted (unique_of pd col_arch df);
          workloads = py_sorted (unique_of pd col_workload df)
      in bind_py (get_item LOCK_SETS bench) (\<lambda>locks. bind_py (get_item PALETTES bench) (\<lambda>palette.
         bind_py (map_py (\<lambda>wkl.
             let sub = select pd (\<lambda>r. col_workload r = wkl) df
             in if rows_of pd sub = [] then Inr []
                else bind_py (fairness_figure pd out_dir bench label locks palette arches sub wkl) (\<lambda>f. Inr (save f)))
           workloads) (\<lambda>evs. Inr (concat evs)))))"

section \<open>All benchmarks\<close>

definition benches :: "(string \<times> string \<times> string) list" where
  "benches =
     [(''wh'', ''results/*/wh_compare/wh.csv'', ''Wormhole''),
      (''cds'', ''results/*/avl_compare/cds_striped.csv'', ''libcds StripedMap''),
      (''avl'', ''results/*/avl_compare/cds_avl.csv'', ''libcds BronsonAVL'')]"

definition plot_bench :: "'f pandas \<Rightarrow> 'f world \<Rightarrow> string \<times> string \<times> string \<Rightarrow> event list py" where
  "plot_bench pd fs = (\<lambda>(bench, glob, label).
     bind_py (load_bench pd fs bench glob) (\<lambda>df.
       if df = None \<or> rows_of pd (the df) = []
       then Inr [Printed (''Skipping '' @ bench @ '': no CSV matched '' @ glob)]
       else
         (let n_arch = length (unique_of pd col_arch (the df));
              out_dir = root fs @ [''results'', ''cross_arch'']
          in bind_py (plot_throughput pd out_dir bench (the df) label) (\<lambda>es.
             bind_py (plot_fairness pd out_dir bench (the df) label) (\<lambda>es'.
               Inr (Printed (CHR 0x0A # ''=== '' @ label @ '' ('' @ show_nat n_arch @ '' arch'' @
                     (if n_arch \<noteq> 1 then ''es'' else []) @ '': '' @
                     repr_list (py_sorted (unique_of pd col_arch (the df))) @ '') ==='')
                   # es @ es'))))))"

definition cross_main :: "'f pandas \<Rightarrow> 'f world \<Rightarrow> event list py" where
  "cross_main pd fs = bind_py (map_py (plot_bench pd fs) benches) (\<lambda>evs. Inr (concat evs))"

section \<open>What the overlays show\<close>

definition overlay_rows :: "sample list \<Rightarrow> string \<Rightarrow> string \<Rightarrow> string \<Rightarrow> sample list" where
  "overlay_rows rs wkl arch lk =
     filter (\<lambda>r. col_workload r = wkl \<and> col_arch r = arch \<and> col_lk r = lk) rs"

definition overlay_shows ::
  "sample list \<Rightarrow> string list \<Rightarrow> string list \<Rightarrow> (string, string) dict \<Rightarrow> string \<Rightarrow> draw list \<Rightarrow> bool" where
  \<comment> \<open>one line for every architecture and lock that have rows in the workload\<close>
  "overlay_shows rs arches locks palette wkl ds \<longleftrightarrow>
     (\<exists>dss. filter is_plot ds = concat dss \<and>
        list_all2 (\<lambda>((ai, arch), lk) d. \<exists>a. overlay_attrs palette ai arch lk = Inr a \<and>
            drawn (overlay_rows rs wkl arch lk) a d)
          (List.product (zip [0..<length arches] arches) locks) dss)"

definition colours_all :: "string \<Rightarrow> string list \<Rightarrow> (string, string) dict \<Rightarrow> bool" where
  "colours_all bench locks palette \<longleftrightarrow>
     get_item LOCK_SETS bench = Inr locks \<and> get_item PALETTES bench = Inr palette \<and>
     list_all (\<lambda>lk. map_of palette lk \<noteq> None) locks"

lemma known_bench:
  assumes "bench \<in> {''wh'', ''cds'', ''avl''}"
  shows "\<exists>locks palette. colours_all bench locks palette"
proof -
  have "colours_all ''wh'' WH_LOCKS (snd (PALETTES ! 0))" "colours_all ''cds'' CDS_LOCKS (snd (PALETTES ! 1))"
    "colours_all ''avl'' AVL_LOCKS (snd (PALETTES ! 2))"
    by (simp_all add: colours_all_def get_item_def LOCK_SETS_def PALETTES_def WH_LOCKS_def CDS_LOCKS_def AVL_LOCKS_def)
  then show ?thesis using assms by auto
qed

lemma list_all2_plots:
  "list_all2 P xs dss \<Longrightarrow> (\<And>x d. P x d \<Longrightarrow> filter is_plot d = d) \<Longrightarrow> filter is_plot (concat dss) = concat dss"
  by (induction rule: list_all2_induct) auto

lemma save_events: "concat (map save (f # fs)) = save f @ concat (map save fs)"
  by simp

text \<open>One figure per element, each saved when it is made.\<close>

lemma save_each:
  assumes "\<forall>w \<in> set ws. \<exists>f. body w = Inr f \<and> P w f"
  shows "\<exists>fs. bind_py (map_py (\<lambda>w. bind_py (body w) (\<lambda>f. Inr (save f))) ws) (\<lambda>evs. Inr (concat evs)) =
    Inr (concat (map save fs)) \<and> list_all2 P ws fs"
proof -
  have "\<forall>w \<in> set ws. \<exists>e. bind_py (body w) (\<lambda>f. Inr (save f)) = Inr e \<and> (\<exists>f. e = save f \<and> P w f)"
    using assms by force
  from map_py_all2 [OF this] obtain es where
    es: "map_py (\<lambda>w. bind_py (body w) (\<lambda>f. Inr (save f))) ws = Inr es"
      "list_all2 (\<lambda>w e. \<exists>f. e = save f \<and> P w f) ws es" by blast
  from es(2) have "\<exists>fs. es = map save fs \<and> list_all2 P ws fs"
  proof (induction rule: list_all2_induct)
    case (Cons w ws e es)
    then obtain f fs where "e = save f" "P w f" "es = map save fs" "list_all2 P ws fs" by blast
    then show ?case by (intro exI [of _ "f # fs"]) simp
  qed simp
  then show ?thesis using es(1) by auto
qed

context dataframe
begin

lemma overlay_figure_shows:
  assumes "list_all (\<lambda>lk. map_of palette lk \<noteq> None) locks"
    and "rows_of pd sub = filter (\<lambda>r. col_workload r = wkl) rs"
  shows "\<exists>f ds. overlay_figure pd out_dir bench label locks palette arches sub wkl = Inr f \<and>
    fig_file f = out_dir @ [''throughput_'' @ bench @ ''_'' @ wkl @ ''.png''] \<and>
    fig_axes f = [ds] \<and> overlay_shows rs arches locks palette wkl ds"
proof -
  let ?f = "\<lambda>(ai, arch) lk. series pd (select pd (\<lambda>r. col_arch r = arch \<and> col_lk r = lk) sub) (overlay_attrs palette ai arch lk)"
  let ?P = "\<lambda>((ai, arch), lk) d. \<exists>a. overlay_attrs palette ai arch lk = Inr a \<and> drawn (overlay_rows rs wkl arch lk) a d"
  have "\<exists>d. ?f (ai, arch) lk = Inr d \<and> ?P ((ai, arch), lk) d" if lk: "lk \<in> set locks" for ai arch lk
  proof -
    obtain c where "map_of palette lk = Some c" using assms(1) lk by (auto simp: list_all_iff)
    then obtain a where a: "overlay_attrs palette ai arch lk = Inr a"
      by (simp add: overlay_attrs_def get_item_def)
    have "rows_of pd (select pd (\<lambda>r. col_arch r = arch \<and> col_lk r = lk) sub) = overlay_rows rs wkl arch lk"
      by (simp add: frame_simps assms(2) overlay_rows_def conj_ac)
    then show ?thesis
      using series_drawn [of "select pd (\<lambda>r. col_arch r = arch \<and> col_lk r = lk) sub" "Inr a" a] by (simp add: a)
  qed
  then have "\<forall>p \<in> set (zip [0..<length arches] arches). \<forall>lk \<in> set locks. \<exists>d. ?f p lk = Inr d \<and> ?P (p, lk) d"
    by (auto split: prod.splits)
  from map_py_nested [OF this] obtain r dss where
    r: "map_py (\<lambda>p. bind_py (map_py (?f p) locks) (\<lambda>ds. Inr (concat ds))) (zip [0..<length arches] arches) = Inr r"
      "concat r = concat dss" "list_all2 ?P (List.product (zip [0..<length arches] arches) locks) dss" by blast
  have "filter is_plot (concat dss) = concat dss"
    using r(3) by (rule list_all2_plots) (auto dest: drawn_is_plot)
  then have "overlay_shows rs arches locks palette wkl (concat r @ tail)" if "filter is_plot tail = []" for tail
    using r(2,3) that unfolding overlay_shows_def by (intro exI [of _ dss]) simp
  then show ?thesis using r(1) by (simp add: overlay_figure_def case_prod_unfold)
qed

lemma workload_rows_nonempty:
  "wkl \<in> set (py_sorted (unique_of pd col_workload df)) \<Longrightarrow>
     rows_of pd (select pd (\<lambda>r. col_workload r = wkl) df) \<noteq> []"
  by (auto simp: frame_simps filter_empty_conv)

lemma plot_throughput_figures:
  assumes "colours_all bench locks palette"
  shows "\<exists>fs. plot_throughput pd out_dir bench df label = Inr (concat (map save fs)) \<and>
    list_all2 (\<lambda>wkl f. fig_file f = out_dir @ [''throughput_'' @ bench @ ''_'' @ wkl @ ''.png''] \<and>
        (\<exists>ds. fig_axes f = [ds] \<and>
          overlay_shows (rows_of pd df) (py_sorted (unique_of pd col_arch df)) locks palette wkl ds))
      (py_sorted (unique_of pd col_workload df)) fs"
proof -
  let ?ws = "py_sorted (unique_of pd col_workload df)" and ?as = "py_sorted (unique_of pd col_arch df)"
  let ?sub = "\<lambda>wkl. select pd (\<lambda>r. col_workload r = wkl) df"
  let ?body = "\<lambda>wkl. overlay_figure pd out_dir bench label locks palette ?as (?sub wkl) wkl"
  let ?P = "\<lambda>wkl f. fig_file f = out_dir @ [''throughput_'' @ bench @ ''_'' @ wkl @ ''.png''] \<and>
        (\<exists>ds. fig_axes f = [ds] \<and> overlay_shows (rows_of pd df) ?as locks palette wkl ds)"
  have pal: "list_all (\<lambda>lk. map_of palette lk \<noteq> None) locks" using assms by (simp add: colours_all_def)
  have "\<exists>f. ?body wkl = Inr f \<and> ?P wkl f" for wkl
    using overlay_figure_shows [OF pal, of "?sub wkl" wkl "rows_of pd df" out_dir bench label ?as]
    by (auto simp: rows_select)
  then obtain fs where fs: "bind_py (map_py (\<lambda>w. bind_py (?body w) (\<lambda>f. Inr (save f))) ?ws) (\<lambda>evs. Inr (concat evs)) =
      Inr (concat (map save fs))" "list_all2 ?P ?ws fs"
    using save_each [of ?ws ?body ?P] by blast
  have "map_py (\<lambda>wkl. let sub = ?sub wkl in if rows_of pd sub = [] then Inr []
      else bind_py (overlay_figure pd out_dir bench label locks palette ?as sub wkl) (\<lambda>f. Inr (save f))) ?ws =
    map_py (\<lambda>w. bind_py (?body w) (\<lambda>f. Inr (save f))) ?ws"
    by (rule map_py_cong) (use workload_rows_nonempty in \<open>simp_all add: Let_def\<close>)
  then show ?thesis using fs assms by (auto simp: plot_throughput_def colours_all_def Let_def)
qed

end

text \<open>
  For each of the three benchmarks the script saves one throughput figure per workload label,
  without a cap on their number, and each shows one line for every architecture and lock that have
  rows in that workload, through exactly their points in ascending order of threads.
\<close>

theorem plot_throughput_shows:
  assumes "dataframe pd" and "bench \<in> {''wh'', ''cds'', ''avl''}"
  shows "\<exists>locks palette fs. get_item LOCK_SETS bench = Inr locks \<and>
    plot_throughput pd out_dir bench df label = Inr (concat (map save fs)) \<and>
    list_all2 (\<lambda>wkl f. fig_file f = out_dir @ [''throughput_'' @ bench @ ''_'' @ wkl @ ''.png''] \<and>
        (\<exists>ds. fig_axes f = [ds] \<and>
          overlay_shows (rows_of pd df) (py_sorted (unique_of pd col_arch df)) locks palette wkl ds))
      (py_sorted (unique_of pd col_workload df)) fs"
proof -
  obtain locks palette where c: "colours_all bench locks palette" using known_bench [OF assms(2)] by blast
  then have "get_item LOCK_SETS bench = Inr locks" by (simp add: colours_all_def)
  then show ?thesis using dataframe.plot_throughput_figures [OF assms(1) c] by blast
qed

theorem plot_throughput_shows_witness:
  "\<exists>locks palette fs. get_item LOCK_SETS ''wh'' = Inr locks \<and>
    plot_throughput list_pandas [''out''] ''wh'' [annotate zipfian_reads] ''Wormhole'' = Inr (concat (map save fs)) \<and>
    list_all2 (\<lambda>wkl f. fig_file f = [''out''] @ [''throughput_'' @ ''wh'' @ ''_'' @ wkl @ ''.png''] \<and>
        (\<exists>ds. fig_axes f = [ds] \<and>
          overlay_shows (rows_of list_pandas [annotate zipfian_reads])
            (py_sorted (unique_of list_pandas col_arch [annotate zipfian_reads])) locks palette wkl ds))
      (py_sorted (unique_of list_pandas col_workload [annotate zipfian_reads])) fs"
  by (rule plot_throughput_shows [OF rows.dataframe_axioms]) simp

text \<open>
  Two architectures get the same line style and the same marker exactly when their positions
  agree modulo four: styles tell architectures apart only while there are at most four.
\<close>

theorem arch_styles_cycle:
  assumes "overlay_attrs palette i a lk = Inr x" and "overlay_attrs palette j b lk = Inr y"
  shows "(map_of x ''linestyle'' = map_of y ''linestyle'' \<longleftrightarrow> i mod 4 = j mod 4) \<and>
    (map_of x ''marker'' = map_of y ''marker'' \<longleftrightarrow> i mod 4 = j mod 4)"
proof -
  have "distinct ARCH_STYLES" "distinct ARCH_MARKERS" "length ARCH_STYLES = 4" "length ARCH_MARKERS = 4"
    by (simp_all add: ARCH_STYLES_def ARCH_MARKERS_def)
  then have "ARCH_STYLES ! (i mod 4) = ARCH_STYLES ! (j mod 4) \<longleftrightarrow> i mod 4 = j mod 4"
    "ARCH_MARKERS ! (i mod 4) = ARCH_MARKERS ! (j mod 4) \<longleftrightarrow> i mod 4 = j mod 4"
    by (simp_all add: nth_eq_iff_index_eq)
  then show ?thesis using assms by (auto simp: overlay_attrs_def bind_py_eq_Inr)
qed

theorem arch_styles_cycle_witness:
  "map_of [(''marker'', ''o''), (''linestyle'', ''-''), (''color'', ''#888''), (''linewidth'', ''2''), (''label'', ''std (a)'')] ''linestyle'' =
   map_of [(''marker'', ''o''), (''linestyle'', ''-''), (''color'', ''#888''), (''linewidth'', ''2''), (''label'', ''std (e)'')] ''linestyle''"
  using arch_styles_cycle [of "[(''std'', ''#888'')]" 0 "''a''" "''std''" _ 4 "''e''"]
  by (simp add: overlay_attrs_def get_item_def ARCH_STYLES_def ARCH_MARKERS_def)

section \<open>Opacity of the fairness bars\<close>

lemma representable_half: "representable (1 / 2)"
  unfolding representable_def by (intro exI [of _ 1] exI [of _ "-1"]) simp

lemma representable_small_nat: "k \<le> 2 ^ 53 \<Longrightarrow> representable (of_nat k)"
  using representable_of_int [of "int k"] by (simp add: nat_le_eq_zle)

lemma small_in_range: "\<bar>x\<bar> \<le> pow2 10 \<Longrightarrow> \<bar>rnd x\<bar> < max_bound"
  by (rule rnd_in_range [of 10]) auto

text \<open>
  The opacity of a bar is a number between one half and one for every architecture, so no bar
  is invisible: the first architecture of several is opaque, the last half transparent.
\<close>

theorem alpha_of_bounds:
  assumes "ai < n" and "n \<le> 1000"
  shows "\<exists>a. alpha_of n ai = Inr a \<and> is_finite a \<and> 1 / 2 \<le> fval a \<and> fval a \<le> 1"
proof -
  define k m where "k = n - 1 - ai" and "m = max 1 (n - 1)"
  have km: "k \<le> m" "1 \<le> m" "m \<le> 1000" using assms by (auto simp: k_def m_def)
  have ints: "of_int (int n - 1 - int ai) = (of_nat k :: rat)" "of_int (max 1 (int n - 1)) = (of_nat m :: rat)"
    using assms(1) by (auto simp: k_def m_def max_def of_nat_diff)
  have kr: "(of_nat k :: rat) \<le> of_nat m" "(1 :: rat) \<le> of_nat m" "(of_nat m :: rat) \<le> 1000"
    using km of_nat_mono [where 'a = rat] by fastforce+
  have half: "fl (1 / 2) = Fin (1 / 2)" by code_simp
  have p10: "(1000 :: rat) \<le> pow2 10" by (simp add: pow2_def)
  have kh: "representable (of_nat k / 2)"
    unfolding representable_def
    using km by (intro exI [of _ "int k"] exI [of _ "-1"]) simp
  have mul: "is_finite (fmul (Fin (1 / 2)) (Fin (of_nat k)))" "fval (fmul (Fin (1 / 2)) (Fin (of_nat k))) = of_nat k / 2"
    using fmul_exact [of "Fin (1 / 2)" "Fin (of_nat k)" 10] kr p10 rnd_representable [OF kh] by auto
  have q0: "0 \<le> of_nat k / 2 / (of_nat m :: rat)" "of_nat k / 2 / of_nat m \<le> (1 / 2 :: rat)"
    using kr by (auto simp: pos_divide_le_eq)
  obtain q where q: "fdiv (fmul (Fin (1 / 2)) (Fin (of_nat k))) (Fin (of_nat m)) = Inr q" "is_finite q"
      "fval q = rnd (of_nat k / 2 / of_nat m)"
    using fdiv_exact [OF mul(1), of "of_nat m" 10] mul(2) kr q0 p10 by (auto simp: abs_le_iff)
  have qb: "0 \<le> fval q" "fval q \<le> 1 / 2"
    using rnd_between [OF representable_0 representable_half q0] by (auto simp: q(3))
  have "\<bar>fval (Fin (1 / 2)) + fval q\<bar> \<le> pow2 10" using qb p10 by simp
  then have add: "is_finite (fadd (Fin (1 / 2)) q)" "fval (fadd (Fin (1 / 2)) q) = rnd (1 / 2 + fval q)"
    using fadd_exact [of "Fin (1 / 2)" q 10] q(2) by auto
  have "1 / 2 \<le> rnd (1 / 2 + fval q)" "rnd (1 / 2 + fval q) \<le> 1"
    using rnd_between [OF representable_half representable_small_nat [of 1], of "1 / 2 + fval q"] qb by auto
  moreover have "alpha_of n ai = Inr (fadd (Fin (1 / 2)) q)"
    unfolding alpha_of_def ints half using q(1) by simp
  ultimately show ?thesis using add by auto
qed

theorem alpha_of_bounds_witness:
  "\<exists>a. alpha_of 6 2 = Inr a \<and> is_finite a \<and> 1 / 2 \<le> fval a \<and> fval a \<le> 1"
  by (rule alpha_of_bounds) simp_all

section \<open>What the fairness charts show\<close>

definition fairness_bar :: "'f pandas \<Rightarrow> 'f \<Rightarrow> string list \<Rightarrow> string \<Rightarrow> draw list \<Rightarrow> bool" where
  \<comment> \<open>nothing for an architecture without rows, else the mean fairness of every lock at the largest
    thread count that the architecture has in this workload\<close>
  "fairness_bar pd sub locks arch ds \<longleftrightarrow>
     (let asub = select pd (\<lambda>r. col_arch r = arch) sub;
          max_t = Max (col_threads ` set (rows_of pd asub))
      in if rows_of pd asub = [] then ds = []
         else \<exists>xs w kwargs styles. length xs = length locks \<and>
           ds = Bar xs (map (\<lambda>lk. mean_fairness pd (select pd (\<lambda>r. col_lk r = lk \<and> col_threads r = max_t) asub)) locks)
                  w kwargs # styles \<and>
           map_of kwargs ''label'' = Some (arch @ '' ('' @ show_int max_t @ ''T)''))"

lemma alpha_of_total: "\<exists>a. alpha_of n ai = Inr a"
proof -
  have "(of_int (max 1 (int n - 1)) :: rat) \<noteq> 0" by simp
  then obtain z where "fdiv (fmul (fl (1 / 2)) (Fin (of_int (int n - 1 - int ai)))) (Fin (of_int (max 1 (int n - 1)))) = Inr z"
    by (auto simp: fdiv_def is_zero_def Let_def)
  then show ?thesis by (simp add: alpha_of_def)
qed

context dataframe
begin

lemma fairness_bars_shows:
  assumes "list_all (\<lambda>lk. map_of palette lk \<noteq> None) locks"
  shows "\<exists>ds. fairness_bars pd locks palette n width sub (ai, arch) = Inr ds \<and> fairness_bar pd sub locks arch ds"
proof (cases "rows_of pd (select pd (\<lambda>r. col_arch r = arch) sub) = []")
  case True
  then show ?thesis by (simp add: fairness_bars_def fairness_bar_def Let_def)
next
  case False
  obtain a where a: "alpha_of n ai = Inr a" using alpha_of_total by blast
  let ?style = "\<lambda>(i :: nat, lk). bind_py (get_item palette lk) (\<lambda>color. bind_py (alpha_of n ai) (\<lambda>a.
      Inr [BarColor i color, BarAlpha i a]))"
  have "\<forall>p \<in> set (zip [0..<length locks] locks). \<exists>y. ?style p = Inr y \<and> True"
  proof
    fix p assume p: "p \<in> set (zip [0..<length locks] locks)"
    obtain i lk where p': "p = (i, lk)" by fastforce
    then obtain c where "map_of palette lk = Some c"
      using p assms by (auto simp: list_all_iff dest!: set_zip_rightD)
    then show "\<exists>y. ?style p = Inr y \<and> True" by (simp add: p' a get_item_def)
  qed
  from map_py_all2 [OF this] obtain ss where "map_py ?style (zip [0..<length locks] locks) = Inr ss" by blast
  then show ?thesis
    using False max_threads_value [OF False]
    by (auto simp: fairness_bars_def fairness_bar_def bar_positions_def Let_def)
qed

lemma fairness_figure_shows:
  assumes "list_all (\<lambda>lk. map_of palette lk \<noteq> None) locks"
  shows "\<exists>f dss tail. fairness_figure pd out_dir bench label locks palette arches sub wkl = Inr f \<and>
    fig_file f = out_dir @ [''fairness_'' @ bench @ ''_'' @ wkl @ ''.png''] \<and>
    fig_axes f = [concat dss @ tail] \<and> list_all2 (fairness_bar pd sub locks) arches dss"
proof -
  have "(of_nat (max 1 (length arches)) :: rat) \<noteq> 0" by simp
  then obtain width where width: "fdiv (fl (8 / 10)) (Fin (of_nat (max 1 (length arches)))) = Inr width"
    by (auto simp: fdiv_def is_zero_def Let_def)
  have "\<forall>p \<in> set (zip [0..<length arches] arches). \<exists>ds.
      fairness_bars pd locks palette (length arches) width sub p = Inr ds \<and> fairness_bar pd sub locks (snd p) ds"
    using fairness_bars_shows [OF assms] by auto
  from map_py_all2 [OF this] obtain dss where
    "map_py (fairness_bars pd locks palette (length arches) width sub) (zip [0..<length arches] arches) = Inr dss"
    "list_all2 (\<lambda>p ds. fairness_bar pd sub locks (snd p) ds) (zip [0..<length arches] arches) dss" by blast
  moreover from this(2) have "list_all2 (fairness_bar pd sub locks) arches dss"
    by (auto simp: list_all2_conv_all_nth)
  ultimately show ?thesis using width by (simp add: fairness_figure_def Let_def) blast
qed

lemma plot_fairness_figures:
  assumes "colours_all bench locks palette"
  shows "\<exists>fs. plot_fairness pd out_dir bench df label = Inr (concat (map save fs)) \<and>
    list_all2 (\<lambda>wkl f. fig_file f = out_dir @ [''fairness_'' @ bench @ ''_'' @ wkl @ ''.png''] \<and>
        (\<exists>dss tail. fig_axes f = [concat dss @ tail] \<and>
          list_all2 (fairness_bar pd (select pd (\<lambda>r. col_workload r = wkl) df) locks)
            (py_sorted (unique_of pd col_arch df)) dss))
      (py_sorted (unique_of pd col_workload df)) fs"
proof -
  let ?ws = "py_sorted (unique_of pd col_workload df)" and ?as = "py_sorted (unique_of pd col_arch df)"
  let ?sub = "\<lambda>wkl. select pd (\<lambda>r. col_workload r = wkl) df"
  let ?body = "\<lambda>wkl. fairness_figure pd out_dir bench label locks palette ?as (?sub wkl) wkl"
  let ?P = "\<lambda>wkl f. fig_file f = out_dir @ [''fairness_'' @ bench @ ''_'' @ wkl @ ''.png''] \<and>
        (\<exists>dss tail. fig_axes f = [concat dss @ tail] \<and> list_all2 (fairness_bar pd (?sub wkl) locks) ?as dss)"
  have pal: "list_all (\<lambda>lk. map_of palette lk \<noteq> None) locks" using assms by (simp add: colours_all_def)
  have "\<exists>f. ?body wkl = Inr f \<and> ?P wkl f" for wkl
    using fairness_figure_shows [OF pal] by blast
  then obtain fs where fs: "bind_py (map_py (\<lambda>w. bind_py (?body w) (\<lambda>f. Inr (save f))) ?ws) (\<lambda>evs. Inr (concat evs)) =
      Inr (concat (map save fs))" "list_all2 ?P ?ws fs"
    using save_each [of ?ws ?body ?P] by blast
  have "map_py (\<lambda>wkl. let sub = ?sub wkl in if rows_of pd sub = [] then Inr []
      else bind_py (fairness_figure pd out_dir bench label locks palette ?as sub wkl) (\<lambda>f. Inr (save f))) ?ws =
    map_py (\<lambda>w. bind_py (?body w) (\<lambda>f. Inr (save f))) ?ws"
    by (rule map_py_cong) (use workload_rows_nonempty in \<open>simp_all add: Let_def\<close>)
  then show ?thesis using fs assms by (auto simp: plot_fairness_def colours_all_def Let_def)
qed

end

text \<open>
  The fairness chart of a workload shows, for every architecture with rows in it, the mean
  fairness of each lock at the largest thread count of that architecture in that workload, and
  zero for a lock without rows there; the label of the bars names that thread count.
\<close>

theorem plot_fairness_shows:
  assumes "dataframe pd" and "bench \<in> {''wh'', ''cds'', ''avl''}"
  shows "\<exists>locks fs. get_item LOCK_SETS bench = Inr locks \<and>
    plot_fairness pd out_dir bench df label = Inr (concat (map save fs)) \<and>
    list_all2 (\<lambda>wkl f. fig_file f = out_dir @ [''fairness_'' @ bench @ ''_'' @ wkl @ ''.png''] \<and>
        (\<exists>dss tail. fig_axes f = [concat dss @ tail] \<and>
          list_all2 (fairness_bar pd (select pd (\<lambda>r. col_workload r = wkl) df) locks)
            (py_sorted (unique_of pd col_arch df)) dss))
      (py_sorted (unique_of pd col_workload df)) fs"
proof -
  obtain locks palette where c: "colours_all bench locks palette" using known_bench [OF assms(2)] by blast
  then have "get_item LOCK_SETS bench = Inr locks" by (simp add: colours_all_def)
  then show ?thesis using dataframe.plot_fairness_figures [OF assms(1) c] by blast
qed

theorem plot_fairness_shows_witness:
  "\<exists>locks fs. get_item LOCK_SETS ''wh'' = Inr locks \<and>
    plot_fairness list_pandas [''out''] ''wh'' [annotate zipfian_reads] ''Wormhole'' = Inr (concat (map save fs)) \<and>
    list_all2 (\<lambda>wkl f. fig_file f = [''out''] @ [''fairness_'' @ ''wh'' @ ''_'' @ wkl @ ''.png''] \<and>
        (\<exists>dss tail. fig_axes f = [concat dss @ tail] \<and>
          list_all2 (fairness_bar list_pandas (select list_pandas (\<lambda>r. col_workload r = wkl) [annotate zipfian_reads]) locks)
            (py_sorted (unique_of list_pandas col_arch [annotate zipfian_reads])) dss))
      (py_sorted (unique_of list_pandas col_workload [annotate zipfian_reads])) fs"
  by (rule plot_fairness_shows [OF rows.dataframe_axioms]) simp

section \<open>Loading\<close>

definition loaded_rows :: "'f pandas \<Rightarrow> 'f world \<Rightarrow> string \<Rightarrow> path \<Rightarrow> sample list" where
  "loaded_rows pd fs prefix csv =
     map (\<lambda>r. let a = (if has_arch pd (csv_frame fs csv) then col_arch r else last (butlast (butlast csv)))
              in r\<lparr>col_arch := a, col_lk := remove_all prefix (col_lock r), col_workload := workload r\<rparr>)
       (rows_of pd (csv_frame fs csv))"

lemma workload_columns [simp]:
  "workload (r\<lparr>col_lk := l\<rparr>) = workload r" "workload (r\<lparr>col_arch := a\<rparr>) = workload r"
  by (simp_all add: workload_def Let_def)

text \<open>
  Loading a benchmark whose files all have rows keeps every row of every matching file, in the order
  of the sorted paths, with the architecture of the file or else the name of its directory, the lock
  without its prefix, and the workload label; without a matching file there is no frame.
\<close>

theorem load_bench_rows:
  assumes "dataframe pd" and "get_item PREFIXES bench = Inr prefix"
    and "csvs = py_sorted (glob_files fs pattern)"
    and "\<forall>csv \<in> set csvs. rows_of pd (csv_frame fs csv) \<noteq> []"
  shows "\<exists>df. load_bench pd fs bench pattern = Inr df \<and>
      (case df of None \<Rightarrow> csvs = []
       | Some f \<Rightarrow> csvs \<noteq> [] \<and> rows_of pd f = concat (map (loaded_rows pd fs prefix) csvs))"
proof -
  have "\<exists>f. load_csv pd fs bench csv = Inr f \<and> rows_of pd f = loaded_rows pd fs prefix csv"
    if "csv \<in> set csvs" for csv
    using that assms(4) dataframe.rows_assign [OF assms(1)] assms(2)
    by (simp add: load_csv_def loaded_rows_def dataframe.apply_rows_Inr [OF assms(1)] Let_def comp_def)
  then have "\<forall>csv \<in> set csvs. \<exists>f. load_csv pd fs bench csv = Inr f \<and> rows_of pd f = loaded_rows pd fs prefix csv"
    by blast
  from map_py_all2 [OF this] obtain frames where
    fr: "map_py (load_csv pd fs bench) csvs = Inr frames"
      "list_all2 (\<lambda>csv f. rows_of pd f = loaded_rows pd fs prefix csv) csvs frames" by blast
  from fr(2) have "map (rows_of pd) frames = map (loaded_rows pd fs prefix) csvs"
    by (induction rule: list_all2_induct) auto
  then show ?thesis
    using fr(1) dataframe.rows_concat [OF assms(1), of frames] assms(3)
    by (auto simp: load_bench_def Let_def)
qed

definition sample_world :: "sample list world" where
  "sample_world = \<lparr>root = [''repo''], glob_files = \<lambda>_. [[''repo'', ''results'', ''xeon'', ''wh_compare'', ''wh.csv'']],
     path_exists = \<lambda>_. False, csv_frame = \<lambda>_. [zipfian_reads]\<rparr>"

theorem load_bench_rows_witness:
  "\<exists>df. load_bench list_pandas sample_world ''wh'' ''results/*/wh_compare/wh.csv'' = Inr df \<and>
    (case df of None \<Rightarrow> py_sorted (glob_files sample_world ''results/*/wh_compare/wh.csv'') = []
     | Some f \<Rightarrow> py_sorted (glob_files sample_world ''results/*/wh_compare/wh.csv'') \<noteq> [] \<and>
         rows_of list_pandas f = concat (map (loaded_rows list_pandas sample_world ''wh-'')
           (py_sorted (glob_files sample_world ''results/*/wh_compare/wh.csv''))))"
proof -
  have p: "get_item PREFIXES ''wh'' = Inr ''wh-''" by (simp add: get_item_def PREFIXES_def)
  show ?thesis
    by (rule load_bench_rows [OF rows.dataframe_axioms p refl]) (simp add: sample_world_def list_pandas_def)
qed

end
