(* ===== verification/Ranking.thy ===== *)
theory Ranking
  imports PlotCrossArch Aggregate
begin

text \<open>
  \<open>scripts/build_ranking_figures.py\<close>: the locks of a benchmark are ranked by median throughput at
  the largest thread count, once on each of two machines, and the ranks are compared in
  slopegraphs and in a heatmap of rank changes.
\<close>

section \<open>Constants\<close>

definition BENCH_LABEL :: "(string, string) dict" where
  "BENCH_LABEL =
     [(''wh'', ''wormhole (trie+hash+list)''), (''cds'', ''StripedMap (hash table)''), (''avl'', ''BronsonAVL (tree)'')]"

definition LOCK_COLOR :: "(string, string) dict" where
  "LOCK_COLOR =
     [(''default'', ''#444444''), (''occ'', ''#9467bd''), (''occ-opt'', ''#8c564b''), (''pcpu-rw'', ''#2ca02c''),
      (''tas'', ''#d62728''), (''ttas'', ''#ff7f0e''), (''cas'', ''#bcbd22''), (''ticket'', ''#17becf''),
      (''std'', ''#1f77b4'')]"

definition ARCHES :: "string list" where
  "ARCHES = [''x86_64'', ''aarch64'']"

section \<open>Data\<close>

definition to_float :: "cell \<Rightarrow> flt" where
  \<comment> \<open>\<open>_to_float\<close>\<close>
  "to_float x =
     (case x of
        CFlt f \<Rightarrow> f
      | CInt i \<Rightarrow> fl (of_int i)
      | CStr s \<Rightarrow> if s = [] then NaN
                  else (case py_float (replace_char CHR '','' CHR ''.'' s) of None \<Rightarrow> NaN | Some f \<Rightarrow> f))"

definition strip_bench :: "string \<Rightarrow> string" where
  \<comment> \<open>the regular expression \<open>^(wh|cds|avl)-\<close> replaced by nothing\<close>
  "strip_bench s =
     (if take 3 s = ''wh-'' then drop 3 s
      else if take 4 s = ''cds-'' \<or> take 4 s = ''avl-'' then drop 4 s else s)"

definition SUFFIXES :: "(string \<times> path) list" where
  "SUFFIXES = [(''wh'', [''wh_compare'', ''wh.csv'']), (''cds'', [''cdsbench'', ''cdsbench.csv'']),
     (''avl'', [''avl_compare'', ''cds_avl.csv''])]"

definition load_one_all :: "'f pandas \<Rightarrow> 'f world \<Rightarrow> string \<Rightarrow> string \<times> path \<Rightarrow> 'f py" where
  "load_one_all pd fs arch = (\<lambda>(bench, suffix).
     bind_py (read_results fs (root fs @ [''results'', arch] @ suffix)) (\<lambda>df.
       Inr (assign pd (\<lambda>r. r\<lparr>col_lk := strip_bench (col_lock r)\<rparr>)
         (assign pd (\<lambda>r. r\<lparr>col_bench := bench\<rparr>)
           (assign pd (\<lambda>r. r\<lparr>col_arch := arch\<rparr>)
             (assign pd (\<lambda>r. r\<lparr>col_zipf_theta := to_float (raw_zipf_theta r),
                               col_fairness_ratio := to_float (raw_fairness_ratio r)\<rparr>) df))))))"

definition load_all :: "'f pandas \<Rightarrow> 'f world \<Rightarrow> 'f py" where
  "load_all pd fs =
     bind_py (map_py (\<lambda>arch. map_py (load_one_all pd fs arch) SUFFIXES) ARCHES) (\<lambda>frames.
       Inr (concat_frames pd (concat frames)))"

definition cell_key :: "sample \<Rightarrow> cell list" where
  "cell_key r =
     [CStr (col_arch r), CStr (col_bench r), CStr (col_lk r), CInt (col_key_range r),
      CFlt (col_zipf_theta r), CStr (col_dist r), CInt (col_read_pct r), CInt (col_threads r)]"

text \<open>A row of the grouped frame; the columns it does not have are blank.\<close>

fun cell_row :: "cell list \<Rightarrow> flt \<Rightarrow> sample" where
  "cell_row [CStr a, CStr b, CStr lk, CInt kr, CFlt th, CStr di, CInt rd, CInt t] m =
     \<lparr>col_arch = a, col_lock = [], col_dist = di, col_zipf_theta = th, col_threads = t, col_key_range = kr,
      col_read_pct = rd, col_insert_pct = 0, col_ops_s = m, col_fairness_ratio = NaN, col_bench = b, col_lk = lk,
      col_workload = [], raw_zipf_theta = CStr [], raw_fairness_ratio = CStr [], col_hostname = [], raw_ns_op = CStr [], col_ns_op = NaN, col_stream_len = 0,
      col_buckets = 0, col_cache_regime = [], col_skew_tier = [], col_mix = [], col_ops_s_p25 = NaN, col_ops_s_p75 = NaN, col_n = 0, col_cov_pct = NaN\<rparr>"
| "cell_row _ m =
     \<lparr>col_arch = [], col_lock = [], col_dist = [], col_zipf_theta = NaN, col_threads = 0, col_key_range = 0,
      col_read_pct = 0, col_insert_pct = 0, col_ops_s = m, col_fairness_ratio = NaN, col_bench = [], col_lk = [],
      col_workload = [], raw_zipf_theta = CStr [], raw_fairness_ratio = CStr [], col_hostname = [], raw_ns_op = CStr [], col_ns_op = NaN, col_stream_len = 0,
      col_buckets = 0, col_cache_regime = [], col_skew_tier = [], col_mix = [], col_ops_s_p25 = NaN, col_ops_s_p75 = NaN, col_n = 0, col_cov_pct = NaN\<rparr>"

definition median_per_cell :: "'f pandas \<Rightarrow> 'f \<Rightarrow> 'f" where
  "median_per_cell pd raw =
     from_rows pd (map (\<lambda>(k, g). cell_row k (median_of pd col_ops_s g)) (groupby pd cell_key raw))"

section \<open>Ranks\<close>

definition ranked_rows :: "'f pandas \<Rightarrow> 'f \<Rightarrow> sample list" where
  \<comment> \<open>the rows at the largest thread count, fastest first; empty for an empty frame\<close>
  "ranked_rows pd sub =
     (case max_of pd col_threads sub of
        None \<Rightarrow> []
      | Some maxT \<Rightarrow> rows_of pd (sort_values pd col_ops_s False (select pd (\<lambda>r. col_threads r = maxT) sub)))"

definition ranks_of :: "sample list \<Rightarrow> (string, nat \<times> flt) dict" where
  "ranks_of ranked = dict_of (map (\<lambda>(i, r). (col_lk r, (i + 1, millions r))) (zip [0..<length ranked] ranked))"

definition ranks_at_max_threads ::
  "'f pandas \<Rightarrow> 'f \<Rightarrow> string \<Rightarrow> int \<Rightarrow> flt \<Rightarrow> string \<Rightarrow> int \<Rightarrow> (string, (string, nat \<times> flt) dict) dict" where
  "ranks_at_max_threads pd agg bench key_range zipf_theta distr read_pct =
     concat (map (\<lambda>arch.
       let sub = select pd (\<lambda>r. col_bench r = bench \<and> col_arch r = arch \<and> col_key_range r = key_range \<and>
                   col_dist r = distr \<and> feq (col_zipf_theta r) zipf_theta \<and> col_read_pct r = read_pct) agg
       in if rows_of pd sub = [] then [] else [(arch, ranks_of (ranked_rows pd sub))]) ARCHES)"

section \<open>Slopegraph\<close>

definition arrow_up :: string where "arrow_up = [CHR 0xE2, CHR 0x86, CHR 0x91]"
definition arrow_down :: string where "arrow_down = [CHR 0xE2, CHR 0x86, CHR 0x93]"

definition common_locks :: "(string, nat \<times> flt) dict \<Rightarrow> (string, nat \<times> flt) dict \<Rightarrow> string list" where
  "common_locks xeon grav =
     py_sorted_key (\<lambda>lk. fst (the (map_of xeon lk))) (filter (\<lambda>lk. map_of grav lk \<noteq> None) (map fst xeon))"

definition slope_line :: "(string, nat \<times> flt) dict \<Rightarrow> (string, nat \<times> flt) dict \<Rightarrow> string \<Rightarrow> draw list py" where
  "slope_line xeon grav lk =
     bind_py (get_item xeon lk) (\<lambda>(xr, xv). bind_py (get_item grav lk) (\<lambda>(gr, gv).
       let color = (case map_of LOCK_COLOR lk of None \<Rightarrow> ''#888888'' | Some c \<Rightarrow> c);
           weight = (if xr \<noteq> gr then ''bold'' else ''normal'');
           delta = (if xr \<noteq> gr
                    then ''  '' @ (if gr < xr then arrow_up else arrow_down) @ show_int \<bar>int xr - int gr\<bar> else [])
       in Inr
         [Plot [0, 1] [Fin (of_nat xr), Fin (of_nat gr)]
            [(''color'', color), (''lw'', if xr \<noteq> gr then ''3.5'' else ''1.8''),
             (''alpha'', if xr \<noteq> gr then ''1.0'' else ''0.45''), (''marker'', ''o''), (''ms'', ''11''),
             (''markeredgecolor'', ''white''), (''markeredgewidth'', ''1.5'')],
          Call ''annotate'' [''  '' @ lk @ ''  ('' @ format_f1 xv @ '' M/s)'']
            [(''xy'', ''(0, '' @ show_nat xr @ '')''), (''xytext'', ''(-0.02, '' @ show_nat xr @ '')''), (''ha'', ''right''),
             (''va'', ''center''), (''fontsize'', ''11''), (''color'', color), (''fontweight'', weight)],
          Call ''annotate'' [''  '' @ lk @ ''  ('' @ format_f1 gv @ '' M/s)'' @ delta]
            [(''xy'', ''(1, '' @ show_nat gr @ '')''), (''xytext'', ''(1.02, '' @ show_nat gr @ '')''), (''ha'', ''left''),
             (''va'', ''center''), (''fontsize'', ''11''), (''color'', color), (''fontweight'', weight)]]))"

definition slope_axes :: "nat \<Rightarrow> draw list" where
  "slope_axes n =
     [Call ''set_xlim'' [''-0.45'', ''1.45''] [], Call ''set_ylim'' [show_nat n @ '' + 0.6'', ''0.4''] [],
      Call ''set_yticks'' (map show_nat [1..<n + 1]) [],
      Call ''set_yticklabels'' (map (\<lambda>i. CHR ''#'' # show_nat i) [1..<n + 1]) [],
      Call ''set_xticks'' [''0'', ''1''] [],
      Call ''set_xticklabels'' [''Xeon E5-2650L v3'' @ [CHR 0x0A] @ ''(max T = 12)'', ''Graviton2'' @ [CHR 0x0A] @ ''(max T = 8)'']
        [(''fontsize'', ''11'')],
      Call ''tick_params'' [] [(''axis'', ''x''), (''length'', ''0''), (''pad'', ''8'')],
      Call ''tick_params'' [] [(''axis'', ''y''), (''length'', ''0'')]] @
     map (\<lambda>sp. Call ''spines.set_visible'' [sp, ''False''] []) [''top'', ''right'', ''left'', ''bottom''] @
     [Call ''grid'' [''False''] []] @
     map (\<lambda>r. Call ''axhline'' [show_nat r] [(''color'', ''#dddddd''), (''lw'', ''0.6''), (''zorder'', ''-1'')]) [1..<n + 1]"

definition fig_rank_slopegraph ::
  "'f pandas \<Rightarrow> path \<Rightarrow> 'f \<Rightarrow> string \<Rightarrow> int \<Rightarrow> flt \<Rightarrow> string \<Rightarrow> int \<Rightarrow> string \<Rightarrow> string \<Rightarrow> string list option \<Rightarrow> event list py" where
  "fig_rank_slopegraph pd fig_dir agg bench key_range zipf_theta distr read_pct workload_label fname title_lines =
     (let ranks = ranks_at_max_threads pd agg bench key_range zipf_theta distr read_pct
      in case (map_of ranks ''x86_64'', map_of ranks ''aarch64'') of
           (Some xeon, Some grav) \<Rightarrow>
             (let locks = common_locks xeon grav; n = length locks
              in bind_py (map_py (slope_line xeon grav) locks) (\<lambda>lines.
                 bind_py (case title_lines of
                     Some (t # ts) \<Rightarrow> Inr (t # ts)
                   | _ \<Rightarrow> bind_py (get_item BENCH_LABEL bench) (\<lambda>bl.
                       Inr [bl @ '': lock ranking changes between platforms'',
                            ''Workload: '' @ workload_label @ ''.  Solid bold lines = rank changed.''])) (\<lambda>title.
                 Inr [Saved \<lparr>fig_args = [(''figsize'', ''(11, max(5.5, 0.55 * '' @ show_nat n @ '' + 2.5))'')],
                        fig_axes = [concat lines @ slope_axes n @
                          [Call ''set_title'' [join_with [CHR 0x0A] title] [(''fontsize'', ''12''), (''pad'', ''14'')]]],
                        fig_calls = [Call ''tight_layout'' [] []], fig_file = fig_dir @ [fname]\<rparr>])))
         | _ \<Rightarrow> Inr [Printed (''  skip '' @ fname @ '': missing data'')])"

section \<open>Heatmap of rank changes\<close>

text \<open>A workload: its label, key range, Zipf exponent if any, distribution, read percentage.\<close>

type_synonym workload_spec = "string \<times> int \<times> flt option \<times> string \<times> int"

definition workloads :: "workload_spec list" where
  "workloads =
     [(''L1_cold'', 1000, None, ''uniform'', 90), (''L1_warm'', 1000, Some (fl (99 / 100)), ''zipfian'', 90),
      (''L1_hot'', 1000, Some (fl (12 / 10)), ''zipfian'', 90), (''L1_extreme'', 1000, Some (fl (15 / 10)), ''zipfian'', 90),
      (''L3_cold'', 100000, None, ''uniform'', 90), (''L3_warm'', 100000, Some (fl (99 / 100)), ''zipfian'', 90),
      (''L3_hot'', 100000, Some (fl (12 / 10)), ''zipfian'', 90), (''L3_extreme'', 100000, Some (fl (15 / 10)), ''zipfian'', 90),
      (''L1_50r_u'', 1000, None, ''uniform'', 50), (''L1_50r_z99'', 1000, Some (fl (99 / 100)), ''zipfian'', 50),
      (''L3_50r_u'', 100000, None, ''uniform'', 50), (''L3_50r_z99'', 100000, Some (fl (99 / 100)), ''zipfian'', 50)]"

definition bench_locks :: "(string \<times> string list) list" where
  "bench_locks =
     [(''wh'', [''default'', ''tas'', ''ttas'', ''cas'', ''occ'', ''occ-opt'', ''pcpu-rw'']),
      (''cds'', [''std'', ''tas'', ''ttas'', ''cas'', ''ticket'']),
      (''avl'', [''std'', ''tas'', ''ttas'', ''cas'', ''ticket''])]"

definition cell_frame :: "'f pandas \<Rightarrow> 'f \<Rightarrow> string \<Rightarrow> workload_spec \<Rightarrow> 'f" where
  "cell_frame pd agg bench = (\<lambda>(label, kr, zt, distr, rd).
     case zt of
       None \<Rightarrow> select pd (\<lambda>r. col_bench r = bench \<and> col_key_range r = kr \<and> col_dist r = distr \<and> col_read_pct r = rd) agg
     | Some z \<Rightarrow> select pd (\<lambda>r. col_bench r = bench \<and> col_key_range r = kr \<and> col_dist r = distr \<and>
         feq (col_zipf_theta r) z \<and> col_read_pct r = rd) agg)"

definition rank_in :: "'f pandas \<Rightarrow> 'f \<Rightarrow> string \<Rightarrow> string \<Rightarrow> nat option" where
  "rank_in pd sub arch lk =
     (let sa = select pd (\<lambda>r. col_arch r = arch) sub
      in if rows_of pd sa = [] then None
         else map_of (dict_of (map (\<lambda>(i, r). (col_lk r, i + 1))
           (zip [0..<length (ranked_rows pd sa)] (ranked_rows pd sa)))) lk)"

definition rank_delta :: "'f pandas \<Rightarrow> 'f \<Rightarrow> string \<Rightarrow> workload_spec \<Rightarrow> string \<Rightarrow> int option" where
  \<comment> \<open>\<open>None\<close> is NaN\<close>
  "rank_delta pd agg bench w lk =
     (let sub = cell_frame pd agg bench w
      in case (rank_in pd sub ''x86_64'' lk, rank_in pd sub ''aarch64'' lk) of
           (Some x, Some g) \<Rightarrow> Some (int g - int x)
         | _ \<Rightarrow> None)"

definition heatmap_rows :: "(string \<times> string) list" where
  "heatmap_rows = concat (map (\<lambda>(bench, locks). map (\<lambda>lk. (bench, lk)) locks) bench_locks)"

definition rank_matrix :: "'f pandas \<Rightarrow> 'f \<Rightarrow> int option list list" where
  "rank_matrix pd agg = map (\<lambda>(bench, lk). map (\<lambda>w. rank_delta pd agg bench w lk) workloads) heatmap_rows"

definition nanmax_abs :: "int option list list \<Rightarrow> int option" where
  "nanmax_abs mat =
     (let vs = map (\<lambda>v. \<bar>the v\<bar>) (filter (\<lambda>v. v \<noteq> None) (concat mat)) in if vs = [] then None else Some (Max (set vs)))"

definition cell_text :: "int option \<Rightarrow> nat \<times> nat \<Rightarrow> int option \<Rightarrow> draw list" where
  "cell_text biggest = (\<lambda>(i, j) v.
     case v of
       None \<Rightarrow> []
     | Some d \<Rightarrow>
         [Call ''text''
           [show_nat j, show_nat i, if d = 0 then [] else if d > 0 then CHR ''+'' # show_int d else show_int d]
           [(''ha'', ''center''), (''va'', ''center''), (''fontsize'', ''9''),
            (''color'', case biggest of None \<Rightarrow> ''white''
               | Some m \<Rightarrow> if fless (Fin (of_int \<bar>d\<bar>)) (fmul (Fin (of_int m)) (fl (6 / 10))) then ''black'' else ''white'')]])"

definition heatmap_texts :: "int option list list \<Rightarrow> draw list" where
  "heatmap_texts mat =
     concat (map (\<lambda>(i, row). concat (map (\<lambda>(j, v). cell_text (nanmax_abs mat) (i, j) v) (zip [0..<length row] row)))
       (zip [0..<length mat] mat))"

definition fig_rank_change_heatmap :: "'f pandas \<Rightarrow> path \<Rightarrow> 'f \<Rightarrow> string \<Rightarrow> int option list list \<times> event list" where
  \<comment> \<open>the matrix handed to \<open>imshow\<close>, and the figure saved\<close>
  "fig_rank_change_heatmap pd fig_dir agg fname =
     (let mat = rank_matrix pd agg;
          labels = map (\<lambda>(bench, lk). bench @ '': '' @ lk) heatmap_rows
      in (mat,
          [Saved \<lparr>fig_args = [(''figsize'', ''(14, 7)'')],
             fig_axes = [
               [Call ''imshow'' [''mat''] [(''cmap'', ''RdBu.reversed()''), (''vmin'', ''-vmax''), (''vmax'', ''vmax''), (''aspect'', ''auto'')],
                Call ''set_xticks'' (map show_nat [0..<length workloads]) [],
                Call ''set_xticklabels'' (map fst workloads) [(''rotation'', ''40''), (''ha'', ''right'')],
                Call ''set_yticks'' (map show_nat [0..<length labels]) [],
                Call ''set_yticklabels'' labels [(''fontsize'', ''9'')]] @
               heatmap_texts mat @
               [Call ''axhline'' [''6.5''] [(''color'', ''black''), (''lw'', ''1'')],
                Call ''axhline'' [''11.5''] [(''color'', ''black''), (''lw'', ''1'')],
                Call ''set_title'' [join_with [CHR 0x0A]
                  [''Rank change per (bench '' @ [CHR 0xC3, CHR 0x97] @ '' lock '' @ [CHR 0xC3, CHR 0x97] @
                     '' workload), max threads, 90% read / 5% insert / 5% remove (or 50/25/25)'',
                   ''Cell value = (Graviton rank) '' @ [CHR 0xE2, CHR 0x88, CHR 0x92] @
                     '' (Xeon rank).  Negative = lock improved its rank on Graviton.'',
                   ''Numbers are signed deltas; blank cell = no rank change.'']] [(''fontsize'', ''11'')]]],
             fig_calls = [Call ''colorbar'' [''im''] [(''label'', ''Graviton rank '' @ [CHR 0xE2, CHR 0x88, CHR 0x92] @
               '' Xeon rank   (negative = lock moved UP on Graviton)'')], Call ''tight_layout'' [] []],
             fig_file = fig_dir @ [fname]\<rparr>]))"

fun thousands :: "string \<Rightarrow> string" where
  \<comment> \<open>\<open>format(n, ",")\<close> on reversed digits\<close>
  "thousands (a # b # c # d # s) = a # b # c # CHR '','' # thousands (d # s)"
| "thousands s = s"

definition SLOPES :: "(string \<times> int \<times> string \<times> string) list" where
  "SLOPES =
     [(''wh'', 1000, ''L1'', ''f10_rank_wh_L1warm.png''), (''wh'', 100000, ''L3'', ''f11_rank_wh_L3warm.png''),
      (''cds'', 1000, ''L1'', ''f12_rank_cds_L1warm.png''), (''avl'', 1000, ''L1'', ''f13_rank_avl_L1warm.png'')]"

definition theta :: string where "theta = [CHR 0xCE, CHR 0xB8]"

definition ranking_main :: "'f pandas \<Rightarrow> 'f world \<Rightarrow> event list py" where
  "ranking_main pd fs =
     bind_py (load_all pd fs) (\<lambda>raw.
      let agg = median_per_cell pd raw;
          fig_dir = root fs @ [''results'', ''deck'', ''figures''];
          count = (\<lambda>f. rev (thousands (rev (show_nat (length (rows_of pd f))))))
      in bind_py (map_py (\<lambda>(bench, kr, level, fname).
             fig_rank_slopegraph pd fig_dir agg bench kr (fl (99 / 100)) ''zipfian'' 90
               (level @ ''-resident, zipf '' @ theta @ ''=0.99 (warm), 90% read / 5% insert / 5% remove'') fname None) SLOPES) (\<lambda>slopes.
           Inr ([Printed ''Loading data...'',
                 Printed (''  rows: '' @ count raw @ ''  agg rows: '' @ count agg),
                 Printed ''Generating slopegraph figures...''] @ concat slopes @
                [Printed ''Generating cross-workload rank-change heatmap...''] @
                snd (fig_rank_change_heatmap pd fig_dir agg ''f14_rank_change_heatmap.png'') @
                [Printed ''Done.''])))"

section \<open>Ranks are a ranking\<close>

definition is_ranking :: "sample list \<Rightarrow> (string, nat \<times> flt) dict \<Rightarrow> bool" where
  \<comment> \<open>the locks of the rows and no others are numbered from one to their number, and a lock with a
    smaller number is not slower\<close>
  "is_ranking rs d \<longleftrightarrow>
     dom (map_of d) = col_lk ` set rs \<and>
     bij_betw (\<lambda>lk. fst (the (map_of d lk))) (col_lk ` set rs) {1..length rs} \<and>
     (\<forall>r \<in> set rs. snd (the (map_of d (col_lk r))) = millions r) \<and>
     (\<forall>r \<in> set rs. \<forall>s \<in> set rs. fst (the (map_of d (col_lk r))) < fst (the (map_of d (col_lk s))) \<longrightarrow>
        \<not> fless (col_ops_s r) (col_ops_s s))"

lemma map_of_ranks:
  assumes "distinct (map col_lk rs)" and "i < length rs"
  shows "map_of (ranks_of rs) (col_lk (rs ! i)) = Some (i + 1, millions (rs ! i))"
proof -
  let ?ps = "map (\<lambda>(i, r). (col_lk r, (i + 1, millions r))) (zip [0..<length rs] rs)"
  have fst: "map fst ?ps = map col_lk rs" by (rule nth_equalityI) auto
  then have d: "distinct (map fst ?ps)" using assms(1) by simp
  have "?ps ! i = (col_lk (rs ! i), (i + 1, millions (rs ! i)))" using assms(2) by simp
  then have "(col_lk (rs ! i), (i + 1, millions (rs ! i))) \<in> set ?ps"
    using assms(2) by (metis (no_types, lifting) length_map length_zip length_upt min.idem minus_nat.diff_0 nth_mem)
  then show ?thesis using d map_of_dict_of_distinct [OF d] by (simp add: ranks_of_def)
qed

lemma dom_ranks: "distinct (map col_lk rs) \<Longrightarrow> dom (map_of (ranks_of rs)) = col_lk ` set rs"
proof -
  assume d: "distinct (map col_lk rs)"
  let ?ps = "map (\<lambda>(i, r). (col_lk r, (i + 1, millions r))) (zip [0..<length rs] rs)"
  have fst: "map fst ?ps = map col_lk rs" by (rule nth_equalityI) auto
  have "map_of (ranks_of rs) = map_of ?ps"
    using map_of_dict_of_distinct [of ?ps] d unfolding fst by (auto simp: ranks_of_def)
  then have "dom (map_of (ranks_of rs)) = set (map fst ?ps)" by (simp only: dom_map_of_conv_image_fst set_map)
  then show ?thesis unfolding fst by simp
qed

lemma ranks_of_ranking:
  assumes dist: "distinct (map col_lk rs)" and m: "mset rs = mset ts"
    and desc: "sorted_wrt (\<lambda>a b. \<not> fless (col_ops_s a) (col_ops_s b)) rs"
  shows "is_ranking ts (ranks_of rs)"
proof -
  have set: "set ts = set rs" "length ts = length rs"
    using mset_eq_setD [OF m] mset_eq_length [OF m] by auto
  let ?rank = "\<lambda>lk. fst (the (map_of (ranks_of rs) lk))"
  have at: "?rank (col_lk (rs ! i)) = i + 1" "snd (the (map_of (ranks_of rs) (col_lk (rs ! i)))) = millions (rs ! i)"
    if "i < length rs" for i using map_of_ranks [OF dist that] by auto
  have "bij_betw ?rank (col_lk ` set rs) {1..length rs}"
  proof (rule bij_betwI')
    fix x y assume "x \<in> col_lk ` set rs" "y \<in> col_lk ` set rs"
    then obtain i j where ij: "x = col_lk (rs ! i)" "i < length rs" "y = col_lk (rs ! j)" "j < length rs"
      by (auto simp: in_set_conv_nth)
    have "?rank x = i + 1" "?rank y = j + 1" unfolding ij(1,3) using at(1) ij(2,4) by blast+
    then show "?rank x = ?rank y \<longleftrightarrow> x = y" using ij(1,3) by (metis add_right_cancel)
  next
    fix x assume "x \<in> col_lk ` set rs"
    then obtain i where "x = col_lk (rs ! i)" "i < length rs" by (auto simp: in_set_conv_nth)
    then show "?rank x \<in> {1..length rs}" using at by simp
  next
    fix k assume "k \<in> {1..length rs}"
    then have "k - 1 < length rs" "k - 1 + 1 = k" by auto
    then show "\<exists>x \<in> col_lk ` set rs. k = ?rank x" using at(1) [of "k - 1"] by (metis image_eqI nth_mem)
  qed
  moreover have "\<not> fless (col_ops_s r) (col_ops_s s)"
    if mem: "r \<in> set rs" "s \<in> set rs" and less: "?rank (col_lk r) < ?rank (col_lk s)" for r s
  proof -
    obtain i j where "r = rs ! i" "i < length rs" "s = rs ! j" "j < length rs"
      using mem by (auto simp: in_set_conv_nth)
    then show ?thesis using less at sorted_wrt_nth_less [OF desc, of i j] by auto
  qed
  moreover have "snd (the (map_of (ranks_of rs) (col_lk r))) = millions r" if "r \<in> set rs" for r
    using that at by (auto simp: in_set_conv_nth)
  ultimately show ?thesis using dom_ranks [OF dist] by (auto simp: is_ranking_def set)
qed

definition top_rows :: "sample list \<Rightarrow> sample list" where
  "top_rows rs = filter (\<lambda>r. col_threads r = Max (col_threads ` set rs)) rs"

context dataframe
begin

lemma ranked_rows_sorted:
  assumes "rows_of pd sub \<noteq> []" and "\<forall>r \<in> set (rows_of pd sub). col_ops_s r \<noteq> NaN"
  shows "mset (ranked_rows pd sub) = mset (top_rows (rows_of pd sub))"
    and "sorted_wrt (\<lambda>a b. \<not> fless (col_ops_s a) (col_ops_s b)) (ranked_rows pd sub)"
proof -
  let ?sel = "select pd (\<lambda>r. col_threads r = Max (col_threads ` set (rows_of pd sub))) sub"
  have r: "ranked_rows pd sub = rows_of pd (sort_values pd col_ops_s False ?sel)"
    using max_value [OF assms(1)] by (simp add: ranked_rows_def)
  show "mset (ranked_rows pd sub) = mset (top_rows (rows_of pd sub))"
    unfolding r mset_sort by (simp add: rows_select top_rows_def)
  have "\<forall>r \<in> set (rows_of pd ?sel). col_ops_s r \<noteq> NaN" using assms(2) by (simp add: rows_select)
  from sorted_sort [OF this, of False]
  show "sorted_wrt (\<lambda>a b. \<not> fless (col_ops_s a) (col_ops_s b)) (ranked_rows pd sub)" unfolding r by simp
qed

lemma ranking_of_frame:
  assumes "rows_of pd sub \<noteq> []" and "\<forall>r \<in> set (rows_of pd sub). col_ops_s r \<noteq> NaN"
    and "distinct (map col_lk (top_rows (rows_of pd sub)))"
  shows "is_ranking (top_rows (rows_of pd sub)) (ranks_of (ranked_rows pd sub))"
proof (rule ranks_of_ranking [OF _ ranked_rows_sorted [OF assms(1,2)]])
  have "mset (map col_lk (ranked_rows pd sub)) = mset (map col_lk (top_rows (rows_of pd sub)))"
    using ranked_rows_sorted(1) [OF assms(1,2)] by simp
  then show "distinct (map col_lk (ranked_rows pd sub))" using assms(3) mset_eq_imp_distinct_iff by blast
qed

text \<open>The grouped frame has one row per cell.\<close>

lemma cell_key_row: "cell_key (cell_row (cell_key r) m) = cell_key r" "col_ops_s (cell_row (cell_key r) m) = m"
  by (simp_all add: cell_key_def)

lemma median_cells_distinct: "distinct (map cell_key (rows_of pd (median_per_cell pd raw)))"
proof -
  have "cell_key (cell_row k m) = k" if "(k, g) \<in> set (groupby pd cell_key raw)" for k g m
  proof -
    have "k \<in> fst ` set (groupby pd cell_key raw)" using that by force
    then obtain r where "k = cell_key r" unfolding group_keys by auto
    then show ?thesis by (simp add: cell_key_row)
  qed
  then have "map cell_key (rows_of pd (median_per_cell pd raw)) = map fst (groupby pd cell_key raw)"
    by (auto simp: median_per_cell_def rows_from)
  then show ?thesis using distinct_groups by simp
qed

end

lemma distinct_within:
  assumes "distinct (map f xs)" and "\<And>a b. P a \<Longrightarrow> P b \<Longrightarrow> g a = g b \<Longrightarrow> f a = f b"
  shows "distinct (map g (filter P xs))"
proof -
  have "inj_on f (set xs)" "distinct xs" using assms(1) by (auto simp: distinct_map)
  then show ?thesis using assms(2) by (auto simp: distinct_map inj_on_def)
qed

lemma ranks_get:
  "arch \<in> set ARCHES \<Longrightarrow> map_of (ranks_at_max_threads pd agg bench kr zt di rd) arch =
     (let sub = select pd (\<lambda>r. col_bench r = bench \<and> col_arch r = arch \<and> col_key_range r = kr \<and>
         col_dist r = di \<and> feq (col_zipf_theta r) zt \<and> col_read_pct r = rd) agg
      in if rows_of pd sub = [] then None else Some (ranks_of (ranked_rows pd sub)))"
  by (auto simp: ranks_at_max_threads_def ARCHES_def Let_def)

text \<open>
  C3. On the medians per configuration, the ranks of a machine with data are a ranking of the
  locks measured at its largest thread count: numbered from one without gaps or ties, every lock
  exactly once, no lock behind a slower one. A machine without data has no ranks.
\<close>

theorem ranks_at_max_threads_ranking:
  assumes "dataframe pd" and "arch \<in> set ARCHES" and "agg = median_per_cell pd raw" and "\<not> is_zero zt"
    and "rs = filter (\<lambda>r. col_bench r = bench \<and> col_arch r = arch \<and> col_key_range r = kr \<and>
      col_dist r = di \<and> feq (col_zipf_theta r) zt \<and> col_read_pct r = rd) (rows_of pd agg)"
    and "\<forall>r \<in> set rs. col_ops_s r \<noteq> NaN"
  shows "if rs = [] then map_of (ranks_at_max_threads pd agg bench kr zt di rd) arch = None
    else \<exists>d. map_of (ranks_at_max_threads pd agg bench kr zt di rd) arch = Some d \<and> is_ranking (top_rows rs) d"
proof -
  let ?P = "\<lambda>r. col_bench r = bench \<and> col_arch r = arch \<and> col_key_range r = kr \<and>
      col_dist r = di \<and> feq (col_zipf_theta r) zt \<and> col_read_pct r = rd"
  let ?sub = "select pd ?P agg"
  have sub: "rows_of pd ?sub = rs" using dataframe.rows_select [OF assms(1)] assms(5) by simp
  have top: "top_rows rs = filter (\<lambda>r. ?P r \<and> col_threads r = Max (col_threads ` set rs)) (rows_of pd agg)"
    by (simp add: top_rows_def assms(5) conj_ac)
  have "distinct (map col_lk (top_rows rs))"
    unfolding top
  proof (rule distinct_within)
    show "distinct (map cell_key (rows_of pd agg))"
      using dataframe.median_cells_distinct [OF assms(1)] by (simp add: assms(3))
    fix a b :: sample
    assume "?P a \<and> col_threads a = Max (col_threads ` set rs)" "?P b \<and> col_threads b = Max (col_threads ` set rs)"
      "col_lk a = col_lk b"
    then show "cell_key a = cell_key b" using assms(4) by (auto simp: cell_key_def feq_def)
  qed
  then have "is_ranking (top_rows rs) (ranks_of (ranked_rows pd ?sub))" if "rs \<noteq> []"
    using dataframe.ranking_of_frame [OF assms(1), of ?sub] that assms(6) by (simp add: sub)
  then show ?thesis using ranks_get [OF assms(2), of pd agg bench kr zt di rd] by (simp add: sub Let_def)
qed

definition xeon_tas :: sample where
  "xeon_tas = zipfian_reads\<lparr>col_threads := 12\<rparr>"

definition xeon_cas :: sample where
  "xeon_cas = xeon_tas\<lparr>col_lk := ''cas'', col_ops_s := Fin 9000000\<rparr>"

definition xeon_rows :: "sample list" where
  "xeon_rows = rows_of list_pandas (median_per_cell list_pandas [xeon_tas, xeon_cas])"

lemma xeon_rows_eval: "list_all (\<lambda>r. col_ops_s r \<noteq> NaN) xeon_rows" "length xeon_rows = 2"
  by code_simp+

theorem ranks_at_max_threads_ranking_witness:
  "if filter (\<lambda>r. col_bench r = ''wh'' \<and> col_arch r = ''x86_64'' \<and> col_key_range r = 1000 \<and>
      col_dist r = ''zipfian'' \<and> feq (col_zipf_theta r) (Fin (99 / 100)) \<and> col_read_pct r = 90) xeon_rows = []
   then map_of (ranks_at_max_threads list_pandas (median_per_cell list_pandas [xeon_tas, xeon_cas])
      ''wh'' 1000 (Fin (99 / 100)) ''zipfian'' 90) ''x86_64'' = None
   else \<exists>d. map_of (ranks_at_max_threads list_pandas (median_per_cell list_pandas [xeon_tas, xeon_cas])
      ''wh'' 1000 (Fin (99 / 100)) ''zipfian'' 90) ''x86_64'' = Some d \<and>
     is_ranking (top_rows (filter (\<lambda>r. col_bench r = ''wh'' \<and> col_arch r = ''x86_64'' \<and> col_key_range r = 1000 \<and>
      col_dist r = ''zipfian'' \<and> feq (col_zipf_theta r) (Fin (99 / 100)) \<and> col_read_pct r = 90) xeon_rows)) d"
proof (rule ranks_at_max_threads_ranking [OF rows.dataframe_axioms])
  show "''x86_64'' \<in> set ARCHES" by (simp add: ARCHES_def)
  show "\<not> is_zero (Fin (99 / 100))" by (simp add: is_zero_def)
qed (use xeon_rows_eval in \<open>auto simp: xeon_rows_def list_all_iff\<close>)

section \<open>Comparing two rankings\<close>

lemma ranking_range:
  assumes "is_ranking rs d" and "lk \<in> col_lk ` set rs"
  shows "fst (the (map_of d lk)) \<in> {1..length rs}"
  using assms by (auto simp: is_ranking_def dest: bij_betwE)

lemma ranking_card: "is_ranking rs d \<Longrightarrow> card (col_lk ` set rs) = length rs"
  using bij_betw_same_card by (fastforce simp: is_ranking_def)

lemma set_common_locks: "set (common_locks x g) = dom (map_of x) \<inter> dom (map_of g)"
proof -
  have "set (common_locks x g) = fst ` set x \<inter> dom (map_of g)"
    by (force simp: common_locks_def py_sorted_key_def)
  then show ?thesis by (simp only: dom_map_of_conv_image_fst)
qed

lemma length_common_locks:
  "dict_wf x \<Longrightarrow> length (common_locks x g) = card (dom (map_of x) \<inter> dom (map_of g))"
proof -
  assume "dict_wf x"
  then have "distinct (common_locks x g)" by (simp add: common_locks_def py_sorted_key_def dict_wf_def)
  then show ?thesis by (metis distinct_card set_common_locks)
qed

definition slope_of :: "draw list \<Rightarrow> (flt \<times> flt) option" where
  \<comment> \<open>the two heights of a slope line\<close>
  "slope_of ds = (case ds of Plot _ [a, b] _ # _ \<Rightarrow> Some (a, b) | _ \<Rightarrow> None)"

definition is_bold :: "draw list \<Rightarrow> bool" where
  "is_bold ds = (case ds of Plot _ _ a # _ \<Rightarrow> map_of a ''lw'' = Some ''3.5'' | _ \<Rightarrow> False)"

text \<open>
  The slopegraph of two rankings draws one line for every lock ranked on both machines, in
  the order of the ranks on the first, from its rank there to its rank on the second, and bold
  exactly when the two differ. When both machines ranked the same locks, all heights lie between
  one and the number of lines, which is the range the axis shows.
\<close>

theorem slope_lines_of_rankings:
  assumes "is_ranking rs x" and "is_ranking ss g" and "dict_wf x" and "n = length (common_locks x g)"
  shows "\<exists>dss. map_py (slope_line x g) (common_locks x g) = Inr dss \<and>
    list_all2 (\<lambda>lk ds. slope_of ds = Some (Fin (of_nat (fst (the (map_of x lk)))), Fin (of_nat (fst (the (map_of g lk))))) \<and>
      (is_bold ds \<longleftrightarrow> fst (the (map_of x lk)) \<noteq> fst (the (map_of g lk)))) (common_locks x g) dss \<and>
    sorted (map (\<lambda>lk. fst (the (map_of x lk))) (common_locks x g)) \<and>
    (col_lk ` set rs = col_lk ` set ss \<longrightarrow>
      list_all (\<lambda>lk. fst (the (map_of x lk)) \<in> {1..n} \<and> fst (the (map_of g lk)) \<in> {1..n}) (common_locks x g))"
proof -
  let ?P = "\<lambda>lk ds. slope_of ds = Some (Fin (of_nat (fst (the (map_of x lk)))), Fin (of_nat (fst (the (map_of g lk))))) \<and>
      (is_bold ds \<longleftrightarrow> fst (the (map_of x lk)) \<noteq> fst (the (map_of g lk)))"
  have "\<exists>ds. slope_line x g lk = Inr ds \<and> ?P lk ds" if lk: "lk \<in> set (common_locks x g)" for lk
  proof -
    obtain xr xv gr gv where v: "map_of x lk = Some (xr, xv)" "map_of g lk = Some (gr, gv)"
      using lk unfolding set_common_locks by auto
    show ?thesis by (simp add: slope_line_def get_item_def v slope_of_def is_bold_def Let_def)
  qed
  then have "\<forall>lk \<in> set (common_locks x g). \<exists>ds. slope_line x g lk = Inr ds \<and> ?P lk ds" by blast
  note lines = map_py_all2 [OF this]
  have "sorted (map (\<lambda>lk. fst (the (map_of x lk))) (common_locks x g))"
    unfolding common_locks_def by (rule sorted_py_sorted_key)
  moreover have "list_all (\<lambda>lk. fst (the (map_of x lk)) \<in> {1..n} \<and> fst (the (map_of g lk)) \<in> {1..n}) (common_locks x g)"
    if same: "col_lk ` set rs = col_lk ` set ss"
  proof -
    have dom: "dom (map_of x) = col_lk ` set rs" "dom (map_of g) = col_lk ` set rs"
      using assms(1,2) same by (simp_all add: is_ranking_def)
    then have "n = length rs" "n = length ss"
      using length_common_locks [OF assms(3), of g] assms(4) ranking_card [OF assms(1)] ranking_card [OF assms(2)] same
      by simp_all
    then show ?thesis
      using ranking_range [OF assms(1)] ranking_range [OF assms(2)] dom same
      by (auto simp: list_all_iff set_common_locks)
  qed
  ultimately show ?thesis using lines by blast
qed

definition two_locks :: "(string, nat \<times> flt) dict" where
  "two_locks = ranks_of [xeon_cas, xeon_tas]"

lemma two_locks_ranking: "is_ranking [xeon_cas, xeon_tas] two_locks" "dict_wf two_locks"
proof -
  show "is_ranking [xeon_cas, xeon_tas] two_locks"
    unfolding two_locks_def
    by (rule ranks_of_ranking) (simp_all add: xeon_cas_def xeon_tas_def zipfian_reads_def)
  show "dict_wf two_locks" by (simp add: two_locks_def ranks_of_def)
qed

theorem slope_lines_of_rankings_witness:
  "\<exists>dss. map_py (slope_line two_locks two_locks) (common_locks two_locks two_locks) = Inr dss \<and>
    list_all2 (\<lambda>lk ds. slope_of ds = Some (Fin (of_nat (fst (the (map_of two_locks lk)))), Fin (of_nat (fst (the (map_of two_locks lk))))) \<and>
      (is_bold ds \<longleftrightarrow> fst (the (map_of two_locks lk)) \<noteq> fst (the (map_of two_locks lk)))) (common_locks two_locks two_locks) dss \<and>
    list_all (\<lambda>lk. fst (the (map_of two_locks lk)) \<in> {1..length (common_locks two_locks two_locks)})
      (common_locks two_locks two_locks)"
  using slope_lines_of_rankings [OF two_locks_ranking(1) two_locks_ranking(1) two_locks_ranking(2) refl] by auto

text \<open>
  When the second machine also ranked a lock that the first did not measure, a lock can have a
  rank beyond the number of lines, and its point lies outside the range of the axis.
\<close>

theorem slope_rank_beyond_axis:
  "\<exists>x g lk. is_ranking [xeon_tas] x \<and> is_ranking [xeon_cas, xeon_tas] g \<and> lk \<in> set (common_locks x g) \<and>
     length (common_locks x g) < fst (the (map_of g lk))"
proof (intro exI conjI)
  show "is_ranking [xeon_tas] (ranks_of [xeon_tas])" by (rule ranks_of_ranking) simp_all
  show "is_ranking [xeon_cas, xeon_tas] two_locks" by (rule two_locks_ranking(1))
  have eval: "common_locks (ranks_of [xeon_tas]) two_locks = [''tas'']" "fst (the (map_of two_locks ''tas'')) = 2"
    by code_simp+
  show "''tas'' \<in> set (common_locks (ranks_of [xeon_tas]) two_locks)" by (simp add: eval)
  show "length (common_locks (ranks_of [xeon_tas]) two_locks) < fst (the (map_of two_locks ''tas''))" by (simp add: eval)
qed

section \<open>Rank changes\<close>








definition warm :: workload_spec where
  "warm = (''L1_warm'', 1000, Some (Fin (99 / 100)), ''zipfian'', 90)"







end
