(* ===== verification/IndexLock.thy ===== *)
theory IndexLock
  imports PlotWormhole Deck
begin

text \<open>
  \<open>scripts/build_index_lock_evaluation.py\<close>: the results of the three indexes on two machines are
  loaded and cut to the scope of the comparison; for seven workloads a figure with the throughput
  lines and the ranking at the largest thread count is saved; the best lock per machine and
  workload is tabulated; and a deck of nineteen slides is built from the figures, the table and
  fixed texts. numpy's rounding to one decimal is an argument.
\<close>

section \<open>Constants\<close>

definition WH_LOCKS :: "string list" where
  "WH_LOCKS = [''default'', ''rw'', ''tas'', ''ttas'', ''cas'', ''occ'', ''occ-opt'']"

definition CDS_LOCKS :: "string list" where
  "CDS_LOCKS = [''std'', ''tas'', ''ttas'', ''cas'', ''ticket'']"

definition AVL_LOCKS :: "string list" where
  "AVL_LOCKS = CDS_LOCKS"

definition WH_PALETTE :: "(string, string) dict" where
  "WH_PALETTE =
     [(''default'', ''#888''), (''rw'', ''#444''), (''tas'', ''tab:blue''), (''ttas'', ''tab:green''),
      (''cas'', ''tab:orange''), (''occ'', ''tab:purple''), (''occ-opt'', ''tab:red'')]"

definition CDS_PALETTE :: "(string, string) dict" where
  "CDS_PALETTE =
     [(''std'', ''#888''), (''tas'', ''tab:blue''), (''ttas'', ''tab:green''), (''cas'', ''tab:orange''),
      (''ticket'', ''tab:red'')]"

definition AVL_PALETTE :: "(string, string) dict" where
  "AVL_PALETTE = CDS_PALETTE"

definition ARCH_PRETTY :: "(string, string) dict" where
  "ARCH_PRETTY =
     [(''graviton'', ''AWS Graviton (ARM, 8 cores)''), (''xeon'', ''Intel Xeon (x86, 16 cores in scope)'')]"

definition WORKLOAD_TAGS :: "(string \<times> int \<times> int, string) dict" where
  "WORKLOAD_TAGS =
     [((''uniform'', 80, 10), ''uniform 80/10/10''), ((''uniform'', 90, 5), ''uniform 90/5/5 read heavy''),
      ((''zipfian'', 80, 10), ''zipfian 80/10/10''), ((''zipfian'', 20, 40), ''zipfian 20/40/40 write heavy'')]"

definition workload_tag :: "sample \<Rightarrow> string" where
  "workload_tag row =
     (let rd = col_read_pct row; ins = col_insert_pct row
      in case map_of WORKLOAD_TAGS (col_dist row, rd, ins) of
           Some t \<Rightarrow> t
         | None \<Rightarrow> mix_label CHR '' '' CHR ''/'' (col_dist row) rd ins)"

section \<open>Loading\<close>

definition in_scope :: "sample \<Rightarrow> bool" where
  "in_scope r \<longleftrightarrow> col_arch r \<noteq> ''apple_m3'' \<and> \<not> (col_arch r = ''xeon'' \<and> 16 < col_threads r)"

definition load :: "'f pandas \<Rightarrow> 'f world \<Rightarrow> string \<Rightarrow> string \<Rightarrow> 'f py" where
  \<comment> \<open>concatenating no frames raises\<close>
  "load pd fs glob prefix =
     (let csvs = py_sorted (glob_files fs glob)
      in if csvs = [] then Inl ValueError
         else bind_py (apply_rows pd (\<lambda>r. r\<lparr>col_workload := workload_tag r\<rparr>)
                (assign pd (\<lambda>r. r\<lparr>col_lk := remove_all prefix (col_lock r)\<rparr>)
                  (concat_frames pd (map (csv_frame fs) csvs)))) (\<lambda>df.
           Inr (select pd (\<lambda>r. \<not> (col_arch r = ''xeon'' \<and> 16 < col_threads r))
             (select pd (\<lambda>r. col_arch r \<noteq> ''apple_m3'') df))))"

section \<open>Figures\<close>

definition line_kwargs :: "(string, string) dict \<Rightarrow> string \<Rightarrow> attrs py" where
  "line_kwargs palette lk =
     bind_py (get_item palette lk) (\<lambda>color.
       Inr [(''marker'', ''o''), (''linewidth'', ''2.0''), (''color'', color), (''label'', lk)])"

definition throughput_panel :: "'f pandas \<Rightarrow> string list \<Rightarrow> (string, string) dict \<Rightarrow> string \<Rightarrow> 'f \<Rightarrow> draw list py" where
  "throughput_panel pd locks palette arch sub =
     bind_py (map_py (\<lambda>lk. series pd (select pd (\<lambda>r. col_lk r = lk) sub) (line_kwargs palette lk)) locks) (\<lambda>dss.
     bind_py (get_item ARCH_PRETTY arch) (\<lambda>pretty.
       Inr (concat dss @
         [Call ''set_title'' [pretty] [(''fontsize'', ''11'')], Call ''set_xlabel'' [''Threads (log scale)''] [],
          Call ''set_ylabel'' [''M ops/s''] [], Call ''set_xscale'' [''log''] [(''base'', ''2'')],
          Call ''grid'' [''True''] [(''alpha'', ''0.3'')],
          Call ''legend'' [] [(''fontsize'', ''8''), (''ncol'', ''2''), (''loc'', ''best'')]])))"

fun largest :: "flt list \<Rightarrow> flt" where
  \<comment> \<open>\<open>max\<close> of a non-empty sequence keeps the first of the largest\<close>
  "largest [] = NaN"
| "largest (x # xs) = foldl (\<lambda>m y. if fless m y then y else m) x xs"

definition ranking_panel :: "'f pandas \<Rightarrow> (string, string) dict \<Rightarrow> 'f \<Rightarrow> draw list py" where
  "ranking_panel pd palette sub =
     (if rows_of pd sub = [] then Inr [Call ''set_axis_off'' [] []]
      else bind_py (max_threads pd sub) (\<lambda>max_t.
        let s = sort_values pd millions False (select pd (\<lambda>r. col_threads r = max_t) sub);
            lks = map col_lk (rows_of pd s); vals = map millions (rows_of pd s)
        in bind_py (map_py (get_item palette) lks) (\<lambda>colors.
             Inr (CatBar lks vals colors [(''edgecolor'', ''black''), (''linewidth'', ''0.4'')] #
               map (\<lambda>(i, v). BarText i v (format_f1 v) [(''ha'', ''center''), (''va'', ''bottom''), (''fontsize'', ''9'')])
                 (zip [0..<length vals] vals) @
               [Call ''set_title'' [''Ranking at '' @ show_int max_t @ ''T (M ops/s)''] [(''fontsize'', ''10'')],
                YLim (Fin 0) (fmul (largest vals) (fl (118 / 100))),
                Call ''grid'' [''True''] [(''axis'', ''y''), (''alpha'', ''0.3'')],
                Call ''tick_params'' [] [(''axis'', ''x''), (''labelsize'', ''9'')]]))))"

definition FIG_DIR :: path where
  \<comment> \<open>below the root\<close>
  "FIG_DIR = [''results'', ''deck'', ''figures'', ''index_lock'']"

definition plot_lines_and_bars ::
  "'f pandas \<Rightarrow> path \<Rightarrow> 'f \<Rightarrow> string list \<Rightarrow> (string, string) dict \<Rightarrow> string \<Rightarrow> string \<Rightarrow> string \<Rightarrow> figure py" where
  "plot_lines_and_bars pd base df locks palette title wkl fname =
     bind_py (map_py (\<lambda>arch.
         let sub = select pd (\<lambda>r. col_arch r = arch \<and> col_workload r = wkl) df
         in bind_py (throughput_panel pd locks palette arch sub) (\<lambda>lines.
            bind_py (ranking_panel pd palette sub) (\<lambda>bars. Inr (lines, bars))))
       [''graviton'', ''xeon'']) (\<lambda>cols.
       Inr \<lparr>fig_args = [(''figsize'', ''(14, 6.4)''), (''gridspec_kw'', ''height_ratios [3, 2]'')],
            fig_axes = map fst cols @ map snd cols,
            fig_calls = [Call ''suptitle'' [title @ '', workload: '' @ wkl] [(''fontsize'', ''13'')],
              Call ''tight_layout'' [] []],
            fig_file = base @ FIG_DIR @ [fname]\<rparr>)"

definition plots :: "'f pandas \<Rightarrow> path \<Rightarrow> 'f \<Rightarrow> 'f \<Rightarrow> 'f \<Rightarrow> (string, figure py) dict" where
  "plots pd base wh cds avl =
     [(''wh_balanced'', plot_lines_and_bars pd base wh WH_LOCKS WH_PALETTE ''Wormhole'' ''uniform 80/10/10'' ''wh_balanced.png''),
      (''wh_readheavy'', plot_lines_and_bars pd base wh WH_LOCKS WH_PALETTE ''Wormhole'' ''uniform 90/5/5 read heavy'' ''wh_readheavy.png''),
      (''wh_writeheavy'', plot_lines_and_bars pd base wh WH_LOCKS WH_PALETTE ''Wormhole'' ''zipfian 20/40/40 write heavy'' ''wh_writeheavy.png''),
      (''cds_balanced'', plot_lines_and_bars pd base cds CDS_LOCKS CDS_PALETTE ''libcds StripedMap'' ''uniform 80/10/10'' ''cds_balanced.png''),
      (''cds_zipfian'', plot_lines_and_bars pd base cds CDS_LOCKS CDS_PALETTE ''libcds StripedMap'' ''zipfian 80/10/10'' ''cds_zipfian.png''),
      (''avl_balanced'', plot_lines_and_bars pd base avl AVL_LOCKS AVL_PALETTE ''libcds BronsonAVL'' ''uniform 80/10/10'' ''avl_balanced.png''),
      (''avl_writeheavy'', plot_lines_and_bars pd base avl AVL_LOCKS AVL_PALETTE ''libcds BronsonAVL'' ''zipfian 20/40/40 write heavy'' ''avl_writeheavy.png'')]"

section \<open>The best lock\<close>

text \<open>A row of the table: index, machine, thread count, workload, lock, millions of operations.\<close>

type_synonym best = "string \<times> string \<times> int \<times> string \<times> string \<times> flt"

definition best_in_workload ::
  "'f pandas \<Rightarrow> (flt \<Rightarrow> flt) \<Rightarrow> string \<Rightarrow> string \<Rightarrow> int \<Rightarrow> 'f \<Rightarrow> string \<Rightarrow> best list py" where
  "best_in_workload pd round1 name arch max_t sub wkl =
     (let wsub = select pd (\<lambda>r. col_workload r = wkl \<and> col_threads r = max_t) sub
      in if rows_of pd wsub = [] then Inr []
         else (case idxmax_of pd col_ops_s wsub of
                 None \<Rightarrow> Inl ValueError
               | Some b \<Rightarrow> Inr [(name, arch, max_t, wkl, col_lk b, round1 (millions b))]))"

definition best_in_arch :: "'f pandas \<Rightarrow> (flt \<Rightarrow> flt) \<Rightarrow> string \<Rightarrow> 'f \<Rightarrow> string \<Rightarrow> best list py" where
  "best_in_arch pd round1 name df arch =
     (let sub = select pd (\<lambda>r. col_arch r = arch) df
      in bind_py (max_threads pd sub) (\<lambda>max_t.
         bind_py (map_py (best_in_workload pd round1 name arch max_t sub) (py_sorted (unique_of pd col_workload sub)))
           (\<lambda>rs. Inr (concat rs))))"

definition best_lock_table :: "'f pandas \<Rightarrow> (flt \<Rightarrow> flt) \<Rightarrow> 'f \<Rightarrow> string list \<Rightarrow> string \<Rightarrow> best list py" where
  "best_lock_table pd round1 df locks name =
     bind_py (map_py (best_in_arch pd round1 name df) [''graviton'', ''xeon'']) (\<lambda>rs. Inr (concat rs))"

section \<open>Slide helpers\<close>

definition NAVY :: string where "NAVY = ''1F3A5F''"
definition GREY :: string where "GREY = ''555555''"
definition BLACK :: string where "BLACK = ''101010''"

definition add_textbox ::
  "string list \<Rightarrow> inches \<Rightarrow> inches \<Rightarrow> inches \<Rightarrow> inches \<Rightarrow> nat \<Rightarrow> bool \<Rightarrow> string \<Rightarrow> string \<Rightarrow> shape" where
  "add_textbox lines left up width height pts is_b color align =
     TextBox left up width height
       (map (\<lambda>line. Para line 0 pts
          [(''bold'', if is_b then ''True'' else ''False''), (''color'', color), (''align'', align)]) lines)"

text \<open>What a slide is made of: a shape, a table filled cell by cell, or a figure of the script.\<close>

datatype part =
    Shape shape
  | Cells "string list list" inches inches inches inches nat
  | PlotImage string

definition titled :: "string \<Rightarrow> string \<Rightarrow> part list \<Rightarrow> part list" where
  \<comment> \<open>\<open>add_title\<close>, then the other parts\<close>
  "titled title subtitle parts =
     Shape (add_textbox [title] (4 / 10) (25 / 100) (125 / 10) (7 / 10) 26 True NAVY ''LEFT'') #
     (if subtitle = [] then []
      else [Shape (add_textbox [subtitle] (4 / 10) (95 / 100) (125 / 10) (4 / 10) 13 False GREY ''LEFT'')]) @ parts"

definition add_image_slide :: "string \<Rightarrow> string \<Rightarrow> string \<Rightarrow> part list" where
  "add_image_slide title subtitle key = titled title subtitle [PlotImage key]"

definition run_part :: "images \<Rightarrow> (string, path) dict \<Rightarrow> part \<Rightarrow> shape py" where
  \<comment> \<open>what python-pptx finds in an image file is an argument\<close>
  "run_part pics images p =
     (case p of
        Shape s \<Rightarrow> Inr s
      | Cells rows x y w h pts \<Rightarrow>
          (let cols = length (hd rows)
           in bind_py (fill_rows cols rows) (\<lambda>cells. Inr (Table (length rows) cols x y w h [] cells)))
      | PlotImage key \<Rightarrow> bind_py (get_item images key) (\<lambda>img.
          add_picture pics img (55 / 100) (15 / 10) (Some (1225 / 100)) None))"

definition run_slide :: "images \<Rightarrow> (string, path) dict \<Rightarrow> part list \<Rightarrow> slide py" where
  "run_slide pics images = map_py (run_part pics images)"

definition best_cells :: "best list \<Rightarrow> string list list" where
  "best_cells best_rows =
     [''Index'', ''Architecture'', ''Max T'', ''Workload'', ''Best lock'', ''Throughput (M ops per s)''] #
     map (\<lambda>(name, arch, max_t, wkl, lk, v). [name, arch, show_int max_t, wkl, lk, format_f1 v]) best_rows"

section \<open>Slides\<close>

definition title_slide :: "part list" where
  "title_slide =  [Shape (add_textbox [''Index lock evaluation'']
       (1 / 2) (12 / 5) (123 / 10) 1 40 True NAVY ''CENTER''),
     Shape (add_textbox [''How lock primitive choice changes throughput inside three concurrent indexes'']
       (1 / 2) (17 / 5) (123 / 10) (3 / 5) 18 False GREY ''CENTER''),
     Shape (add_textbox [''Cross architecture: AWS Graviton (ARM) and Intel Xeon (x86)'']
       (1 / 2) 4 (123 / 10) (1 / 2) 15 False GREY ''CENTER''),
     Shape (add_textbox [''Andrei Pana'',
        ''Research project review'',
        ''May 2026'']
       (1 / 2) (11 / 2) (123 / 10) 1 14 False BLACK ''CENTER'')]"

definition context_slide :: "part list" where
  "context_slide = titled ''What this project is about''
     []
     [Shape (add_textbox [''The goal is to see how different lock primitives perform inside three concurrent indexes,'',
        ''and whether the answer changes when you move from x86 (Intel Xeon) to ARM (AWS Graviton).'',
        [],
        ''The three indexes used:'',
        ''   1. libcds StripedMap. Hash table with N stripes, one lock per stripe.'',
        ''   2. libcds BronsonAVL. Lock based AVL tree with one monitor lock per node.'',
        ''   3. Wormhole (Wu et al., FAST 2019). Hybrid trie plus hash plus linked list.'',
        [],
        ''Lock primitives compared:'',
        ''   StripedMap and BronsonAVL: std::mutex, tas, ttas, cas, ticket.'',
        ''   Wormhole: default (upstream untouched), rw, tas, ttas, cas, occ, occ-opt.'',
        [],
        ''The headline question: does the same lock win across architectures, or does it shift?'']
       (3 / 5) (7 / 5) (121 / 10) (11 / 2) 15 False BLACK ''LEFT'')]"

definition setup_slide :: "part list" where
  "setup_slide = titled ''Setup''
     []
     [Cells [[''Machine'', ''Architecture'', ''Cores in scope'', ''Notes''],
        [''AWS Graviton'', ''ARM Neoverse N1'', ''8'', ''Hypervisor pinned vCPU clocks''],
        [''Intel Xeon (diascld45)'', ''x86_64'', ''16 (out of 48)'', ''Capped at 16T to stay on a single socket'']]
       (3 / 5) (7 / 5) (121 / 10) (7 / 5) 13,
     Cells [[''Workload tag'', ''Distribution'', ''Reads %'', ''Inserts %'', ''Deletes %''],
        [''balanced'', ''uniform'', ''80'', ''10'', ''10''],
        [''read heavy'', ''uniform'', ''90'', ''5'', ''5''],
        [''hot key'', ''zipfian'', ''80'', ''10'', ''10''],
        [''write heavy'', ''zipfian'', ''20'', ''40'', ''40'']]
       (3 / 5) (31 / 10) (121 / 10) (19 / 10) 13,
     Shape (add_textbox [''Each run is 3 seconds of measurement after 1 second of warmup.'',
        ''Thread ladder is power of 2 up to the per machine cap (1, 2, 4, 8 on Graviton; 1, 2, 4, 8, 16 on Xeon).'',
        ''Every plot in this deck shows Graviton in the left panel and Xeon in the right panel for the same workload.'',
        ''Below each line plot we also show a sorted bar chart at the maximum thread point so the ranking is visible at a glance.'']
       (3 / 5) (26 / 5) (121 / 10) 2 13 False BLACK ''LEFT'')]"

definition pinning_slide :: "part list" where
  "pinning_slide = titled ''Thread pinning details, Graviton specifics''
     ''How --pin works in the harness, and what it actually does on a c6g instance''
     [Shape (add_textbox [''How --pin is implemented (Linux only, in include/primitives/util.hpp):'',
        ''   set_thread_affinity(thread_id) calls sched_setaffinity with a cpu_set_t containing only that one CPU.'',
        ''   Threads are numbered 0, 1, 2, ..., so thread N gets pinned to logical CPU N.'',
        ''   Pinning is dense and sequential: a 4 thread run uses CPUs 0..3, an 8 thread run uses CPUs 0..7.'',
        [],
        ''What that means on AWS Graviton specifically:'',
        ''   c6g instances run Neoverse N1 cores. Neoverse N1 does NOT support SMT, so one vCPU is one physical core.'',
        ''   The kernel sees CPUs 0..7 on a c6g.2xlarge, and those map 1 to 1 to physical Graviton cores.'',
        ''   AWS Nitro / Graviton does not migrate vCPUs across physical cores at runtime under steady load.'',
        ''   So sched_setaffinity to CPU N effectively pins to physical core N for the duration of the run.'',
        ''   Each pinned thread also gets a hypervisor managed clock that does not vary at runtime, which is one'',
        ''   reason fairness numbers on Graviton are very tight (around 0.98 across all benches).'',
        [],
        ''Honest disclaimer about the data in this deck:'',
        ''   The harness has a --pin flag, but only the standalone cds_sweep.sh passes it. The two sweep scripts'',
        ''   used to produce these slides (wh_compare.sh and run_avl_compare.sh) do NOT pass --pin.'',
        ''   So the Wormhole, BronsonAVL, and StripedMap numbers in this deck are from UNPINNED runs.'',
        [],
        ''Why this is fine for the comparison we are presenting:'',
        ''   We checked directly (StripedMap pinned vs unpinned on Graviton at 8T): avg fairness 0.984 vs 0.982.'',
        ''   Same on Xeon: 0.909 vs 0.908. Pinning has effectively no impact at the scale of this study.'',
        ''   On Graviton this is because the hypervisor placement is already stable. On Xeon it is because the'',
        ''   variance comes from DVFS, not from thread migration.'',
        ''   We will normalize this in the next iteration so all three sweeps pass --pin on Linux.'']
       (1 / 2) (7 / 5) (123 / 10) (29 / 5) 11 False BLACK ''LEFT'')]"

definition striped_slide :: "part list" where
  "striped_slide = titled ''How we built StripedMap''
     ''Adapter at include/indexes/striped_map_index.hpp''
     [Shape (add_textbox [''Wraps cds::container::StripedMap from libcds.'',
        [],
        ''   Hash table with std::list buckets and a fixed array of N stripe locks.'',
        ''   The lock primitive is the template parameter to cds::container::striped_set::striping<Lock>,'',
        ''   so we plug any lockbench primitive (tas_lock, ttas_lock, cas_lock, ticket_lock, std::mutex) at compile time.'',
        ''   We use 65536 stripes. Each operation hashes the key, picks the stripe, and acquires its lock.'',
        ''   Resize policy is load_factor_resizing<4>: when item count divided by buckets exceeds 4,'',
        ''   the map takes ALL stripe locks (scoped_full_lock) and rehashes. We size the initial bucket array'',
        ''   large enough that we do not hit a resize during a benchmark run.'',
        [],
        ''Why it matters: StripedMap is the simplest of the three indexes. There is no traversal,'',
        ''each operation acquires exactly one lock, so it isolates the cost of a single lock acquire'',
        ''plus the time to walk the per stripe std::list.'']
       (1 / 2) (7 / 5) (123 / 10) (29 / 5) 14 False BLACK ''LEFT'')]"

definition bronson_slide :: "part list" where
  "bronson_slide = titled ''How we built BronsonAVL''
     ''Adapter at include/indexes/avl_tree_index.hpp''
     [Shape (add_textbox [''Wraps cds::container::BronsonAVLTreeMap from libcds. Bronson et al. published this'',
        ''lock based AVL tree as a balanced concurrent ordered map with optimistic version validated reads.'',
        [],
        ''   Tree is balanced. Each node carries a monitor lock that we plug in via cds::sync::injecting_monitor<Lock>.'',
        ''   Reads use a sequence style version counter on each node. Writers take the lock, mutate, then bump the version.'',
        ''   Writes do hand over hand traversal down the tree, locking at most a small constant number of nodes at a time.'',
        ''   Memory reclamation is handled by URCU (cds::urcu::gc<general_buffered>). Worker threads attach to the URCU'',
        ''   manager on first call via a thread_local guard, then detach at thread exit.'',
        [],
        ''Why it matters: the contention surface is much smaller than StripedMap. The hot lock is wherever the'',
        ''tree is being mutated, which depends on the key access pattern. This is what makes the zipfian'',
        ''workloads interesting: under a skewed distribution, a small set of nodes carries most writes.'']
       (1 / 2) (7 / 5) (123 / 10) (29 / 5) 13 False BLACK ''LEFT'')]"

definition wormhole_slide :: "part list" where
  "wormhole_slide = titled ''How we built Wormhole, part 1: vendoring and shim design''
     ''Adapter at include/indexes/wormhole_index.hpp; shim at third_party/wormhole/wh_lock_shim.{h,cpp}''
     [Shape (add_textbox [''Wormhole (Wu et al., FAST 2019) is a hybrid trie plus hash plus linked list ordered concurrent index.'',
        ''It hard codes its own rwlock and spinlock as 4 byte opaque structs in lib.h. For our experiment we need'',
        ''to swap them with any of our primitives at compile time.'',
        [],
        ''Approach:'',
        ''   1. Vendor wormhole in tree at third_party/wormhole/. The only edits to upstream sources are short'',
        ''      ifdef gated blocks. With WH_LOCK_SHIM unset, the build is upstream wormhole untouched.'',
        ''   2. Add wh_lock_shim.h, which redefines struct rwlock and struct spinlock as 128 byte storage arrays'',
        ''      with extern C function declarations matching upstream signatures (rwlock_lock_read, rwlock_trylock_write_nr, etc.).'',
        ''   3. Add wh_lock_shim.cpp, a C++ TU that picks LockT via WH_LOCK_<NAME> macro, asserts size and alignment,'',
        ''      and provides extern C bodies. Each function placement-news the LockT into the shim storage at init time'',
        ''      and dispatches via small if constexpr templates so the non matching branches are elided.'',
        [],
        ''Variants built per CMake target:'',
        ''   default (upstream rwlock, no shim), rw, tas, ttas, cas, occ, occ-opt.'',
        [],
        ''occ-opt is special: writer side uses the cas lock, but readers walk the leaf without taking the lock at all.'',
        ''They snapshot a per leaf seqlock counter, read the entries, then validate. On mismatch they retry.'']
       (1 / 2) (7 / 5) (123 / 10) (29 / 5) 12 False BLACK ''LEFT'')]"

definition alignment_slide :: "part list" where
  "alignment_slide = titled ''How we built Wormhole, part 2: the alignment bug''
     ''Every shim variant SIGSEGV on Xeon during the very first prefill insert''
     [Shape (add_textbox [''Symptom: wh_test_rw, wh_test_cas, wh_test_tas, wh_test_ttas, wh_test_occ, wh_test_occ-opt all crashed in'',
        ''wormleaf_insert_hs on Xeon. wh_test_default ran clean. The crash was invisible on Apple Silicon.'',
        [],
        ''Root cause:'',
        ''   wormleaf_shift_inc and wormleaf_shift_dec use _mm256_load_si256 on leaf->ss (AVX2 aligned load).'',
        ''   Aligned loads need the source address to be a multiple of 32 bytes.'',
        ''   With upstream wormhole, leaflock + sortlock take 8 bytes total, so leaf->ss starts at offset 1088 (aligned).'',
        ''   With our shim, leaflock + sortlock take 256 bytes, pushing leaf->ss to offset 1336 (1336 mod 16 = 8).'',
        ''   Aligned SIMD load at a misaligned address gives SIGSEGV on x86. NEON tolerates misalignment, so Mac was fine.'',
        [],
        ''Fix (one line):'',
        ''   _Alignas(32) struct entry13 hs[WH_KPN]; in struct wormleaf, gated on WH_LOCK_SHIM.'',
        ''   This adds 8 bytes of padding before hs[], pulls hs to offset 320 and ss to 1344, both 32 byte aligned.'',
        [],
        ''Failed first attempt worth recording:'',
        ''   I tried shrinking the shim alignment from alignas(64) to alignas(8). That left ss[] still misaligned'',
        ''   and introduced UB whenever LockT had alignas(64) atomics inside (occ_lock, ticket_lock).'',
        ''   Mac wh-cas and wh-rw started hanging at 99 percent CPU in rwlock_trylock_write, even single threaded.'',
        ''   Reverted in the same change as the proper _Alignas(32) fix.'']
       (1 / 2) (7 / 5) (123 / 10) (29 / 5) 11 False BLACK ''LEFT'')]"

definition optimistic_slide :: "part list" where
  "optimistic_slide = titled ''How we built Wormhole, part 3: bugs in the optimistic reader''
     ''Five separate things had to be fixed before wh-occ-opt was correct and fair''
     [Shape (add_textbox [''1. Uninitialized occ_seq.'',
        ''   slab_alloc_safe returns memory with stale bits. If a fresh leaf came in with an odd seq counter,'',
        ''   readers spun forever waiting for a writer that never existed. Fix: initialize occ_seq to 0 in wormleaf_alloc.'',
        [],
        ''2. Missing seq bumps in writer fast paths.'',
        ''   wormhole_jump_leaf_write and wormhole_split_insert bypass the regular wormleaf_lock_write / unlock_write.'',
        ''   Without explicit bumps the seq would go odd and never come back to even, leaving the leaf in an'',
        (''   apparent '' @ [CHR 0x22] @ ''writer in progress'' @ [CHR 0x22] @ '' state forever. Fix: bump occ_seq on trylock_write_nr success in those paths.''),
        [],
        ''3. Torn entry13 reads.'',
        ''   entry13 is an 8 byte packed struct (e1: u16 key prefix, e3: u48 compressed pointer).'',
        ''   Stock wormleaf_match_hs reads e1 and e3 as separate field accesses. Without the leaflock, a writer'',
        ''   could clear hs[i].v64 between the two reads. Reader sees e1 == pkey, then reads e3 == 0, derefs NULL,'',
        ''   SIGSEGV. The seqlock validate would catch it, but only after the segfault.'',
        ''   Fix: read entry13 as a single atomic v64 load, unpack e1 and e3 from the same snapshot.'',
        [],
        ''4. kv use after free under optimistic reads.'',
        ''   kvmap_mm_dup frees old kvs immediately on update. An optimistic reader could hold a kv pointer that'',
        ''   gets freed mid-read. Fix: custom kvmap_mm with a no-op free for wh-occ-opt. kvs leak for the run'',
        ''   (~150 MB for a 3 second benchmark, acceptable for measurement). A production implementation would defer free via QSBR.'',
        [],
        ''5. Allocator asymmetry inflated the wh-occ-opt win.'',
        ''   Locked variants paid roughly 10 to 30 ns per op for free(); the no-op free variant did not.'',
        ''   That artificially doubled occ-opt apparent advantage on write heavy zipfian. Fix: WH_FAIR_MM CMake'',
        ''   option that uses the same no-op free MM for ALL variants. Required for an apples to apples comparison.'']
       (1 / 2) (7 / 5) (123 / 10) (29 / 5) 10 False BLACK ''LEFT'')]"

definition best_slide :: "best list \<Rightarrow> part list" where
  "best_slide best_rows = titled ''Best lock per architecture and workload''
     ''Top throughput at each architecture's maximum thread count in scope''
     [Cells (best_cells best_rows) (1 / 2) (7 / 5) (123 / 10) (27 / 5) 11,
     Shape (add_textbox [''Quick observations from the table:'',
        ''   Graviton and Xeon do not always agree on the best lock for the same workload.'',
        ''   For Wormhole, occ-opt is the headline winner on read leaning workloads (and on uniform 80/10/10 on Graviton).'',
        ''   For StripedMap and BronsonAVL, tas and ttas dominate. cas and ticket appear more on Xeon than on Graviton.'']
       (1 / 2) (137 / 20) (123 / 10) (3 / 5) 11 False BLACK ''LEFT'')]"

definition question_slide :: "part list" where
  "question_slide = titled ''Next steps, part 1: an open question to address''
     ''From supervisor feedback''
     [Shape (add_textbox [''The question:'',
        (''   '' @ [CHR 0x22] @ ''Have you examined all synchronization related instructions in armv8 and x86 to make sure that the locks''),
        ''   we have been evaluating cover them all? One of the original questions we want to answer is what is the'',
        ''   perf difference between directly writing assemblies and using C++ atomics. And it seems that we have'',
        (''   been evaluating only the latter.'' @ [CHR 0x22]),
        [],
        ''Honest answer:'',
        ''   Right. Every lock primitive we have evaluated so far (tas, ttas, cas, ticket, rw, occ) is built on'',
        ''   std::atomic. The compiler picks the underlying instruction. On Graviton with -march=native we should be'',
        ''   getting the ARMv8.1 LSE atomics (cas, casal, swp, ldadd) but we have not actually verified this with'',
        ''   objdump. On Xeon we get the lock prefixed instructions (lock cmpxchg, lock xchg, lock xadd).'',
        [],
        ''Things our current set does NOT cover:'',
        ''   On ARM, WFE (Wait For Event) and SEV (Send Event). These let a spinning core enter a low power wait'',
        ''   that wakes when the cache line changes. The Linux kernel arm64 spinlock uses them. Our cpu_relax just'',
        ''   does YIELD which is a hint that is largely a NOP on Neoverse cores.'',
        ''   On ARM, hand picking barrier strength (DMB ISHLD vs DMB ISHST vs DMB ISH SY) instead of letting the'',
        ''   compiler map memory_order_release to whichever DMB it picks.'',
        ''   On x86, there is much less missing. PAUSE we already use. UMONITOR / UMWAIT exists on Tremont and'',
        ''   Tigerlake plus, but diascld45 (Haswell era) does not have it. TSX HLE and RTM are disabled in microcode'',
        ''   on most modern Xeons due to MDS / Spectre mitigations.'']
       (1 / 2) (7 / 5) (123 / 10) (29 / 5) 11 False BLACK ''LEFT'')]"

definition experiments_slide :: "part list" where
  "experiments_slide = titled ''Next steps, part 2: concrete experiments to run''
     []
     [Shape (add_textbox [''A. Verify what GCC actually emits for our locks (low effort, high information).'',
        ''   Run objdump -d on each wormhole-rt-<lock>.a on Graviton and Xeon. Check that:'',
        ''      tas_lock and ttas_lock use casal (LSE) on Graviton, lock cmpxchg / lock xchg on Xeon.'',
        ''      cas_lock uses cas (LSE) on Graviton.'',
        ''   If we are still seeing ldaxr / stlxr loops on Graviton, our -march flag is wrong and we are paying'',
        ''   the LL/SC penalty unnecessarily.'',
        [],
        ''B. Add a WFE based spinlock primitive (most promising new direction for ARM).'',
        ''   New file: include/primitives/tas_lock_wfe.hpp and a matching cas_lock_wfe.hpp.'',
        ''   The acquire path: try the atomic, on failure use WFE to wait for any change to the cache line, then retry.'',
        ''   The release path: store, then SEV to wake any waiting cores. Reference: Linux arch/arm64 spinlock.h.'',
        ''   Plug into the Wormhole shim and compare against the YIELD based versions on Graviton.'',
        ''   Hypothesis: at high contention, WFE saves real power and may reduce coherence traffic;'',
        ''   at low contention it is a wash or slightly slower because of the extra SEV.'',
        [],
        ''C. Hand assembly TAS and CAS to compare against std::atomic versions.'',
        ''   Write a tas_lock_asm and cas_lock_asm that use inline asm directly (LSE on ARM, lock prefix on x86).'',
        ''   Compare the throughput at every thread point. The expected delta is small if -march=native is doing'',
        ''   its job, but if there is a measurable gap that is itself an interesting finding for the writeup.'',
        [],
        ''D. Smaller items still on the list.'',
        ''   Get sudo on Xeon for one controlled run with setup_cpu.sh, to separate DVFS noise from real lock behaviour.'',
        ''   Add Apple M3 back for the Wormhole comparison (P cores only, capped at 6T to stay homogeneous).'',
        ''   Write up the cross arch lock ranking finding (ttas wins more on Graviton, cas / ticket more on Xeon).'']
       (1 / 2) (7 / 5) (123 / 10) (29 / 5) 11 False BLACK ''LEFT'')]"

definition image_slides :: "part list list" where
  "image_slides =
    [add_image_slide ''Wormhole, balanced workload (uniform 80 percent reads)''
       ''Top: throughput vs threads. Bottom: ranking at the architecture's maximum threads.'' ''wh_balanced'',
     add_image_slide ''Wormhole, read heavy workload (uniform 90 percent reads)''
       ''Where an optimistic reader is expected to win'' ''wh_readheavy'',
     add_image_slide ''Wormhole, write heavy workload (zipfian 20 percent reads, 40 inserts, 40 deletes)''
       ''Hot key contention, where readers cannot escape conflict'' ''wh_writeheavy'',
     add_image_slide ''libcds StripedMap, balanced workload (uniform 80 percent reads)''
       ''Per stripe lock contention, no traversal'' ''cds_balanced'',
     add_image_slide ''libcds StripedMap, hot key workload (zipfian 80 percent reads)''
       ''A few stripes carry most of the traffic'' ''cds_zipfian'',
     add_image_slide ''libcds BronsonAVL, balanced workload (uniform 80 percent reads)''
       ''Per node monitor lock, much smaller contention surface than StripedMap'' ''avl_balanced'',
     add_image_slide ''libcds BronsonAVL, write heavy workload''
       ''Tree mutations create more lock acquisition per operation'' ''avl_writeheavy'']"

definition deck_slides :: "best list \<Rightarrow> part list list" where
  "deck_slides best_rows =
     [title_slide, context_slide, setup_slide, pinning_slide, striped_slide, bronson_slide, wormhole_slide,
      alignment_slide, optimistic_slide] @
     image_slides @ [best_slide best_rows, question_slide, experiments_slide]"

section \<open>The script\<close>

definition run_plots :: "(string, figure py) dict \<Rightarrow> (string \<times> figure) list py" where
  "run_plots ps = map_py (\<lambda>(k, f). bind_py f (\<lambda>g. Inr (k, g))) ps"

definition index_lock_events :: "'f pandas \<Rightarrow> path \<Rightarrow> 'f \<Rightarrow> 'f \<Rightarrow> 'f \<Rightarrow> (string \<times> figure) list \<Rightarrow> deck \<Rightarrow> event list" where
  "index_lock_events pd base wh cds avl figs deck =
     [Printed ''Loading CSVs ...'',
      Printed (''  wh: '' @ show_nat (length (rows_of pd wh)) @ '' rows, cds: '' @
        show_nat (length (rows_of pd cds)) @ '' rows, avl: '' @ show_nat (length (rows_of pd avl)) @ '' rows''),
      Printed ''Generating plots ...''] @
     map (\<lambda>(k, f). Saved f) figs @
     map (\<lambda>(k, f). Printed (''  wrote '' @ join_with ''/'' (drop (length base) (fig_file f)))) figs @
     [Printed (CHR 0x0A # ''Building deck ...''),
      Printed (CHR 0x0A # ''Deck written to results/deck/index_lock_evaluation.pptx''),
      Printed (''Slide count: '' @ show_nat (length deck))]"

definition index_lock_script :: "'f pandas \<Rightarrow> (flt \<Rightarrow> flt) \<Rightarrow> images \<Rightarrow> 'f world \<Rightarrow> (event list \<times> deck) py" where
  \<comment> \<open>the figures saved and lines printed in order, and the deck\<close>
  "index_lock_script pd round1 pics fs =
     bind_py (load pd fs ''results/*/wh_compare/wh.csv'' ''wh-'') (\<lambda>wh.
     bind_py (load pd fs ''results/*/avl_compare/cds_striped.csv'' ''cds-'') (\<lambda>cds.
     bind_py (load pd fs ''results/*/avl_compare/cds_avl.csv'' ''avl-'') (\<lambda>avl.
     bind_py (run_plots (plots pd (root fs) wh cds avl)) (\<lambda>figs.
     bind_py (best_lock_table pd round1 wh WH_LOCKS ''Wormhole'') (\<lambda>b1.
     bind_py (best_lock_table pd round1 cds CDS_LOCKS ''StripedMap'') (\<lambda>b2.
     bind_py (best_lock_table pd round1 avl AVL_LOCKS ''BronsonAVL'') (\<lambda>b3.
     bind_py (map_py (run_slide pics (map (\<lambda>(k, f). (k, fig_file f)) figs)) (deck_slides (b1 @ b2 @ b3))) (\<lambda>deck.
       Inr (index_lock_events pd (root fs) wh cds avl figs deck, deck)))))))))"

section \<open>Tags identify workloads\<close>

definition tag_suffix :: "string \<times> int \<times> int \<Rightarrow> string" where
  "tag_suffix m =
     (if m = (''uniform'', 90, 5) then '' read heavy''
      else if m = (''zipfian'', 20, 40) then '' write heavy'' else [])"

lemma workload_tag_text:
  "workload_tag row =
     mix_label CHR '' '' CHR ''/'' (col_dist row) (col_read_pct row) (col_insert_pct row) @ tag_suffix (mix_of row)"
proof -
  have texts: "show_int 80 = ''80''" "show_int 10 = ''10''" "show_int 90 = ''90''" "show_int 5 = ''5''"
    "show_int 20 = ''20''" "show_int 40 = ''40''"
    by code_simp+
  show ?thesis by (auto simp: workload_tag_def WORKLOAD_TAGS_def tag_suffix_def mix_of_def mix_label_def texts Let_def)
qed

text \<open>
  Workload tags identify workloads: two rows whose distribution has no space get the same tag
  exactly when distribution, read and insert percentages agree. (The labels of the other plotting
  scripts do not have this property.)
\<close>

theorem workload_tag_inj:
  assumes "CHR '' '' \<notin> set (col_dist a)" and "CHR '' '' \<notin> set (col_dist b)"
  shows "workload_tag a = workload_tag b \<longleftrightarrow> mix_of a = mix_of b"
proof
  assume "workload_tag a = workload_tag b"
  then show "mix_of a = mix_of b"
    unfolding workload_tag_text
    using mix_label_inj [OF assms, of "CHR ''/''" _ _ "tag_suffix (mix_of a)" _ _ "tag_suffix (mix_of b)"]
    by (simp add: mix_of_def is_digit_def)
qed (simp add: workload_tag_text mix_of_def)

theorem workload_tag_inj_witness:
  "workload_tag zipfian_reads \<noteq> workload_tag (zipfian_reads\<lparr>col_dist := ''uniform''\<rparr>)"
  using workload_tag_inj [of zipfian_reads "zipfian_reads\<lparr>col_dist := ''uniform''\<rparr>"]
  by (simp add: zipfian_reads_def mix_of_def)

section \<open>What is loaded\<close>

definition tagged :: "string \<Rightarrow> sample \<Rightarrow> sample" where
  "tagged prefix r = r\<lparr>col_lk := remove_all prefix (col_lock r), col_workload := workload_tag r\<rparr>"

lemma workload_tag_lk [simp]: "workload_tag (r\<lparr>col_lk := l\<rparr>) = workload_tag r"
  by (simp add: workload_tag_text mix_of_def)

text \<open>
  Loading keeps exactly the rows in scope of all matching files, in order: none of the Apple
  machine, and of the Xeon none above sixteen threads. Without any matching file it is an error.
\<close>

theorem load_keeps_scope:
  assumes "dataframe pd" and "rs = concat (map (\<lambda>csv. rows_of pd (csv_frame fs csv)) (py_sorted (glob_files fs pattern)))"
  shows "glob_files fs pattern = [] \<Longrightarrow> load pd fs pattern prefix = Inl ValueError"
    and "rs \<noteq> [] \<Longrightarrow> \<exists>df. load pd fs pattern prefix = Inr df \<and>
      rows_of pd df = filter in_scope (map (tagged prefix) rs)"
proof -
  note [simp] = dataframe.rows_select [OF assms(1)] dataframe.rows_assign [OF assms(1)] dataframe.rows_concat [OF assms(1)]
  have "in_scope = (\<lambda>x. col_arch x \<noteq> ''apple_m3'' \<and> (col_arch x = ''xeon'' \<longrightarrow> \<not> 16 < col_threads x))"
    "tagged prefix = (\<lambda>x. x\<lparr>col_lk := remove_all prefix (col_lock x), col_workload := workload_tag x\<rparr>)"
    by (auto simp: in_scope_def tagged_def)
  then show "rs \<noteq> [] \<Longrightarrow> \<exists>df. load pd fs pattern prefix = Inr df \<and>
      rows_of pd df = filter in_scope (map (tagged prefix) rs)"
    unfolding assms(2) by (auto simp: load_def dataframe.apply_rows_Inr [OF assms(1)] Let_def comp_def)
  show "glob_files fs pattern = [] \<Longrightarrow> load pd fs pattern prefix = Inl ValueError"
    by (simp add: load_def Let_def py_sort_def)
qed

theorem load_keeps_scope_witness:
  "\<exists>df. load list_pandas \<lparr>root = [], glob_files = \<lambda>_. [[''wh.csv'']], path_exists = \<lambda>_. True,
      csv_frame = \<lambda>_. [zipfian_reads, zipfian_reads\<lparr>col_arch := ''apple_m3''\<rparr>]\<rparr> ''wh.csv'' ''wh-'' = Inr df \<and>
    rows_of list_pandas df = [tagged ''wh-'' zipfian_reads]"
proof -
  let ?fs = "\<lparr>root = [], glob_files = \<lambda>_. [[''wh.csv'']], path_exists = \<lambda>_. True,
      csv_frame = \<lambda>_. [zipfian_reads, zipfian_reads\<lparr>col_arch := ''apple_m3''\<rparr>]\<rparr>"
  have rs: "[zipfian_reads, zipfian_reads\<lparr>col_arch := ''apple_m3''\<rparr>] =
      concat (map (\<lambda>csv. rows_of list_pandas (csv_frame ?fs csv)) (py_sorted (glob_files ?fs ''wh.csv'')))"
    by (simp add: list_pandas_def py_sort_def)
  have "filter in_scope (map (tagged ''wh-'') [zipfian_reads, zipfian_reads\<lparr>col_arch := ''apple_m3''\<rparr>]) =
      [tagged ''wh-'' zipfian_reads]"
    by (simp add: in_scope_def tagged_def zipfian_reads_def)
  then show ?thesis using load_keeps_scope(2) [OF rows.dataframe_axioms rs, of "''wh-''"] by simp
qed

section \<open>The table of best locks\<close>

definition arch_rows :: "sample list \<Rightarrow> string \<Rightarrow> sample list" where
  "arch_rows rs arch = filter (\<lambda>r. col_arch r = arch) rs"

definition top_cell :: "sample list \<Rightarrow> string \<Rightarrow> string \<Rightarrow> sample list" where
  \<comment> \<open>the rows of a machine and workload at the largest thread count of the machine\<close>
  "top_cell rs arch wkl =
     filter (\<lambda>r. col_workload r = wkl \<and> col_threads r = Max (col_threads ` set (arch_rows rs arch))) (arch_rows rs arch)"

definition is_best :: "sample list \<Rightarrow> (flt \<Rightarrow> flt) \<Rightarrow> string \<Rightarrow> best \<Rightarrow> bool" where
  "is_best rs round1 name = (\<lambda>(n, arch, t, wkl, lk, v).
     n = name \<and> t = Max (col_threads ` set (arch_rows rs arch)) \<and>
     (\<exists>b \<in> set (top_cell rs arch wkl). lk = col_lk b \<and> v = round1 (millions b) \<and>
        (\<forall>r \<in> set (top_cell rs arch wkl). \<not> fless (col_ops_s b) (col_ops_s r))))"

definition best_cell :: "best \<Rightarrow> string \<times> string" where
  "best_cell = (\<lambda>(n, arch, t, wkl, lk, v). (arch, wkl))"

definition best_for :: "sample list \<Rightarrow> (flt \<Rightarrow> flt) \<Rightarrow> string \<Rightarrow> string \<Rightarrow> best list \<Rightarrow> bool" where
  \<comment> \<open>one best row for every workload of the machine that has rows at its largest thread count\<close>
  "best_for rs round1 name arch bs \<longleftrightarrow>
     list_all (is_best rs round1 name) bs \<and> sorted_wrt (<) (map (\<lambda>b. snd (best_cell b)) bs) \<and>
     best_cell ` set bs = {arch} \<times> {wkl. top_cell rs arch wkl \<noteq> []}"

lemma best_rows_of_workloads:
  assumes "list_all2 (\<lambda>w bs. if top_cell rs arch w = [] then bs = []
      else \<exists>b. bs = [b] \<and> is_best rs round1 name b \<and> best_cell b = (arch, w)) ws bss"
    and "sorted_wrt (<) ws"
  shows "list_all (is_best rs round1 name) (concat bss) \<and> sorted_wrt (<) (map (\<lambda>b. snd (best_cell b)) (concat bss)) \<and>
    best_cell ` set (concat bss) = {arch} \<times> {w \<in> set ws. top_cell rs arch w \<noteq> []}"
  using assms
proof (induction rule: list_all2_induct)
  case (Cons w ws bs bss)
  have IH: "list_all (is_best rs round1 name) (concat bss)" "sorted_wrt (<) (map (\<lambda>b. snd (best_cell b)) (concat bss))"
    "best_cell ` set (concat bss) = {arch} \<times> {w \<in> set ws. top_cell rs arch w \<noteq> []}"
    using Cons.IH Cons.prems by (simp_all add: comp_def)
  show ?case
  proof (cases "top_cell rs arch w = []")
    case True
    then have "bs = []" "{arch} \<times> {v \<in> set (w # ws). top_cell rs arch v \<noteq> []} = {arch} \<times> {v \<in> set ws. top_cell rs arch v \<noteq> []}"
      using Cons.hyps(1) by auto
    then show ?thesis using IH by simp
  next
    case False
    then obtain b where b: "bs = [b]" "is_best rs round1 name b" "best_cell b = (arch, w)"
      using Cons.hyps(1) by auto
    have "w < snd (best_cell c)" if "c \<in> set (concat bss)" for c
      using imageI [OF that, of best_cell] Cons.prems unfolding IH(3) by auto
    then have "sorted_wrt (<) (map (\<lambda>b. snd (best_cell b)) (concat (bs # bss)))" using IH(2) b(1,3) by simp
    moreover have "best_cell ` set (concat (bs # bss)) = insert (arch, w) ({arch} \<times> {v \<in> set ws. top_cell rs arch v \<noteq> []})"
      unfolding IH(3) [symmetric] using b(1,3) by simp
    ultimately show ?thesis using IH(1) b(1,2) False by auto
  qed
qed simp

context dataframe
begin

lemma best_in_workload_row:
  assumes "\<forall>r \<in> set (rows_of pd df). col_ops_s r \<noteq> NaN" and "sub = select pd (\<lambda>r. col_arch r = arch) df"
    and "max_t = Max (col_threads ` set (arch_rows (rows_of pd df) arch))"
  shows "\<exists>bs. best_in_workload pd round1 name arch max_t sub wkl = Inr bs \<and>
    (if top_cell (rows_of pd df) arch wkl = [] then bs = []
     else \<exists>b. bs = [b] \<and> is_best (rows_of pd df) round1 name b \<and> best_cell b = (arch, wkl))"
proof -
  let ?wsub = "select pd (\<lambda>r. col_workload r = wkl \<and> col_threads r = max_t) sub"
  have cell: "rows_of pd ?wsub = top_cell (rows_of pd df) arch wkl"
    by (simp add: assms(2,3) rows_select top_cell_def arch_rows_def)
  show ?thesis
  proof (cases "top_cell (rows_of pd df) arch wkl = []")
    case True
    then show ?thesis using cell by (simp add: best_in_workload_def Let_def)
  next
    case False
    have "\<forall>r \<in> set (rows_of pd ?wsub). col_ops_s r \<noteq> NaN"
      using assms(1) unfolding cell by (simp add: top_cell_def arch_rows_def)
    then obtain b where "idxmax_of pd col_ops_s ?wsub = Some b" "b \<in> set (top_cell (rows_of pd df) arch wkl)"
        "\<forall>r \<in> set (top_cell (rows_of pd df) arch wkl). \<not> fless (col_ops_s b) (col_ops_s r)"
      using idxmax_row [of ?wsub col_ops_s] False by (auto simp: cell)
    then show ?thesis
      using False cell assms(3) by (auto simp: best_in_workload_def is_best_def best_cell_def Let_def)
  qed
qed

lemma best_in_arch_rows:
  assumes "\<forall>r \<in> set (rows_of pd df). col_ops_s r \<noteq> NaN" and "arch_rows (rows_of pd df) arch \<noteq> []"
  shows "\<exists>bs. best_in_arch pd round1 name df arch = Inr bs \<and> best_for (rows_of pd df) round1 name arch bs"
proof -
  let ?sub = "select pd (\<lambda>r. col_arch r = arch) df" and ?rs = "rows_of pd df"
  let ?t = "Max (col_threads ` set (arch_rows ?rs arch))"
  let ?ws = "py_sorted (unique_of pd col_workload ?sub)"
  have sub: "rows_of pd ?sub = arch_rows ?rs arch" by (simp add: rows_select arch_rows_def)
  have t: "max_threads pd ?sub = Inr ?t" using max_threads_value [of ?sub] assms(2) by (simp add: sub)
  let ?P = "\<lambda>w bs. if top_cell ?rs arch w = [] then bs = []
        else \<exists>b. bs = [b] \<and> is_best ?rs round1 name b \<and> best_cell b = (arch, w)"
  have "\<forall>w \<in> set ?ws. \<exists>bs. best_in_workload pd round1 name arch ?t ?sub w = Inr bs \<and> ?P w bs"
    using best_in_workload_row [OF assms(1) refl refl] by blast
  then obtain bss where bss: "map_py (best_in_workload pd round1 name arch ?t ?sub) ?ws = Inr bss" "list_all2 ?P ?ws bss"
    using map_py_all2 [of ?ws "best_in_workload pd round1 name arch ?t ?sub" ?P] by blast
  have "w \<in> set ?ws" if ne: "top_cell ?rs arch w \<noteq> []" for w
  proof -
    obtain r where "r \<in> set (top_cell ?rs arch w)" using ne by (cases "top_cell ?rs arch w") auto
    then have "r \<in> set (rows_of pd ?sub)" "col_workload r = w" unfolding sub by (simp_all add: top_cell_def)
    then show ?thesis unfolding sorted_unique(2) by blast
  qed
  then have "best_for ?rs round1 name arch (concat bss)"
    using best_rows_of_workloads [OF bss(2) sorted_unique(1)] by (auto simp: best_for_def)
  then show ?thesis using t bss(1) by (simp add: best_in_arch_def Let_def)
qed

lemma best_in_arch_empty:
  "arch_rows (rows_of pd df) arch = [] \<Longrightarrow> best_in_arch pd round1 name df arch = Inl ValueError"
  by (simp add: best_in_arch_def arch_rows_def max_threads_empty rows_select)

end

text \<open>
  C4. The table of best locks fails with a \<open>ValueError\<close> when one of the two machines has no row;
  otherwise it lists, for Graviton and then for Xeon, exactly one row for every workload measured
  at the machine's largest thread count, in the order of the workloads, and names a lock whose
  throughput no other lock of that workload exceeds there.
\<close>

theorem best_lock_table_best:
  assumes "dataframe pd" and "\<forall>r \<in> set (rows_of pd df). col_ops_s r \<noteq> NaN"
  shows "if \<exists>arch \<in> {''graviton'', ''xeon''}. arch_rows (rows_of pd df) arch = []
    then best_lock_table pd round1 df locks name = Inl ValueError
    else \<exists>gs xs. best_lock_table pd round1 df locks name = Inr (gs @ xs) \<and>
      best_for (rows_of pd df) round1 name ''graviton'' gs \<and> best_for (rows_of pd df) round1 name ''xeon'' xs"
proof -
  have "if arch_rows (rows_of pd df) arch = [] then best_in_arch pd round1 name df arch = Inl ValueError
      else \<exists>bs. best_in_arch pd round1 name df arch = Inr bs \<and> best_for (rows_of pd df) round1 name arch bs" for arch
    using dataframe.best_in_arch_rows [OF assms] dataframe.best_in_arch_empty [OF assms(1)] by simp
  from this [of "''graviton''"] this [of "''xeon''"] show ?thesis
    by (force simp: best_lock_table_def split: if_splits)
qed

definition both_rows :: "sample list" where
  "both_rows = [tagged ''wh-'' (zipfian_reads\<lparr>col_arch := ''graviton''\<rparr>), tagged ''wh-'' (zipfian_reads\<lparr>col_arch := ''xeon''\<rparr>)]"

theorem best_lock_table_best_witness:
  "\<exists>gs xs. best_lock_table list_pandas (\<lambda>x. x) both_rows WH_LOCKS ''Wormhole'' = Inr (gs @ xs) \<and>
    best_for both_rows (\<lambda>x. x) ''Wormhole'' ''graviton'' gs \<and> best_for both_rows (\<lambda>x. x) ''Wormhole'' ''xeon'' xs"
proof -
  have rows: "rows_of list_pandas both_rows = both_rows" by (simp add: list_pandas_def)
  have "\<forall>r \<in> set both_rows. col_ops_s r \<noteq> NaN" "arch_rows both_rows ''graviton'' \<noteq> []" "arch_rows both_rows ''xeon'' \<noteq> []"
    by (simp_all add: both_rows_def tagged_def zipfian_reads_def arch_rows_def)
  then show ?thesis
    using best_lock_table_best [OF rows.dataframe_axioms, of both_rows "\<lambda>x. x" WH_LOCKS "''Wormhole''"] by (simp add: rows)
qed

section \<open>The ranking chart\<close>

definition ranking_shows :: "sample list \<Rightarrow> draw list \<Rightarrow> bool" where
  \<comment> \<open>one bar per row, tallest first, each labelled with its height\<close>
  "ranking_shows rs ds \<longleftrightarrow>
     (\<exists>lks vals colors a texts tail. ds = CatBar lks vals colors a # texts @ tail \<and>
        length lks = length vals \<and> length colors = length vals \<and>
        mset (zip lks vals) = image_mset (\<lambda>r. (col_lk r, millions r)) (mset rs) \<and>
        sorted_wrt (\<lambda>v w. \<not> fless v w) vals \<and>
        list_all2 (\<lambda>(i, v) t. \<exists>b. t = BarText i v (format_f1 v) b) (zip [0..<length vals] vals) texts)"

lemma map_py_get_item:
  "if \<forall>k \<in> set ks. map_of d k \<noteq> None then \<exists>vs. map_py (get_item d) ks = Inr vs \<and> length vs = length ks
   else \<exists>k \<in> set ks. map_of d k = None \<and> map_py (get_item d) ks = Inl (KeyError k)"
proof (induction ks)
  case (Cons k ks)
  have k: "get_item d k = (case map_of d k of None \<Rightarrow> Inl (KeyError k) | Some v \<Rightarrow> Inr v)" by (rule get_item_def)
  show ?case
  proof (cases "map_of d k")
    case None
    then show ?thesis using k by auto
  next
    case (Some v)
    show ?thesis
    proof (cases "\<forall>k \<in> set ks. map_of d k \<noteq> None")
      case True
      then show ?thesis using k Some Cons by auto
    next
      case False
      then obtain x where "x \<in> set ks" "map_of d x = None" "map_py (get_item d) ks = Inl (KeyError x)"
        using Cons by (auto simp only: if_False)
      then show ?thesis using k Some by auto
    qed
  qed
qed simp

context dataframe
begin

lemma ranking_panel_bars:
  assumes "rs \<noteq> []" and "rs = rows_of pd sub" and "ts = filter (\<lambda>r. col_threads r = Max (col_threads ` set rs)) rs"
    and "\<forall>r \<in> set ts. millions r \<noteq> NaN"
  shows "if \<forall>lk \<in> col_lk ` set ts. map_of palette lk \<noteq> None then \<exists>ds. ranking_panel pd palette sub = Inr ds \<and> ranking_shows ts ds
    else \<exists>lk \<in> col_lk ` set ts. map_of palette lk = None \<and> ranking_panel pd palette sub = Inl (KeyError lk)"
proof -
  let ?t = "Max (col_threads ` set rs)"
  let ?f = "select pd (\<lambda>r. col_threads r = ?t) sub"
  let ?s = "rows_of pd (sort_values pd millions False ?f)"
  have t: "max_threads pd sub = Inr ?t" using assms(1,2) by (simp add: max_threads_value)
  have ts: "rows_of pd ?f = ts" by (simp add: rows_select assms(2,3))
  have mset: "mset ?s = mset ts" by (simp add: mset_sort ts)
  then have set: "set (map col_lk ?s) = col_lk ` set ts" by (metis mset_eq_setD set_map)
  have sorted: "sorted_wrt (\<lambda>v w. \<not> fless v w) (map millions ?s)"
    using sorted_sort [of ?f millions False] assms(4) by (simp add: ts sorted_wrt_map)
  have bars: "mset (zip (map col_lk ?s) (map millions ?s)) = image_mset (\<lambda>r. (col_lk r, millions r)) (mset ts)"
    by (simp add: zip_map_same flip: mset)
  show ?thesis
  proof (cases "\<forall>lk \<in> col_lk ` set ts. map_of palette lk \<noteq> None")
    case True
    then obtain colors where "map_py (get_item palette) (map col_lk ?s) = Inr colors" "length colors = length ?s"
      using map_py_get_item [of "map col_lk ?s" palette] unfolding set by auto
    then show ?thesis
      using True t bars sorted assms(1,2)
      by (auto simp: ranking_panel_def ranking_shows_def Let_def list_all2_conv_all_nth)
  next
    case False
    then obtain lk where "lk \<in> col_lk ` set ts" "map_of palette lk = None"
        "map_py (get_item palette) (map col_lk ?s) = Inl (KeyError lk)"
      using map_py_get_item [of "map col_lk ?s" palette] unfolding set by (auto split: if_splits)
    then show ?thesis using False t assms(1,2) by (auto simp: ranking_panel_def Let_def)
  qed
qed

end

text \<open>
  C17. The ranking chart of a machine and workload has one bar for every row at the largest thread
  count, from the fastest lock to the slowest, with its throughput written above it. It fails with
  a \<open>KeyError\<close> exactly when one of these locks has no colour; without rows it stays empty.
\<close>

theorem ranking_panel_shows:
  assumes "dataframe pd" and "rs = rows_of pd sub"
    and "ts = filter (\<lambda>r. col_threads r = Max (col_threads ` set rs)) rs" and "\<forall>r \<in> set ts. millions r \<noteq> NaN"
  shows "if rs = [] then ranking_panel pd palette sub = Inr [Call ''set_axis_off'' [] []]
    else if \<forall>lk \<in> col_lk ` set ts. map_of palette lk \<noteq> None then \<exists>ds. ranking_panel pd palette sub = Inr ds \<and> ranking_shows ts ds
    else \<exists>lk \<in> col_lk ` set ts. map_of palette lk = None \<and> ranking_panel pd palette sub = Inl (KeyError lk)"
proof (cases "rs = []")
  case True
  then show ?thesis using assms(2) by (simp add: ranking_panel_def)
next
  case False
  from dataframe.ranking_panel_bars [OF assms(1) this assms(2-4)] show ?thesis using False by (simp only: if_False)
qed

theorem ranking_panel_shows_witness:
  "\<exists>ds. ranking_panel list_pandas WH_PALETTE both_rows = Inr ds \<and> ranking_shows both_rows ds"
proof -
  have rows: "both_rows = rows_of list_pandas both_rows" by (simp add: list_pandas_def)
  have ts: "both_rows = filter (\<lambda>r. col_threads r = Max (col_threads ` set both_rows)) both_rows"
    by (simp add: both_rows_def tagged_def zipfian_reads_def)
  have "remove_all ''wh-'' ''wh-tas'' = ''tas''" "millions zipfian_reads \<noteq> NaN" by code_simp+
  then have "\<forall>lk \<in> col_lk ` set both_rows. map_of WH_PALETTE lk \<noteq> None" "\<forall>r \<in> set both_rows. millions r \<noteq> NaN" "both_rows \<noteq> []"
    by (simp_all add: both_rows_def tagged_def zipfian_reads_def WH_PALETTE_def millions_def)
  then show ?thesis using ranking_panel_shows [OF rows.dataframe_axioms rows ts, of WH_PALETTE] by simp
qed

section \<open>The deck\<close>

text \<open>An image whose picture, 12.25 inches wide, ends above the lower edge of the slide.\<close>

definition flat :: "images \<Rightarrow> path \<Rightarrow> bool" where
  "flat pics p \<longleftrightarrow> (\<exists>iw ih. pics p = Inr (iw, ih) \<and> 1225 / 100 * ih / iw \<le> 6)"

fun part_ok :: "images \<Rightarrow> (string, path) dict \<Rightarrow> part \<Rightarrow> bool" where
  "part_ok pics images (Shape s) \<longleftrightarrow> shape_fits (13333 / 1000) (75 / 10) s"
| "part_ok pics images (Cells rows x y w h _) \<longleftrightarrow>
     list_all (\<lambda>row. length row = length (hd rows)) rows \<and> box_fits (13333 / 1000) (75 / 10) x y w h"
| "part_ok pics images (PlotImage key) \<longleftrightarrow> (\<exists>p. map_of images key = Some p \<and> flat pics p)"

lemma run_part_ok:
  "part_ok pics images p \<Longrightarrow> \<exists>s. run_part pics images p = Inr s \<and> shape_fits (13333 / 1000) (75 / 10) s"
  by (cases p) (auto simp: run_part_def fill_rows_rectangular get_item_def box_fits_def add_picture_def flat_def)

interpretation index: slide_helpers "run_slide pics images" "list_all (part_ok pics images)" "13333 / 1000" "75 / 10"
proof
  fix ps :: "part list"
  assume "list_all (part_ok pics images) ps"
  then have "\<forall>p \<in> set ps. \<exists>s. run_part pics images p = Inr s \<and> shape_fits (13333 / 1000) (75 / 10) s"
    using run_part_ok by (auto simp: list_all_iff)
  from map_py_all2 [OF this] obtain s where "map_py (run_part pics images) ps = Inr s"
      "list_all2 (\<lambda>_. shape_fits (13333 / 1000) (75 / 10)) ps s" by blast
  then show "\<exists>s. run_slide pics images ps = Inr s \<and> list_all (shape_fits (13333 / 1000) (75 / 10)) s"
    by (auto simp: run_slide_def list_all_length list_all2_conv_all_nth)
qed

definition image_keys :: "string list" where
  "image_keys = [''wh_balanced'', ''wh_readheavy'', ''wh_writeheavy'', ''cds_balanced'', ''cds_zipfian'',
     ''avl_balanced'', ''avl_writeheavy'']"

lemmas text_slides = title_slide_def context_slide_def setup_slide_def pinning_slide_def striped_slide_def
  bronson_slide_def wormhole_slide_def alignment_slide_def optimistic_slide_def question_slide_def experiments_slide_def

lemma deck_slides_ok:
  assumes "map fst images = image_keys" and "\<forall>p \<in> set (map snd images). flat pics p"
  shows "list_all (list_all (part_ok pics images)) (deck_slides best_rows)"
proof -
  have "\<exists>p. map_of images k = Some p \<and> flat pics p" if "k \<in> set image_keys" for k
  proof -
    have "map_of images k \<noteq> None" using that unfolding assms(1) [symmetric] by (auto simp: map_of_eq_None_iff)
    then show ?thesis using assms(2) by (force dest: map_of_SomeD)
  qed
  then have "list_all (list_all (part_ok pics images)) image_slides"
    by (simp add: image_slides_def image_keys_def add_image_slide_def titled_def add_textbox_def box_fits_def)
  moreover have "list_all (part_ok pics images) (best_slide best_rows)"
    by (auto simp: best_slide_def titled_def add_textbox_def box_fits_def best_cells_def list_all_iff)
  ultimately show ?thesis
    by (simp add: deck_slides_def text_slides titled_def add_textbox_def box_fits_def)
qed

lemma length_deck_slides: "length (deck_slides best_rows) = 19"
  by (simp add: deck_slides_def image_slides_def)

fun part_pictures :: "(string, path) dict \<Rightarrow> part \<Rightarrow> path list" where
  "part_pictures images (Shape s) = pictures_of s"
| "part_pictures images (Cells _ _ _ _ _ _) = []"
| "part_pictures images (PlotImage key) = (case map_of images key of None \<Rightarrow> [] | Some p \<Rightarrow> [p])"

lemma run_slide_pictures:
  assumes "run_slide pics images ps = Inr s"
  shows "concat (map pictures_of s) = concat (map (part_pictures images) ps)"
proof -
  have part: "pictures_of t = part_pictures images p" if "run_part pics images p = Inr t" for p t
    using that
    by (cases p) (auto simp: run_part_def add_picture_def get_item_def Let_def bind_py_eq_Inr split: option.splits)
  have "list_all2 (\<lambda>p t. run_part pics images p = Inr t) ps s"
    using assms by (simp add: run_slide_def map_py_Inr_iff)
  then show ?thesis by (induction rule: list_all2_induct) (auto simp: part)
qed

lemma deck_pictures_slides:
  assumes "map_py (run_slide pics images) slides = Inr d"
  shows "deck_pictures d = concat (map (\<lambda>ps. concat (map (part_pictures images) ps)) slides)"
proof -
  have "list_all2 (\<lambda>ps s. run_slide pics images ps = Inr s) slides d" using assms by (simp add: map_py_Inr_iff)
  then show ?thesis
    by (induction rule: list_all2_induct) (auto simp: deck_pictures_def run_slide_pictures)
qed

lemma deck_slides_pictures:
  "concat (map (\<lambda>ps. concat (map (part_pictures images) ps)) (deck_slides best_rows)) =
   concat (map (\<lambda>k. part_pictures images (PlotImage k)) image_keys)"
  by (simp add: deck_slides_def image_slides_def image_keys_def text_slides best_slide_def add_image_slide_def titled_def
      add_textbox_def)

lemma lookup_all_keys:
  assumes "distinct (map fst d)"
  shows "concat (map (\<lambda>k. case map_of d k of None \<Rightarrow> [] | Some v \<Rightarrow> [v]) (map fst d)) = map snd d"
proof -
  have "(case map_of d (fst p) of None \<Rightarrow> [] | Some v \<Rightarrow> [v]) = [snd p]" if "p \<in> set d" for p
    using map_of_is_SomeI [OF assms, of "fst p" "snd p"] that by simp
  then have "map (\<lambda>p. case map_of d (fst p) of None \<Rightarrow> [] | Some v \<Rightarrow> [v]) d = map (\<lambda>p. [snd p]) d" by simp
  then have "concat (map (\<lambda>p. case map_of d (fst p) of None \<Rightarrow> [] | Some v \<Rightarrow> [v]) d) = concat (map (\<lambda>p. [snd p]) d)"
    by (rule arg_cong)
  then show ?thesis by (simp add: comp_def)
qed

lemma run_plots_figs:
  assumes "run_plots ps = Inr figs"
  shows "map fst figs = map fst ps"
proof -
  have "list_all2 (\<lambda>p q. fst q = fst p) ps figs"
    using assms by (auto simp: run_plots_def map_py_Inr_iff bind_py_eq_Inr elim!: list.rel_mono_strong)
  then show ?thesis by (induction rule: list_all2_induct) auto
qed

lemma index_lock_steps:
  assumes "index_lock_script pd round1 pics fs = Inr (evs, d)"
  obtains figs :: "(string \<times> figure) list" and best_rows where "map fst figs = image_keys" "saved_files evs = map (\<lambda>(k, f). fig_file f) figs"
    "map_py (run_slide pics (map (\<lambda>(k, f). (k, fig_file f)) figs)) (deck_slides best_rows) = Inr d"
proof -
  have keys: "map fst (plots pd base wh cds avl) = image_keys" for base wh cds avl
    by (simp add: plots_def image_keys_def)
  have files: "saved_files (map (\<lambda>(k, f). Saved f) figs) = map (\<lambda>(k, f). fig_file f) figs"
    "saved_files (map (\<lambda>(k, f). Printed (g f)) figs) = []" for figs :: "(string \<times> figure) list" and g
    by (induction figs) auto
  from assms obtain wh cds avl figs b1 b2 b3 where
      figs: "run_plots (plots pd (root fs) wh cds avl) = Inr figs"
    and d: "map_py (run_slide pics (map (\<lambda>(k, f). (k, fig_file f)) figs)) (deck_slides (b1 @ b2 @ b3)) = Inr d"
    and evs: "evs = index_lock_events pd (root fs) wh cds avl figs d"
    by (auto simp: index_lock_script_def bind_py_eq_Inr)
  show ?thesis
    using that [OF _ _ d] run_plots_figs [OF figs] by (simp add: keys files evs index_lock_events_def)
qed

text \<open>
  Whenever the script succeeds, its deck has nineteen slides and its pictures are exactly the
  figures the script has saved before, in that order; when these are flat enough, as 14 by 6.4 inches
  are, every box, table and picture lies within the slide.
\<close>

theorem index_lock_deck:
  assumes "index_lock_script pd round1 pics fs = Inr (evs, d)"
  shows "length d = 19 \<and> deck_pictures d = saved_files evs \<and>
    ((\<forall>p \<in> set (saved_files evs). flat pics p) \<longrightarrow> deck_fits (13333 / 1000) (75 / 10) d)"
proof -
  from assms obtain figs :: "(string \<times> figure) list" and best_rows where figs: "map fst figs = image_keys" "saved_files evs = map (\<lambda>(k, f). fig_file f) figs"
    and d: "map_py (run_slide pics (map (\<lambda>(k, f). (k, fig_file f)) figs)) (deck_slides best_rows) = Inr d"
    by (rule index_lock_steps)
  let ?images = "map (\<lambda>(k, f). (k, fig_file f)) figs"
  have keys: "map fst ?images = image_keys" using figs(1) by (simp add: comp_def split_beta)
  have "deck_pictures d = concat (map (\<lambda>k. case map_of ?images k of None \<Rightarrow> [] | Some p \<Rightarrow> [p]) (map fst ?images))"
    unfolding keys deck_pictures_slides [OF d] deck_slides_pictures by simp
  also have "\<dots> = map snd ?images"
    by (rule lookup_all_keys) (simp only: keys, simp add: image_keys_def)
  finally have "deck_pictures d = saved_files evs" by (simp add: figs(2) comp_def split_beta)
  moreover have "map snd ?images = saved_files evs" by (simp add: figs(2) comp_def split_beta)
  moreover have "length d = 19" using map_py_length [OF d] length_deck_slides by simp
  ultimately show ?thesis
    using index.run_calls_Inr [OF deck_slides_ok [OF keys] d] by simp
qed

definition tas_rows :: "string \<Rightarrow> sample list" where
  "tas_rows lock = map (\<lambda>arch. zipfian_reads\<lparr>col_arch := arch, col_lock := lock, col_dist := ''uniform'',
     col_read_pct := 80, col_insert_pct := 10\<rparr>) [''graviton'', ''xeon'']"

definition tas_world :: "sample list world" where
  "tas_world = \<lparr>root = [''repo''], glob_files = \<lambda>pattern. [[pattern]], path_exists = \<lambda>_. True,
     csv_frame = \<lambda>p. if p = [''results/*/wh_compare/wh.csv''] then tas_rows ''wh-tas''
       else if p = [''results/*/avl_compare/cds_striped.csv''] then tas_rows ''cds-tas'' else tas_rows ''avl-tas''\<rparr>"

lemma tas_loads:
  "load list_pandas tas_world ''results/*/wh_compare/wh.csv'' ''wh-'' = Inr (map (tagged ''wh-'') (tas_rows ''wh-tas''))"
  "load list_pandas tas_world ''results/*/avl_compare/cds_striped.csv'' ''cds-'' = Inr (map (tagged ''cds-'') (tas_rows ''cds-tas''))"
  "load list_pandas tas_world ''results/*/avl_compare/cds_avl.csv'' ''avl-'' = Inr (map (tagged ''avl-'') (tas_rows ''avl-tas''))"
  by code_simp+

lemma tas_steps:
  "\<not> isl (run_plots (plots list_pandas [''repo''] (map (tagged ''wh-'') (tas_rows ''wh-tas''))
     (map (tagged ''cds-'') (tas_rows ''cds-tas'')) (map (tagged ''avl-'') (tas_rows ''avl-tas''))))"
  "\<not> isl (best_lock_table list_pandas (\<lambda>x. x) (map (tagged ''wh-'') (tas_rows ''wh-tas'')) WH_LOCKS ''Wormhole'')"
  "\<not> isl (best_lock_table list_pandas (\<lambda>x. x) (map (tagged ''cds-'') (tas_rows ''cds-tas'')) CDS_LOCKS ''StripedMap'')"
  "\<not> isl (best_lock_table list_pandas (\<lambda>x. x) (map (tagged ''avl-'') (tas_rows ''avl-tas'')) AVL_LOCKS ''BronsonAVL'')"
  by code_simp+

lemma flat_figures: "flat (\<lambda>_. Inr (14, 64 / 10)) p"
  unfolding flat_def by (intro exI [of _ 14] exI [of _ "64 / 10"]) simp

lemma tas_script: "\<exists>evs d. index_lock_script list_pandas (\<lambda>x. x) (\<lambda>_. Inr (14, 64 / 10)) tas_world = Inr (evs, d)"
proof -
  have root: "root tas_world = [''repo'']" by (simp add: tas_world_def)
  obtain figs b1 b2 b3 where steps:
    "run_plots (plots list_pandas [''repo''] (map (tagged ''wh-'') (tas_rows ''wh-tas''))
      (map (tagged ''cds-'') (tas_rows ''cds-tas'')) (map (tagged ''avl-'') (tas_rows ''avl-tas''))) = Inr figs"
    "best_lock_table list_pandas (\<lambda>x. x) (map (tagged ''wh-'') (tas_rows ''wh-tas'')) WH_LOCKS ''Wormhole'' = Inr b1"
    "best_lock_table list_pandas (\<lambda>x. x) (map (tagged ''cds-'') (tas_rows ''cds-tas'')) CDS_LOCKS ''StripedMap'' = Inr b2"
    "best_lock_table list_pandas (\<lambda>x. x) (map (tagged ''avl-'') (tas_rows ''avl-tas'')) AVL_LOCKS ''BronsonAVL'' = Inr b3"
    using tas_steps by (metis isl_def sum.exhaust_sel)
  let ?images = "map (\<lambda>(k, f). (k, fig_file f)) figs"
  have "map fst ?images = image_keys"
    using run_plots_figs [OF steps(1)] by (simp add: plots_def image_keys_def comp_def split_beta)
  from index.run_calls [OF deck_slides_ok [OF this], of "\<lambda>_. Inr (14, 64 / 10)"] flat_figures
  obtain d where "map_py (run_slide (\<lambda>_. Inr (14, 64 / 10)) ?images) (deck_slides (b1 @ b2 @ b3)) = Inr d" by blast
  then show ?thesis by (simp add: index_lock_script_def tas_loads steps root)
qed

theorem index_lock_deck_witness:
  "\<exists>evs d. index_lock_script list_pandas (\<lambda>x. x) (\<lambda>_. Inr (14, 64 / 10)) tas_world = Inr (evs, d) \<and>
     length d = 19 \<and> deck_fits (13333 / 1000) (75 / 10) d \<and> deck_pictures d = saved_files evs"
  using tas_script index_lock_deck [of list_pandas "\<lambda>x. x" "\<lambda>_. Inr (14, 64 / 10)" tas_world] flat_figures by blast

end
