(* ===== verification/BuildDeck.thy ===== *)
theory BuildDeck
  imports PlotWormhole Deck
begin

text \<open>
  \<open>scripts/build_deck.py\<close>: four figures from the results of the two libcds indexes, and a progress
  deck of fifteen slides that shows them. What python-pptx finds in an image file is an argument.
\<close>

section \<open>Data\<close>

definition PALETTE :: "(string, string) dict" where
  "PALETTE = [(''std'', ''#888888''), (''tas'', ''tab:blue''), (''ttas'', ''tab:green''), (''cas'', ''tab:orange''),
     (''ticket'', ''tab:red'')]"

definition workload :: "sample \<Rightarrow> string" where
  "workload row =
     (let rd = col_read_pct row; ins = col_insert_pct row
      in if rd = 80 \<and> ins = 10 then col_dist row @ '' 80/10/10''
         else if rd = 90 \<and> ins = 5 then ''uniform 90/5/5 read-heavy''
         else if rd = 20 \<and> ins = 40 then ''zipfian 20/40/40 write-heavy''
         else mix_label CHR '' '' CHR ''/'' (col_dist row) rd ins)"

definition results_file :: "'f world \<Rightarrow> string \<Rightarrow> path" where
  "results_file fs name = root fs @ [''results'', ''avl_compare'', name]"

definition label_frame :: "'f pandas \<Rightarrow> string \<Rightarrow> 'f \<Rightarrow> 'f py" where
  "label_frame pd prefix df =
     apply_rows pd (\<lambda>r. r\<lparr>col_workload := workload r\<rparr>)
       (assign pd (\<lambda>r. r\<lparr>col_lk := remove_all prefix (col_lock r)\<rparr>) df)"

definition load_results :: "'f pandas \<Rightarrow> 'f world \<Rightarrow> ('f \<times> 'f) py" where
  \<comment> \<open>both files are read before the first label is made\<close>
  "load_results pd fs =
     bind_py (read_results fs (results_file fs ''cds_striped.csv'')) (\<lambda>cds0.
     bind_py (read_results fs (results_file fs ''cds_avl.csv'')) (\<lambda>avl0.
     bind_py (label_frame pd ''cds-'' cds0) (\<lambda>cds. bind_py (label_frame pd ''avl-'' avl0) (\<lambda>avl.
       Inr (cds, avl)))))"

section \<open>Figures\<close>

definition locks :: "string list" where
  "locks = [''std'', ''tas'', ''ttas'', ''cas'', ''ticket'']"

definition grid_attrs :: "string \<Rightarrow> attrs py" where
  "grid_attrs lk =
     bind_py (get_item PALETTE lk) (\<lambda>color.
       Inr [(''marker'', ''o''), (''color'', color), (''linestyle'', if lk = ''std'' then ''--'' else ''-''),
            (''linewidth'', ''2''), (''label'', lk)])"

definition grid_panel :: "'f pandas \<Rightarrow> 'f \<Rightarrow> string \<Rightarrow> draw list py" where
  "grid_panel pd df wkl =
     bind_py (map_py (\<lambda>lk. series pd (select pd (\<lambda>r. col_lk r = lk) (select pd (\<lambda>r. col_workload r = wkl) df))
         (grid_attrs lk)) locks) (\<lambda>dss.
       Inr (concat dss @
         [Call ''set_title'' [wkl] [(''fontsize'', ''11'')], Call ''set_xlabel'' [''Threads''] [],
          Call ''set_ylabel'' [''M ops/s''] [], Call ''legend'' [] [(''fontsize'', ''9'')],
          Call ''grid'' [''True''] [(''alpha'', ''0.3'')]]))"

definition save_lock_grid :: "'f pandas \<Rightarrow> path \<Rightarrow> 'f \<Rightarrow> string \<Rightarrow> string \<Rightarrow> figure py" where
  "save_lock_grid pd fig_dir df title fname =
     bind_py (grid_2x2 (grid_panel pd df) (py_sorted (unique_of pd col_workload df))) (\<lambda>axes.
       Inr \<lparr>fig_args = [(''figsize'', ''(12, 8)'')], fig_axes = axes,
            fig_calls = [Call ''suptitle'' [title] [(''fontsize'', ''13''), (''y'', ''0.995'')], Call ''tight_layout'' [] []],
            fig_file = fig_dir @ [fname]\<rparr>)"

definition width :: flt where
  "width = fl (16 / 100)"

definition speedup_bar :: "'f pandas \<Rightarrow> 'f \<Rightarrow> string list \<Rightarrow> nat \<times> string \<Rightarrow> draw py" where
  "speedup_bar pd df workloads = (\<lambda>(i, lk).
     let ys = map (\<lambda>wkl. mean_millions pd (select pd (\<lambda>r.
                col_workload r = wkl \<and> col_lk r = lk \<and> col_threads r = 8) df)) workloads;
         offset = fmul (Fin (of_int (int i - 2))) width
     in bind_py (get_item PALETTE lk) (\<lambda>color.
          Inr (Bar (bar_positions (length workloads) offset) ys width
            [(''color'', color), (''label'', lk), (''edgecolor'', ''black''), (''linewidth'', ''0.4'')])))"

definition save_speedup_table_plot :: "'f pandas \<Rightarrow> path \<Rightarrow> 'f \<Rightarrow> string \<Rightarrow> string \<Rightarrow> figure py" where
  "save_speedup_table_plot pd fig_dir df title fname =
     (let workloads = py_sorted (unique_of pd col_workload df)
      in bind_py (map_py (speedup_bar pd df workloads) (zip [0..<length locks] locks)) (\<lambda>bars.
         Inr \<lparr>fig_args = [(''figsize'', ''(11, 5)'')],
              fig_axes = [bars @
                [Call ''set_xticks'' (map show_nat [0..<length workloads]) [],
                 Call ''set_xticklabels'' (map break_first_space workloads) [(''fontsize'', ''9'')],
                 Call ''set_ylabel'' [''M ops/s @ 8 threads''] [], Call ''set_title'' [title] [(''fontsize'', ''12'')],
                 Call ''legend'' [] [(''fontsize'', ''9''), (''ncol'', ''5''), (''loc'', ''upper right'')],
                 Call ''grid'' [''True''] [(''axis'', ''y''), (''alpha'', ''0.3'')]]],
              fig_calls = [Call ''tight_layout'' [] []], fig_file = fig_dir @ [fname]\<rparr>))"

section \<open>Slide helpers\<close>

definition SW :: inches where "SW = 1333 / 100"
definition SH :: inches where "SH = 75 / 10"

definition grey :: attrs where "grey = [(''color'', ''555555'')]"

text \<open>The font of a text is set through its first run, which an empty text does not have.\<close>

definition first_run :: "string \<Rightarrow> para \<Rightarrow> para py" where
  "first_run t p = (if t = [] then Inl IndexError else Inr p)"

definition add_title :: "string \<Rightarrow> string \<Rightarrow> slide py" where
  "add_title title subtitle =
     bind_py (first_run title (Para title 0 40 bold)) (\<lambda>p.
       Inr [TextBox (6 / 10) (25 / 10) 12 2 (p # (if subtitle = [] then [] else [Para subtitle 0 20 grey]))])"

definition add_section :: "string \<Rightarrow> shape py" where
  "add_section title =
     bind_py (first_run title (Para title 0 28 bold)) (\<lambda>p. Inr (TextBox (6 / 10) (4 / 10) 12 1 [p]))"

definition add_bullets :: "string \<Rightarrow> bullet list \<Rightarrow> slide py" where
  "add_bullets title bullets =
     bind_py (add_section title) (\<lambda>s.
       Inr [s, TextBox (6 / 10) (14 / 10) 12 (55 / 10)
         (if bullets = [] then [Para [] 0 0 []]
          else map (\<lambda>(indent, t). Para t indent (if indent = 0 then 20 else 16) []) bullets)])"

text \<open>
  The left edge, width and height of a picture, and the assignments that cap its height: the
  second reads the height the first has just set.
\<close>

record pic =
  pic_left :: inches
  pic_width :: inches
  pic_height :: inches

definition cap_height :: "pic \<Rightarrow> pic" where
  "cap_height pic =
     (if pic_height pic > 56 / 10
      then let pic1 = pic\<lparr>pic_height := 56 / 10\<rparr>;
               pic2 = pic1\<lparr>pic_width := 56 / 10 * pic_width pic1 / pic_height pic1\<rparr>
           in pic2\<lparr>pic_left := (SW - pic_width pic2) / 2\<rparr>
      else pic)"

definition placed :: "inches \<times> inches \<Rightarrow> pic" where
  \<comment> \<open>\<open>add_picture(..., width=Inches(12))\<close>\<close>
  "placed own = (let (w, h) = picture_size own (Some 12) None in \<lparr>pic_left = 7 / 10, pic_width = w, pic_height = h\<rparr>)"

definition add_image :: "images \<Rightarrow> string \<Rightarrow> path \<Rightarrow> string \<Rightarrow> slide py" where
  "add_image images title img_path caption =
     bind_py (add_section title) (\<lambda>s. bind_py (images img_path) (\<lambda>own.
       let pic = cap_height (placed own)
       in Inr ([s, Picture img_path (pic_left pic) (13 / 10) (pic_width pic) (pic_height pic)] @
            (if caption = [] then []
             else [TextBox (6 / 10) 7 12 (4 / 10) [Para caption 0 12 (grey @ [(''align'', ''CENTER'')])]]))))"

section \<open>The calls\<close>

datatype call =
    AddTitle string string
  | AddBullets string "bullet list"
  | AddImage string string string

definition index_calls :: "call list" where
  "index_calls =
    [AddTitle ''Lockbench progress''
       ''Trying different locks on libcds StripedMap, libcds AVL, and Wormhole'',
     AddBullets ''What I'm doing'' [
       (0, ''I picked three concurrent indexes and tried plugging different lock primitives into each.''),
       (0, ''Locks I'm using: std::mutex, TAS, TTAS, CAS, ticket.''),
       (0, ''Indexes:''),
       (1, (''libcds StripedMap (hash map) '' @ [CHR 0xE2, CHR 0x80, CHR 0x94] @ '' done'')),
       (1, (''libcds Bronson AVL tree '' @ [CHR 0xE2, CHR 0x80, CHR 0x94] @ '' done'')),
       (1, (''Wormhole '' @ [CHR 0xE2, CHR 0x80, CHR 0x94] @ '' still working on it'')),
       (0, ''Same benchmark harness for all of them so the numbers are comparable.'')],
     AddBullets ''StripedMap setup'' [
       (0, ''Vendored libcds (just the headers I need) into third_party/libcds/.''),
       (0, ''The lock is a template parameter in libcds, so I just pass in my own lock types.''),
       (0, ''Adapter: include/indexes/striped_map_index.hpp.''),
       (0, ''Bench: bench/cds_bench.cpp, with --lock std|tas|ttas|cas|ticket.''),
       (0, ''Wrote a correctness test (bench/cds_test.cpp) that compares against std::map.''),
       (0, ''All 5 locks passed the correctness test.'')],
     AddImage ''StripedMap throughput'' ''cds_locks.png''
       ''Higher is better. std::mutex is the dashed grey line.'',
     AddImage ''StripedMap at 8 threads'' ''cds_bar.png''
       [],
     AddBullets (''StripedMap '' @ [CHR 0xE2, CHR 0x80, CHR 0x94] @ '' what I noticed'') [
       (0, ''TAS and TTAS are the fastest, especially on read-heavy.''),
       (0, ''std::mutex is slower than the spinlocks here (Apple Silicon parks the thread).''),
       (0, ''Ticket lock isn't great on uniform workloads.''),
       (0, (''On the write-heavy workload everything looks similar '' @ [CHR 0xE2, CHR 0x80, CHR 0x94] @ '' contention dominates.''))],
     AddBullets ''Bronson AVL setup'' [
       (0, ''Same idea but with libcds's BronsonAVLTreeMap (a tree).''),
       (0, ''Tree uses one lock per node, plumbed via cds::sync::injecting_monitor<Lock>.''),
       (0, ''Needed to add a small static lib (cds-rt) for libcds's RCU runtime.''),
       (0, ''Adapter: include/indexes/avl_tree_index.hpp. Bench: bench/cds_avl_bench.cpp.''),
       (0, ''Correctness test passed for all 5 locks.'')],
     AddImage ''Bronson AVL throughput'' ''avl_locks.png''
       ''Slower than StripedMap overall because tree ops are O(log N).'',
     AddImage ''Bronson AVL at 8 threads'' ''avl_bar.png''
       [],
     AddBullets (''Bronson AVL '' @ [CHR 0xE2, CHR 0x80, CHR 0x94] @ '' what I noticed'') [
       (0, ''Ticket lock does really badly here.''),
       (0, ''I think it's because Bronson's readers do a version-check thing and the ticket lock's FIFO ordering doesn't play well with that.''),
       (0, ''TAS / TTAS / CAS are all close to each other.''),
       (0, ''std::mutex is somewhere in the middle.'')]]"

definition wormhole_calls :: "call list" where
  "wormhole_calls =
    [AddBullets (''Wormhole '' @ [CHR 0xE2, CHR 0x80, CHR 0x94] @ '' what it is'') [
       (0, ''Concurrent ordered index from Wu et al. (FAST '19).''),
       (0, ''It's a mix of a trie + hash + linked list.''),
       (0, ''Three lock sites in the code: leaflock (rwlock), metalock (rwlock), sortlock (small spinlock).''),
       (0, ''Readers do a try-lock-with-spin then fall back to a version check if the lock isn't free.''),
       (0, (''Also uses RCU (called QSBR) for reclaiming freed leaves '' @ [CHR 0xE2, CHR 0x80, CHR 0x94] @ '' that's separate from the locks.''))],
     AddBullets (''Wormhole '' @ [CHR 0xE2, CHR 0x80, CHR 0x94] @ '' plan'') [
       (0, ''Vendored wormhole into third_party/wormhole/.''),
       (0, ''Wrote a small shim that replaces wormhole's lock structs with one that wraps any of my lock types.''),
       (0, ''Building one binary per lock (wh_bench_default, wh_bench_rw, wh_bench_tas, ...).''),
       (0, ''7 variants total: default (wormhole's own lock) + rw, tas, ttas, cas, ticket, occ.''),
       (0, ''Sweep script will run all 7 the same way as the StripedMap and AVL sweeps.'')],
     AddBullets (''Wormhole '' @ [CHR 0xE2, CHR 0x80, CHR 0x94] @ '' things to watch out for'') [
       (0, ''Ticket lock can't really do try-lock without messing up the queue, so I'm using an approximation.''),
       (0, (''Under contention, ticket will probably look bad '' @ [CHR 0xE2, CHR 0x80, CHR 0x94] @ '' that's a real finding, not a bug.'')),
       (0, ''OCC just runs as a write-only lock here (its optimistic-read protocol doesn't fit wormhole's API).''),
       (0, (''Not touching wormhole's RCU code '' @ [CHR 0xE2, CHR 0x80, CHR 0x94] @ '' that's separate from the locks.''))],
     AddBullets (''Wormhole '' @ [CHR 0xE2, CHR 0x80, CHR 0x94] @ '' where I'm at'') [
       (0, ''Done: vendored, wrote the shim, patched a few lines in lib.h / lib.c / wh.c, CMake builds all 7 variants.''),
       (0, ''Had to fix one Apple Silicon asm thing in wormhole (semicolons vs newlines in .global directives).''),
       (0, ''Now: running correctness tests for the 7 variants.''),
       (0, ''Next: sweep script, plot, write up the caveats.'')],
     AddBullets ''Summary'' [
       (0, (''StripedMap and Bronson AVL are done '' @ [CHR 0xE2, CHR 0x80, CHR 0x94] @ '' locks plug in, correctness tests pass, plots show the differences.'')),
       (0, ''Same general pattern in both: TAS / TTAS are fastest, std::mutex pays parking cost, ticket struggles on the AVL.''),
       (0, (''Wormhole is in progress '' @ [CHR 0xE2, CHR 0x80, CHR 0x94] @ '' build works, correctness running, sweep next.''))]]"

definition run_call :: "images \<Rightarrow> path \<Rightarrow> call \<Rightarrow> slide py" where
  "run_call images fig_dir c =
     (case c of
        AddTitle title subtitle \<Rightarrow> add_title title subtitle
      | AddBullets title bullets \<Rightarrow> add_bullets title bullets
      | AddImage title file caption \<Rightarrow> add_image images title (fig_dir @ [file]) caption)"

definition deck_calls :: "call list" where
  "deck_calls = index_calls @ wormhole_calls"

section \<open>The script\<close>

definition deck_script :: "'f pandas \<Rightarrow> images \<Rightarrow> 'f world \<Rightarrow> (event list \<times> deck) py" where
  "deck_script pd images fs =
     (let fig_dir = root fs @ [''results'', ''deck'', ''figures'']
      in bind_py (load_results pd fs) (\<lambda>(cds, avl).
         bind_py (save_lock_grid pd fig_dir cds (''libcds StripedMap '' @ em_dash @ '' stripe-lock comparison'') ''cds_locks.png'') (\<lambda>f1.
         bind_py (save_lock_grid pd fig_dir avl (''libcds BronsonAVLTreeMap '' @ em_dash @ '' per-node lock comparison'') ''avl_locks.png'') (\<lambda>f2.
         bind_py (save_speedup_table_plot pd fig_dir cds (''StripedMap '' @ em_dash @ '' 8-thread throughput by lock'') ''cds_bar.png'') (\<lambda>f3.
         bind_py (save_speedup_table_plot pd fig_dir avl (''BronsonAVL '' @ em_dash @ '' 8-thread throughput by lock'') ''avl_bar.png'') (\<lambda>f4.
         bind_py (map_py (run_call images fig_dir) deck_calls) (\<lambda>deck.
           Inr (Printed ''Generating plots...'' # map Saved [f1, f2, f3, f4] @
                [Printed (''Wrote '' @ path_text (root fs @ [''results'', ''deck'', ''lockbench_progress.pptx''])),
                 Printed (''Figures in '' @ path_text fig_dir)], deck))))))))"

section \<open>Pictures\<close>

lemma capped_pic:
  assumes "0 < iw" and "0 < ih" and "p = cap_height (placed (iw, ih))"
  shows "box_fits SW 7 (pic_left p) (13 / 10) (pic_width p) (pic_height p)" and "pic_width p = 12"
    and "pic_height p = min (12 * ih / iw) (56 / 10)" and "0 \<le> pic_height p"
  using assms by (auto simp: cap_height_def placed_def box_fits_def SW_def min_def field_simps)

lemma image_slide_shapes:
  assumes "title \<noteq> []" and "images img = Inr own"
  shows "\<exists>s. add_image images title img caption = Inr s \<and> deck_pictures [s] = [img] \<and>
    Picture img (pic_left (cap_height (placed own))) (13 / 10) (pic_width (cap_height (placed own)))
      (pic_height (cap_height (placed own))) \<in> set s"
  using assms by (simp add: add_image_def add_section_def first_run_def deck_pictures_def Let_def)

text \<open>
  C14. A slide with an image that loads shows it between the title and the caption and within the
  slide, whatever the proportions of the image. The picture is always twelve inches wide, so it keeps
  the proportions of the image exactly when it did not have to be capped: the new width is computed
  from the height after the height has been reduced, and a taller picture is squeezed.
\<close>

theorem image_slide_picture:
  assumes "title \<noteq> []" and "images img = Inr (iw, ih)" and "0 < iw" and "0 < ih"
  shows "\<exists>s x w h. add_image images title img caption = Inr s \<and> Picture img x (13 / 10) w h \<in> set s \<and>
    deck_pictures [s] = [img] \<and> box_fits SW 7 x (13 / 10) w h \<and>
    w = 12 \<and> (w / h = iw / ih \<longleftrightarrow> 12 * ih / iw \<le> 56 / 10)"
proof -
  let ?p = "cap_height (placed (iw, ih))"
  note p = capped_pic [OF assms(3,4) refl]
  have "pic_width ?p / pic_height ?p = iw / ih \<longleftrightarrow> 12 * ih / iw \<le> 56 / 10"
    unfolding p(2,3) using assms(3,4) by (auto simp: min_def field_simps)
  then show ?thesis
    using p(1,2) image_slide_shapes [of title images img, OF assms(1,2), of caption] by metis
qed

theorem image_slide_picture_witness:
  "\<exists>s x w h. add_image (\<lambda>_. Inr (12, 8)) ''Throughput'' [''cds_locks.png''] [] = Inr s \<and>
    Picture [''cds_locks.png''] x (13 / 10) w h \<in> set s \<and> deck_pictures [s] = [[''cds_locks.png'']] \<and>
    box_fits SW 7 x (13 / 10) w h \<and> w / h \<noteq> 12 / 8"
proof -
  have title: "''Throughput'' \<noteq> []" and size: "(0 :: inches) < 12" "(0 :: inches) < 8"
    and tall: "\<not> 12 * 8 / 12 \<le> (56 / 10 :: inches)" by simp_all
  from image_slide_picture [of "''Throughput''" "\<lambda>_. Inr (12, 8)" "[''cds_locks.png'']", OF title refl size, where caption = "[]"] tall
  show ?thesis by (metis (no_types, lifting))
qed

section \<open>Figures\<close>

lemma palette_total: "\<forall>lk \<in> set locks. \<exists>c. get_item PALETTE lk = Inr c"
  by (simp add: locks_def PALETTE_def get_item_def)

lemma grid_attrs_total: "\<forall>lk \<in> set locks. \<exists>a. grid_attrs lk = Inr a"
  using palette_total by (auto simp: grid_attrs_def)

definition bars_at_8 :: "'f pandas \<Rightarrow> 'f \<Rightarrow> string list \<Rightarrow> draw list \<Rightarrow> bool" where
  \<comment> \<open>one bar series per lock, one bar per workload: the mean throughput, not a speedup\<close>
  "bars_at_8 pd df ws ds \<longleftrightarrow>
     list_all2 (\<lambda>lk d. \<exists>xs a. d = Bar xs (map (\<lambda>wkl. mean_millions pd (select pd (\<lambda>r.
        col_workload r = wkl \<and> col_lk r = lk \<and> col_threads r = 8) df)) ws) width a \<and> length xs = length ws)
       locks (take (length locks) ds)"

lemma speedup_plot_shows:
  "\<exists>f. save_speedup_table_plot pd fig_dir df title fname = Inr f \<and> fig_file f = fig_dir @ [fname] \<and>
     (\<exists>ds. fig_axes f = [ds] \<and> bars_at_8 pd df (py_sorted (unique_of pd col_workload df)) ds)"
proof -
  let ?ws = "py_sorted (unique_of pd col_workload df)"
  let ?P = "\<lambda>(i :: nat, lk) d. \<exists>xs a. d = Bar xs (map (\<lambda>wkl. mean_millions pd (select pd (\<lambda>r.
      col_workload r = wkl \<and> col_lk r = lk \<and> col_threads r = 8) df)) ?ws) width a \<and> length xs = length ?ws"
  have "\<forall>p \<in> set (zip [0..<length locks] locks). \<exists>d. speedup_bar pd df ?ws p = Inr d \<and> ?P p d"
  proof
    fix p assume "p \<in> set (zip [0..<length locks] locks)"
    moreover obtain i lk where p: "p = (i, lk)" by fastforce
    ultimately have "lk \<in> set locks" by (auto dest: set_zip_rightD)
    then obtain c where "get_item PALETTE lk = Inr c" using palette_total by blast
    then show "\<exists>d. speedup_bar pd df ?ws p = Inr d \<and> ?P p d"
      by (simp add: p speedup_bar_def bar_positions_def Let_def)
  qed
  from map_py_all2 [OF this] obtain bars where
    bars: "map_py (speedup_bar pd df ?ws) (zip [0..<length locks] locks) = Inr bars"
      "list_all2 ?P (zip [0..<length locks] locks) bars" by blast
  have len: "length bars = length locks" using list_all2_lengthD [OF bars(2)] by simp
  have "list_all2 (\<lambda>lk d. \<exists>xs a. d = Bar xs (map (\<lambda>wkl. mean_millions pd (select pd (\<lambda>r.
      col_workload r = wkl \<and> col_lk r = lk \<and> col_threads r = 8) df)) ?ws) width a \<and> length xs = length ?ws) locks bars"
    using bars(2) by (auto simp: list_all2_conv_all_nth)
  then show ?thesis using bars(1) len by (auto simp: save_speedup_table_plot_def bars_at_8_def Let_def)
qed

definition grid_shows :: "'f pandas \<Rightarrow> 'f \<Rightarrow> figure \<Rightarrow> bool" where
  "grid_shows pd df f \<longleftrightarrow>
     (let ws = py_sorted (unique_of pd col_workload df)
      in length (fig_axes f) = 4 \<and>
         list_all2 (panel_shows (rows_of pd df) locks grid_attrs) (take 4 ws) (take (min 4 (length ws)) (fig_axes f)))"

context dataframe
begin

lemma lock_grid_shows:
  "\<exists>f. save_lock_grid pd fig_dir df title fname = Inr f \<and> fig_file f = fig_dir @ [fname] \<and> grid_shows pd df f"
proof -
  have "\<exists>ds. grid_panel pd df wkl = Inr ds \<and> panel_shows (rows_of pd df) locks grid_attrs wkl ds" for wkl
    unfolding grid_panel_def
    by (rule panel_lines) (auto simp: grid_attrs_total lock_rows_def rows_select conj_commute)
  then obtain ps where "grid_2x2 (grid_panel pd df) (py_sorted (unique_of pd col_workload df)) = Inr ps" "length ps = 4"
      "list_all2 (panel_shows (rows_of pd df) locks grid_attrs) (take 4 (py_sorted (unique_of pd col_workload df)))
        (take (min 4 (length (py_sorted (unique_of pd col_workload df)))) ps)"
    using grid_2x2_panels [of "py_sorted (unique_of pd col_workload df)" "grid_panel pd df"
      "panel_shows (rows_of pd df) locks grid_attrs"] by blast
  then show ?thesis by (simp add: save_lock_grid_def grid_shows_def Let_def)
qed

lemma label_frame_rows:
  "rows_of pd df \<noteq> [] \<Longrightarrow> \<exists>f. label_frame pd prefix df = Inr f"
  by (simp add: label_frame_def apply_rows_Inr rows_assign)

end

section \<open>The deck\<close>

fun call_ok :: "call \<Rightarrow> bool" where
  "call_ok (AddTitle title _) \<longleftrightarrow> title \<noteq> []"
| "call_ok (AddBullets title _) \<longleftrightarrow> title \<noteq> []"
| "call_ok (AddImage title _ _) \<longleftrightarrow> title \<noteq> []"

lemma add_image_fits:
  assumes "images img = Inr (iw, ih)" and "0 < iw" and "0 < ih" and "title \<noteq> []"
  shows "\<exists>s. add_image images title img caption = Inr s \<and> list_all (shape_fits SW SH) s"
  using assms(1,4) capped_pic [OF assms(2,3) refl]
  by (auto simp: add_image_def add_section_def first_run_def box_fits_def SW_def SH_def Let_def)

lemma progress_helpers:
  assumes "\<And>p. \<exists>iw ih. images p = Inr (iw, ih) \<and> 0 < iw \<and> 0 < ih"
  shows "slide_helpers (run_call images fig_dir) call_ok SW SH"
proof
  fix c
  assume ok: "call_ok c"
  show "\<exists>s. run_call images fig_dir c = Inr s \<and> list_all (shape_fits SW SH) s"
  proof (cases c)
    case (AddImage title name caption)
    obtain iw ih where "images (fig_dir @ [name]) = Inr (iw, ih)" "0 < iw" "0 < ih" using assms by blast
    then show ?thesis using ok add_image_fits AddImage by (simp add: run_call_def)
  qed (use ok in \<open>auto simp: run_call_def add_title_def add_bullets_def add_section_def first_run_def box_fits_def SW_def SH_def\<close>)
qed

text \<open>The images of the script's own figures have the sizes it gives them.\<close>

definition own_figures :: images where
  "own_figures p = Inr (if last p \<in> {''cds_locks.png'', ''avl_locks.png''} then (12, 8) else (11, 5))"

interpretation progress: slide_helpers "run_call own_figures fig_dir" call_ok SW SH
  by (rule progress_helpers) (simp add: own_figures_def)

lemma progress_calls_ok: "list_all call_ok deck_calls" "length deck_calls = 15"
  by (simp_all add: deck_calls_def index_calls_def wormhole_calls_def)

fun image_of :: "path \<Rightarrow> call \<Rightarrow> path list" where
  "image_of fig_dir (AddImage _ file _) = [fig_dir @ [file]]"
| "image_of _ _ = []"

lemma progress_call_pictures:
  "run_call images fig_dir c = Inr s \<Longrightarrow> concat (map pictures_of s) = image_of fig_dir c"
  by (cases c)
     (auto simp: run_call_def add_title_def add_bullets_def add_image_def add_section_def first_run_def Let_def bind_py_eq_Inr
      split: if_splits)

lemma progress_images:
  assumes "map_py (run_call images fig_dir) deck_calls = Inr d"
  shows "deck_pictures d = map (\<lambda>f. fig_dir @ [f]) [''cds_locks.png'', ''cds_bar.png'', ''avl_locks.png'', ''avl_bar.png'']"
proof -
  have "deck_pictures d = concat (map (image_of fig_dir) calls)" if "map_py (run_call images fig_dir) calls = Inr d" for calls
  proof -
    have "list_all2 (\<lambda>c s. run_call images fig_dir c = Inr s) calls d" using that by (simp add: map_py_Inr_iff)
    then show ?thesis by (induction rule: list_all2_induct) (auto simp: deck_pictures_def progress_call_pictures)
  qed
  from this [OF assms] show ?thesis by (simp add: deck_calls_def index_calls_def wormhole_calls_def)
qed

text \<open>
  With two result files that have rows the script saves two grids, in which each of the first four
  workloads has one line per lock through that lock's points, and two bar charts of the mean
  throughput at eight threads; then it builds a deck whose pictures are these four figures and whose
  shapes lie within the slide. Without one of the files it fails before anything is drawn.
\<close>

lemma load_results_frames:
  assumes "dataframe pd"
  shows "\<not> (path_exists fs (results_file fs ''cds_striped.csv'') \<and> path_exists fs (results_file fs ''cds_avl.csv'')) \<Longrightarrow>
      load_results pd fs = Inl FileNotFoundError"
    and "\<forall>name \<in> {''cds_striped.csv'', ''cds_avl.csv''}. path_exists fs (results_file fs name) \<and>
        rows_of pd (csv_frame fs (results_file fs name)) \<noteq> [] \<Longrightarrow> \<exists>cds avl. load_results pd fs = Inr (cds, avl)"
proof -
  show "\<not> (path_exists fs (results_file fs ''cds_striped.csv'') \<and> path_exists fs (results_file fs ''cds_avl.csv'')) \<Longrightarrow>
      load_results pd fs = Inl FileNotFoundError"
    by (auto simp: load_results_def read_results_def)
  assume "\<forall>name \<in> {''cds_striped.csv'', ''cds_avl.csv''}. path_exists fs (results_file fs name) \<and>
      rows_of pd (csv_frame fs (results_file fs name)) \<noteq> []"
  then obtain cds avl where "label_frame pd ''cds-'' (csv_frame fs (results_file fs ''cds_striped.csv'')) = Inr cds"
      "label_frame pd ''avl-'' (csv_frame fs (results_file fs ''cds_avl.csv'')) = Inr avl"
      "path_exists fs (results_file fs ''cds_striped.csv'')" "path_exists fs (results_file fs ''cds_avl.csv'')"
    using dataframe.label_frame_rows [OF assms] by blast
  then show "\<exists>cds avl. load_results pd fs = Inr (cds, avl)" by (simp add: load_results_def read_results_def)
qed

theorem progress_deck:
  assumes "dataframe pd" and "\<And>p. \<exists>iw ih. images p = Inr (iw, ih) \<and> 0 < iw \<and> 0 < ih"
    and "load_results pd fs = Inr (cds, avl)"
  shows "\<exists>f1 f2 f3 f4 out d ds3 ds4.
      deck_script pd images fs = Inr (Printed ''Generating plots...'' # map Saved [f1, f2, f3, f4] @ out, d) \<and>
      grid_shows pd cds f1 \<and> grid_shows pd avl f2 \<and> fig_axes f3 = [ds3] \<and> fig_axes f4 = [ds4] \<and>
      bars_at_8 pd cds (py_sorted (unique_of pd col_workload cds)) ds3 \<and>
      bars_at_8 pd avl (py_sorted (unique_of pd col_workload avl)) ds4 \<and>
      deck_fits SW SH d \<and> deck_pictures d = map fig_file [f1, f3, f2, f4]"
proof -
  let ?dir = "root fs @ [''results'', ''deck'', ''figures'']"
  note grids = dataframe.lock_grid_shows [OF assms(1), of ?dir]
  obtain f1 where f1: "save_lock_grid pd ?dir cds (''libcds StripedMap '' @ em_dash @ '' stripe-lock comparison'') ''cds_locks.png'' = Inr f1"
      "fig_file f1 = ?dir @ [''cds_locks.png'']" "grid_shows pd cds f1" using grids by blast
  obtain f2 where f2: "save_lock_grid pd ?dir avl (''libcds BronsonAVLTreeMap '' @ em_dash @ '' per-node lock comparison'') ''avl_locks.png'' = Inr f2"
      "fig_file f2 = ?dir @ [''avl_locks.png'']" "grid_shows pd avl f2" using grids by blast
  note bars = speedup_plot_shows [of pd ?dir]
  obtain f3 ds3 where f3: "save_speedup_table_plot pd ?dir cds (''StripedMap '' @ em_dash @ '' 8-thread throughput by lock'') ''cds_bar.png'' = Inr f3"
      "fig_file f3 = ?dir @ [''cds_bar.png'']" "fig_axes f3 = [ds3]"
      "bars_at_8 pd cds (py_sorted (unique_of pd col_workload cds)) ds3" using bars by blast
  obtain f4 ds4 where f4: "save_speedup_table_plot pd ?dir avl (''BronsonAVL '' @ em_dash @ '' 8-thread throughput by lock'') ''avl_bar.png'' = Inr f4"
      "fig_file f4 = ?dir @ [''avl_bar.png'']" "fig_axes f4 = [ds4]"
      "bars_at_8 pd avl (py_sorted (unique_of pd col_workload avl)) ds4" using bars by blast
  obtain d where d: "map_py (run_call images ?dir) deck_calls = Inr d" "deck_fits SW SH d"
    using slide_helpers.run_calls [OF progress_helpers [of images ?dir, OF assms(2)] progress_calls_ok(1)] by auto
  have "\<exists>out. deck_script pd images fs = Inr (Printed ''Generating plots...'' # map Saved [f1, f2, f3, f4] @ out, d)"
    unfolding deck_script_def Let_def assms(3) bind_py.simps split_conv f1(1) f2(1) f3(1) f4(1) d(1) by blast
  then show ?thesis
    using f1 f2 f3 f4 d(2) progress_images [OF d(1)] by auto
qed

theorem progress_deck_witness:
  "\<exists>f1 f2 f3 f4 out d. deck_script list_pandas own_figures \<lparr>root = [''repo''], glob_files = \<lambda>_. [], path_exists = \<lambda>_. True,
      csv_frame = \<lambda>_. [zipfian_reads]\<rparr> = Inr (Printed ''Generating plots...'' # map Saved [f1, f2, f3, f4] @ out, d) \<and>
    deck_fits SW SH d \<and> deck_pictures d = map fig_file [f1, f3, f2, f4]"
proof -
  let ?fs = "\<lparr>root = [''repo''], glob_files = \<lambda>_. [], path_exists = \<lambda>_. True, csv_frame = \<lambda>_. [zipfian_reads]\<rparr>"
  have "\<exists>iw ih. own_figures p = Inr (iw, ih) \<and> 0 < iw \<and> 0 < ih" for p by (simp add: own_figures_def)
  moreover obtain cds avl where "load_results list_pandas ?fs = Inr (cds, avl)"
    using load_results_frames(2) [OF rows.dataframe_axioms, of ?fs] by (auto simp: list_pandas_def)
  ultimately show ?thesis using progress_deck [OF rows.dataframe_axioms] by metis
qed

end
