(* ===== verification/PyJson.thy ===== *)
theory PyJson
  imports PyNumText
begin

text \<open>
  The part of Python's \<open>json\<close> that the notebook scripts use: \<open>json.dumps(v, indent=1)\<close> with its
  default escaping of everything outside printable ASCII, and \<open>json.load\<close> on UTF-8 text. A Python
  string is the list of its code points. Numbers with a fraction or an exponent do not occur in
  the notebooks and are not modelled: the reader gives up on them.
\<close>

type_synonym pystr = "nat list"

datatype json =
    JNull
  | JBool bool
  | JInt int
  | JStr pystr
  | JArr "json list"
  | JObj "(pystr \<times> json) list"

section \<open>Text\<close>

text \<open>One code point of UTF-8 text, and the rest; surrogates and values beyond Unicode are refused.\<close>

definition code_point :: "nat \<Rightarrow> bool" where
  \<comment> \<open>what a string read from a file can hold: no lone surrogates\<close>
  "code_point n \<longleftrightarrow> n < 1114112 \<and> \<not> (55296 \<le> n \<and> n \<le> 57343)"

definition checked :: "nat \<Rightarrow> string \<Rightarrow> (nat \<times> string) option" where
  "checked n t = (if code_point n then Some (n, t) else None)"

definition utf8_next :: "string \<Rightarrow> (nat \<times> string) option" where
  "utf8_next s =
     (let v = (\<lambda>c. (of_char c :: nat)); tail = (\<lambda>c. v c mod 64)
      in case s of
           [] \<Rightarrow> None
         | a # r \<Rightarrow>
             if v a < 128 then Some (v a, r)
             else if v a < 224 then
               (case r of b # t \<Rightarrow> Some (64 * (v a mod 32) + tail b, t) | _ \<Rightarrow> None)
             else if v a < 240 then
               (case r of b # c # t \<Rightarrow> checked (4096 * (v a mod 16) + 64 * tail b + tail c) t | _ \<Rightarrow> None)
             else
               (case r of b # c # d # t \<Rightarrow>
                  checked (262144 * (v a mod 8) + 4096 * tail b + 64 * tail c + tail d) t | _ \<Rightarrow> None))"

lemma utf8_next_shorter: "utf8_next s = Some (n, t) \<Longrightarrow> length t < length s"
  by (auto simp: utf8_next_def checked_def Let_def split: list.splits if_splits)

text \<open>A literal of the source, which is UTF-8, as a Python string.\<close>

function u :: "string \<Rightarrow> pystr" where
  "u s = (case utf8_next s of None \<Rightarrow> [] | Some (n, t) \<Rightarrow> n # u t)"
  by pat_completeness auto
termination
  by (relation "measure length") (auto dest: utf8_next_shorter)

declare u.simps [simp del]

lemma utf8_next_code_point: "utf8_next s = Some (n, t) \<Longrightarrow> code_point n"
proof -
  have "64 * (a mod 32) + b mod 64 < 2048" for a b :: nat
    using mod_less_divisor [of 32 a] mod_less_divisor [of 64 b] by linarith
  then show "utf8_next s = Some (n, t) \<Longrightarrow> code_point n"
    by (auto simp: utf8_next_def checked_def Let_def code_point_def split: list.splits if_splits)
qed

lemma u_code_points [simp]: "list_all code_point (u s)"
proof (induction s rule: u.induct)
  case (1 s)
  show ?case
  proof (cases "utf8_next s")
    case None
    then show ?thesis by (simp add: u.simps [of s])
  next
    case (Some p)
    obtain n t where p: "p = (n, t)" by (cases p)
    have "u s = n # u t" using Some p by (subst u.simps) simp
    then show ?thesis using 1 [OF Some p [symmetric]] utf8_next_code_point [of s n t] Some p by simp
  qed
qed

section \<open>Writing\<close>

definition hex_char :: "nat \<Rightarrow> char" where
  "hex_char d = (if d < 10 then char_of (48 + d) else char_of (87 + d))"

definition hex4 :: "nat \<Rightarrow> string" where
  "hex4 n = [hex_char (n div 4096 mod 16), hex_char (n div 256 mod 16), hex_char (n div 16 mod 16), hex_char (n mod 16)]"

definition escape_u :: "nat \<Rightarrow> string" where
  "escape_u n = CHR 0x5C # CHR ''u'' # hex4 n"

definition escape :: "nat \<Rightarrow> string" where
  "escape n =
     (if n = 34 then [CHR 0x5C, CHR 0x22]
      else if n = 92 then [CHR 0x5C, CHR 0x5C]
      else if n = 10 then [CHR 0x5C, CHR ''n'']
      else if n = 13 then [CHR 0x5C, CHR ''r'']
      else if n = 9 then [CHR 0x5C, CHR ''t'']
      else if n = 12 then [CHR 0x5C, CHR ''f'']
      else if n = 8 then [CHR 0x5C, CHR ''b'']
      else if 32 \<le> n \<and> n \<le> 126 then [char_of n]
      else if n < 65536 then escape_u n
      else escape_u (55296 + (n - 65536) div 1024 mod 1024) @ escape_u (56320 + (n - 65536) mod 1024))"

definition dump_str :: "pystr \<Rightarrow> string" where
  "dump_str s = CHR 0x22 # concat (map escape s) @ [CHR 0x22]"

definition newline :: "nat \<Rightarrow> string" where
  "newline n = CHR 0x0A # replicate n CHR '' ''"

text \<open>The items of a list or dictionary on lines of their own, one deeper than the brackets.\<close>

fun separated :: "string \<Rightarrow> string list \<Rightarrow> string" where
  "separated sep [] = []"
| "separated sep [x] = x"
| "separated sep (x # xs) = x @ sep @ separated sep xs"

fun dump :: "nat \<Rightarrow> json \<Rightarrow> string" where
  "dump n JNull = ''null''"
| "dump n (JBool b) = (if b then ''true'' else ''false'')"
| "dump n (JInt i) = show_int i"
| "dump n (JStr s) = dump_str s"
| "dump n (JArr xs) =
     (if xs = [] then ''[]''
      else CHR ''['' # newline (n + 1) @ separated (CHR '','' # newline (n + 1)) (map (dump (n + 1)) xs) @
           newline n @ '']'')"
| "dump n (JObj ms) =
     (if ms = [] then ''{}''
      else CHR ''{'' # newline (n + 1) @
           separated (CHR '','' # newline (n + 1)) (map (\<lambda>(k, v). dump_str k @ '': '' @ dump (n + 1) v) ms) @
           newline n @ ''}'')"

definition dumps :: "json \<Rightarrow> string" where
  "dumps = dump 0"

section \<open>Reading\<close>

definition hex_val :: "char \<Rightarrow> nat option" where
  "hex_val c =
     (let n = (of_char c :: nat)
      in if 48 \<le> n \<and> n \<le> 57 then Some (n - 48)
         else if 97 \<le> n \<and> n \<le> 102 then Some (n - 87)
         else if 65 \<le> n \<and> n \<le> 70 then Some (n - 55) else None)"

fun read_hex4 :: "string \<Rightarrow> (nat \<times> string) option" where
  "read_hex4 (a # b # c # d # s) =
     (case (hex_val a, hex_val b, hex_val c, hex_val d) of
        (Some a, Some b, Some c, Some d) \<Rightarrow> Some (4096 * a + 256 * b + 16 * c + d, s)
      | _ \<Rightarrow> None)"
| "read_hex4 _ = None"

text \<open>After a backslash and \<open>u\<close>: four digits, and a second escape when the first is a high surrogate.\<close>

definition read_u :: "string \<Rightarrow> (nat \<times> string) option" where
  "read_u s =
     (case read_hex4 s of
        None \<Rightarrow> None
      | Some (n, r) \<Rightarrow>
          if 55296 \<le> n \<and> n \<le> 56319 \<and> take 2 r = [CHR 0x5C, CHR ''u''] then
            (case read_hex4 (drop 2 r) of
               Some (m, t) \<Rightarrow> if 56320 \<le> m \<and> m \<le> 57343
                 then Some (65536 + 1024 * (n - 55296) + (m - 56320), t) else Some (n, r)
             | None \<Rightarrow> None)
          else Some (n, r))"

definition simple_escape :: "char \<Rightarrow> nat option" where
  "simple_escape c =
     map_of [(CHR 0x22, 34), (CHR 0x5C, 92), (CHR ''/'', 47), (CHR ''b'', 8), (CHR ''f'', 12), (CHR ''n'', 10),
       (CHR ''r'', 13), (CHR ''t'', 9)] c"

definition read_char :: "string \<Rightarrow> (nat \<times> string) option" where
  \<comment> \<open>one character of a string, not the closing quote\<close>
  "read_char s =
     (case s of
        [] \<Rightarrow> None
      | c # r \<Rightarrow>
          if c = CHR 0x5C then
            (case r of
               [] \<Rightarrow> None
             | e # t \<Rightarrow> if e = CHR ''u'' then read_u t else map_option (\<lambda>n. (n, t)) (simple_escape e))
          else if (of_char c :: nat) < 32 then None
          else utf8_next s)"

lemma read_hex4_shorter: "read_hex4 s = Some (n, t) \<Longrightarrow> length t < length s"
  by (cases s rule: read_hex4.cases) (auto split: option.splits)

lemma read_u_shorter: "read_u s = Some (n, t) \<Longrightarrow> length t < length s"
  by (fastforce simp: read_u_def dest: read_hex4_shorter split: option.splits if_splits prod.splits)

lemma read_char_shorter: "read_char s = Some (n, t) \<Longrightarrow> length t < length s"
  by (auto simp: read_char_def dest: utf8_next_shorter read_u_shorter split: list.splits if_splits)

function read_str :: "string \<Rightarrow> (pystr \<times> string) option" where
  \<comment> \<open>after the opening quote\<close>
  "read_str s =
     (case s of
        [] \<Rightarrow> None
      | c # r \<Rightarrow>
          if c = CHR 0x22 then Some ([], r)
          else (case read_char s of
                  None \<Rightarrow> None
                | Some (n, t) \<Rightarrow> map_option (\<lambda>(ns, t'). (n # ns, t')) (read_str t)))"
  by pat_completeness auto
termination
  by (relation "measure length") (simp, metis in_measure length_Cons read_char_shorter)

declare read_str.simps [simp del]

definition is_ws :: "char \<Rightarrow> bool" where
  "is_ws c \<longleftrightarrow> c = CHR '' '' \<or> c = CHR 0x0A \<or> c = CHR 0x09 \<or> c = CHR 0x0D"

definition skip_ws :: "string \<Rightarrow> string" where
  "skip_ws = dropWhile is_ws"

definition read_digits :: "string \<Rightarrow> string" where
  \<comment> \<open>zero, or digits\<close>
  "read_digits d = (if take 1 d = ''0'' then ''0'' else takeWhile is_digit d)"

definition read_number :: "string \<Rightarrow> (json \<times> string) option" where
  "read_number s =
     (let neg = (take 1 s = ''-''); d = (if neg then drop 1 s else s);
          ip = read_digits d; r = drop (length ip) d
      in if ip = [] \<or> (r \<noteq> [] \<and> hd r \<in> {CHR ''.'', CHR ''e'', CHR ''E''}) then None
         else Some (JInt (if neg then - int (read_nat ip) else int (read_nat ip)), r))"

definition starts :: "string \<Rightarrow> string \<Rightarrow> bool" where
  "starts p s \<longleftrightarrow> take (length p) s = p"

text \<open>
  Values, the items of a list after its bracket, and the members of a dictionary after its brace.
  The first argument bounds the depth of calls; the length of the text is enough.
\<close>

fun parse_val :: "nat \<Rightarrow> string \<Rightarrow> (json \<times> string) option"
  and parse_items :: "nat \<Rightarrow> string \<Rightarrow> (json list \<times> string) option"
  and parse_members :: "nat \<Rightarrow> string \<Rightarrow> ((pystr \<times> json) list \<times> string) option" where
  "parse_val 0 s = None"
| "parse_val (Suc k) s =
     (case s of
        [] \<Rightarrow> None
      | c # r \<Rightarrow>
          if c = CHR 0x22 then map_option (\<lambda>(x, t). (JStr x, t)) (read_str r)
          else if c = CHR ''['' then
            (let r' = skip_ws r in if take 1 r' = '']'' then Some (JArr [], drop 1 r')
             else map_option (\<lambda>(xs, t). (JArr xs, t)) (parse_items k r'))
          else if c = CHR ''{'' then
            (let r' = skip_ws r in if take 1 r' = ''}'' then Some (JObj [], drop 1 r')
             else map_option (\<lambda>(ms, t). (JObj (dict_of ms), t)) (parse_members k r'))
          else if starts ''null'' s then Some (JNull, drop 4 s)
          else if starts ''true'' s then Some (JBool True, drop 4 s)
          else if starts ''false'' s then Some (JBool False, drop 5 s)
          else read_number s)"
| "parse_items 0 s = None"
| "parse_items (Suc k) s =
     (case parse_val k s of
        None \<Rightarrow> None
      | Some (v, r) \<Rightarrow>
          (let r' = skip_ws r
           in if take 1 r' = '']'' then Some ([v], drop 1 r')
              else if take 1 r' = '','' then
                map_option (\<lambda>(vs, t). (v # vs, t)) (parse_items k (skip_ws (drop 1 r')))
              else None))"
| "parse_members 0 s = None"
| "parse_members (Suc k) s =
     (if take 1 s \<noteq> [CHR 0x22] then None
      else case read_str (drop 1 s) of
        None \<Rightarrow> None
      | Some (x, r) \<Rightarrow>
          (let r1 = skip_ws r
           in if take 1 r1 \<noteq> '':'' then None
              else case parse_val k (skip_ws (drop 1 r1)) of
                None \<Rightarrow> None
              | Some (v, r2) \<Rightarrow>
                  (let r3 = skip_ws r2
                   in if take 1 r3 = ''}'' then Some ([(x, v)], drop 1 r3)
                      else if take 1 r3 = '','' then
                        map_option (\<lambda>(ms, t). ((x, v) # ms, t)) (parse_members k (skip_ws (drop 1 r3)))
                      else None)))"

definition loads :: "string \<Rightarrow> json option" where
  "loads s =
     (case parse_val (length s + 1) (skip_ws s) of
        None \<Rightarrow> None
      | Some (v, r) \<Rightarrow> if skip_ws r = [] then Some v else None)"

section \<open>Strings are read back\<close>

lemma hex_val_char: "d < 16 \<Longrightarrow> hex_val (hex_char d) = Some d"
  by (auto simp: hex_val_def hex_char_def)

lemma read_hex4_hex4: "n < 65536 \<Longrightarrow> read_hex4 (hex4 n @ s) = Some (n, s)"
proof -
  assume "n < 65536"
  then have "n div 4096 mod 16 = n div 4096" by (simp add: less_mult_imp_div_less)
  moreover have "n = 16 * (n div 16) + n mod 16" "n div 16 = 16 * (n div 256) + n div 16 mod 16"
    "n div 256 = 16 * (n div 4096) + n div 256 mod 16"
    using div_mult2_eq [of n 16 16] div_mult2_eq [of n 256 16] mult_div_mod_eq [of 16 n] mult_div_mod_eq [of 16 "n div 16"]
      mult_div_mod_eq [of 16 "n div 256"] by simp_all
  ultimately have "4096 * (n div 4096 mod 16) + 256 * (n div 256 mod 16) + 16 * (n div 16 mod 16) + n mod 16 = n"
    by linarith
  moreover have "hex_val (hex_char (m mod 16)) = Some (m mod 16)" for m by (rule hex_val_char) simp
  ultimately show ?thesis by (simp only: hex4_def append.simps read_hex4.simps option.case prod.case)
qed

lemma read_u_plain: "n < 65536 \<Longrightarrow> \<not> (55296 \<le> n \<and> n \<le> 56319) \<Longrightarrow> read_u (hex4 n @ s) = Some (n, s)"
  by (auto simp: read_u_def read_hex4_hex4)

lemma read_u_pair:
  assumes "65536 \<le> n" and "n < 1114112"
  shows "read_u (hex4 (55296 + (n - 65536) div 1024 mod 1024) @ escape_u (56320 + (n - 65536) mod 1024) @ s) = Some (n, s)"
proof -
  let ?h = "55296 + (n - 65536) div 1024 mod 1024" and ?l = "56320 + (n - 65536) mod 1024"
  have "(n - 65536) div 1024 mod 1024 < 1024" "(n - 65536) mod 1024 < 1024" by simp_all
  then have h: "?h < 65536" "55296 \<le> ?h" "?h \<le> 56319" and l: "?l < 65536" "56320 \<le> ?l" "?l \<le> 57343" by simp_all
  have "(n - 65536) div 1024 < 1024" using assms by (simp add: less_mult_imp_div_less)
  then have "65536 + 1024 * (?h - 55296) + (?l - 56320) = n"
    using assms mult_div_mod_eq [of 1024 "n - 65536"] by simp
  then show ?thesis
    unfolding read_u_def using h l by (simp add: read_hex4_hex4 escape_u_def)
qed

lemma utf8_next_ascii: "32 \<le> n \<Longrightarrow> n \<le> 126 \<Longrightarrow> utf8_next (char_of n # s) = Some (n, s)"
  by (simp add: utf8_next_def Let_def)

lemma char_of_neq:
  fixes n :: nat
  assumes "32 \<le> n" and "n \<le> 126"
  shows "n \<noteq> 34 \<Longrightarrow> char_of n \<noteq> CHR 0x22" and "n \<noteq> 92 \<Longrightarrow> char_of n \<noteq> CHR 0x5C"
proof -
  have v: "of_char (char_of n :: char) = n" using assms by simp
  have q: "of_char CHR 0x22 = (34 :: nat)" "of_char CHR 0x5C = (92 :: nat)" by simp_all
  show "n \<noteq> 34 \<Longrightarrow> char_of n \<noteq> CHR 0x22" "n \<noteq> 92 \<Longrightarrow> char_of n \<noteq> CHR 0x5C" using v q by metis+
qed

lemma read_char_escape:
  assumes "code_point n"
  shows "read_char (escape n @ s) = Some (n, s)" and "take 1 (escape n) \<noteq> [CHR 0x22]" and "escape n \<noteq> []"
proof -
  consider "n \<in> {34, 92, 10, 13, 9, 12, 8}" | "n \<notin> {34, 92, 10, 13, 9, 12, 8}" "32 \<le> n" "n \<le> 126"
    | "n \<notin> {34, 92, 10, 13, 9, 12, 8}" "\<not> (32 \<le> n \<and> n \<le> 126)" "n < 65536" | "65536 \<le> n" by linarith
  note cases = this
  show "read_char (escape n @ s) = Some (n, s)"
  proof (cases rule: cases)
    case 1
    then show ?thesis by (auto simp: escape_def read_char_def simple_escape_def)
  next
    case 2
    then show ?thesis
      using char_of_neq(2) [of n] utf8_next_ascii [of n s] by (simp add: escape_def read_char_def)
  next
    case 3
    then have "escape n = escape_u n" by (auto simp: escape_def)
    then show ?thesis using 3 assms read_u_plain [of n s] by (auto simp: read_char_def escape_u_def code_point_def)
  next
    case 4
    then have "escape n = escape_u (55296 + (n - 65536) div 1024 mod 1024) @ escape_u (56320 + (n - 65536) mod 1024)"
      by (auto simp: escape_def)
    then show ?thesis
      using 4 assms read_u_pair [of n s] by (simp add: read_char_def code_point_def escape_u_def [of "55296 + _"])
  qed
  show "take 1 (escape n) \<noteq> [CHR 0x22]" "escape n \<noteq> []"
    using char_of_neq(1) [of n] by (auto simp: escape_def escape_u_def)
qed

lemma read_str_dump: "list_all code_point x \<Longrightarrow> read_str (concat (map escape x) @ CHR 0x22 # s) = Some (x, s)"
proof (induction x)
  case Nil
  then show ?case by (simp add: read_str.simps)
next
  case (Cons n x)
  let ?r = "concat (map escape x) @ CHR 0x22 # s"
  obtain c e where e: "escape n = c # e" "c \<noteq> CHR 0x22"
    using read_char_escape(2,3) [of n] Cons.prems by (cases "escape n") auto
  have "read_char (escape n @ ?r) = Some (n, ?r)" using Cons.prems by (intro read_char_escape) simp
  then show ?case
    using e Cons by (simp add: read_str.simps [of "c # _"])
qed

lemma dump_str_eq: "dump_str x @ s = CHR 0x22 # concat (map escape x) @ CHR 0x22 # s"
  by (simp add: dump_str_def)

section \<open>Values are read back\<close>

text \<open>A value as \<open>json.load\<close> produces it: dictionaries have each key once.\<close>

fun json_wf :: "json \<Rightarrow> bool" where
  "json_wf (JStr s) \<longleftrightarrow> list_all code_point s"
| "json_wf (JArr xs) \<longleftrightarrow> list_all json_wf xs"
| "json_wf (JObj ms) \<longleftrightarrow> distinct (map fst ms) \<and> list_all (\<lambda>(k, v). list_all code_point k \<and> json_wf v) ms"
| "json_wf _ \<longleftrightarrow> True"

text \<open>The depth of calls a value needs.\<close>

fun need :: "json \<Rightarrow> nat" where
  "need (JArr xs) = 2 + sum_list (map (\<lambda>x. need x + 1) xs)"
| "need (JObj ms) = 2 + sum_list (map (\<lambda>(k, v). need v + 1) ms)"
| "need _ = 1"

definition ends_number :: "string \<Rightarrow> bool" where
  "ends_number s \<longleftrightarrow> s = [] \<or> \<not> is_digit (hd s) \<and> hd s \<notin> {CHR ''.'', CHR ''e'', CHR ''E''}"

lemma skip_ws_newline: "skip_ws (newline n @ s) = skip_ws s"
proof -
  have "dropWhile is_ws (replicate n CHR '' '' @ s) = dropWhile is_ws s"
    by (induction n) (simp_all add: is_ws_def)
  then show ?thesis by (simp add: skip_ws_def newline_def is_ws_def)
qed

lemma skip_ws_id [simp]: "\<not> is_ws c \<Longrightarrow> skip_ws (c # s) = c # s"
  by (simp add: skip_ws_def)

lemma ws_simps [simp]: "\<not> is_ws CHR '']''" "\<not> is_ws CHR ''}''" "\<not> is_ws CHR '',''" "\<not> is_ws CHR '':''" "\<not> is_ws CHR 0x22"
  by (simp_all add: is_ws_def)

lemma ends_number_simps [simp]: "ends_number []" "ends_number (CHR '','' # s)" "ends_number (newline n @ s)"
  by (simp_all add: ends_number_def newline_def is_digit_def)

lemma digit_head: "is_digit c \<Longrightarrow> \<not> is_ws c \<and> c \<notin> {CHR 0x22, CHR ''['', CHR ''{'', CHR '']'', CHR ''}'', CHR ''n'', CHR ''t'', CHR ''f'', CHR ''-''}"
  by (auto simp: is_ws_def is_digit_def)

lemma show_int_head: "\<exists>c r. show_int i = c # r \<and> (is_digit c \<or> c = CHR ''-'')"
proof -
  have "show_int i \<noteq> []" by (simp add: show_int_def)
  then obtain c r where "show_int i = c # r" by (cases "show_int i") auto
  then show ?thesis using show_nat_digits by (auto simp: show_int_def split: if_splits) (metis list.set_intros(1))
qed

lemma read_nat_text:
  assumes "ends_number s"
  shows "takeWhile is_digit (show_nat m @ s) = show_nat m"
    and "take 1 (show_nat m @ s) = ''0'' \<Longrightarrow> show_nat m = ''0''"
proof -
  have dig: "list_all is_digit (show_nat m)" using show_nat_digits by (simp add: list_all_iff)
  show "takeWhile is_digit (show_nat m @ s) = show_nat m"
    using dig assms by (cases s) (auto simp: ends_number_def takeWhile_digits)
  show "show_nat m = ''0''" if "take 1 (show_nat m @ s) = ''0''"
    using that
  proof (induction m rule: show_nat.induct)
    case (1 m)
    show ?case
    proof (cases "m < 10")
      case True
      then show ?thesis using "1.prems" by (simp add: show_nat.simps [of m])
    next
      case False
      have "take 1 (show_nat (m div 10) @ s) = ''0''"
        using "1.prems" False by (cases "show_nat (m div 10)") (simp_all add: show_nat.simps [of m])
      then have "show_nat (m div 10) = ''0''" using "1.IH" False by simp
      moreover have "read_nat ''0'' = 0" by (simp add: read_nat_def)
      ultimately have "m div 10 = 0" using read_show_nat [of "m div 10"] by simp
      then show ?thesis using False by simp
    qed
  qed
qed

lemma read_number_show:
  assumes "ends_number s"
  shows "read_number (show_int i @ s) = Some (JInt i, s)"
proof -
  have nat: "read_digits (show_nat m @ s) = show_nat m" for m
    using read_nat_text [OF assms, of m] by (auto simp: read_digits_def)
  have "take 1 (show_nat m @ s) \<noteq> ''-''" for m
    using show_nat_digits [of m] by (cases "show_nat m") auto
  moreover have "\<not> (s \<noteq> [] \<and> hd s \<in> {CHR ''.'', CHR ''e'', CHR ''E''})" using assms by (auto simp: ends_number_def)
  ultimately have pos: "read_number (show_nat m @ s) = Some (JInt (int m), s)"
      and neg: "read_number (CHR ''-'' # show_nat m @ s) = Some (JInt (- int m), s)" for m
    by (simp_all add: read_number_def nat Let_def)
  show ?thesis
  proof (cases "i < 0")
    case True
    then show ?thesis using neg [of "nat (- i)"] by (simp add: show_int_def)
  next
    case False
    then show ?thesis using pos [of "nat i"] by (simp add: show_int_def)
  qed
qed

lemma dump_head: "\<exists>c r. dump n v = c # r \<and> \<not> is_ws c \<and> c \<noteq> CHR '']'' \<and> c \<noteq> CHR ''}''"
proof (cases v)
  case (JInt i)
  obtain c r where c: "show_int i = c # r" "is_digit c \<or> c = CHR ''-''" using show_int_head by blast
  then have "\<not> is_ws c \<and> c \<noteq> CHR '']'' \<and> c \<noteq> CHR ''}''" using digit_head [of c] by (auto simp: is_ws_def)
  then show ?thesis using c(1) JInt by simp
qed (auto simp: dump_str_def is_ws_def)

lemma parse_val_int: "ends_number s \<Longrightarrow> parse_val (Suc k) (show_int i @ s) = Some (JInt i, s)"
proof -
  assume s: "ends_number s"
  obtain c r where c: "show_int i = c # r" "is_digit c \<or> c = CHR ''-''" using show_int_head by blast
  then have "c \<notin> {CHR 0x22, CHR ''['', CHR ''{'', CHR ''n'', CHR ''t'', CHR ''f''}" using digit_head [of c] by auto
  then have "parse_val (Suc k) (c # r @ s) = read_number (c # r @ s)" by (auto simp: starts_def)
  then show ?thesis using read_number_show [OF s, of i] by (simp add: c(1))
qed

lemma parse_items_dump:
  assumes "xs \<noteq> []" and "sum_list (map (\<lambda>x. need x + 1) xs) \<le> k"
    and "\<And>x k s. x \<in> set xs \<Longrightarrow> need x \<le> k \<Longrightarrow> ends_number s \<Longrightarrow> parse_val k (dump n x @ s) = Some (x, s)"
  shows "parse_items k (separated (CHR '','' # newline n) (map (dump n) xs) @ newline m @ CHR '']'' # s) = Some (xs, s)"
  using assms
proof (induction xs arbitrary: k)
  case (Cons x xs)
  then obtain k' where k: "k = Suc k'" "need x \<le> k'" "sum_list (map (\<lambda>x. need x + 1) xs) \<le> k'"
    by (cases k) auto
  show ?case
  proof (cases xs)
    case Nil
    have "parse_val k' (dump n x @ newline m @ CHR '']'' # s) = Some (x, newline m @ CHR '']'' # s)"
      using Cons.prems(3) k(2) by simp
    then show ?thesis using Nil by (simp add: k(1) skip_ws_newline)
  next
    case (Cons y ys)
    let ?tail = "separated (CHR '','' # newline n) (map (dump n) xs) @ newline m @ CHR '']'' # s"
    obtain c r where y: "dump n y = c # r" "\<not> is_ws c" using dump_head [of n y] by blast
    obtain t where t: "?tail = c # t" using y(1) Cons by (cases ys) simp_all
    have "parse_val k' (dump n x @ CHR '','' # newline n @ ?tail) = Some (x, CHR '','' # newline n @ ?tail)"
      using Cons.prems(3) k(2) by simp
    moreover have "skip_ws (newline n @ ?tail) = ?tail" using y(2) t by (simp add: skip_ws_newline)
    moreover have "parse_items k' ?tail = Some (xs, s)"
      using Cons k(3) Cons.prems(3) by (intro Cons.IH) auto
    ultimately show ?thesis using Cons by (simp add: k(1))
  qed
qed simp

abbreviation dump_member :: "nat \<Rightarrow> pystr \<times> json \<Rightarrow> string" where
  "dump_member n \<equiv> \<lambda>(k, v). dump_str k @ '': '' @ dump n v"

lemma parse_member:
  assumes "list_all code_point key" and "parse_val k (dump n v @ s) = Some (v, s)"
  shows "parse_members (Suc k) (dump_member n (key, v) @ s) =
    (let r = skip_ws s
     in if take 1 r = ''}'' then Some ([(key, v)], drop 1 r)
        else if take 1 r = '','' then map_option (\<lambda>(ms, t). ((key, v) # ms, t)) (parse_members k (skip_ws (drop 1 r)))
        else None)"
proof -
  obtain c r where v: "dump n v = c # r" "\<not> is_ws c" using dump_head [of n v] by blast
  have "read_str (concat (map escape key) @ CHR 0x22 # '': '' @ dump n v @ s) = Some (key, '': '' @ dump n v @ s)"
    using assms(1) by (rule read_str_dump)
  moreover have "skip_ws (CHR '' '' # dump n v @ s) = dump n v @ s"
    using v by (simp add: skip_ws_def is_ws_def)
  ultimately show ?thesis using assms(2) by (simp add: dump_str_def)
qed

lemma parse_members_dump:
  assumes "ms \<noteq> []" and "sum_list (map (\<lambda>(key, v). need v + 1) ms) \<le> k" and "list_all (\<lambda>(key, v). list_all code_point key) ms"
    and "\<And>key v k s. (key, v) \<in> set ms \<Longrightarrow> need v \<le> k \<Longrightarrow> ends_number s \<Longrightarrow> parse_val k (dump n v @ s) = Some (v, s)"
  shows "parse_members k (separated (CHR '','' # newline n) (map (dump_member n) ms) @ newline m @ CHR ''}'' # s) = Some (ms, s)"
  using assms
proof (induction ms arbitrary: k)
  case (Cons p ms)
  obtain key v where p: "p = (key, v)" by fastforce
  then obtain k' where k: "k = Suc k'" "need v \<le> k'" "sum_list (map (\<lambda>(key, v). need v + 1) ms) \<le> k'"
    using Cons.prems(2) by (cases k) auto
  have val: "parse_val k' (dump n v @ t) = Some (v, t)" if "ends_number t" for t
    using Cons.prems(4) [of key v k' t] that k(2) by (simp add: p)
  have key: "list_all code_point key" using Cons.prems(3) by (simp add: p)
  show ?case
  proof (cases ms)
    case Nil
    have "parse_members (Suc k') (dump_member n (key, v) @ newline m @ CHR ''}'' # s) = Some ([(key, v)], s)"
      using parse_member [OF key val [of "newline m @ CHR ''}'' # s"]] by (simp add: skip_ws_newline)
    then show ?thesis using Nil by (simp add: k(1) p)
  next
    case (Cons q qs)
    let ?tail = "separated (CHR '','' # newline n) (map (dump_member n) ms) @ newline m @ CHR ''}'' # s"
    obtain t where t: "?tail = CHR 0x22 # t" using Cons by (cases q; cases qs) (simp_all add: dump_str_def)
    have "skip_ws (newline n @ ?tail) = ?tail" using t by (simp add: skip_ws_newline)
    moreover have "parse_members k' ?tail = Some (ms, s)"
      using Cons k(3) Cons.prems(3,4) by (intro Cons.IH) auto
    ultimately have "parse_members (Suc k') (dump_member n (key, v) @ CHR '','' # newline n @ ?tail) = Some ((key, v) # ms, s)"
      using parse_member [OF key val [of "CHR '','' # newline n @ ?tail"]] by simp
    then show ?thesis using Cons by (simp add: k(1) p)
  qed
qed simp

lemma dict_of_distinct: "distinct (map fst ms) \<Longrightarrow> dict_of ms = ms"
proof -
  have "fold (\<lambda>(k, v). dict_set k v) ms d = d @ ms" if "distinct (map fst (d @ ms))" for d :: "('k \<times> 'v) list" and ms
    using that
  proof (induction ms arbitrary: d)
    case (Cons p ms)
    obtain k v where p: "p = (k, v)" by fastforce
    have "dict_set k v d = d @ [(k, v)]" if "k \<notin> fst ` set d" for d :: "('k \<times> 'v) list"
      using that by (induction d) auto
    then show ?case using Cons.IH [of "d @ [(k, v)]"] Cons.prems by (auto simp: p)
  qed simp
  from this [of "[]" ms] show "distinct (map fst ms) \<Longrightarrow> dict_of ms = ms" by (simp add: dict_of_def)
qed

lemma parse_val_dump: "json_wf v \<Longrightarrow> need v \<le> k \<Longrightarrow> ends_number s \<Longrightarrow> parse_val k (dump n v @ s) = Some (v, s)"
proof (induction v arbitrary: k n s)
  case (JStr x)
  then obtain k' where "k = Suc k'" by (cases k) auto
  then show ?case using JStr read_str_dump [of x s] by (simp add: dump_str_def)
next
  case (JInt i)
  then obtain k' where "k = Suc k'" by (cases k) auto
  then show ?case using JInt parse_val_int by simp
next
  case (JArr xs)
  then obtain k' where k: "k = Suc k'" "sum_list (map (\<lambda>x. need x + 1) xs) \<le> k'" by (cases k) auto
  show ?case
  proof (cases "xs = []")
    case True
    then show ?thesis by (simp add: k(1) skip_ws_def is_ws_def)
  next
    case False
    then obtain y ys where ys: "xs = y # ys" by (cases xs) auto
    let ?items = "separated (CHR '','' # newline (n + 1)) (map (dump (n + 1)) xs) @ newline n @ CHR '']'' # s"
    obtain c r where y: "dump (n + 1) y = c # r" "\<not> is_ws c" "c \<noteq> CHR '']''" using dump_head [of "n + 1" y] by blast
    obtain t where t: "?items = c # t" using y(1) ys by (cases ys) simp_all
    have "parse_items k' ?items = Some (xs, s)"
      using False k(2) JArr by (intro parse_items_dump) (auto simp: list_all_iff)
    moreover have "skip_ws (newline (n + 1) @ ?items) = ?items" using y(2) t by (simp add: skip_ws_newline)
    ultimately show ?thesis using False t y(3) by (simp add: k(1))
  qed
next
  case (JObj ms)
  then obtain k' where k: "k = Suc k'" "sum_list (map (\<lambda>(key, v). need v + 1) ms) \<le> k'" by (cases k) auto
  show ?case
  proof (cases "ms = []")
    case True
    then show ?thesis by (simp add: k(1) skip_ws_def is_ws_def)
  next
    case False
    then obtain q qs where qs: "ms = q # qs" by (cases ms) auto
    let ?items = "separated (CHR '','' # newline (n + 1)) (map (dump_member (n + 1)) ms) @ newline n @ CHR ''}'' # s"
    obtain t where t: "?items = CHR 0x22 # t" using qs by (cases q; cases qs) (simp_all add: dump_str_def)
    have "parse_members k' ?items = Some (ms, s)"
      using False k(2) JObj by (intro parse_members_dump) (auto simp: list_all_iff)
    moreover have "skip_ws (newline (n + 1) @ ?items) = ?items" using t by (simp add: skip_ws_newline)
    moreover have "dict_of ms = ms" using JObj by (intro dict_of_distinct) simp
    ultimately show ?thesis using False t by (simp add: k(1))
  qed
qed (case_tac k; simp add: starts_def)+

lemma length_separated:
  "list_all2 (\<lambda>m t. m \<le> length t) ms ts \<Longrightarrow> 2 \<le> length sep \<Longrightarrow> ts \<noteq> [] \<Longrightarrow>
     sum_list (map (\<lambda>m. m + 1) ms) \<le> length (separated sep ts) + 1"
proof (induction arbitrary: rule: list_all2_induct)
  case (Cons m ms t ts)
  then show ?case by (cases ts) auto
qed simp

lemma need_le_length: "need v \<le> length (dump n v)"
proof (induction v arbitrary: n)
  case (JArr xs)
  have "sum_list (map (\<lambda>m. m + 1) (map need xs)) \<le>
      length (separated (CHR '','' # newline (n + 1)) (map (dump (n + 1)) xs)) + 1" if "xs \<noteq> []"
    using that JArr by (intro length_separated) (auto simp: list_all2_conv_all_nth newline_def)
  then show ?case by (auto simp: comp_def newline_def)
next
  case (JObj ms)
  have "sum_list (map (\<lambda>m. m + 1) (map (\<lambda>(key, v). need v) ms)) \<le>
      length (separated (CHR '','' # newline (n + 1)) (map (dump_member (n + 1)) ms)) + 1" if "ms \<noteq> []"
  proof (intro length_separated)
    have v: "need v \<le> length (dump (n + 1) v)" if "(key, v) \<in> set ms" for key v
      using JObj that by fastforce
    have "(case p of (key, v) \<Rightarrow> need v) \<le> length (dump_member (n + 1) p)" if "p \<in> set ms" for p
      using v [of "fst p" "snd p"] that by (cases p) simp
    then show "list_all2 (\<lambda>m t. m \<le> length t) (map (\<lambda>(key, v). need v) ms) (map (dump_member (n + 1)) ms)"
      by (auto simp: list_all2_conv_all_nth)
  qed (use that in \<open>auto simp: newline_def\<close>)
  moreover have "map (\<lambda>m. m + 1) (map (\<lambda>(key, v). need v) ms) = map (\<lambda>(key, v). need v + 1) ms" by auto
  ultimately show ?case by (auto simp del: map_map simp: newline_def)
next
  case (JInt i)
  then show ?case using show_int_head [of i] by auto
qed (auto simp: dump_str_def)

lemma loads_dumps: "json_wf v \<Longrightarrow> loads (dumps v) = Some v"
proof -
  assume wf: "json_wf v"
  obtain c r where "dump 0 v = c # r" "\<not> is_ws c" using dump_head [of 0 v] by blast
  then have "skip_ws (dump 0 v) = dump 0 v" by simp
  moreover have "parse_val (length (dump 0 v) + 1) (dump 0 v @ []) = Some (v, [])"
    using wf need_le_length [of v 0] by (intro parse_val_dump) auto
  ultimately show ?thesis by (simp add: loads_def dumps_def skip_ws_def)
qed

end
