(* ===== verification/Notebook.thy ===== *)
theory Notebook
  imports PyJson Figure
begin

text \<open>
  Jupyter notebooks as the scripts build and edit them: JSON objects with a list of cells. What a
  valid notebook is follows the JSON schema of notebook format 4: the members a notebook, a cell and
  an output must have and those it may have, with their types. A cell has an identifier exactly from
  minor version 5 on. The contents of the metadata of cells and outputs and of data bundles are left open.
\<close>

definition member :: "json \<Rightarrow> string \<Rightarrow> json option" where
  \<comment> \<open>\<open>d.get(k)\<close> of a dictionary\<close>
  "member j k = (case j of JObj ms \<Rightarrow> map_of ms (u k) | _ \<Rightarrow> None)"

definition str :: "string \<Rightarrow> json" where
  "str s = JStr (u s)"

definition obj :: "(string \<times> json) list \<Rightarrow> json" where
  "obj ms = JObj (map (\<lambda>(k, v). (u k, v)) ms)"

definition cell_type_is :: "string \<Rightarrow> json \<Rightarrow> bool" where
  "cell_type_is t c \<longleftrightarrow> member c ''cell_type'' = Some (str t)"

fun is_str :: "json \<Rightarrow> bool" where
  "is_str (JStr _) \<longleftrightarrow> True"
| "is_str _ \<longleftrightarrow> False"

fun is_obj :: "json \<Rightarrow> bool" where
  "is_obj (JObj _) \<longleftrightarrow> True"
| "is_obj _ \<longleftrightarrow> False"

fun is_lines :: "json \<Rightarrow> bool" where
  "is_lines (JArr xs) \<longleftrightarrow> list_all is_str xs"
| "is_lines (JStr _) \<longleftrightarrow> True"
| "is_lines _ \<longleftrightarrow> False"

definition has :: "(json \<Rightarrow> bool) \<Rightarrow> string \<Rightarrow> json \<Rightarrow> bool" where
  "has P k j \<longleftrightarrow> (case member j k of None \<Rightarrow> False | Some v \<Rightarrow> P v)"

definition opt :: "(json \<Rightarrow> bool) \<Rightarrow> string \<Rightarrow> json \<Rightarrow> bool" where
  "opt P k j \<longleftrightarrow> (case member j k of None \<Rightarrow> True | Some v \<Rightarrow> P v)"

definition keys_in :: "string list \<Rightarrow> json \<Rightarrow> bool" where
  \<comment> \<open>no other members\<close>
  "keys_in ks j \<longleftrightarrow> (case j of JObj ms \<Rightarrow> set (map fst ms) \<subseteq> set (map u ks) | _ \<Rightarrow> False)"

fun is_list_of :: "(json \<Rightarrow> bool) \<Rightarrow> json \<Rightarrow> bool" where
  "is_list_of P (JArr xs) \<longleftrightarrow> list_all P xs"
| "is_list_of P _ \<longleftrightarrow> False"

fun is_count :: "json \<Rightarrow> bool" where
  \<comment> \<open>an execution count\<close>
  "is_count JNull \<longleftrightarrow> True"
| "is_count (JInt i) \<longleftrightarrow> 0 \<le> i"
| "is_count _ \<longleftrightarrow> False"

fun is_id :: "json \<Rightarrow> bool" where
  \<comment> \<open>one to 64 letters, digits, hyphens and underscores\<close>
  "is_id (JStr s) \<longleftrightarrow> 1 \<le> length s \<and> length s \<le> 64 \<and>
     list_all (\<lambda>n. 48 \<le> n \<and> n \<le> 57 \<or> 65 \<le> n \<and> n \<le> 90 \<or> 97 \<le> n \<and> n \<le> 122 \<or> n = 45 \<or> n = 95) s"
| "is_id _ \<longleftrightarrow> False"

definition output_ok :: "json \<Rightarrow> bool" where
  "output_ok j \<longleftrightarrow>
     (let type_is = (\<lambda>t. member j ''output_type'' = Some (str t))
      in type_is ''stream'' \<and> has is_str ''name'' j \<and> has is_lines ''text'' j \<and>
           keys_in [''output_type'', ''name'', ''text''] j \<or>
         type_is ''display_data'' \<and> has is_obj ''data'' j \<and> has is_obj ''metadata'' j \<and>
           keys_in [''output_type'', ''data'', ''metadata''] j \<or>
         type_is ''execute_result'' \<and> has is_obj ''data'' j \<and> has is_obj ''metadata'' j \<and> has is_count ''execution_count'' j \<and>
           keys_in [''output_type'', ''data'', ''metadata'', ''execution_count''] j \<or>
         type_is ''error'' \<and> has is_str ''ename'' j \<and> has is_str ''evalue'' j \<and> has (is_list_of is_str) ''traceback'' j \<and>
           keys_in [''output_type'', ''ename'', ''evalue'', ''traceback''] j)"

definition cell_base :: "json \<Rightarrow> bool" where
  \<comment> \<open>what all cells have\<close>
  "cell_base c \<longleftrightarrow> has is_obj ''metadata'' c \<and> has is_lines ''source'' c \<and> member c ''cell_type'' \<noteq> None"

definition cell_kind :: "json \<Rightarrow> bool" where
  "cell_kind c \<longleftrightarrow>
     cell_type_is ''code'' c \<and> has is_count ''execution_count'' c \<and> has (is_list_of output_ok) ''outputs'' c \<and>
       keys_in [''id'', ''cell_type'', ''metadata'', ''source'', ''execution_count'', ''outputs''] c \<or>
     (cell_type_is ''markdown'' c \<or> cell_type_is ''raw'' c) \<and> opt is_obj ''attachments'' c \<and>
       keys_in [''id'', ''cell_type'', ''metadata'', ''source'', ''attachments''] c"

definition cell_ok :: "int \<Rightarrow> json \<Rightarrow> bool" where
  "cell_ok minor c \<longleftrightarrow> cell_base c \<and> cell_kind c \<and> (if 5 \<le> minor then has is_id ''id'' c else member c ''id'' = None)"

definition cells_of :: "json \<Rightarrow> json list" where
  "cells_of nb = (case member nb ''cells'' of Some (JArr cs) \<Rightarrow> cs | _ \<Rightarrow> [])"

definition notebook_base :: "json \<Rightarrow> bool" where
  "notebook_base nb \<longleftrightarrow> (\<exists>cs. member nb ''cells'' = Some (JArr cs)) \<and> list_all cell_base (cells_of nb)"

definition metadata_ok :: "json \<Rightarrow> bool" where
  "metadata_ok j \<longleftrightarrow> is_obj j \<and> opt (\<lambda>k. has is_str ''name'' k \<and> has is_str ''display_name'' k) ''kernelspec'' j \<and>
     opt (has is_str ''name'') ''language_info'' j"

definition minor_of :: "json \<Rightarrow> int" where
  \<comment> \<open>the minor version a notebook declares, negative if it does not\<close>
  "minor_of nb = (case member nb ''nbformat_minor'' of Some (JInt m) \<Rightarrow> m | _ \<Rightarrow> - 1)"

definition notebook_ok :: "json \<Rightarrow> bool" where
  "notebook_ok nb \<longleftrightarrow> has metadata_ok ''metadata'' nb \<and> member nb ''nbformat'' = Some (JInt 4) \<and> 0 \<le> minor_of nb \<and>
     has (is_list_of (cell_ok (minor_of nb))) ''cells'' nb \<and>
     keys_in [''metadata'', ''nbformat'', ''nbformat_minor'', ''cells''] nb"

lemma notebook_ok_base:
  assumes "notebook_ok nb"
  shows "notebook_base nb" and "list_all (cell_ok (minor_of nb)) (cells_of nb)"
proof -
  obtain cs where cs: "member nb ''cells'' = Some (JArr cs)" "list_all (cell_ok (minor_of nb)) cs"
    using assms by (auto simp: notebook_ok_def has_def split: option.splits elim!: is_list_of.elims)
  then show "list_all (cell_ok (minor_of nb)) (cells_of nb)" by (simp add: cells_of_def)
  then show "notebook_base nb" using cs by (auto simp: notebook_base_def cells_of_def cell_ok_def list_all_iff)
qed

section \<open>Keys\<close>

lemma u_ascii: "list_all (\<lambda>c. (of_char c :: nat) < 128) s \<Longrightarrow> u s = map of_char s"
proof (induction s)
  case Nil
  then show ?case by (simp add: u.simps utf8_next_def)
next
  case (Cons c s)
  then have "utf8_next (c # s) = Some (of_char c, s)" by (simp add: utf8_next_def)
  then show ?case using Cons by (simp add: u.simps [of "c # s"])
qed

named_theorems key_simps

lemma keys_ascii [key_simps]:
  "u ''cell_type'' = map of_char ''cell_type''" "u ''metadata'' = map of_char ''metadata''"
  "u ''source'' = map of_char ''source''" "u ''execution_count'' = map of_char ''execution_count''"
  "u ''outputs'' = map of_char ''outputs''" "u ''id'' = map of_char ''id''" "u ''cells'' = map of_char ''cells''"
  "u ''nbformat'' = map of_char ''nbformat''" "u ''nbformat_minor'' = map of_char ''nbformat_minor''"
  "u ''markdown'' = map of_char ''markdown''" "u ''code'' = map of_char ''code''"
  "u ''kernelspec'' = map of_char ''kernelspec''" "u ''language_info'' = map of_char ''language_info''"
  "u ''display_name'' = map of_char ''display_name''" "u ''language'' = map of_char ''language''"
  "u ''name'' = map of_char ''name''" "u ''version'' = map of_char ''version''"
  "u ''attachments'' = map of_char ''attachments''" "u ''raw'' = map of_char ''raw''"
  by (rule u_ascii, simp)+

lemma str_simps [simp]: "is_str (str s)" "json_wf (str s)"
  by (simp_all add: str_def)

lemma json_wf_obj: "json_wf (obj ms) \<longleftrightarrow> distinct (map (\<lambda>(k, v). u k) ms) \<and> list_all (\<lambda>(k, v). json_wf v) ms"
proof -
  have "code_point n" if "n \<in> set (u s)" for n s using that u_code_points [of s] by (simp add: list_all_iff del: u_code_points)
  moreover have "(\<lambda>(k, v). u k) = (\<lambda>p :: string \<times> json. u (fst p))" by auto
  ultimately show ?thesis by (auto simp: obj_def list_all_iff comp_def split_beta)
qed

lemma is_str_str: "list_all is_str (map str ss)" "list_all json_wf (map str ss)"
  by (induction ss) simp_all

end
