(* ===== verification/AnalysisNotebook.thy ===== *)
theory AnalysisNotebook
  imports AnalysisCells PlotWormhole
begin

text \<open>
  The rest of \<open>scripts/_build_lockbench_analysis.py\<close>: the notebook around the cells and the file it
  is written to.
\<close>

definition notebook_of :: "json list \<Rightarrow> int \<Rightarrow> json" where
  \<comment> \<open>the dictionary around the cells, for a minor version\<close>
  "notebook_of cells minor = obj
     [(''cells'', JArr cells),
      (''metadata'', obj
        [(''kernelspec'', obj [(''display_name'', str ''Python 3''), (''language'', str ''python''), (''name'', str ''python3'')]),
         (''language_info'', obj [(''name'', str ''python''), (''version'', str ''3.10'')])]),
      (''nbformat'', JInt 4), (''nbformat_minor'', JInt minor)]"

definition notebook :: json where
  "notebook = notebook_of CELLS 5"

definition analysis_main :: "path \<Rightarrow> (path \<times> string) \<times> string" where
  \<comment> \<open>the directory of the script; the file written and the line printed\<close>
  "analysis_main dir =
     (let out = dir @ [''lockbench_analysis.ipynb'']
      in ((out, dumps notebook), ''wrote '' @ path_text out @ '' ('' @ show_nat (length CELLS) @ '' cells)''))"

section \<open>The cells\<close>

lemma md_cell: "cell_ok m (md ls) \<longleftrightarrow> m < 5" "json_wf (md ls)"
proof -
  show "json_wf (md ls)" by (simp add: md_def json_wf_obj is_str_str key_simps)
qed (simp add: md_def cell_ok_def cell_base_def cell_kind_def has_def opt_def keys_in_def member_def obj_def cell_type_is_def
    str_def [of "''markdown''"] str_def [of "''code''"] str_def [of "''raw''"] is_str_str key_simps)

lemma code_cell: "cell_ok m (code ls) \<longleftrightarrow> m < 5" "json_wf (code ls)"
proof -
  show "json_wf (code ls)" by (simp add: code_def json_wf_obj is_str_str key_simps)
qed (simp add: code_def cell_ok_def cell_base_def cell_kind_def has_def opt_def keys_in_def member_def obj_def cell_type_is_def
    str_def [of "''markdown''"] str_def [of "''code''"] str_def [of "''raw''"] is_str_str key_simps)

lemmas cells_defs = cells_1_def cells_2_def cells_3_def cells_4_def cells_5_def cells_6_def cells_7_def cells_8_def
  cells_9_def cells_10_def cells_11_def cells_12_def cells_13_def cells_14_def

text \<open>A property of all cells follows from the two helpers, whatever the text.\<close>

lemma list_all_Cons: "list_all P (x # xs) \<longleftrightarrow> P x \<and> list_all P xs"
  by simp

lemma list_all_Nil: "list_all P [] \<longleftrightarrow> True"
  by simp

lemma cells_induct:
  assumes "\<And>ls. P (md ls)" and "\<And>ls. P (code ls)"
  shows "list_all P CELLS"
proof -
  have parts: "list_all P cells_1" "list_all P cells_2" "list_all P cells_3" "list_all P cells_4" "list_all P cells_5"
    "list_all P cells_6" "list_all P cells_7" "list_all P cells_8" "list_all P cells_9" "list_all P cells_10"
    "list_all P cells_11" "list_all P cells_12" "list_all P cells_13" "list_all P cells_14"
    unfolding cells_defs by (intro iffD2 [OF list_all_Cons] iffD2 [OF list_all_Nil] conjI TrueI assms)+
  show ?thesis unfolding CELLS_def list_all_append by (intro conjI parts)
qed

lemma length_cells: "length CELLS = 41"
  unfolding CELLS_def cells_defs by (simp only: length_append list.size)

section \<open>The notebook\<close>

text \<open>
  What the script writes is read back by a JSON reader as exactly the notebook it built, whatever
  characters the cells contain.
\<close>

lemma analysis_roundtrip: "loads (snd (fst (analysis_main dir))) = Some notebook"
proof -
  have "list_all json_wf CELLS" by (rule cells_induct) (rule md_cell code_cell)+
  then have "json_wf notebook" by (simp add: notebook_def notebook_of_def json_wf_obj key_simps)
  then show ?thesis by (simp add: analysis_main_def Let_def loads_dumps)
qed

lemma notebook_of_members:
  "minor_of (notebook_of cs m) = m" "member (notebook_of cs m) ''cells'' = Some (JArr cs)"
  "member (notebook_of cs m) ''nbformat'' = Some (JInt 4)" "has metadata_ok ''metadata'' (notebook_of cs m)"
  "keys_in [''metadata'', ''nbformat'', ''nbformat_minor'', ''cells''] (notebook_of cs m)"
  by (simp_all add: notebook_of_def minor_of_def member_def obj_def has_def opt_def metadata_ok_def keys_in_def key_simps)

text \<open>
  C36. A notebook that the script's helpers build, of any markdown and code cells with any lines,
  conforms to the schema of notebook format 4 under every minor version up to 4; under minor version
  5 or later it does so only without cells, since the cells have no identifiers. The notebook written
  declares minor version 5, so it does not conform.
\<close>

theorem analysis_notebook_form:
  assumes "list_all (\<lambda>c. c \<in> range md \<union> range code) cs"
  shows "(notebook_ok (notebook_of cs m) \<longleftrightarrow> 0 \<le> m \<and> (m < 5 \<or> cs = [])) \<and>
    loads (snd (fst (analysis_main dir))) = Some (notebook_of CELLS 5) \<and> \<not> notebook_ok (notebook_of CELLS 5)"
proof -
  have form: "notebook_ok (notebook_of cs' k) \<longleftrightarrow> 0 \<le> k \<and> (k < 5 \<or> cs' = [])"
    if "list_all (\<lambda>c. c \<in> range md \<union> range code) cs'" for cs' k
  proof -
    have "\<forall>c \<in> set cs'. cell_ok k c \<longleftrightarrow> k < 5" using that md_cell(1) code_cell(1) by (auto simp: list_all_iff)
    then have "list_all (cell_ok k) cs' \<longleftrightarrow> k < 5 \<or> cs' = []" by (cases cs') (auto simp: list_all_iff)
    then show ?thesis by (simp add: notebook_ok_def notebook_of_members has_def [of _ "''cells''"])
  qed
  have "list_all (\<lambda>c. c \<in> range md \<union> range code) CELLS" by (rule cells_induct) auto
  moreover have "CELLS \<noteq> []" using length_cells by auto
  ultimately have "\<not> notebook_ok (notebook_of CELLS 5)" using form [of CELLS 5] by simp
  then show ?thesis using form [OF assms] analysis_roundtrip [unfolded notebook_def] by blast
qed

theorem analysis_notebook_form_witness:
  "notebook_ok (notebook_of [md [''a''], code [''b'', ''c'']] 4) \<and> \<not> notebook_ok (notebook_of [md [''a''], code [''b'', ''c'']] 5)"
  using analysis_notebook_form [of "[md [''a''], code [''b'', ''c'']]" 4 "[]"]
    analysis_notebook_form [of "[md [''a''], code [''b'', ''c'']]" 5 "[]"] by simp

end
