(* ===== verification/ExtendNotebook.thy ===== *)
theory ExtendNotebook
  imports Notebook PlotWormhole
begin

text \<open>
  \<open>scripts/extend_notebook.py\<close>: rewrites the introduction and the loading cell of the comparison
  notebook, inserts two cells about Wormhole before the seventh, renumbers that one, and replaces
  the cells that print the tables. The random cell identifiers are arguments.
\<close>

section \<open>Cells\<close>

text \<open>\<open>text.splitlines(keepends=True)\<close>.\<close>

definition line_break :: "nat \<Rightarrow> bool" where
  "line_break n \<longleftrightarrow> n \<in> {10, 11, 12, 13, 28, 29, 30, 133, 8232, 8233}"

fun splitlines_keep :: "pystr \<Rightarrow> pystr list" where
  "splitlines_keep [] = []"
| "splitlines_keep (n # s) =
     (if line_break n \<and> \<not> (n = 13 \<and> take 1 s = [10]) then [n] # splitlines_keep s
      else case splitlines_keep s of [] \<Rightarrow> [[n]] | l # ls \<Rightarrow> (n # l) # ls)"

definition md :: "string \<Rightarrow> string \<Rightarrow> json" where
  "md ident txt0 = obj [(''cell_type'', str ''markdown''), (''id'', str ident), (''metadata'', JObj []),
     (''source'', JArr (map JStr (splitlines_keep (u txt0))))]"

definition code :: "string \<Rightarrow> string \<Rightarrow> json" where
  "code ident txt0 = obj [(''cell_type'', str ''code''), (''id'', str ident), (''metadata'', JObj []),
     (''execution_count'', JNull), (''outputs'', JArr []), (''source'', JArr (map JStr (splitlines_keep (u txt0))))]"

section \<open>New texts\<close>

definition intro :: "string list" where
  "intro =
    [(''# libcds StripedMap vs BronsonAVLTreeMap vs Wormhole '' @ [CHR 0xE2, CHR 0x80, CHR 0x94] @ '' lock primitive comparison'' @ [CHR 0x0A]),
     [CHR 0x0A],
     (''Three concurrent indexes, each with a pluggable lock primitive at a different'' @ [CHR 0x0A]),
     (''structural level (StripedMap: per-stripe; BronsonAVL: per-node monitor;'' @ [CHR 0x0A]),
     (''Wormhole: per-leaf rwlock + per-leaf spinlock).'' @ [CHR 0x0A]),
     [CHR 0x0A],
     (''**StripedMap & BronsonAVL** use these primitives:'' @ [CHR 0x0A]),
     [CHR 0x0A],
     (''| Lock     | Description |'' @ [CHR 0x0A]),
     (''|----------|-------------|'' @ [CHR 0x0A]),
     (''| `std`    | `std::mutex` baseline |'' @ [CHR 0x0A]),
     (''| `tas`    | atomic_flag test-and-set spinlock |'' @ [CHR 0x0A]),
     (''| `ttas`   | test-and-test-and-set spinlock |'' @ [CHR 0x0A]),
     (''| `cas`    | CAS-based exchange spinlock |'' @ [CHR 0x0A]),
     (''| `ticket` | strict-FIFO ticket lock |'' @ [CHR 0x0A]),
     [CHR 0x0A],
     (''**Wormhole** uses a different set (ticket excluded '' @ [CHR 0xE2, CHR 0x80, CHR 0x94] @ '' see EXPERIMENT.md):'' @ [CHR 0x0A]),
     [CHR 0x0A],
     (''| Lock      | Description |'' @ [CHR 0x0A]),
     (''|-----------|-------------|'' @ [CHR 0x0A]),
     (''| `default` | Wu's stock rwlock (upstream wormhole, no shim) |'' @ [CHR 0x0A]),
     (''| `rw`      | `rw_lock` '' @ [CHR 0xE2, CHR 0x80, CHR 0x94] @ '' true reader-writer lock |'' @ [CHR 0x0A]),
     (''| `tas`     | exclusive-only via shim |'' @ [CHR 0x0A]),
     (''| `ttas`    | exclusive-only via shim |'' @ [CHR 0x0A]),
     (''| `cas`     | exclusive-only via shim |'' @ [CHR 0x0A]),
     (''| `occ`     | exclusive-only via shim (seqlock-as-mutex) |'' @ [CHR 0x0A])]"

definition load_cell :: "string list" where
  "load_cell =
    [(''import pandas as pd'' @ [CHR 0x0A]),
     (''import matplotlib.pyplot as plt'' @ [CHR 0x0A]),
     (''from pathlib import Path'' @ [CHR 0x0A]),
     [CHR 0x0A],
     (''RESULTS_AVL = Path('../results/avl_compare')'' @ [CHR 0x0A]),
     (''RESULTS_WH  = Path('../results/wh_compare')'' @ [CHR 0x0A]),
     (''cds = pd.read_csv(RESULTS_AVL / 'cds_striped.csv', sep=';', decimal=',')'' @ [CHR 0x0A]),
     (''avl = pd.read_csv(RESULTS_AVL / 'cds_avl.csv',     sep=';', decimal=',')'' @ [CHR 0x0A]),
     (''wh  = pd.read_csv(RESULTS_WH  / 'wh.csv',          sep=';', decimal=',')'' @ [CHR 0x0A]),
     [CHR 0x0A],
     (''cds['lk']  = cds['lock'].str.replace('cds-', '' @ [CHR 0x27, CHR 0x27] @ '', regex=False)'' @ [CHR 0x0A]),
     (''avl['lk']  = avl['lock'].str.replace('avl-', '' @ [CHR 0x27, CHR 0x27] @ '', regex=False)'' @ [CHR 0x0A]),
     (''wh['lk']   = wh['lock'].str.replace('wh-',   '' @ [CHR 0x27, CHR 0x27] @ '', regex=False)'' @ [CHR 0x0A]),
     (''cds['ds']  = 'StripedMap'' @ [CHR 0x27, CHR 0x0A]),
     (''avl['ds']  = 'BronsonAVL'' @ [CHR 0x27, CHR 0x0A]),
     (''wh['ds']   = 'Wormhole'' @ [CHR 0x27, CHR 0x0A]),
     [CHR 0x0A],
     (''def workload(row):'' @ [CHR 0x0A]),
     (''    rd, ins = int(row['read_pct']), int(row['insert_pct'])'' @ [CHR 0x0A]),
     (''    if rd == 80 and ins == 10:  return f'' @ [CHR 0x22] @ ''{row['dist']} 80/10/10'' @ [CHR 0x22, CHR 0x0A]),
     (''    if rd == 90 and ins == 5:   return 'uniform 90/5/5 read-heavy'' @ [CHR 0x27, CHR 0x0A]),
     (''    if rd == 20 and ins == 40:  return 'zipfian 20/40/40 write-heavy'' @ [CHR 0x27, CHR 0x0A]),
     (''    return f'' @ [CHR 0x22] @ ''{row['dist']} {rd}/{ins}/{100-rd-ins}'' @ [CHR 0x22, CHR 0x0A]),
     (''for df in (cds, avl, wh):'' @ [CHR 0x0A]),
     (''    df['workload'] = df.apply(workload, axis=1)'' @ [CHR 0x0A]),
     [CHR 0x0A],
     (''for name, df in [('StripedMap', cds), ('BronsonAVL', avl), ('Wormhole', wh)]:'' @ [CHR 0x0A]),
     (''    print(f'{name} rows: {len(df)} variants: {sorted(df.lk.unique())}')'' @ [CHR 0x0A])]"

definition wh_heading :: string where
  "wh_heading =
    ((''## Plot 3 '' @ [CHR 0xE2, CHR 0x80, CHR 0x94] @ '' Wormhole, per-leaf-lock comparison'' @ [CHR 0x0A]) @
     [CHR 0x0A] @
     (''`default` (Wu's stock rwlock) is dashed grey, `rw` (true rwlock) is'' @ [CHR 0x0A]) @
     (''solid grey, the rest are exclusive-only. The interesting question is:'' @ [CHR 0x0A]) @
     (''how much does losing reader concurrency cost on a structure designed'' @ [CHR 0x0A]) @
     (''around it?'' @ [CHR 0x0A]))"

definition wh_plot :: string where
  "wh_plot =
    ((''def plot_wh(df, title, figsize=(13,9)):'' @ [CHR 0x0A]) @
     (''    workloads = sorted(df.workload.unique())'' @ [CHR 0x0A]) @
     (''    fig, axes = plt.subplots(2, 2, figsize=figsize)'' @ [CHR 0x0A]) @
     (''    palette = {'default':'#888','rw':'#444','tas':'tab:blue','' @ [CHR 0x0A]) @
     (''               'ttas':'tab:green','cas':'tab:orange','occ':'tab:purple'}'' @ [CHR 0x0A]) @
     (''    styles  = {'default':'--','rw':'-','tas':'-','ttas':'-','cas':'-','occ':'-'}'' @ [CHR 0x0A]) @
     (''    for ax, wkl in zip(axes.flat, workloads):'' @ [CHR 0x0A]) @
     (''        sub = df[df.workload == wkl]'' @ [CHR 0x0A]) @
     (''        for lk in ['default','rw','tas','ttas','cas','occ']:'' @ [CHR 0x0A]) @
     (''            g = sub[sub.lk == lk].sort_values('threads')'' @ [CHR 0x0A]) @
     (''            if len(g) == 0: continue'' @ [CHR 0x0A]) @
     (''            ax.plot(g.threads, g.ops_s/1e6, marker='o','' @ [CHR 0x0A]) @
     (''                    color=palette[lk], linestyle=styles[lk], label=lk)'' @ [CHR 0x0A]) @
     (''        ax.set_title(wkl); ax.set_xlabel('Threads'); ax.set_ylabel('M ops/s')'' @ [CHR 0x0A]) @
     (''        ax.legend(fontsize=8); ax.grid(True, alpha=0.3)'' @ [CHR 0x0A]) @
     (''    fig.suptitle(title)'' @ [CHR 0x0A]) @
     (''    fig.tight_layout()'' @ [CHR 0x0A]) @
     (''    return fig'' @ [CHR 0x0A]) @
     [CHR 0x0A] @
     (''plot_wh(wh, 'Wormhole '' @ [CHR 0xE2, CHR 0x80, CHR 0x94] @ '' pluggable per-leaf lock');'' @ [CHR 0x0A]))"

definition plot4_heading :: "string list" where
  "plot4_heading =
    [(''## Plot 4 '' @ [CHR 0xE2, CHR 0x80, CHR 0x94] @ '' StripedMap vs BronsonAVL, head-to-head per lock primitive'' @ [CHR 0x0A])]"

definition at8_cell :: "string list" where
  "at8_cell =
    [(''def at8(df, locks):'' @ [CHR 0x0A]),
     (''    s = df[df.threads == 8].pivot_table(index='workload', columns='lk','' @ [CHR 0x0A]),
     (''                                        values='ops_s', aggfunc='mean') / 1e6'' @ [CHR 0x0A]),
     (''    return s['' @ [CHR 0x5B] @ ''c for c in locks if c in s.columns]'' @ [CHR 0x5D, CHR 0x0A]),
     [CHR 0x0A],
     (''print('=== StripedMap, 8 threads, M ops/s ===')'' @ [CHR 0x0A]),
     (''print(at8(cds, ['std','tas','ttas','cas','ticket']).round(1).to_string()); print()'' @ [CHR 0x0A]),
     (''print('=== BronsonAVL, 8 threads, M ops/s ===')'' @ [CHR 0x0A]),
     (''print(at8(avl, ['std','tas','ttas','cas','ticket']).round(1).to_string()); print()'' @ [CHR 0x0A]),
     (''print('=== Wormhole,  8 threads, M ops/s ===')'' @ [CHR 0x0A]),
     (''print(at8(wh,  ['default','rw','tas','ttas','cas','occ']).round(1).to_string())'' @ [CHR 0x0A])]"

definition speedup_cell :: "string list" where
  "speedup_cell =
    [(''def speedup_vs_baseline(df, locks, baseline):'' @ [CHR 0x0A]),
     (''    t = df[df.threads == 8].pivot_table(index='workload', columns='lk','' @ [CHR 0x0A]),
     (''                                        values='ops_s', aggfunc='mean') / 1e6'' @ [CHR 0x0A]),
     (''    return t['' @ [CHR 0x5B] @ ''c for c in locks if c in t.columns]'' @ [CHR 0x5D] @ ''.div(t[baseline], axis=0).round(2)'' @ [CHR 0x0A]),
     [CHR 0x0A],
     (''print('=== StripedMap speedup vs cds-std (8 threads) ===')'' @ [CHR 0x0A]),
     (''print(speedup_vs_baseline(cds, ['std','tas','ttas','cas','ticket'], 'std').to_string())'' @ [CHR 0x0A]),
     (''print()'' @ [CHR 0x0A]),
     (''print('=== BronsonAVL speedup vs avl-std (8 threads) ===')'' @ [CHR 0x0A]),
     (''print(speedup_vs_baseline(avl, ['std','tas','ttas','cas','ticket'], 'std').to_string())'' @ [CHR 0x0A]),
     (''print()'' @ [CHR 0x0A]),
     (''print('=== Wormhole speedup vs wh-default (8 threads) ===')'' @ [CHR 0x0A]),
     (''print(speedup_vs_baseline(wh,  ['default','rw','tas','ttas','cas','occ'], 'default').to_string())'' @ [CHR 0x0A])]"

section \<open>Edits\<close>

definition set_source :: "string list \<Rightarrow> json \<Rightarrow> json py" where
  \<comment> \<open>\<open>c["source"] = [...]\<close>\<close>
  "set_source lines c =
     (case c of JObj ms \<Rightarrow> Inr (JObj (dict_set (u ''source'') (JArr (map str lines)) ms)) | _ \<Rightarrow> Inl TypeError)"

definition edit_cell :: "nat \<Rightarrow> string list \<Rightarrow> json list \<Rightarrow> json list py" where
  "edit_cell i lines cs =
     (if i < length cs then bind_py (set_source lines (cs ! i)) (\<lambda>c. Inr (cs[i := c])) else Inl IndexError)"

definition insert_at :: "nat \<Rightarrow> json \<Rightarrow> json list \<Rightarrow> json list" where
  "insert_at i c cs = take i cs @ c # drop i cs"

definition joined :: "json list \<Rightarrow> pystr py" where
  "joined xs = bind_py (map_py (\<lambda>x. case x of JStr s \<Rightarrow> Inr s | _ \<Rightarrow> Inl TypeError) xs) (\<lambda>ss. Inr (concat ss))"

definition source_text :: "json \<Rightarrow> pystr py" where
  \<comment> \<open>\<open>"".join(c.get("source", []))\<close>\<close>
  "source_text c =
     (case c of
        JObj ms \<Rightarrow>
          (case map_of ms (u ''source'') of
             None \<Rightarrow> Inr []
           | Some (JArr xs) \<Rightarrow> joined xs
           | Some (JStr s) \<Rightarrow> Inr s
           | Some (JObj ks) \<Rightarrow> Inr (concat (map fst ks))
           | Some _ \<Rightarrow> Inl TypeError)
      | _ \<Rightarrow> Inl AttributeError)"

definition begins :: "string \<Rightarrow> pystr \<Rightarrow> bool" where
  "begins p s \<longleftrightarrow> take (length (u p)) s = u p"

definition update_table :: "json \<Rightarrow> json py" where
  "update_table c =
     bind_py (source_text c) (\<lambda>src.
       case member c ''cell_type'' of
         None \<Rightarrow> Inl (KeyError ''cell_type'')
       | Some t \<Rightarrow>
           bind_py (if t = str ''code'' \<and> begins ''def at8(df):'' src then set_source at8_cell c else Inr c) (\<lambda>c1.
             if t = str ''code'' \<and> begins ''def speedup_vs_std(df):'' src then set_source speedup_cell c1 else Inr c1))"

definition get_cells :: "json \<Rightarrow> json list py" where
  "get_cells nb =
     (case nb of
        JObj ms \<Rightarrow>
          (case map_of ms (u ''cells'') of
             None \<Rightarrow> Inl (KeyError ''cells'') | Some (JArr cs) \<Rightarrow> Inr cs | Some _ \<Rightarrow> Inl TypeError)
      | _ \<Rightarrow> Inl TypeError)"

definition set_cells :: "json list \<Rightarrow> json \<Rightarrow> json" where
  \<comment> \<open>the list of cells is edited in place\<close>
  "set_cells cs nb = (case nb of JObj ms \<Rightarrow> JObj (dict_set (u ''cells'') (JArr cs) ms) | _ \<Rightarrow> nb)"

definition extend :: "string \<Rightarrow> string \<Rightarrow> json \<Rightarrow> json py" where
  "extend id1 id2 nb =
     bind_py (get_cells nb) (\<lambda>cs0.
     bind_py (edit_cell 0 intro cs0) (\<lambda>cs1.
     bind_py (edit_cell 1 load_cell cs1) (\<lambda>cs2.
     bind_py (edit_cell 6 plot4_heading cs2) (\<lambda>cs3.
       let cs4 = insert_at 6 (md id1 wh_heading) cs3; cs5 = insert_at 7 (code id2 wh_plot) cs4
       in bind_py (map_py update_table cs5) (\<lambda>cs6. Inr (set_cells cs6 nb))))))"

definition extend_main :: "string \<Rightarrow> string \<Rightarrow> string \<Rightarrow> (string \<times> string) py" where
  \<comment> \<open>the contents of the notebook file; its new contents and the line printed\<close>
  "extend_main id1 id2 contents =
     (case loads contents of
        None \<Rightarrow> Inl ValueError
      | Some nb \<Rightarrow> bind_py (extend id1 id2 nb) (\<lambda>nb'.
          Inr (dumps nb', ''Wrote scripts/avl_compare.ipynb ('' @ show_nat (length (cells_of nb')) @ '' cells)'')))"

section \<open>What the edits do to a valid cell\<close>

definition text_of :: "string list \<Rightarrow> pystr" where
  "text_of lines = concat (map u lines)"

definition table_text :: "pystr \<Rightarrow> bool" where
  \<comment> \<open>the texts that the last loop replaces\<close>
  "table_text s \<longleftrightarrow> begins ''def at8(df):'' s \<or> begins ''def speedup_vs_std(df):'' s"

lemma joined_str: "joined (map str lines) = Inr (text_of lines)"
proof -
  have "map_py (\<lambda>x. case x of JStr s \<Rightarrow> Inr s | _ \<Rightarrow> Inl TypeError) (map str lines) = Inr (map u lines)"
    by (induction lines) (simp_all add: str_def)
  then show ?thesis by (simp add: joined_def text_of_def)
qed

lemma joined_lines: "list_all is_str xs \<Longrightarrow> \<exists>s. joined xs = Inr s"
proof -
  assume "list_all is_str xs"
  then have "\<exists>ss. map_py (\<lambda>x. case x of JStr s \<Rightarrow> Inr s | _ \<Rightarrow> Inl TypeError) xs = Inr ss"
  proof (induction xs)
    case (Cons x xs)
    then show ?case by (cases x) auto
  qed simp
  then show ?thesis by (auto simp: joined_def)
qed

lemma cell_base_cases:
  assumes "cell_base c"
  obtains ms t s where "c = JObj ms" "member c ''cell_type'' = Some t" "source_text c = Inr s"
proof -
  obtain ms where ms: "c = JObj ms" using assms by (cases c) (auto simp: cell_base_def has_def member_def)
  obtain t where t: "member c ''cell_type'' = Some t" using assms by (auto simp: cell_base_def)
  obtain v where v: "map_of ms (u ''source'') = Some v" "is_lines v"
    using assms ms by (auto simp: cell_base_def has_def member_def split: option.splits)
  have "\<exists>s. source_text c = Inr s"
    using v joined_lines by (cases v) (auto simp: ms source_text_def)
  then show ?thesis using that ms t by blast
qed

lemma set_source_cell:
  assumes "cell_base c"
  shows "\<exists>c'. set_source lines c = Inr c' \<and> cell_base c' \<and> source_text c' = Inr (text_of lines) \<and>
    member c' ''source'' = Some (JArr (map str lines)) \<and> (\<forall>k. u k \<noteq> u ''source'' \<longrightarrow> member c' k = member c k)"
proof -
  obtain ms where ms: "c = JObj ms" using assms by (rule cell_base_cases)
  let ?c = "JObj (dict_set (u ''source'') (JArr (map str lines)) ms)"
  have same: "member ?c k = member c k" if "u k \<noteq> u ''source''" for k
    using that by (simp add: ms member_def map_of_dict_set)
  have src: "member ?c ''source'' = Some (JArr (map str lines))"
    by (simp add: member_def map_of_dict_set)
  have "cell_base ?c"
    using assms unfolding cell_base_def has_def src
    by (subst same, simp add: key_simps)+ (simp add: is_str_str)
  moreover have "source_text ?c = Inr (text_of lines)"
    using joined_str by (simp add: source_text_def map_of_dict_set)
  ultimately show ?thesis using same src by (auto simp: set_source_def ms)
qed

lemma update_table_other:
  assumes "cell_base c" and "source_text c = Inr s" and "\<not> table_text s"
  shows "update_table c = Inr c"
proof -
  obtain ms t s' where "member c ''cell_type'' = Some t" using assms(1) by (rule cell_base_cases)
  then show ?thesis using assms(2,3) by (simp add: update_table_def table_text_def)
qed

lemma update_table_cell:
  assumes "cell_base c"
  shows "\<exists>c'. update_table c = Inr c' \<and> cell_base c' \<and> member c' ''cell_type'' = member c ''cell_type''"
proof -
  obtain ms t s where c: "member c ''cell_type'' = Some t" "source_text c = Inr s" using assms by (rule cell_base_cases)
  have keep: "\<exists>c'. set_source ls d = Inr c' \<and> cell_base c' \<and> member c' ''cell_type'' = member d ''cell_type''" if "cell_base d" for ls d
  proof -
    have "u ''cell_type'' \<noteq> u ''source''" by (simp add: key_simps)
    then show ?thesis using set_source_cell [OF that, of ls] by blast
  qed
  obtain c1 where c1: "(if t = str ''code'' \<and> begins ''def at8(df):'' s then set_source at8_cell c else Inr c) = Inr c1"
      "cell_base c1" "member c1 ''cell_type'' = member c ''cell_type''"
    using keep [OF assms, of at8_cell] assms by (cases "t = str ''code'' \<and> begins ''def at8(df):'' s") auto
  moreover obtain c2 where
    "(if t = str ''code'' \<and> begins ''def speedup_vs_std(df):'' s then set_source speedup_cell c1 else Inr c1) = Inr c2"
      "cell_base c2" "member c2 ''cell_type'' = member c1 ''cell_type''"
    using keep [OF c1(2), of speedup_cell] c1(2) by (cases "t = str ''code'' \<and> begins ''def speedup_vs_std(df):'' s") auto
  ultimately show ?thesis using c by (simp add: update_table_def)
qed

definition tabled :: "json \<Rightarrow> json" where
  "tabled c = (case update_table c of Inr c' \<Rightarrow> c' | Inl _ \<Rightarrow> c)"

lemma tabled_cell: "cell_base c \<Longrightarrow> cell_base (tabled c)" "cell_base c \<Longrightarrow> update_table c = Inr (tabled c)"
  using update_table_cell [of c] by (auto simp: tabled_def)

lemma tabled_other: "cell_base c \<Longrightarrow> source_text c = Inr s \<Longrightarrow> \<not> table_text s \<Longrightarrow> tabled c = c"
  by (simp add: tabled_def update_table_other)

lemma update_tables: "list_all cell_base cs \<Longrightarrow> map_py update_table cs = Inr (map tabled cs)"
  by (induction cs) (simp_all add: tabled_cell)

lemma splitlines_keep_concat: "concat (splitlines_keep s) = s"
  by (induction s) (auto split: list.splits)

lemma new_cells:
  "cell_base (md i t)" "source_text (md i t) = Inr (u t)" "cell_ok m (md i t) \<longleftrightarrow> 5 \<le> m \<and> is_id (str i)"
  "cell_base (code i t)" "source_text (code i t) = Inr (u t)" "cell_ok m (code i t) \<longleftrightarrow> 5 \<le> m \<and> is_id (str i)"
proof -
  have strs: "list_all is_str (map JStr ss)" for ss by (induction ss) auto
  have "joined (map JStr ss) = Inr (concat ss)" for ss
  proof -
    have "map_py (\<lambda>x. case x of JStr s \<Rightarrow> Inr s | _ \<Rightarrow> Inl TypeError) (map JStr ss) = Inr ss" by (induction ss) simp_all
    then show ?thesis by (simp add: joined_def)
  qed
  then show "source_text (md i t) = Inr (u t)" "source_text (code i t) = Inr (u t)"
    by (simp_all add: md_def code_def obj_def source_text_def splitlines_keep_concat key_simps)
  show base: "cell_base (md i t)" "cell_base (code i t)"
    by (simp_all add: md_def code_def obj_def cell_base_def has_def member_def strs key_simps)
  have kind: "cell_kind (md i t)" "cell_kind (code i t)"
    by (simp_all add: md_def code_def obj_def cell_kind_def has_def opt_def keys_in_def member_def cell_type_is_def
        str_def [of "''markdown''"] str_def [of "''code''"] str_def [of "''raw''"] key_simps)
  have "member (md i t) ''id'' = Some (str i)" "member (code i t) ''id'' = Some (str i)"
    by (simp_all add: md_def code_def obj_def member_def key_simps)
  then show "cell_ok m (md i t) \<longleftrightarrow> 5 \<le> m \<and> is_id (str i)" "cell_ok m (code i t) \<longleftrightarrow> 5 \<le> m \<and> is_id (str i)"
    by (simp_all add: cell_ok_def base kind has_def)
qed

text \<open>A text whose character at some place differs from that of a literal does not begin with it.\<close>

lemma u_nth:
  assumes "i < length s" and "list_all (\<lambda>c. (of_char c :: nat) < 128) (take (Suc i) s)"
  shows "i < length (u s)" "u s ! i = of_char (s ! i)"
proof -
  have "i < length (u s) \<and> u s ! i = of_char (s ! i)"
    using assms
  proof (induction s arbitrary: i)
    case (Cons c s)
    then have "utf8_next (c # s) = Some (of_char c, s)" by (simp add: utf8_next_def)
    then have c: "u (c # s) = of_char c # u s" by (simp add: u.simps [of "c # s"])
    show ?case using Cons by (cases i) (simp_all add: c)
  qed simp
  then show "i < length (u s)" "u s ! i = of_char (s ! i)" by simp_all
qed

definition differs_at :: "nat \<Rightarrow> string \<Rightarrow> string \<Rightarrow> bool" where
  "differs_at i p s \<longleftrightarrow> i < length p \<and> i < length s \<and> list_all (\<lambda>c. (of_char c :: nat) < 128) (take (Suc i) p) \<and>
     list_all (\<lambda>c. (of_char c :: nat) < 128) (take (Suc i) s) \<and> (of_char (p ! i) :: nat) \<noteq> of_char (s ! i)"

lemma begins_nth: "begins p s \<Longrightarrow> i < length (u p) \<Longrightarrow> s ! i = u p ! i"
  unfolding begins_def by (metis nth_take)

lemma not_begins: "differs_at i p s \<Longrightarrow> \<not> begins p (u s @ t)"
  using begins_nth [of p "u s @ t" i] u_nth [of i p] u_nth [of i s] by (auto simp: differs_at_def nth_append)

lemma not_table:
  assumes "differs_at i ''def at8(df):'' s" and "differs_at j ''def speedup_vs_std(df):'' s"
  shows "\<not> table_text (u s @ t)" "\<not> table_text (u s)"
  using not_begins [OF assms(1)] not_begins [OF assms(2)] not_begins [OF assms(1), of "[]"] not_begins [OF assms(2), of "[]"]
  by (simp_all add: table_text_def)

lemma fixed_texts_plain:
  "\<not> table_text (text_of intro)" "\<not> table_text (text_of load_cell)" "\<not> table_text (text_of plot4_heading)" "\<not> table_text (u wh_heading)"
  unfolding text_of_def intro_def load_cell_def plot4_heading_def wh_heading_def list.map concat.simps
  by (rule not_table [of 0 _ 0]; simp add: differs_at_def)+

lemma fixed_texts_code:
  "\<not> table_text (u wh_plot)" "\<not> table_text (text_of at8_cell)" "\<not> table_text (text_of speedup_cell)"
  unfolding text_of_def wh_plot_def at8_cell_def speedup_cell_def list.map concat.simps
  by (rule not_table [of 4 _ 4], simp add: differs_at_def, simp add: differs_at_def)
    (rule not_table [of 10 _ 4], simp add: differs_at_def, simp add: differs_at_def,
     rule not_table [of 4 _ 15], simp add: differs_at_def, simp add: differs_at_def)

lemmas fixed_texts = fixed_texts_plain fixed_texts_code

section \<open>The edited notebook\<close>

definition sourced :: "string list \<Rightarrow> json \<Rightarrow> json" where
  "sourced lines c = (case set_source lines c of Inr c' \<Rightarrow> c' | Inl _ \<Rightarrow> c)"

lemma sourced_cell:
  assumes "cell_base c"
  shows "set_source lines c = Inr (sourced lines c)" "cell_base (sourced lines c)" "source_text (sourced lines c) = Inr (text_of lines)"
    "u k \<noteq> u ''source'' \<Longrightarrow> member (sourced lines c) k = member c k"
  using set_source_cell [OF assms, of lines] by (auto simp: sourced_def)

lemma tabled_sourced: "cell_base c \<Longrightarrow> \<not> table_text (text_of lines) \<Longrightarrow> tabled (sourced lines c) = sourced lines c"
  by (rule tabled_other [OF sourced_cell(2,3)])

lemma tabled_new: "tabled (md i wh_heading) = md i wh_heading" "tabled (code i wh_plot) = code i wh_plot"
  by (rule tabled_other [OF new_cells(1,2)], rule fixed_texts) (rule tabled_other [OF new_cells(4,5)], rule fixed_texts)

lemma list_of_seven:
  assumes "7 \<le> length cs"
  obtains c0 c1 c2 c3 c4 c5 c6 ds where "cs = c0 # c1 # c2 # c3 # c4 # c5 # c6 # ds"
  using assms by (auto simp: numeral_eq_Suc Suc_le_length_iff)

lemma get_cells_ok: "notebook_base nb \<Longrightarrow> get_cells nb = Inr (cells_of nb)"
  by (cases nb) (auto simp: notebook_base_def get_cells_def cells_of_def member_def)

lemma set_cells_ok:
  assumes "notebook_base nb" and "list_all cell_base cs"
  shows "cells_of (set_cells cs nb) = cs" "notebook_base (set_cells cs nb)" "u k \<noteq> u ''cells'' \<Longrightarrow> member (set_cells cs nb) k = member nb k"
proof -
  obtain ms where ms: "nb = JObj ms" using assms(1) by (cases nb) (auto simp: notebook_base_def member_def)
  show cs: "cells_of (set_cells cs nb) = cs" by (simp add: ms cells_of_def set_cells_def member_def)
  show same: "u k \<noteq> u ''cells'' \<Longrightarrow> member (set_cells cs nb) k = member nb k" for k
    by (simp add: ms set_cells_def member_def)
  have new: "member (set_cells cs nb) ''cells'' = Some (JArr cs)" by (simp add: ms set_cells_def member_def)
  show "notebook_base (set_cells cs nb)"
    using assms unfolding notebook_base_def cs new by simp
qed

definition extended :: "string \<Rightarrow> string \<Rightarrow> json list \<Rightarrow> json list" where
  \<comment> \<open>what the cells become\<close>
  "extended id1 id2 cs =
     [sourced intro (cs ! 0), sourced load_cell (cs ! 1)] @ map tabled (take 4 (drop 2 cs)) @
     [md id1 wh_heading, code id2 wh_plot, sourced plot4_heading (cs ! 6)] @ map tabled (drop 7 cs)"

lemma extended_ok: "list_all cell_base cs \<Longrightarrow> 7 \<le> length cs \<Longrightarrow> list_all cell_base (extended i j cs)"
  by (elim list_of_seven) (auto simp: extended_def sourced_cell tabled_cell new_cells list_all_iff)

lemma length_extended: "7 \<le> length cs \<Longrightarrow> length (extended i j cs) = length cs + 2"
  by (simp add: extended_def)

lemma extend_eq:
  assumes "notebook_base nb" and "7 \<le> length (cells_of nb)"
  shows "extend id1 id2 nb = Inr (set_cells (extended id1 id2 (cells_of nb)) nb)"
proof -
  from assms(2) obtain c0 c1 c2 c3 c4 c5 c6 ds where cs: "cells_of nb = c0 # c1 # c2 # c3 # c4 # c5 # c6 # ds"
    by (rule list_of_seven)
  have ok: "cell_base c0" "cell_base c1" "cell_base c2" "cell_base c3" "cell_base c4" "cell_base c5" "cell_base c6" "list_all cell_base ds"
    using assms(1) by (simp_all add: notebook_base_def cs)
  let ?cs = "sourced intro c0 # sourced load_cell c1 # c2 # c3 # c4 # c5 # md id1 wh_heading # code id2 wh_plot #
    sourced plot4_heading c6 # ds"
  have "list_all cell_base ?cs" using ok by (simp add: sourced_cell new_cells)
  then have "map_py update_table ?cs = Inr (map tabled ?cs)" by (rule update_tables)
  moreover have "map tabled ?cs = extended id1 id2 (cells_of nb)"
    using ok by (simp add: extended_def cs tabled_sourced tabled_new fixed_texts)
  moreover have "extend id1 id2 nb = bind_py (map_py update_table ?cs) (\<lambda>cs6. Inr (set_cells cs6 nb))"
    unfolding extend_def get_cells_ok [OF assms(1)] cs
    using ok by (simp add: edit_cell_def sourced_cell insert_at_def)
  ultimately show ?thesis by simp
qed

lemma json_wf_dict_set:
  assumes "json_wf (JObj ms)" and "list_all code_point k" and "json_wf v"
  shows "json_wf (JObj (dict_set k v ms))"
proof -
  have "dict_wf (dict_set k v ms)" using assms(1) by (intro dict_wf_set) (simp add: dict_wf_def)
  moreover have "set (dict_set k v ms) \<subseteq> insert (k, v) (set ms)"
    by (induction ms) (auto split: if_splits)
  ultimately show ?thesis using assms by (fastforce simp: dict_wf_def list_all_iff)
qed

lemma sourced_wf: "json_wf c \<Longrightarrow> json_wf (sourced lines c)"
  using json_wf_dict_set [of _ "u ''source''" "JArr (map str lines)"]
  by (cases c) (simp_all add: sourced_def set_source_def is_str_str)

lemma set_source_wf: "set_source ls c = Inr c' \<Longrightarrow> json_wf c \<Longrightarrow> json_wf c'"
  using sourced_wf [of c ls] by (simp add: sourced_def)

lemma update_table_wf:
  assumes "update_table c = Inr c'" and "json_wf c"
  shows "json_wf c'"
proof -
  obtain src where src: "source_text c = Inr src"
    using assms(1) unfolding update_table_def bind_py_eq_Inr by blast
  obtain t where t: "member c ''cell_type'' = Some t"
    using assms(1) unfolding update_table_def src by (cases "member c ''cell_type''") simp_all
  obtain c1 where
    "(if t = str ''code'' \<and> begins ''def at8(df):'' src then set_source at8_cell c else Inr c) = Inr c1"
    "(if t = str ''code'' \<and> begins ''def speedup_vs_std(df):'' src then set_source speedup_cell c1 else Inr c1) = Inr c'"
    using assms(1) unfolding update_table_def src t bind_py.simps option.simps bind_py_eq_Inr by blast
  then show ?thesis
    using assms(2) set_source_wf [of at8_cell c c1] set_source_wf [of speedup_cell c1 c']
    by (metis Inr_inject)
qed

lemma tabled_wf: "json_wf c \<Longrightarrow> json_wf (tabled c)"
  using update_table_wf by (simp add: tabled_def split: sum.splits)

lemma splitlines_wf: "list_all code_point s \<Longrightarrow> list_all json_wf (map JStr (splitlines_keep s))"
  by (induction s) (auto split: list.splits)

lemma new_cells_wf: "json_wf (md i t)" "json_wf (code i t)"
  using splitlines_wf [OF u_code_points, of t] by (simp_all add: md_def code_def json_wf_obj key_simps)

lemma extended_wf: "list_all json_wf cs \<Longrightarrow> 7 \<le> length cs \<Longrightarrow> list_all json_wf (extended i j cs)"
  by (elim list_of_seven) (auto simp: extended_def sourced_wf tabled_wf new_cells_wf list_all_iff)

lemma set_cells_wf:
  assumes "json_wf nb" and "list_all json_wf cs"
  shows "json_wf (set_cells cs nb)"
  using assms json_wf_dict_set [of _ "u ''cells''" "JArr cs"] by (cases nb) (simp_all add: set_cells_def)

lemma cells_of_wf: "json_wf nb \<Longrightarrow> list_all json_wf (cells_of nb)"
  by (cases nb) (auto simp: cells_of_def member_def list_all_iff split: option.splits json.splits dest!: map_of_SomeD)

lemma short_notebook: "notebook_base nb \<Longrightarrow> length (cells_of nb) < 7 \<Longrightarrow> extend i j nb = Inl IndexError"
proof -
  assume nb: "notebook_base nb" and short: "length (cells_of nb) < 7"
  have ok: "list_all cell_base (cells_of nb)" using nb by (simp add: notebook_base_def)
  have edit: "edit_cell n ls cs = (if n < length cs then Inr (cs[n := sourced ls (cs ! n)]) else Inl IndexError)"
    if "list_all cell_base cs" for n ls cs
    using that by (auto simp: edit_cell_def sourced_cell list_all_length)
  have keeps: "list_all cell_base (cs[n := sourced ls (cs ! n)])" if "list_all cell_base cs" for n ls cs
    using that by (cases "n < length cs") (auto simp: list_all_length nth_list_update sourced_cell list_update_beyond)
  show ?thesis
    using short unfolding extend_def get_cells_ok [OF nb] bind_py.simps
    by (simp add: edit ok keeps) (simp add: edit_cell_def)
qed

section \<open>A notebook of seven cells\<close>

definition seven_cells :: json where
  "seven_cells = obj [(''cells'', JArr (replicate 7 (md ''a1'' ''x''))), (''metadata'', JObj []),
     (''nbformat'', JInt 4), (''nbformat_minor'', JInt 5)]"

lemma seven_cells_ok:
  "notebook_ok seven_cells" "notebook_base seven_cells" "json_wf seven_cells" "cells_of seven_cells = replicate 7 (md ''a1'' ''x'')"
  "minor_of seven_cells = 5"
proof -
  show cells: "cells_of seven_cells = replicate 7 (md ''a1'' ''x'')" and minor: "minor_of seven_cells = 5"
    by (simp_all add: seven_cells_def member_def obj_def cells_of_def minor_of_def key_simps)
  have "u ''a1'' = map of_char ''a1''" by (rule u_ascii) simp
  then have "is_id (str ''a1'')" by (simp add: str_def)
  then show ok: "notebook_ok seven_cells"
    by (simp add: notebook_ok_def minor)
       (simp add: seven_cells_def has_def opt_def metadata_ok_def keys_in_def member_def obj_def new_cells key_simps list_all_length)
  then show "notebook_base seven_cells" by (rule notebook_ok_base)
  show "json_wf seven_cells"
    by (simp add: seven_cells_def json_wf_obj new_cells_wf key_simps numeral_eq_Suc)
qed

section \<open>The result, cell by cell\<close>

text \<open>A dictionary with one of its values replaced and every other member kept in its place.\<close>

definition with_value :: "string \<Rightarrow> json \<Rightarrow> json \<Rightarrow> json" where
  "with_value k v j = (case j of JObj ms \<Rightarrow> JObj (map (\<lambda>(k', v'). (k', if k' = u k then v else v')) ms) | _ \<Rightarrow> j)"

definition with_lines :: "string list \<Rightarrow> json \<Rightarrow> json" where
  "with_lines lines = with_value ''source'' (JArr (map (\<lambda>l. JStr (u l)) lines))"

fun text_lines :: "json \<Rightarrow> pystr" where
  "text_lines (JArr xs) = concat (map (\<lambda>x. case x of JStr s \<Rightarrow> s | _ \<Rightarrow> []) xs)"
| "text_lines (JStr s) = s"
| "text_lines _ = []"

definition cell_text :: "json \<Rightarrow> pystr" where
  "cell_text c = (case member c ''source'' of None \<Rightarrow> [] | Some v \<Rightarrow> text_lines v)"

definition retabled :: "json \<Rightarrow> json" where
  \<comment> \<open>code cells that define the old tables get the new ones\<close>
  "retabled c =
     (if cell_type_is ''code'' c \<and> begins ''def at8(df):'' (cell_text c) then with_lines at8_cell c
      else if cell_type_is ''code'' c \<and> begins ''def speedup_vs_std(df):'' (cell_text c) then with_lines speedup_cell c
      else c)"

lemma dict_set_value:
  "distinct (map fst ms) \<Longrightarrow> k \<in> fst ` set ms \<Longrightarrow>
     dict_set k v ms = map (\<lambda>(k', v'). (k', if k' = k then v else v')) ms"
proof (induction ms)
  case (Cons p ms)
  obtain k' v' where p: "p = (k', v')" by fastforce
  have "map (\<lambda>(k', v'). (k', if k' = k then v else v')) ms = ms" if "k \<notin> fst ` set ms"
    using that by (induction ms) auto
  then show ?case using Cons by (auto simp: p)
qed simp

lemma with_value_dict_set:
  assumes "json_wf (JObj ms)" and "member (JObj ms) k \<noteq> None"
  shows "JObj (dict_set (u k) v ms) = with_value k v (JObj ms)"
proof -
  have "u k \<in> fst ` set ms" using assms(2) by (force simp: member_def dest: map_of_SomeD)
  then have "dict_set (u k) v ms = map (\<lambda>(k', v'). (k', if k' = u k then v else v')) ms"
    using assms(1) by (intro dict_set_value) simp_all
  then show ?thesis by (simp add: with_value_def)
qed

lemma cell_base_source: "cell_base c \<Longrightarrow> \<exists>ms v. c = JObj ms \<and> member c ''source'' = Some v \<and> is_lines v"
  by (cases c) (auto simp: cell_base_def has_def member_def split: option.splits)

lemma sourced_lines: "cell_base c \<Longrightarrow> json_wf c \<Longrightarrow> sourced lines c = with_lines lines c"
  using cell_base_source [of c] with_value_dict_set [of _ "''source''" "JArr (map str lines)"]
  by (auto simp: sourced_def set_source_def with_lines_def str_def [abs_def])

lemma joined_text: "list_all is_str xs \<Longrightarrow> joined xs = Inr (concat (map (\<lambda>x. case x of JStr s \<Rightarrow> s | _ \<Rightarrow> []) xs))"
proof -
  assume "list_all is_str xs"
  then have "map_py (\<lambda>x. case x of JStr s \<Rightarrow> Inr s | _ \<Rightarrow> Inl TypeError) xs = Inr (map (\<lambda>x. case x of JStr s \<Rightarrow> s | _ \<Rightarrow> []) xs)"
  proof (induction xs)
    case (Cons x xs)
    then show ?case by (cases x) auto
  qed simp
  then show ?thesis by (simp add: joined_def)
qed

lemma source_text_cell: "cell_base c \<Longrightarrow> source_text c = Inr (cell_text c)"
proof -
  assume "cell_base c"
  then obtain ms v where "c = JObj ms" "member c ''source'' = Some v" "is_lines v" using cell_base_source by blast
  then show ?thesis
    using joined_text by (cases v) (auto simp: source_text_def cell_text_def member_def)
qed

lemma begins_one: "begins ''def at8(df):'' s \<Longrightarrow> \<not> begins ''def speedup_vs_std(df):'' s"
proof
  assume "begins ''def at8(df):'' s" "begins ''def speedup_vs_std(df):'' s"
  from begins_nth [OF this(1), of 4] begins_nth [OF this(2), of 4]
  show False using u_nth [of 4 "''def at8(df):''"] u_nth [of 4 "''def speedup_vs_std(df):''"] by simp
qed

lemma tabled_retabled:
  assumes "cell_base c" and "json_wf c"
  shows "tabled c = retabled c"
proof -
  obtain t where t: "member c ''cell_type'' = Some t" using assms(1) by (auto simp: cell_base_def)
  have "update_table c = Inr (retabled c)"
    using begins_one [of "cell_text c"] sourced_cell(1) [OF assms(1)] sourced_lines [OF assms]
    by (auto simp: update_table_def source_text_cell [OF assms(1)] t retabled_def cell_type_is_def)
  then show ?thesis by (simp add: tabled_def)
qed

lemma with_value_cell:
  "k \<noteq> k' \<Longrightarrow> u k \<noteq> u k' \<Longrightarrow> member (with_value k v j) k' = member j k'"
  "member j k \<noteq> None \<Longrightarrow> member (with_value k v j) k = Some v"
  "keys_in ks (with_value k v j) \<longleftrightarrow> keys_in ks j"
proof -
  have other: "map_of (map (\<lambda>(a, b). (a, if a = x then v else b)) ms) y = map_of ms y" if "x \<noteq> y" for ms x and y :: pystr
    using that by (induction ms) auto
  have same: "map_of ms x \<noteq> None \<Longrightarrow> map_of (map (\<lambda>(a, b). (a, if a = x then v else b)) ms) x = Some v" for ms and x :: pystr
    by (induction ms) auto
  have keys: "map fst (map (\<lambda>(a, b). (a, if a = x then v else b)) ms) = map fst ms" for ms and x :: pystr
    by (induction ms) auto
  show "k \<noteq> k' \<Longrightarrow> u k \<noteq> u k' \<Longrightarrow> member (with_value k v j) k' = member j k'"
    using other by (cases j) (simp_all add: member_def with_value_def)
  show "member j k \<noteq> None \<Longrightarrow> member (with_value k v j) k = Some v"
    using same by (cases j) (simp_all add: member_def with_value_def)
  show "keys_in ks (with_value k v j) \<longleftrightarrow> keys_in ks j"
    using keys by (cases j) (simp_all add: keys_in_def with_value_def del: map_map)
qed

lemma with_lines_ok: "cell_ok m c \<Longrightarrow> cell_ok m (with_lines lines c)"
proof -
  assume ok: "cell_ok m c"
  then have src: "member c ''source'' \<noteq> None" using cell_base_source [of c] by (auto simp: cell_ok_def)
  have same: "member (with_lines lines c) k = member c k" if "u ''source'' \<noteq> u k" for k
    using that with_value_cell(1) unfolding with_lines_def by metis
  have new: "member (with_lines lines c) ''source'' = Some (JArr (map str lines))"
    using with_value_cell(2) [OF src] by (simp add: with_lines_def str_def [abs_def])
  have keys: "keys_in ks (with_lines lines c) = keys_in ks c" for ks by (simp add: with_lines_def with_value_cell(3))
  have others: "member (with_lines lines c) ''metadata'' = member c ''metadata''"
    "member (with_lines lines c) ''cell_type'' = member c ''cell_type''" "member (with_lines lines c) ''id'' = member c ''id''"
    "member (with_lines lines c) ''execution_count'' = member c ''execution_count''"
    "member (with_lines lines c) ''outputs'' = member c ''outputs''"
    "member (with_lines lines c) ''attachments'' = member c ''attachments''"
    by (rule same, simp add: key_simps)+
  show ?thesis
    using ok unfolding cell_ok_def cell_base_def cell_kind_def has_def opt_def cell_type_is_def others new keys
    by (simp add: is_str_str)
qed

lemma retabled_ok: "cell_ok m c \<Longrightarrow> cell_ok m (retabled c)"
  by (simp add: retabled_def with_lines_ok)

lemma with_cells_ok:
  assumes "notebook_ok nb"
  shows "notebook_ok (with_value ''cells'' (JArr cs) nb) \<longleftrightarrow> list_all (cell_ok (minor_of nb)) cs"
proof -
  let ?nb = "with_value ''cells'' (JArr cs) nb"
  have "member nb ''cells'' \<noteq> None" using assms by (auto simp: notebook_ok_def has_def split: option.splits)
  then have new: "member ?nb ''cells'' = Some (JArr cs)" by (rule with_value_cell(2))
  have "member ?nb k = member nb k" if "u ''cells'' \<noteq> u k" for k using that with_value_cell(1) by metis
  then have others: "member ?nb ''metadata'' = member nb ''metadata''" "member ?nb ''nbformat'' = member nb ''nbformat''"
    "member ?nb ''nbformat_minor'' = member nb ''nbformat_minor''" by (simp_all add: key_simps)
  show ?thesis
    using assms unfolding notebook_ok_def has_def minor_of_def others new with_value_cell(3) by simp
qed

text \<open>
  C37. On a valid notebook of at least seven cells the script succeeds. Of the notebook it changes
  the list of cells alone: the first two cells and the seventh get new lines, the two new cells stand
  before the seventh, and of all other cells only code cells are changed whose text begins with the
  old definition of one of the tables; they get the lines of that table. Of a changed cell every
  member but the source is kept. With proper identifiers the result is valid exactly from minor
  version 5 on.
\<close>

theorem extend_cells:
  assumes "notebook_ok nb" and "json_wf nb" and "cells_of nb = [c0, c1, c2, c3, c4, c5, c6] @ cs"
    and "is_id (str id1)" and "is_id (str id2)"
  shows "\<exists>nb'. extend id1 id2 nb = Inr nb' \<and>
    nb' = with_value ''cells'' (JArr (
      [with_lines intro c0, with_lines load_cell c1] @ map retabled [c2, c3, c4, c5] @
      [md id1 wh_heading, code id2 wh_plot, with_lines plot4_heading c6] @ map retabled cs)) nb \<and>
    (notebook_ok nb' \<longleftrightarrow> 5 \<le> minor_of nb)"
proof -
  let ?m = "minor_of nb" and ?new = "[with_lines intro c0, with_lines load_cell c1] @ map retabled [c2, c3, c4, c5] @
      [md id1 wh_heading, code id2 wh_plot, with_lines plot4_heading c6] @ map retabled cs"
  note base = notebook_ok_base [OF assms(1)]
  have len: "7 \<le> length (cells_of nb)" by (simp add: assms(3))
  have ok: "\<forall>c \<in> set (cells_of nb). cell_ok ?m c" using base(2) by (simp add: list_all_iff)
  have wf: "\<forall>c \<in> set (cells_of nb). json_wf c" using cells_of_wf [OF assms(2)] by (simp add: list_all_iff)
  have all: "cell_base c" "json_wf c" if "c \<in> set (cells_of nb)" for c using that ok wf by (auto simp: cell_ok_def)
  then have "extended id1 id2 (cells_of nb) = ?new"
    by (simp add: extended_def assms(3) sourced_lines tabled_retabled)
  moreover obtain ms where nb: "nb = JObj ms" using base(1) by (cases nb) (auto simp: notebook_base_def member_def)
  moreover have "member nb ''cells'' \<noteq> None" using base(1) by (auto simp: notebook_base_def)
  ultimately have "extend id1 id2 nb = Inr (with_value ''cells'' (JArr ?new) nb)"
    using extend_eq [OF base(1) len] assms(2) with_value_dict_set by (simp add: set_cells_def)
  moreover have "list_all (cell_ok ?m) ?new \<longleftrightarrow> 5 \<le> ?m"
    using ok assms(4,5) by (auto simp: assms(3) list_all_iff with_lines_ok retabled_ok new_cells)
  ultimately show ?thesis using with_cells_ok [OF assms(1), of ?new] by simp
qed

theorem extend_cells_witness:
  "\<exists>nb'. extend ''b1'' ''b2'' seven_cells = Inr nb' \<and> notebook_ok nb' \<and>
    nb' = with_value ''cells'' (JArr (
      [with_lines intro (md ''a1'' ''x''), with_lines load_cell (md ''a1'' ''x'')] @ map retabled (replicate 4 (md ''a1'' ''x'')) @
      [md ''b1'' wh_heading, code ''b2'' wh_plot, with_lines plot4_heading (md ''a1'' ''x'')] @ map retabled [])) seven_cells"
proof -
  have "u ''b1'' = map of_char ''b1''" "u ''b2'' = map of_char ''b2''" by (rule u_ascii, simp)+
  then have ids: "is_id (str ''b1'')" "is_id (str ''b2'')" by (simp_all add: str_def)
  have cells: "cells_of seven_cells = [md ''a1'' ''x'', md ''a1'' ''x'', md ''a1'' ''x'', md ''a1'' ''x'', md ''a1'' ''x'',
      md ''a1'' ''x'', md ''a1'' ''x''] @ []" by (simp add: seven_cells_ok(4) numeral_eq_Suc)
  show ?thesis
    using extend_cells [OF seven_cells_ok(1,3) cells ids] seven_cells_ok(5) by (simp add: numeral_eq_Suc)
qed

text \<open>
  C38. The script is not idempotent: run again on its own result it inserts its two cells a second
  time, and the heading of the first Wormhole plot, identified by its identifier, is overwritten
  with the heading of the comparison, so that this heading stands twice.
\<close>

theorem extend_twice:
  assumes "notebook_base nb" and "7 \<le> length (cells_of nb)" and "extend i1 i2 nb = Inr nb1"
  shows "\<exists>nb2. extend i3 i4 nb1 = Inr nb2 \<and> length (cells_of nb2) = length (cells_of nb) + 4 \<and>
    member (cells_of nb2 ! 8) ''id'' = Some (str i1) \<and>
    source_text (cells_of nb2 ! 8) = Inr (text_of plot4_heading) \<and>
    source_text (cells_of nb2 ! 10) = Inr (text_of plot4_heading)"
proof -
  from assms(2) obtain c0 c1 c2 c3 c4 c5 c6 ds where cs: "cells_of nb = c0 # c1 # c2 # c3 # c4 # c5 # c6 # ds"
    by (rule list_of_seven)
  have ok: "list_all cell_base (cells_of nb)" using assms(1) by (simp add: notebook_base_def)
  note new = set_cells_ok [OF assms(1) extended_ok [OF ok assms(2), of i1 i2]]
  have nb1: "nb1 = set_cells (extended i1 i2 (cells_of nb)) nb" using assms(3) extend_eq [OF assms(1,2)] by simp
  have len: "7 \<le> length (cells_of nb1)" using assms(2) by (simp add: nb1 new length_extended)
  have ok1: "list_all cell_base (cells_of nb1)" using new(2) by (simp add: notebook_base_def nb1)
  have cells: "cells_of (set_cells (extended i3 i4 (cells_of nb1)) nb1) = extended i3 i4 (cells_of nb1)"
    using new(2) extended_ok [OF ok1 len] by (intro set_cells_ok) (simp_all add: nb1)
  have c6: "cell_base c6" using ok by (simp add: cs)
  have "tabled (sourced plot4_heading c6) = sourced plot4_heading c6" by (rule tabled_sourced [OF c6]) (rule fixed_texts)
  then have "extended i3 i4 (cells_of nb1) ! 8 = sourced plot4_heading (md i1 wh_heading)"
      "extended i3 i4 (cells_of nb1) ! 10 = sourced plot4_heading c6"
    by (simp_all add: nb1 new) (simp_all add: extended_def cs)
  moreover have "member (md i1 wh_heading) ''id'' = Some (str i1)" "u ''id'' \<noteq> u ''source''"
    by (simp_all add: md_def member_def obj_def key_simps)
  ultimately show ?thesis
    using extend_eq [of nb1 i3 i4] new(2) len
    by (simp add: cells length_extended [OF len] nb1 [symmetric] sourced_cell(3,4) new_cells(1) c6) (simp add: nb1 new length_extended [OF assms(2)])
qed

theorem extend_twice_witness:
  "\<exists>nb1 nb2. extend ''b1'' ''b2'' seven_cells = Inr nb1 \<and> extend ''b3'' ''b4'' nb1 = Inr nb2 \<and> length (cells_of nb2) = 11"
proof -
  have nb1: "extend ''b1'' ''b2'' seven_cells = Inr (set_cells (extended ''b1'' ''b2'' (cells_of seven_cells)) seven_cells)"
    using seven_cells_ok by (intro extend_eq) simp_all
  then show ?thesis using extend_twice [OF seven_cells_ok(2) _ nb1, of "''b3''" "''b4''"] seven_cells_ok(4) by auto
qed

text \<open>
  From file to file: on the text of a valid notebook of at least seven cells the script writes
  text that reads back as the extended notebook, and prints the number of its cells; on a shorter
  notebook it raises \<open>IndexError\<close> and writes nothing.
\<close>

theorem extend_file:
  assumes "loads contents = Some nb" and "json_wf nb" and "notebook_base nb"
  shows "if 7 \<le> length (cells_of nb)
    then \<exists>nb' out. extend id1 id2 nb = Inr nb' \<and> loads out = Some nb' \<and>
      extend_main id1 id2 contents =
        Inr (out, ''Wrote scripts/avl_compare.ipynb ('' @ show_nat (length (cells_of nb) + 2) @ '' cells)'')
    else extend_main id1 id2 contents = Inl IndexError"
proof (cases "7 \<le> length (cells_of nb)")
  case True
  let ?nb = "set_cells (extended id1 id2 (cells_of nb)) nb"
  have ok: "list_all cell_base (cells_of nb)" using assms(3) by (simp add: notebook_base_def)
  have "json_wf ?nb" using assms(2) True by (intro set_cells_wf extended_wf cells_of_wf)
  moreover have "length (cells_of ?nb) = length (cells_of nb) + 2"
    by (simp add: set_cells_ok [OF assms(3) extended_ok [OF ok True]] length_extended [OF True])
  ultimately show ?thesis
    using True assms(1) extend_eq [OF assms(3) True] by (simp add: extend_main_def loads_dumps)
next
  case False
  then show ?thesis using assms(1) short_notebook [OF assms(3)] by (simp add: extend_main_def)
qed

theorem extend_file_witness:
  "\<exists>nb' out. extend ''b1'' ''b2'' seven_cells = Inr nb' \<and> loads out = Some nb' \<and>
     extend_main ''b1'' ''b2'' (dumps seven_cells) = Inr (out, ''Wrote scripts/avl_compare.ipynb ('' @ show_nat 9 @ '' cells)'')"
  using extend_file [OF loads_dumps [OF seven_cells_ok(3)] seven_cells_ok(3,2), of "''b1''" "''b2''"]
  by (simp add: seven_cells_ok(4))

end
