(* ===== verification/PyRound.thy ===== *)
theory PyRound
  imports PyNumText
begin

text \<open>
  Rounding to decimal places: Python's \<open>round(x, n)\<close>, which rounds the exact value of the double to
  the nearest decimal and that to the nearest double, and numpy's, which scales, rounds to an integer
  and scales back in double arithmetic. Python's is monotone.
\<close>

fun round_py :: "nat \<Rightarrow> flt \<Rightarrow> flt" where
  "round_py n (Fin r) =
     (let d = rhe (r * 10 ^ n)
      in if d = 0 then (if r < 0 then NegZero else Fin 0) else fl (of_int d / 10 ^ n))"
| "round_py n x = x"

fun frint :: "flt \<Rightarrow> flt" where
  \<comment> \<open>\<open>rint\<close>\<close>
  "frint (Fin r) = (let d = rhe r in if d = 0 \<and> r < 0 then NegZero else Fin (of_int d))"
| "frint x = x"

definition np_round :: "nat \<Rightarrow> flt \<Rightarrow> flt" where
  "np_round n x = projr (fdiv (frint (fmul x (Fin (10 ^ n)))) (Fin (10 ^ n)))"

lemma fl_mono: "a \<le> b \<Longrightarrow> \<not> fless (fl b) (fl a)"
  using rnd_mono [of a b] max_bound_pos by (auto simp: fl_def Let_def)

lemma rhe_sign: "0 \<le> r \<Longrightarrow> 0 \<le> rhe r" "r \<le> 0 \<Longrightarrow> rhe r \<le> 0"
  using rhe_mono [of 0 r] rhe_mono [of r 0] rhe_of_int [of 0] by simp_all

lemma round_py_fl: "\<exists>v. fless y (round_py n (Fin r)) = fless y (fl v) \<and> fless (round_py n (Fin r)) y = fless (fl v) y \<and>
    v = of_int (rhe (r * 10 ^ n)) / 10 ^ n"
proof -
  have zero: "fl 0 = Fin 0" by (simp add: fl_def)
  have "fless y NegZero = fless y (Fin 0)" "fless NegZero y = fless (Fin 0) y" by (cases y; simp)+
  then show ?thesis by (auto simp: Let_def zero)
qed

lemma round_py_mono:
  assumes "is_finite x" and "is_finite y" and "fval x \<le> fval y"
  shows "\<not> fless (round_py n y) (round_py n x)"
proof -
  have fin: "fless (round_py n y) z = fless (round_py n (Fin (fval y))) z" "fless z (round_py n x) = fless z (round_py n (Fin (fval x)))" for z
  proof -
    have r0: "rhe 0 = 0" using rhe_of_int [of 0] by simp
    show "fless (round_py n y) z = fless (round_py n (Fin (fval y))) z" using assms(2) by (cases y; cases z) (simp_all add: r0)
    show "fless z (round_py n x) = fless z (round_py n (Fin (fval x)))" using assms(1) by (cases x; cases z) (simp_all add: r0)
  qed
  have "rhe (fval x * 10 ^ n) \<le> rhe (fval y * 10 ^ n)" using assms(3) by (intro rhe_mono) simp
  then have "of_int (rhe (fval x * 10 ^ n)) / 10 ^ n \<le> (of_int (rhe (fval y * 10 ^ n)) / 10 ^ n :: rat)"
    by (simp add: divide_right_mono)
  then show ?thesis
    using round_py_fl [of _ n "fval x"] round_py_fl [of _ n "fval y"] fl_mono unfolding fin by metis
qed

text \<open>Rounding moves a value by half a unit of the last place kept, before it becomes a double.\<close>

lemma round_py_near:
  assumes "r \<noteq> 0" and "rhe (r * 10 ^ n) \<noteq> 0"
  shows "\<exists>v. round_py n (Fin r) = fl v \<and> \<bar>v - r\<bar> \<le> 1 / (2 * 10 ^ n)"
proof (intro exI conjI)
  let ?d = "of_int (rhe (r * 10 ^ n)) :: rat"
  show "round_py n (Fin r) = fl (?d / 10 ^ n)" using assms(2) by simp
  have "\<bar>?d - r * 10 ^ n\<bar> \<le> 1 / 2" using rhe_bounds [of "r * 10 ^ n"] by linarith
  then have "\<bar>?d - r * 10 ^ n\<bar> / 10 ^ n \<le> 1 / 2 / 10 ^ n" by (rule divide_right_mono) simp
  moreover have "?d / 10 ^ n - r = (?d - r * 10 ^ n) / 10 ^ n" by (simp add: field_simps)
  ultimately show "\<bar>?d / 10 ^ n - r\<bar> \<le> 1 / (2 * 10 ^ n)" by simp
qed

section \<open>Fixed-point text\<close>

definition pad_zeros :: "nat \<Rightarrow> string \<Rightarrow> string" where
  "pad_zeros n s = replicate (n - length s) CHR ''0'' @ s"

definition show_fixed :: "nat \<Rightarrow> rat \<Rightarrow> string" where
  \<comment> \<open>\<open>format(v, ".nf")\<close> of a non-negative number\<close>
  "show_fixed n r =
     (let d = rhe (r * 10 ^ n)
      in show_int (d div 10 ^ n) @ (if n = 0 then [] else CHR ''.'' # pad_zeros n (show_int (d mod 10 ^ n))))"

fun format_fixed :: "nat \<Rightarrow> flt \<Rightarrow> string" where
  "format_fixed n (Fin r) = (if r < 0 then CHR ''-'' # show_fixed n (- r) else show_fixed n r)"
| "format_fixed n NegZero = CHR ''-'' # show_fixed n 0"
| "format_fixed n PInf = ''inf''"
| "format_fixed n NInf = ''-inf''"
| "format_fixed n NaN = ''nan''"

section \<open>Division of numpy values\<close>

definition np_div :: "flt \<Rightarrow> flt \<Rightarrow> flt" where
  \<comment> \<open>division by zero is an infinity or NaN, with a warning\<close>
  "np_div x y =
     (if is_zero y then (if x = NaN \<or> is_zero x then NaN else signed (signbit x \<noteq> signbit y) NInf PInf)
      else projr (fdiv x y))"

end
