(* ===== verification/IndexCrossArch.thy ===== *)
theory IndexCrossArch
  imports PlotCrossArch PyRound "HOL-Library.Product_Lexorder"
begin

text \<open>
  The code cells of \<open>scripts/index_cross_arch.ipynb\<close>: the results of all machines are loaded and
  filtered, an inventory is made, three kinds of figure are drawn for each index, and tables of
  scaling and of the best lock per workload are computed. Figures of a notebook are shown and not
  saved; their file is the empty path. A frame without columns, which \<open>load\<close> returns when no file
  matches, is \<open>None\<close>.
\<close>

section \<open>Constants\<close>

definition WH_LOCKS :: "string list" where
  "WH_LOCKS = [''default'', ''rw'', ''tas'', ''ttas'', ''cas'', ''occ'', ''occ-opt'']"

definition CDS_LOCKS :: "string list" where
  "CDS_LOCKS = [''std'', ''tas'', ''ttas'', ''cas'', ''ticket'']"

definition AVL_LOCKS :: "string list" where
  "AVL_LOCKS = CDS_LOCKS"

definition WH_PALETTE :: "(string, string) dict" where
  "WH_PALETTE =
     [(''default'', ''#888''), (''rw'', ''#444''), (''tas'', ''tab:blue''), (''ttas'', ''tab:green''),
      (''cas'', ''tab:orange''), (''occ'', ''tab:purple''), (''occ-opt'', ''tab:red'')]"

definition CDS_PALETTE :: "(string, string) dict" where
  "CDS_PALETTE =
     [(''std'', ''#888''), (''tas'', ''tab:blue''), (''ttas'', ''tab:green''), (''cas'', ''tab:orange''), (''ticket'', ''tab:red'')]"

definition AVL_PALETTE :: "(string, string) dict" where
  "AVL_PALETTE = CDS_PALETTE"

definition ARCH_STYLE :: "(string, string) dict" where
  "ARCH_STYLE = [(''graviton'', ''-''), (''xeon'', ''--'')]"

definition ARCH_MARKER :: "(string, string) dict" where
  "ARCH_MARKER = [(''graviton'', ''s''), (''xeon'', ''^'')]"

definition ARCH_ORDER :: "string list" where
  "ARCH_ORDER = [''graviton'', ''xeon'']"

definition DROP_ARCHS :: "string list" where
  "DROP_ARCHS = [''apple_m3'']"

definition XEON_MAX_THREADS :: "int option" where
  "XEON_MAX_THREADS = Some 16"

section \<open>Loading\<close>

definition workload_tag :: "sample \<Rightarrow> string" where
  "workload_tag row =
     (let rd = col_read_pct row; ins = col_insert_pct row
      in if rd = 80 \<and> ins = 10 then col_dist row @ '' 80/10/10''
         else if rd = 90 \<and> ins = 5 then ''uniform 90/5/5 read-heavy''
         else if rd = 20 \<and> ins = 40 then ''zipfian 20/40/40 write-heavy''
         else mix_label CHR '' '' CHR ''/'' (col_dist row) rd ins)"

definition load :: "'f pandas \<Rightarrow> 'f world \<Rightarrow> string \<Rightarrow> string \<Rightarrow> 'f option py" where
  "load pd fs glob prefix =
     (let csvs = py_sorted (glob_files fs glob)
      in if csvs = [] then Inr None
         else bind_py (apply_rows pd (\<lambda>r. r\<lparr>col_workload := workload_tag r\<rparr>)
                (assign pd (\<lambda>r. r\<lparr>col_lk := remove_all prefix (col_lock r)\<rparr>)
                  (concat_frames pd (map (csv_frame fs) csvs)))) (\<lambda>df0.
           let df1 = select pd (\<lambda>r. col_arch r \<notin> set DROP_ARCHS) df0;
               df2 = (case XEON_MAX_THREADS of
                        None \<Rightarrow> df1
                      | Some m \<Rightarrow> select pd (\<lambda>r. \<not> (col_arch r = ''xeon'' \<and> m < col_threads r)) df1)
           in Inr (Some df2)))"

definition pad_right :: "nat \<Rightarrow> string \<Rightarrow> string" where
  "pad_right n s = s @ replicate (n - length s) CHR '' ''"

definition pad_left :: "nat \<Rightarrow> string \<Rightarrow> string" where
  "pad_left n s = replicate (n - length s) CHR '' '' @ s"

definition loaded_line :: "'f pandas \<Rightarrow> string \<Rightarrow> 'f option \<Rightarrow> string" where
  "loaded_line pd name df =
     (let rows = (case df of None \<Rightarrow> [] | Some f \<Rightarrow> rows_of pd f);
          archs = (case df of None \<Rightarrow> [] | Some f \<Rightarrow> if rows = [] then [] else py_sorted (unique_of pd col_arch f))
      in pad_right 11 name @ '' rows='' @ pad_left 4 (show_nat (length rows)) @ ''  archs='' @ repr_list archs)"

text \<open>An attribute of a frame without columns.\<close>

definition with_columns :: "'f option \<Rightarrow> ('f \<Rightarrow> 'a py) \<Rightarrow> 'a py" where
  "with_columns df body = (case df of None \<Rightarrow> Inl AttributeError | Some f \<Rightarrow> body f)"

section \<open>Inventory\<close>

definition thread_counts :: "'f pandas \<Rightarrow> 'f \<Rightarrow> int list" where
  \<comment> \<open>\<open>sorted(df.threads.unique())\<close>\<close>
  "thread_counts pd f = py_sorted (first_occurrences (map col_threads (rows_of pd f)))"

record inventory_row =
  inv_bench :: string
  inv_arch :: string
  inv_rows :: nat
  inv_locks :: string
  inv_threads :: string
  inv_workloads :: nat

definition inventory :: "'f pandas \<Rightarrow> 'f option \<Rightarrow> string \<Rightarrow> inventory_row list" where
  \<comment> \<open>\<open>groupby\<close> visits its groups in the order of their keys\<close>
  "inventory pd df name =
     (case df of
        None \<Rightarrow> []
      | Some f \<Rightarrow> map (\<lambda>arch.
          let g = select pd (\<lambda>r. col_arch r = arch) f
          in \<lparr>inv_bench = name, inv_arch = arch, inv_rows = length (rows_of pd g),
              inv_locks = join_with '','' (py_sorted (unique_of pd col_lk g)),
              inv_threads = join_with '','' (map show_int (thread_counts pd g)),
              inv_workloads = length (unique_of pd col_workload g)\<rparr>)
          (py_sorted (unique_of pd col_arch f)))"

section \<open>Figures\<close>

definition shown_archs :: "'f pandas \<Rightarrow> 'f \<Rightarrow> string list" where
  "shown_archs pd df = filter (\<lambda>a. a \<in> set (unique_of pd col_arch df)) ARCH_ORDER"

definition finish_grid :: "draw \<Rightarrow> draw list list \<Rightarrow> draw list list" where
  \<comment> \<open>\<open>for ax in axes[-1]: ax.set_xlabel("Threads")\<close>, then the legend of the first of four axes\<close>
  "finish_grid legend axes =
     (let xlabel = Call ''set_xlabel'' [''Threads''] []
      in map (\<lambda>(i, ds). ds @ (if 2 \<le> i then [xlabel] else []) @ (if i = 0 then [legend] else [])) (zip [0..<length axes] axes))"

definition grid_attrs :: "(string, string) dict \<Rightarrow> string \<Rightarrow> attrs py" where
  "grid_attrs palette lk =
     bind_py (get_item palette lk) (\<lambda>color.
       Inr [(''marker'', ''o''), (''linewidth'', ''2''), (''color'', color), (''label'', lk)])"

definition panel_calls :: "string \<Rightarrow> draw list" where
  "panel_calls wkl =
     [Call ''set_title'' [wkl] [(''fontsize'', ''10'')], Call ''set_xscale'' [''log''] [(''base'', ''2'')],
      Call ''grid'' [''True''] [(''alpha'', ''0.3'')], Call ''set_ylabel'' [''M ops/s''] []]"

definition grid_panel :: "'f pandas \<Rightarrow> string list \<Rightarrow> (string, string) dict \<Rightarrow> 'f \<Rightarrow> string \<Rightarrow> draw list py" where
  "grid_panel pd locks palette sub wkl =
     (let wsub = select pd (\<lambda>r. col_workload r = wkl) sub
      in bind_py (map_py (\<lambda>lk. series pd (select pd (\<lambda>r. col_lk r = lk) wsub) (grid_attrs palette lk)) locks) (\<lambda>dss.
           Inr (concat dss @ panel_calls wkl)))"

definition arch_grid ::
  "'f pandas \<Rightarrow> string list \<Rightarrow> (string, string) dict \<Rightarrow> string \<Rightarrow> string list \<Rightarrow> 'f \<Rightarrow> string \<Rightarrow> figure py" where
  "arch_grid pd locks palette title_prefix workloads df arch =
     (let sub = select pd (\<lambda>r. col_arch r = arch) df
      in bind_py (grid_2x2 (grid_panel pd locks palette sub) workloads) (\<lambda>axes.
         bind_py (case rows_of pd sub of [] \<Rightarrow> Inl IndexError | r # _ \<Rightarrow> Inr (col_hostname r)) (\<lambda>host.
         bind_py (max_threads pd sub) (\<lambda>max_t.
           Inr \<lparr>fig_args = [(''figsize'', ''(13, 9)''), (''sharex'', ''True'')],
                fig_axes = finish_grid (Call ''legend'' [] [(''fontsize'', ''8''), (''ncol'', ''2''), (''loc'', ''best'')]) axes,
                fig_calls = [Call ''suptitle'' [title_prefix @ '' '' @ em_dash @ '' '' @ arch @ '' ('' @ host @ '', max '' @
                    show_int max_t @ ''T)''] [(''fontsize'', ''12'')], Call ''tight_layout'' [] []],
                fig_file = []\<rparr>))))"

definition per_arch_grid ::
  "'f pandas \<Rightarrow> 'f option \<Rightarrow> string list \<Rightarrow> (string, string) dict \<Rightarrow> string \<Rightarrow> figure list py" where
  "per_arch_grid pd df locks palette title_prefix = with_columns df (\<lambda>f.
     map_py (arch_grid pd locks palette title_prefix (py_sorted (unique_of pd col_workload f)) f) (shown_archs pd f))"

definition overlay_line :: "(string, string) dict \<Rightarrow> string \<Rightarrow> string \<Rightarrow> attrs py" where
  "overlay_line palette arch lk =
     bind_py (get_item palette lk) (\<lambda>color.
     bind_py (get_item ARCH_STYLE arch) (\<lambda>style.
     bind_py (get_item ARCH_MARKER arch) (\<lambda>marker.
       Inr [(''color'', color), (''linestyle'', style), (''marker'', marker), (''linewidth'', ''1.8''),
            (''alpha'', ''0.85''), (''label'', lk @ '' '' @ mid_dot @ '' '' @ arch)])))"

definition overlay_panel ::
  "'f pandas \<Rightarrow> string list \<Rightarrow> (string, string) dict \<Rightarrow> string list \<Rightarrow> int \<Rightarrow> 'f \<Rightarrow> string \<Rightarrow> draw list py" where
  "overlay_panel pd locks palette archs max_thr df wkl =
     (let wsub = select pd (\<lambda>r. col_workload r = wkl \<and> col_threads r \<le> max_thr) df
      in bind_py (map_py (\<lambda>arch. bind_py (map_py (\<lambda>lk.
             series pd (select pd (\<lambda>r. col_arch r = arch \<and> col_lk r = lk) wsub) (overlay_line palette arch lk)) locks)
           (\<lambda>ds. Inr (concat ds))) archs) (\<lambda>dss.
         Inr (concat dss @ panel_calls wkl)))"

definition cross_arch_overlay ::
  "'f pandas \<Rightarrow> 'f option \<Rightarrow> string list \<Rightarrow> (string, string) dict \<Rightarrow> string \<Rightarrow> int \<Rightarrow> figure py" where
  \<comment> \<open>the notebook calls it with the default of eight threads\<close>
  "cross_arch_overlay pd df locks palette title_prefix max_thr = with_columns df (\<lambda>f.
     bind_py (grid_2x2 (overlay_panel pd locks palette (shown_archs pd f) max_thr f) (py_sorted (unique_of pd col_workload f))) (\<lambda>axes.
       Inr \<lparr>fig_args = [(''figsize'', ''(14, 9)''), (''sharex'', ''True'')],
            fig_axes = finish_grid (Call ''legend'' [] [(''fontsize'', ''7''), (''ncol'', ''3''), (''loc'', ''best'')]) axes,
            fig_calls = [Call ''suptitle'' [title_prefix @ '' '' @ em_dash @ '' cross-arch overlay (1..'' @ show_int max_thr @
                ''T common)''] [(''fontsize'', ''12'')], Call ''tight_layout'' [] []],
            fig_file = []\<rparr>))"

definition fair_alpha :: "nat \<Rightarrow> flt" where
  \<comment> \<open>\<open>1.0 - 0.25 * ai\<close>\<close>
  "fair_alpha ai = fsub (Fin 1) (fmul (fl (1 / 4)) (Fin (of_nat ai)))"

definition fair_bars ::
  "'f pandas \<Rightarrow> string list \<Rightarrow> (string, string) dict \<Rightarrow> nat \<Rightarrow> flt \<Rightarrow> 'f \<Rightarrow> nat \<times> string \<Rightarrow> draw list py" where
  "fair_bars pd locks palette n_arch width sub = (\<lambda>(ai, arch).
     let asub = select pd (\<lambda>r. col_arch r = arch) sub
     in if rows_of pd asub = [] then Inr []
        else bind_py (max_threads pd asub) (\<lambda>max_t.
          let ys = map (\<lambda>lk. mean_fairness pd (select pd (\<lambda>r. col_lk r = lk \<and> col_threads r = max_t) asub)) locks
          in bind_py (map_py (\<lambda>(i, lk). bind_py (get_item palette lk) (\<lambda>color.
                 Inr [BarColor i color, BarAlpha i (fair_alpha ai)])) (zip [0..<length locks] locks)) (\<lambda>styles.
             Inr (Bar (bar_positions (length locks) (bar_offset n_arch width ai)) ys width
                    [(''edgecolor'', ''black''), (''linewidth'', ''0.4''), (''label'', arch @ '' ('' @ show_int max_t @ ''T)'')]
                  # concat styles))))"

definition fair_panel ::
  "'f pandas \<Rightarrow> string list \<Rightarrow> (string, string) dict \<Rightarrow> string list \<Rightarrow> flt \<Rightarrow> 'f \<Rightarrow> string \<Rightarrow> draw list py" where
  "fair_panel pd locks palette archs width df wkl =
     (let sub = select pd (\<lambda>r. col_workload r = wkl) df
      in bind_py (map_py (fair_bars pd locks palette (length archs) width sub) (zip [0..<length archs] archs)) (\<lambda>bars.
         Inr (concat bars @
           [Call ''set_title'' [wkl] [(''fontsize'', ''10'')], Call ''set_xticks'' (map show_nat [0..<length locks]) [],
            Call ''set_xticklabels'' locks [(''rotation'', ''15'')],
            Call ''axhline'' [''1.0''] [(''color'', ''green''), (''linestyle'', ''--''), (''linewidth'', ''0.5''), (''alpha'', ''0.5'')],
            Call ''set_ylim'' [''0'', ''1.05''] [], Call ''grid'' [''True''] [(''axis'', ''y''), (''alpha'', ''0.3'')],
            Call ''set_ylabel'' [''fairness_ratio''] []])))"

definition fairness_at_maxT ::
  "'f pandas \<Rightarrow> 'f option \<Rightarrow> string list \<Rightarrow> (string, string) dict \<Rightarrow> string \<Rightarrow> figure py" where
  "fairness_at_maxT pd df locks palette title_prefix = with_columns df (\<lambda>f.
     let archs = shown_archs pd f
     in bind_py (fdiv (fl (8 / 10)) (Fin (of_nat (max 1 (length archs))))) (\<lambda>width.
        bind_py (grid_2x2 (fair_panel pd locks palette archs width f) (py_sorted (unique_of pd col_workload f))) (\<lambda>axes.
          Inr \<lparr>fig_args = [(''figsize'', ''(14, 8.5)''), (''sharey'', ''True'')],
               fig_axes = map (\<lambda>(i, ds). ds @ (if i = 0 then [Call ''legend'' [] [(''fontsize'', ''8'')]] else []))
                 (zip [0..<length axes] axes),
               fig_calls = [Call ''suptitle'' [title_prefix @ '' '' @ em_dash @ '' fairness at max-T per arch''] [(''fontsize'', ''12'')],
                 Call ''tight_layout'' [] []],
               fig_file = []\<rparr>)))"

section \<open>Tables\<close>

record matched_row =
  m_bench :: string
  m_threads :: int
  m_arch :: string
  m_avg_fair :: flt
  m_worst_fair :: flt
  m_std :: flt
  m_n :: nat

definition matched_cell :: "'f pandas \<Rightarrow> 'f \<Rightarrow> string \<Rightarrow> int \<Rightarrow> string \<Rightarrow> matched_row list" where
  "matched_cell pd f name t arch =
     (let s = select pd (\<lambda>r. col_arch r = arch \<and> col_threads r = t) f
      in if rows_of pd s = [] then []
         else [\<lparr>m_bench = name, m_threads = t, m_arch = arch,
                m_avg_fair = np_round 3 (mean_of pd col_fairness_ratio s),
                m_worst_fair = np_round 3 (min_of pd col_fairness_ratio s),
                m_std = np_round 3 (std_of pd col_fairness_ratio s),
                m_n = length (rows_of pd s)\<rparr>])"

definition matched_T_fairness :: "'f pandas \<Rightarrow> 'f option \<Rightarrow> string \<Rightarrow> matched_row list py" where
  \<comment> \<open>with the default of one, two, four and eight threads\<close>
  "matched_T_fairness pd df name = with_columns df (\<lambda>f.
     Inr (concat (map (\<lambda>t. concat (map (matched_cell pd f name t) [''graviton'', ''xeon''])) [1, 2, 4, 8])))"

definition matched_line :: "'f pandas \<Rightarrow> 'f \<Rightarrow> string \<Rightarrow> draw list" where
  "matched_line pd f arch =
     (let rows_at = (\<lambda>t. select pd (\<lambda>r. col_arch r = arch \<and> col_threads r = t) f);
          ts = filter (\<lambda>t. rows_of pd (rows_at t) \<noteq> []) (thread_counts pd f)
      in if ts = [] then []
         else
           [Plot ts (map (\<lambda>t. median_of pd col_fairness_ratio (rows_at t)) ts)
              [(''marker'', ''o''), (''linewidth'', ''2''), (''label'', arch @ '' (median)''),
               (''linestyle'', if arch = ''graviton'' then ''-'' else ''--'')],
            FillBetween ts (map (\<lambda>t. quantile_of pd (1 / 4) col_fairness_ratio (rows_at t)) ts)
              (map (\<lambda>t. quantile_of pd (3 / 4) col_fairness_ratio (rows_at t)) ts) [(''alpha'', ''0.18'')],
            Plot ts (map (\<lambda>t. min_of pd col_fairness_ratio (rows_at t)) ts)
              [(''marker'', ''x''), (''linewidth'', ''0.8''), (''alpha'', ''0.6''), (''linestyle'', '':''),
               (''label'', arch @ '' (worst case)'')]])"

definition matched_panel :: "'f pandas \<Rightarrow> 'f option \<times> string \<Rightarrow> draw list py" where
  "matched_panel pd = (\<lambda>(df, label). with_columns df (\<lambda>f.
     Inr (concat (map (matched_line pd f) [''graviton'', ''xeon'']) @
       [Call ''set_xscale'' [''log''] [(''base'', ''2'')], Call ''set_title'' [label] [(''fontsize'', ''11'')],
        Call ''set_xlabel'' [''Threads''] [], Call ''set_ylabel'' [''fairness_ratio''] [], Call ''set_ylim'' [''0.5'', ''1.02''] [],
        Call ''axhline'' [''1.0''] [(''color'', ''green''), (''linestyle'', ''--''), (''linewidth'', ''0.5''), (''alpha'', ''0.5'')],
        Call ''grid'' [''True''] [(''alpha'', ''0.3'')], Call ''legend'' [] [(''fontsize'', ''8''), (''loc'', ''lower left'')]])))"

definition matched_figure :: "'f pandas \<Rightarrow> 'f option \<Rightarrow> 'f option \<Rightarrow> 'f option \<Rightarrow> figure py" where
  "matched_figure pd wh cds avl =
     bind_py (map_py (matched_panel pd) [(wh, ''Wormhole''), (cds, ''StripedMap''), (avl, ''BronsonAVL'')]) (\<lambda>axes.
       Inr \<lparr>fig_args = [(''figsize'', ''(15, 4.5)''), (''sharey'', ''True'')], fig_axes = axes,
            fig_calls = [Call ''suptitle'' [''Fairness vs threads '' @ em_dash @ '' matched-T cross-arch comparison''] [(''fontsize'', ''12'')],
              Call ''tight_layout'' [] []],
            fig_file = []\<rparr>)"

record scale_row =
  s_arch :: string
  s_workload :: string
  s_lock :: string
  s_max_T :: int
  s_ops_1T_M :: flt
  s_ops_maxT_M :: flt
  s_speedup :: flt
  s_efficiency :: flt
  s_fairness :: flt

definition scale_cells :: "string \<Rightarrow> string \<Rightarrow> string \<Rightarrow> int \<Rightarrow> sample \<Rightarrow> sample \<Rightarrow> scale_row py" where
  \<comment> \<open>from the first measurement with one thread and the first with the largest number\<close>
  "scale_cells arch wkl lk max_t g1 gm =
     (let base = col_ops_s g1; peak = col_ops_s gm
      in bind_py (fdiv base (Fin 1000000)) (\<lambda>base_M.
         bind_py (fdiv peak (Fin 1000000)) (\<lambda>peak_M.
         bind_py (fdiv peak base) (\<lambda>speedup.
         bind_py (fdiv peak (fmul base (fl (of_int max_t)))) (\<lambda>efficiency.
           Inr \<lparr>s_arch = arch, s_workload = wkl, s_lock = lk, s_max_T = max_t,
                s_ops_1T_M = round_py 2 base_M, s_ops_maxT_M = round_py 2 peak_M,
                s_speedup = round_py 2 speedup, s_efficiency = round_py 3 efficiency,
                s_fairness = round_py 3 (col_fairness_ratio gm)\<rparr>)))))"

definition scale_lock :: "'f pandas \<Rightarrow> string \<Rightarrow> string \<Rightarrow> int \<Rightarrow> 'f \<Rightarrow> string \<Rightarrow> scale_row list py" where
  "scale_lock pd arch wkl max_t sub lk =
     (case rows_of pd (select pd (\<lambda>r. col_lk r = lk \<and> col_threads r = 1) sub) of
        [] \<Rightarrow> Inr []
      | g1 # _ \<Rightarrow>
          (case rows_of pd (select pd (\<lambda>r. col_lk r = lk \<and> col_threads r = max_t) sub) of
             [] \<Rightarrow> Inr []
           | gm # _ \<Rightarrow> bind_py (scale_cells arch wkl lk max_t g1 gm) (\<lambda>row. Inr [row])))"

definition scale_workload :: "'f pandas \<Rightarrow> string list \<Rightarrow> 'f \<Rightarrow> string \<Rightarrow> string \<Rightarrow> scale_row list py" where
  "scale_workload pd locks f arch wkl =
     (let sub = select pd (\<lambda>r. col_arch r = arch \<and> col_workload r = wkl) f
      in if rows_of pd sub = [] then Inr []
         else bind_py (max_threads pd sub) (\<lambda>max_t.
           bind_py (map_py (scale_lock pd arch wkl max_t sub) locks) (\<lambda>rows. Inr (concat rows))))"

definition scaling_table :: "'f pandas \<Rightarrow> 'f option \<Rightarrow> string list \<Rightarrow> scale_row list py" where
  "scaling_table pd df locks = with_columns df (\<lambda>f.
     bind_py (map_py (\<lambda>arch. bind_py (map_py (scale_workload pd locks f arch) (py_sorted (unique_of pd col_workload f)))
         (\<lambda>rows. Inr (concat rows))) (shown_archs pd f)) (\<lambda>rows. Inr (concat rows)))"

fun idxmax_row :: "('a \<Rightarrow> flt) \<Rightarrow> 'a list \<Rightarrow> 'a option" where
  \<comment> \<open>the first row with the largest value, NaN left out\<close>
  "idxmax_row k [] = None"
| "idxmax_row k (r # rs) =
     (case idxmax_row k rs of
        None \<Rightarrow> if k r = NaN then None else Some r
      | Some b \<Rightarrow> if k r = NaN \<or> fless (k r) (k b) then Some b else Some r)"

definition scale_key :: "scale_row \<Rightarrow> string \<times> string" where
  "scale_key r = (s_arch r, s_workload r)"

type_synonym winner_row = "string \<times> string \<times> string \<times> string \<times> flt \<times> flt \<times> flt"

definition winner_cols :: "string \<Rightarrow> scale_row \<Rightarrow> winner_row" where
  "winner_cols name r = (name, s_arch r, s_workload r, s_lock r, s_ops_maxT_M r, s_efficiency r, s_fairness r)"

definition winners :: "scale_row list \<Rightarrow> string \<Rightarrow> winner_row list py" where
  "winners scale_df name =
     (if scale_df = [] then Inr []
      else map_py (\<lambda>key.
          case idxmax_row s_ops_maxT_M (filter (\<lambda>r. scale_key r = key) scale_df) of
            None \<Rightarrow> Inl (KeyError ''nan'')
          | Some r \<Rightarrow> Inr (winner_cols name r))
        (py_sorted (first_occurrences (map scale_key scale_df))))"

section \<open>The cells in order\<close>

record notebook_out =
  out_lines :: "string list"
  out_inventory :: "inventory_row list"
  out_figures :: "figure list"
  out_matched :: "matched_row list"
  out_winners :: "winner_row list"

definition index_figures :: "'f pandas \<Rightarrow> 'f option \<Rightarrow> string list \<Rightarrow> (string, string) dict \<Rightarrow> string \<Rightarrow> figure list py" where
  "index_figures pd df locks palette title =
     bind_py (per_arch_grid pd df locks palette title) (\<lambda>grids.
     bind_py (cross_arch_overlay pd df locks palette title 8) (\<lambda>overlay.
     bind_py (fairness_at_maxT pd df locks palette title) (\<lambda>fair.
       Inr (grids @ [overlay, fair]))))"

definition index_notebook :: "'f pandas \<Rightarrow> 'f world \<Rightarrow> notebook_out py" where
  "index_notebook pd fs =
     bind_py (load pd fs ''results/*/wh_compare/wh.csv'' ''wh-'') (\<lambda>wh.
     bind_py (load pd fs ''results/*/avl_compare/cds_striped.csv'' ''cds-'') (\<lambda>cds.
     bind_py (load pd fs ''results/*/avl_compare/cds_avl.csv'' ''avl-'') (\<lambda>avl.
     bind_py (index_figures pd wh WH_LOCKS WH_PALETTE ''Wormhole'') (\<lambda>wh_figs.
     bind_py (map_py (\<lambda>(df, name). matched_T_fairness pd df name) [(wh, ''wh''), (cds, ''cds''), (avl, ''avl'')]) (\<lambda>matched.
     bind_py (matched_figure pd wh cds avl) (\<lambda>matched_fig.
     bind_py (index_figures pd cds CDS_LOCKS CDS_PALETTE ''libcds StripedMap'') (\<lambda>cds_figs.
     bind_py (index_figures pd avl AVL_LOCKS AVL_PALETTE ''libcds BronsonAVL'') (\<lambda>avl_figs.
     bind_py (scaling_table pd wh WH_LOCKS) (\<lambda>wh_scale.
     bind_py (scaling_table pd cds CDS_LOCKS) (\<lambda>cds_scale.
     bind_py (scaling_table pd avl AVL_LOCKS) (\<lambda>avl_scale.
     bind_py (map_py (\<lambda>(s, name). winners s name) [(wh_scale, ''wh''), (cds_scale, ''cds''), (avl_scale, ''avl'')]) (\<lambda>best.
       Inr \<lparr>out_lines = map (\<lambda>(name, df). loaded_line pd name df) [(''Wormhole'', wh), (''StripedMap'', cds), (''BronsonAVL'', avl)],
            out_inventory = inventory pd wh ''wh'' @ inventory pd cds ''cds'' @ inventory pd avl ''avl'',
            out_figures = wh_figs @ [matched_fig] @ cds_figs @ avl_figs,
            out_matched = concat matched, out_winners = concat best\<rparr>))))))))))))"

section \<open>The best locks\<close>

lemma fless_NaN: "\<not> fless x NaN"
  by (cases x) simp_all

lemma idxmax_row_best:
  "idxmax_row k rs = Some b \<Longrightarrow> b \<in> set rs \<and> k b \<noteq> NaN \<and> (\<forall>r \<in> set rs. \<not> fless (k b) (k r))"
proof (induction rs arbitrary: b)
  case (Cons r rs)
  show ?case
  proof (cases "idxmax_row k rs")
    case None
    have "k x = NaN" if "x \<in> set rs" for x
      using None that by (induction rs) (auto split: option.splits if_splits)
    then show ?thesis using Cons.prems None float.irrefl [of "k r"] by (auto simp: fless_NaN split: if_splits)
  next
    case (Some c)
    have c: "c \<in> set rs" "k c \<noteq> NaN" "\<forall>x \<in> set rs. \<not> fless (k c) (k x)" using Cons.IH [OF Some] by auto
    show ?thesis
    proof (cases "k r = NaN \<or> fless (k r) (k c)")
      case True
      then have "b = c" "\<not> fless (k c) (k r)"
        using Cons.prems Some c(2) float.asym [of "k r" "k c"] fless_NaN [of "k c"]
        by (auto split: if_splits dest: float.asym [of "k r" "k c"]) (cases "k r = NaN"; simp add: fless_NaN)
      then show ?thesis using c by auto
    next
      case False
      have "\<not> fless (k r) (k x)" if "x \<in> set rs" for x
        using that False c float.le_trans [of "k x" "k c" "k r"] by (cases "k x = NaN") (auto simp: fless_NaN)
      then show ?thesis using False Cons.prems Some float.irrefl [of "k r"] by (auto split: if_splits)
    qed
  qed
qed simp

lemma idxmax_row_total: "\<exists>r \<in> set rs. k r \<noteq> NaN \<Longrightarrow> \<exists>b. idxmax_row k rs = Some b"
  by (induction rs) (fastforce split: option.splits)+

lemma round_py_NaN: "round_py n x = NaN \<longleftrightarrow> x = NaN"
  by (cases x) (auto simp: Let_def)

definition best_of :: "scale_row list \<Rightarrow> string \<times> string \<Rightarrow> scale_row \<Rightarrow> bool" where
  \<comment> \<open>no row of the machine and workload has more throughput in the table\<close>
  "best_of scale key r \<longleftrightarrow> r \<in> set scale \<and> scale_key r = key \<and>
     (\<forall>r' \<in> set scale. scale_key r' = key \<longrightarrow> \<not> fless (s_ops_maxT_M r) (s_ops_maxT_M r'))"

text \<open>
  The table of winners has exactly one row for every machine and workload of the scaling table,
  in ascending order, and its lock is one whose throughput no other lock of that machine and workload
  exceeds in the table.
\<close>

theorem winners_best:
  assumes "\<forall>r \<in> set scale. s_ops_maxT_M r \<noteq> NaN"
  shows "\<exists>best. winners scale name = Inr (map (winner_cols name) best) \<and>
    sorted_wrt (<) (map scale_key best) \<and> set (map scale_key best) = set (map scale_key scale) \<and>
    (\<forall>r \<in> set best. best_of scale (scale_key r) r)"
proof -
  let ?keys = "py_sorted (first_occurrences (map scale_key scale))"
  let ?rows = "\<lambda>key. filter (\<lambda>r. scale_key r = key) scale"
  have "\<exists>b. idxmax_row s_ops_maxT_M (?rows key) = Some b \<and> best_of scale key b" if key: "key \<in> set ?keys" for key
  proof -
    have "\<exists>r \<in> set (?rows key). s_ops_maxT_M r \<noteq> NaN" using key assms by auto
    from idxmax_row_total [OF this] obtain b where b: "idxmax_row s_ops_maxT_M (?rows key) = Some b" by blast
    then show ?thesis using idxmax_row_best [OF b] by (auto simp: best_of_def)
  qed
  then obtain f where f: "\<And>key. key \<in> set ?keys \<Longrightarrow> idxmax_row s_ops_maxT_M (?rows key) = Some (f key)"
      "\<And>key. key \<in> set ?keys \<Longrightarrow> best_of scale key (f key)" by metis
  have key: "scale_key (f k) = k" if "k \<in> set ?keys" for k using f(2) [OF that] by (simp add: best_of_def)
  have "map_py (\<lambda>key. case idxmax_row s_ops_maxT_M (?rows key) of None \<Rightarrow> Inl (KeyError ''nan'')
      | Some r \<Rightarrow> Inr (winner_cols name r)) ?keys = map_py (\<lambda>key. Inr (winner_cols name (f key))) ?keys"
    by (rule map_py_cong) (simp_all add: f(1))
  then have "winners scale name = Inr (map (winner_cols name) (map f ?keys))"
    by (simp add: winners_def map_py_total comp_def py_sort_def)
  moreover have "map scale_key (map f ?keys) = ?keys" using key by (auto intro!: map_idI)
  moreover have "sorted_wrt (<) ?keys" by (simp add: strict_sorted_iff)
  moreover have "\<forall>r \<in> set (map f ?keys). best_of scale (scale_key r) r" using f(2) key by auto
  ultimately show ?thesis by (intro exI [of _ "map f ?keys"]) simp
qed

section \<open>What the scaling table holds\<close>

text \<open>The measurements of a machine, workload and lock that the table compares.\<close>

definition scale_found ::
  "sample list \<Rightarrow> string \<times> string \<times> string \<Rightarrow> (string \<times> string \<times> string \<times> int \<times> sample \<times> sample) list" where
  "scale_found rs = (\<lambda>(arch, wkl, lk).
     let sub = filter (\<lambda>r. col_arch r = arch \<and> col_workload r = wkl) rs; max_t = Max (col_threads ` set sub)
     in case (filter (\<lambda>r. col_lk r = lk \<and> col_threads r = 1) sub, filter (\<lambda>r. col_lk r = lk \<and> col_threads r = max_t) sub) of
          (g1 # _, gm # _) \<Rightarrow> [(arch, wkl, lk, max_t, g1, gm)]
        | _ \<Rightarrow> [])"

definition scale_spec :: "string \<times> string \<times> string \<times> int \<times> sample \<times> sample \<Rightarrow> scale_row" where
  "scale_spec = (\<lambda>(arch, wkl, lk, max_t, g1, gm).
     \<lparr>s_arch = arch, s_workload = wkl, s_lock = lk, s_max_T = max_t,
      s_ops_1T_M = round_py 2 (millions g1), s_ops_maxT_M = round_py 2 (millions gm),
      s_speedup = round_py 2 (projr (fdiv (col_ops_s gm) (col_ops_s g1))),
      s_efficiency = round_py 3 (projr (fdiv (col_ops_s gm) (fmul (col_ops_s g1) (fl (of_int max_t))))),
      s_fairness = round_py 3 (col_fairness_ratio gm)\<rparr>)"

lemma fl_int_ge_1: "1 \<le> (t :: int) \<Longrightarrow> fl (of_int t) = PInf \<or> (\<exists>v. fl (of_int t) = Fin v \<and> 1 \<le> v)"
proof -
  assume "1 \<le> t"
  then have "1 \<le> rnd (of_int t)" using rnd_mono [of 1 "of_int t"] representable_of_int [of 1] by simp
  then show ?thesis using max_bound_pos by (auto simp: fl_def Let_def)
qed

lemma fl_nonzero: "representable r \<Longrightarrow> r \<noteq> 0 \<Longrightarrow> \<bar>r\<bar> \<le> \<bar>s\<bar> \<Longrightarrow> 0 < r * s \<Longrightarrow> \<not> is_zero (fl s)"
proof -
  assume r: "representable r" "r \<noteq> 0" "\<bar>r\<bar> \<le> \<bar>s\<bar>" "0 < r * s"
  have "rnd s \<noteq> 0"
  proof (cases "0 < r")
    case True
    then have "r \<le> rnd s" using r rnd_mono [of r s] by (auto simp: zero_less_mult_iff)
    then show ?thesis using True by simp
  next
    case False
    then have "rnd s \<le> r" using r rnd_mono [of s r] by (auto simp: zero_less_mult_iff)
    then show ?thesis using False r(2) by simp
  qed
  then show ?thesis using max_bound_pos by (auto simp: is_zero_def fl_def Let_def)
qed

lemma product_nonzero:
  assumes "flt_wf x" and "\<not> is_zero x" and "1 \<le> t"
  shows "\<not> is_zero (fmul x (fl (of_int t)))"
proof (cases x)
  case (Fin r)
  have r: "r \<noteq> 0" "representable r" using assms(1,2) by (simp_all add: Fin is_zero_def representable_iff_rnd)
  consider "fl (of_int t) = PInf" | v where "fl (of_int t) = Fin v" "1 \<le> v" using fl_int_ge_1 [OF assms(3)] by blast
  then show ?thesis
  proof cases
    case 1
    then show ?thesis using r(1) by (simp add: Fin fmul_def is_zero_def signed_def)
  next
    case 2
    have "\<bar>r\<bar> \<le> \<bar>r * v\<bar>" using 2(2) by (simp add: abs_mult mult_le_cancel_left1)
    moreover have "0 < r * (r * v)" using r(1) 2(2) by (simp add: mult.assoc [symmetric] zero_less_mult_iff) linarith
    ultimately have "\<not> is_zero (fl (r * v))" using r by (intro fl_nonzero [of r])
    then show ?thesis using r(1) 2 by (simp add: Fin fmul_def is_zero_def)
  qed
qed (use assms(2) fl_int_ge_1 [OF assms(3)] in \<open>auto simp: fmul_def is_zero_def signed_def\<close>)

lemma fdiv_million: "fdiv x (Fin 1000000) = Inr (projr (fdiv x (Fin 1000000)))"
  by (simp add: fdiv_def is_zero_def Let_def)

lemma fdiv_total: "\<not> is_zero y \<Longrightarrow> fdiv x y = Inr (projr (fdiv x y))"
  by (simp add: fdiv_def Let_def)

lemma scale_cells_spec:
  assumes "flt_wf (col_ops_s g1)" and "1 \<le> t"
  shows "scale_cells a w l t g1 gm =
    (if is_zero (col_ops_s g1) then Inl ZeroDivisionError else Inr (scale_spec (a, w, l, t, g1, gm)))"
proof -
  have M: "\<exists>v. fdiv x (Fin 1000000) = Inr v" for x using fdiv_million [of x] by blast
  obtain m1 mm where m: "fdiv (col_ops_s g1) (Fin 1000000) = Inr m1" "fdiv (col_ops_s gm) (Fin 1000000) = Inr mm"
    using M by metis
  show ?thesis
  proof (cases "is_zero (col_ops_s g1)")
    case True
    then have "fdiv (col_ops_s gm) (col_ops_s g1) = Inl ZeroDivisionError" by (simp add: fdiv_def)
    then show ?thesis using True m by (simp add: scale_cells_def Let_def)
  next
    case False
    obtain q e where "fdiv (col_ops_s gm) (col_ops_s g1) = Inr q"
        "fdiv (col_ops_s gm) (fmul (col_ops_s g1) (fl (of_int t))) = Inr e"
      using fdiv_total [OF False] fdiv_total [OF product_nonzero [OF assms(1) False assms(2)]] by blast
    then show ?thesis using False m by (simp add: scale_cells_def scale_spec_def millions_def)
  qed
qed

text \<open>Nested loops that collect lists, as one loop over the pairs.\<close>

lemma collect_nested:
  "bind_py (map_py (\<lambda>x. bind_py (map_py (f x) ys) (\<lambda>r. Inr (concat r))) xs) (\<lambda>r. Inr (concat r)) =
   bind_py (map_py (\<lambda>(x, y). f x y) (List.product xs ys)) (\<lambda>r. Inr (concat r))"
proof (induction xs)
  case (Cons x xs)
  have app: "bind_py (map_py g (as @ bs)) h = bind_py (map_py g as) (\<lambda>r. bind_py (map_py g bs) (\<lambda>r'. h (r @ r')))"
    for g :: "'z \<Rightarrow> 'w py" and as bs and h :: "'w list \<Rightarrow> 'v py"
    by (induction as arbitrary: h) (simp_all add: bind_py_assoc)
  have m: "map_py (\<lambda>(x, y). f x y) (map (Pair x) ys) = map_py (f x) ys" by (induction ys) simp_all
  show ?case
  proof (cases "map_py (f x) ys")
    case (Inl e)
    then show ?thesis by (simp add: app m)
  next
    case (Inr r)
    have "bind_py (map_py (\<lambda>x. bind_py (map_py (f x) ys) (\<lambda>r. Inr (concat r))) xs) (\<lambda>r'. Inr (concat r @ concat r')) =
        bind_py (bind_py (map_py (\<lambda>x. bind_py (map_py (f x) ys) (\<lambda>r. Inr (concat r))) xs) (\<lambda>r'. Inr (concat r'))) (\<lambda>s. Inr (concat r @ s))"
      by (simp add: bind_py_assoc)
    then show ?thesis using Inr unfolding Cons.IH by (simp add: app m bind_py_assoc)
  qed
qed simp

lemma collect_pure:
  assumes "\<And>x. x \<in> set xs \<Longrightarrow> f x = (if \<exists>y \<in> set (h x). Z y then Inl e else Inr (map g (h x)))"
  shows "bind_py (map_py f xs) (\<lambda>r. Inr (concat r)) =
    (if \<exists>y \<in> set (concat (map h xs)). Z y then Inl e else Inr (map g (concat (map h xs))))"
  using assms
proof (induction xs)
  case (Cons x xs)
  have IH: "bind_py (map_py f xs) (\<lambda>r. Inr (concat r)) =
      (if \<exists>y \<in> set (concat (map h xs)). Z y then Inl e else Inr (map g (concat (map h xs))))"
    using Cons by simp
  show ?case
  proof (cases "\<exists>y \<in> set (h x). Z y")
    case True
    then show ?thesis using Cons.prems [of x] by auto
  next
    case False
    then have "bind_py (map_py f (x # xs)) (\<lambda>r. Inr (concat r)) =
        bind_py (bind_py (map_py f xs) (\<lambda>r. Inr (concat r))) (\<lambda>s. Inr (map g (h x) @ s))"
      using Cons.prems [of x] by (simp add: bind_py_assoc)
    then show ?thesis unfolding IH using False by auto
  qed
qed simp

definition scale_keys :: "'f pandas \<Rightarrow> 'f \<Rightarrow> string list \<Rightarrow> (string \<times> string \<times> string) list" where
  "scale_keys pd f locks =
     List.product (shown_archs pd f) (List.product (py_sorted (unique_of pd col_workload f)) locks)"

definition zero_base :: "string \<times> string \<times> string \<times> int \<times> sample \<times> sample \<Rightarrow> bool" where
  "zero_base = (\<lambda>(arch, wkl, lk, max_t, g1, gm). is_zero (col_ops_s g1))"

context dataframe
begin

lemma scale_workload_found:
  assumes "\<forall>r \<in> set (rows_of pd f). flt_wf (col_ops_s r)"
  shows "scale_workload pd locks f arch wkl =
    bind_py (map_py (\<lambda>lk. if \<exists>y \<in> set (scale_found (rows_of pd f) (arch, wkl, lk)). zero_base y then Inl ZeroDivisionError
      else Inr (map scale_spec (scale_found (rows_of pd f) (arch, wkl, lk)))) locks) (\<lambda>r. Inr (concat r))"
proof -
  let ?sub = "select pd (\<lambda>r. col_arch r = arch \<and> col_workload r = wkl) f"
  let ?rs = "filter (\<lambda>r. col_arch r = arch \<and> col_workload r = wkl) (rows_of pd f)"
  let ?T = "Max (col_threads ` set ?rs)"
  have sub: "rows_of pd ?sub = ?rs" by (simp add: frame_simps)
  have lock: "scale_lock pd arch wkl ?T ?sub lk =
      (if \<exists>y \<in> set (scale_found (rows_of pd f) (arch, wkl, lk)). zero_base y then Inl ZeroDivisionError
       else Inr (map scale_spec (scale_found (rows_of pd f) (arch, wkl, lk))))" for lk
  proof (cases "filter (\<lambda>r. col_lk r = lk \<and> col_threads r = 1) ?rs")
    case Nil
    then show ?thesis by (simp add: scale_lock_def scale_found_def rows_select sub Let_def)
  next
    case (Cons g1 gs)
    then have g1: "g1 \<in> set ?rs" "col_threads g1 = 1" by (auto dest!: arg_cong [of _ _ set])
    then have "1 \<le> ?T" by (intro Max_ge_iff [THEN iffD2]) auto
    moreover have "flt_wf (col_ops_s g1)" using g1 assms by auto
    ultimately show ?thesis
      using Cons by (auto simp: scale_lock_def scale_found_def rows_select sub Let_def scale_cells_spec zero_base_def split: list.splits)
  qed
  show ?thesis
  proof (cases "?rs = []")
    case True
    have none: "scale_found (rows_of pd f) (arch, wkl, lk) = []" for lk unfolding scale_found_def case_prod_conv True by simp
    show ?thesis unfolding none by (simp add: scale_workload_def sub True map_py_total)
  next
    case False
    then have "max_threads pd ?sub = Inr ?T" using max_threads_value [of ?sub] by (simp add: sub)
    then have "scale_workload pd locks f arch wkl =
        bind_py (map_py (scale_lock pd arch wkl ?T ?sub) locks) (\<lambda>r. Inr (concat r))"
      using False by (simp add: scale_workload_def sub)
    also have "scale_lock pd arch wkl ?T ?sub =
        (\<lambda>lk. if \<exists>y \<in> set (scale_found (rows_of pd f) (arch, wkl, lk)). zero_base y then Inl ZeroDivisionError
          else Inr (map scale_spec (scale_found (rows_of pd f) (arch, wkl, lk))))"
      by (rule ext) (rule lock)
    finally show ?thesis .
  qed
qed

lemma scaling_table_found:
  assumes "\<forall>r \<in> set (rows_of pd f). flt_wf (col_ops_s r)"
  shows "scaling_table pd (Some f) locks =
    (let found = concat (map (scale_found (rows_of pd f)) (scale_keys pd f locks))
     in if \<exists>y \<in> set found. zero_base y then Inl ZeroDivisionError else Inr (map scale_spec found))"
proof -
  let ?r = "\<lambda>key. if \<exists>y \<in> set (scale_found (rows_of pd f) key). zero_base y then Inl ZeroDivisionError
      else Inr (map scale_spec (scale_found (rows_of pd f) key))"
  let ?ws = "py_sorted (unique_of pd col_workload f)"
  have inner: "bind_py (map_py (scale_workload pd locks f arch) ?ws) (\<lambda>r. Inr (concat r)) =
      bind_py (map_py (\<lambda>p. ?r (arch, p)) (List.product ?ws locks)) (\<lambda>r. Inr (concat r))" for arch
  proof -
    have "scale_workload pd locks f arch = (\<lambda>wkl. bind_py (map_py (\<lambda>lk. ?r (arch, wkl, lk)) locks) (\<lambda>r. Inr (concat r)))"
      using scale_workload_found [OF assms] by (intro ext) simp
    moreover have "(\<lambda>(wkl, lk). ?r (arch, wkl, lk)) = (\<lambda>p. ?r (arch, p))" by auto
    ultimately show ?thesis using collect_nested [of "\<lambda>wkl lk. ?r (arch, wkl, lk)" locks ?ws] by simp
  qed
  have "(\<lambda>(arch, p). ?r (arch, p)) = ?r" by auto
  then have "scaling_table pd (Some f) locks = bind_py (map_py ?r (scale_keys pd f locks)) (\<lambda>r. Inr (concat r))"
    using collect_nested [of "\<lambda>arch p. ?r (arch, p)" "List.product ?ws locks" "shown_archs pd f"]
    by (simp add: scaling_table_def with_columns_def inner scale_keys_def)
  then show ?thesis by (simp add: collect_pure [OF refl] Let_def)
qed

end

text \<open>
  C17. The scaling table has one row for every machine, workload and lock that was measured with one
  thread and with the largest number of threads of that machine and workload, in this order, with the
  rounded throughputs, their quotient and the efficiency; it is a \<open>ZeroDivisionError\<close> exactly when
  one of the measurements with one thread is zero.
\<close>

theorem scaling_table_rows:
  assumes "dataframe pd" and "\<forall>r \<in> set (rows_of pd f). flt_wf (col_ops_s r)"
  shows "scaling_table pd (Some f) locks =
    (let found = concat (map (scale_found (rows_of pd f)) (scale_keys pd f locks))
     in if \<exists>y \<in> set found. zero_base y then Inl ZeroDivisionError else Inr (map scale_spec found))"
  using dataframe.scaling_table_found [OF assms] .

definition two_points :: "sample list" where
  "two_points =
     [zipfian_reads\<lparr>col_arch := ''xeon'', col_threads := 1, col_workload := ''w''\<rparr>,
      zipfian_reads\<lparr>col_arch := ''xeon'', col_threads := 8, col_workload := ''w''\<rparr>]"

lemma two_points_wf: "\<forall>r \<in> set (rows_of list_pandas two_points). flt_wf (col_ops_s r)"
proof -
  have "representable 7000000" using representable_of_int [of 7000000] by simp
  moreover have "(7000000 :: rat) < max_bound" by (simp add: max_bound_def)
  ultimately show ?thesis by (simp add: two_points_def zipfian_reads_def list_pandas_def)
qed

theorem scaling_table_rows_witness:
  "\<exists>row. scaling_table list_pandas (Some two_points) [''tas''] = Inr [row] \<and> s_lock row = ''tas'' \<and> s_max_T row = 8"
proof -
  have "shown_archs list_pandas two_points = [''xeon'']" "py_sorted (unique_of list_pandas col_workload two_points) = [''w'']"
    by (simp_all add: shown_archs_def ARCH_ORDER_def list_pandas_def two_points_def zipfian_reads_def py_sort_def)
  moreover have "scale_found two_points (''xeon'', ''w'', ''tas'') = [(''xeon'', ''w'', ''tas'', 8, two_points ! 0, two_points ! 1)]"
    by (simp add: scale_found_def two_points_def zipfian_reads_def Let_def)
  moreover have "\<not> is_zero (col_ops_s (two_points ! 0))" by (simp add: two_points_def zipfian_reads_def is_zero_def)
  moreover have "rows_of list_pandas two_points = two_points" by (simp add: list_pandas_def)
  ultimately show ?thesis
    using scaling_table_rows [OF rows.dataframe_axioms two_points_wf, of "[''tas'']"]
    by (simp add: scale_keys_def zero_base_def scale_spec_def)
qed

theorem winners_best_witness:
  "\<exists>best. winners [scale_spec (''xeon'', ''w'', ''tas'', 8, zipfian_reads, zipfian_reads)] ''wh'' = Inr (map (winner_cols ''wh'') best) \<and>
     set (map scale_key best) = {(''xeon'', ''w'')}"
proof -
  let ?r = "scale_spec (''xeon'', ''w'', ''tas'', 8, zipfian_reads, zipfian_reads)"
  have "s_ops_maxT_M ?r \<noteq> NaN"
    by (simp add: scale_spec_def round_py_NaN millions_def zipfian_reads_def fdiv_def is_zero_def Let_def)
  then have "\<forall>r \<in> set [?r]. s_ops_maxT_M r \<noteq> NaN" by simp
  from winners_best [OF this, of "''wh''"] show ?thesis by (auto simp: scale_key_def scale_spec_def)
qed

section \<open>What the overlay shows\<close>

definition common_rows :: "sample list \<Rightarrow> int \<Rightarrow> string \<Rightarrow> string \<Rightarrow> string \<Rightarrow> sample list" where
  "common_rows rs m wkl arch lk =
     filter (\<lambda>r. col_workload r = wkl \<and> col_threads r \<le> m \<and> col_arch r = arch \<and> col_lk r = lk) rs"

definition overlay_of :: "sample list \<Rightarrow> int \<Rightarrow> string list \<Rightarrow> string list \<Rightarrow> (string, string) dict \<Rightarrow> string \<Rightarrow> draw list \<Rightarrow> bool" where
  \<comment> \<open>one line for every machine and lock with rows of up to \<open>m\<close> threads in the workload\<close>
  "overlay_of rs m archs locks palette wkl ds \<longleftrightarrow>
     (\<exists>dss. filter is_plot ds = concat dss \<and>
        list_all2 (\<lambda>(arch, lk) d. \<exists>a. overlay_line palette arch lk = Inr a \<and> drawn (common_rows rs m wkl arch lk) a d)
          (List.product archs locks) dss)"

lemma shown_archs_known: "arch \<in> set (shown_archs pd f) \<Longrightarrow> arch = ''graviton'' \<or> arch = ''xeon''"
  by (auto simp: shown_archs_def ARCH_ORDER_def split: if_splits)

lemma overlay_line_total:
  "map_of palette lk \<noteq> None \<Longrightarrow> arch = ''graviton'' \<or> arch = ''xeon'' \<Longrightarrow> \<exists>a. overlay_line palette arch lk = Inr a"
  by (auto simp: overlay_line_def get_item_def ARCH_STYLE_def ARCH_MARKER_def)

lemma finish_grid_plots:
  assumes "\<not> is_plot legend" and "list_all2 P ws (take n axes)" and "\<And>w ds ds'. P w ds \<Longrightarrow> filter is_plot ds' = filter is_plot ds \<Longrightarrow> P w ds'"
  shows "list_all2 P ws (take n (finish_grid legend axes))"
proof -
  have nth: "filter is_plot (finish_grid legend axes ! i) = filter is_plot (axes ! i)" if "i < length axes" for i
    using that assms(1) by (auto simp: finish_grid_def Let_def)
  have len: "length (finish_grid legend axes) = length axes" by (simp add: finish_grid_def Let_def)
  show ?thesis
    using assms(2,3) nth unfolding list_all2_conv_all_nth by (fastforce simp: len)
qed

context dataframe
begin

lemma overlay_panel_shows:
  assumes "list_all (\<lambda>lk. map_of palette lk \<noteq> None) locks" and "\<forall>a \<in> set archs. a = ''graviton'' \<or> a = ''xeon''"
  shows "\<exists>ds. overlay_panel pd locks palette archs m f wkl = Inr ds \<and> overlay_of (rows_of pd f) m archs locks palette wkl ds"
proof -
  let ?w = "select pd (\<lambda>r. col_workload r = wkl \<and> col_threads r \<le> m) f"
  let ?f = "\<lambda>arch lk. series pd (select pd (\<lambda>r. col_arch r = arch \<and> col_lk r = lk) ?w) (overlay_line palette arch lk)"
  let ?P = "\<lambda>(arch, lk) d. \<exists>a. overlay_line palette arch lk = Inr a \<and> drawn (common_rows (rows_of pd f) m wkl arch lk) a d"
  have "\<exists>d. ?f arch lk = Inr d \<and> ?P (arch, lk) d" if lk: "lk \<in> set locks" "arch \<in> set archs" for arch lk
  proof -
    obtain a where a: "overlay_line palette arch lk = Inr a"
      using overlay_line_total [of palette lk arch] assms lk by (auto simp: list_all_iff)
    have "rows_of pd (select pd (\<lambda>r. col_arch r = arch \<and> col_lk r = lk) ?w) = common_rows (rows_of pd f) m wkl arch lk"
      by (simp add: frame_simps common_rows_def conj_ac)
    then show ?thesis
      using series_drawn [of "select pd (\<lambda>r. col_arch r = arch \<and> col_lk r = lk) ?w" "Inr a" a] by (simp add: a)
  qed
  then have "\<forall>arch \<in> set archs. \<forall>lk \<in> set locks. \<exists>d. ?f arch lk = Inr d \<and> ?P (arch, lk) d" by blast
  from map_py_nested [OF this] obtain r dss where
    r: "map_py (\<lambda>arch. bind_py (map_py (?f arch) locks) (\<lambda>ds. Inr (concat ds))) archs = Inr r"
      "concat r = concat dss" "list_all2 ?P (List.product archs locks) dss" by blast
  have "filter is_plot (concat dss) = concat dss"
    using r(3) by (rule list_all2_plots) (auto dest: drawn_is_plot)
  then have "overlay_of (rows_of pd f) m archs locks palette wkl (concat r @ panel_calls wkl)"
    using r(2,3) unfolding overlay_of_def by (intro exI [of _ dss]) (simp add: panel_calls_def)
  then show ?thesis using r(1) by (simp add: overlay_panel_def)
qed

lemma cross_arch_overlay_panels:
  assumes "list_all (\<lambda>lk. map_of palette lk \<noteq> None) locks"
  shows "\<exists>fig. cross_arch_overlay pd (Some f) locks palette title m = Inr fig \<and>
    list_all2 (overlay_of (rows_of pd f) m (shown_archs pd f) locks palette)
      (take 4 (py_sorted (unique_of pd col_workload f))) (take (min 4 (length (unique_of pd col_workload f))) (fig_axes fig))"
proof -
  let ?ws = "py_sorted (unique_of pd col_workload f)"
  have "\<forall>w \<in> set ?ws. \<exists>ds. overlay_panel pd locks palette (shown_archs pd f) m f w = Inr ds \<and>
      overlay_of (rows_of pd f) m (shown_archs pd f) locks palette w ds"
    using overlay_panel_shows [OF assms] shown_archs_known [of _ pd f] by blast
  from grid_2x2_panels [OF this] obtain ps where
    ps: "grid_2x2 (overlay_panel pd locks palette (shown_archs pd f) m f) ?ws = Inr ps"
      "list_all2 (overlay_of (rows_of pd f) m (shown_archs pd f) locks palette) (take 4 ?ws) (take (min 4 (length ?ws)) ps)"
    by blast
  have "list_all2 (overlay_of (rows_of pd f) m (shown_archs pd f) locks palette) (take 4 ?ws)
      (take (min 4 (length ?ws)) (finish_grid (Call l as ks) ps))" for l as ks
    using ps(2) by (rule finish_grid_plots [rotated]) (simp_all add: overlay_of_def)
  then show ?thesis using ps(1) by (simp add: cross_arch_overlay_def with_columns_def)
qed

end

text \<open>
  The overlay of an index has a panel for each of the first four workload labels in ascending
  order, and a panel has exactly one line for every machine and lock measured there with at most the
  given number of threads, through exactly those points in ascending order of threads.
\<close>

theorem cross_arch_overlay_shows:
  assumes "dataframe pd" and "list_all (\<lambda>lk. map_of palette lk \<noteq> None) locks"
  shows "\<exists>fig. cross_arch_overlay pd (Some f) locks palette title m = Inr fig \<and>
    list_all2 (overlay_of (rows_of pd f) m (shown_archs pd f) locks palette)
      (take 4 (py_sorted (unique_of pd col_workload f))) (take (min 4 (length (unique_of pd col_workload f))) (fig_axes fig))"
  using dataframe.cross_arch_overlay_panels [OF assms] .

theorem cross_arch_overlay_shows_witness:
  "\<exists>fig. cross_arch_overlay list_pandas (Some two_points) WH_LOCKS WH_PALETTE ''Wormhole'' 8 = Inr fig \<and> length (fig_axes fig) \<ge> 1"
proof -
  have "list_all (\<lambda>lk. map_of WH_PALETTE lk \<noteq> None) WH_LOCKS" by (simp add: WH_PALETTE_def WH_LOCKS_def)
  from cross_arch_overlay_shows [OF rows.dataframe_axioms this, of two_points "''Wormhole''" 8]
  obtain fig where fig: "cross_arch_overlay list_pandas (Some two_points) WH_LOCKS WH_PALETTE ''Wormhole'' 8 = Inr fig"
      "list_all2 (overlay_of (rows_of list_pandas two_points) 8 (shown_archs list_pandas two_points) WH_LOCKS WH_PALETTE)
        (take 4 (py_sorted (unique_of list_pandas col_workload two_points)))
        (take (min 4 (length (unique_of list_pandas col_workload two_points))) (fig_axes fig))" by blast
  have "length (unique_of list_pandas col_workload two_points) = 1"
    by (simp add: list_pandas_def two_points_def zipfian_reads_def)
  then show ?thesis using fig list_all2_lengthD [OF fig(2)] by auto
qed

section \<open>What is loaded\<close>

definition in_scope :: "sample \<Rightarrow> bool" where
  "in_scope r \<longleftrightarrow> col_arch r \<noteq> ''apple_m3'' \<and> \<not> (col_arch r = ''xeon'' \<and> 16 < col_threads r)"

definition tagged :: "string \<Rightarrow> sample \<Rightarrow> sample" where
  "tagged prefix r = r\<lparr>col_lk := remove_all prefix (col_lock r), col_workload := workload_tag r\<rparr>"

lemma workload_tag_eq: "workload_tag = PlotWormhole.workload"
  by (rule ext) (simp add: workload_tag_def PlotWormhole.workload_def)

definition matched_samples :: "'f pandas \<Rightarrow> 'f world \<Rightarrow> string \<Rightarrow> sample list" where
  "matched_samples pd fs glob = concat (map (\<lambda>c. rows_of pd (csv_frame fs c)) (py_sorted (glob_files fs glob)))"

text \<open>
  Loading without a matching file gives a frame without columns; files with some row give the rows of all files in path order, with lock and
  label, less those of the dropped machine and of the Xeon beyond sixteen threads.
\<close>

theorem load_in_scope:
  assumes "dataframe pd"
  shows "glob_files fs glob = [] \<Longrightarrow> load pd fs glob prefix = Inr None"
    and "matched_samples pd fs glob \<noteq> [] \<Longrightarrow> \<exists>f. load pd fs glob prefix = Inr (Some f) \<and>
      rows_of pd f = map (tagged prefix) (filter in_scope (matched_samples pd fs glob))"
proof -
  note fs' = dataframe.frame_simps [OF assms]
  have files: "py_sorted (glob_files fs glob) = [] \<longleftrightarrow> glob_files fs glob = []" by (metis set_empty set_py_sort)
  have tag: "workload_tag (r\<lparr>col_lk := l\<rparr>) = workload_tag r" for r l by (simp add: workload_tag_def Let_def)
  have raw: "rows_of pd (concat_frames pd (map (csv_frame fs) (py_sorted (glob_files fs glob)))) = matched_samples pd fs glob"
    by (simp add: fs' matched_samples_def comp_def)
  let ?g = "\<lambda>r. r\<lparr>col_lk := remove_all prefix (col_lock r)\<rparr>"
  let ?df = "concat_frames pd (map (csv_frame fs) (py_sorted (glob_files fs glob)))"
  have rows: "rows_of pd (assign pd ?g ?df) = map ?g (matched_samples pd fs glob)" by (simp only: fs'(2) raw)
  have sel: "rows_of pd (select pd Q (select pd P (assign pd h (assign pd ?g ?df)))) =
      filter Q (filter P (map h (map ?g (matched_samples pd fs glob))))" for P Q h
    by (simp only: fs'(1,2) raw)
  have "filter (\<lambda>r. \<not> (col_arch r = ''xeon'' \<and> 16 < col_threads r)) (filter (\<lambda>r. col_arch r \<notin> set DROP_ARCHS)
      (map (\<lambda>r. r\<lparr>col_workload := workload_tag r\<rparr>) (map ?g xs))) = map (tagged prefix) (filter in_scope xs)" for xs
    by (induction xs) (auto simp: DROP_ARCHS_def in_scope_def tagged_def tag)
  moreover have "glob_files fs glob \<noteq> []" if "matched_samples pd fs glob \<noteq> []"
    using that by (auto simp: matched_samples_def py_sort_def)
  ultimately show "matched_samples pd fs glob \<noteq> [] \<Longrightarrow> \<exists>f. load pd fs glob prefix = Inr (Some f) \<and>
      rows_of pd f = map (tagged prefix) (filter in_scope (matched_samples pd fs glob))"
    by (simp add: load_def files dataframe.apply_rows_Inr [OF assms] rows sel XEON_MAX_THREADS_def Let_def
        del: filter_filter list.map_comp)
  show "glob_files fs glob = [] \<Longrightarrow> load pd fs glob prefix = Inr None"
    by (simp add: load_def files Let_def)
qed

theorem load_in_scope_witness:
  "\<exists>f. load list_pandas \<lparr>root = [], glob_files = \<lambda>_. [[''wh.csv'']], path_exists = \<lambda>_. True, csv_frame = \<lambda>_. two_points\<rparr>
     ''wh.csv'' ''wh-'' = Inr (Some f) \<and> length (rows_of list_pandas f) = 2"
  using load_in_scope(2) [OF rows.dataframe_axioms,
    of "\<lparr>root = [], glob_files = \<lambda>_. [[''wh.csv'']], path_exists = \<lambda>_. True, csv_frame = \<lambda>_. two_points\<rparr>" "''wh.csv''" "''wh-''"]
  by (auto simp: matched_samples_def py_sort_def list_pandas_def two_points_def in_scope_def zipfian_reads_def)

end
