(* ===== verification/AnalysisModel.thy ===== *)
theory AnalysisModel
  imports IndexCrossArch
begin

text \<open>
  The code cells of \<open>scripts/lockbench_analysis.ipynb\<close>: the results of both machines are loaded and
  labelled by cache regime, skew and mix, trials are aggregated per cell, and tables and figures
  compare the locks across machines. Rows of the aggregated frame are rows whose throughput, time per
  operation and fairness are medians over the trials.
\<close>

section \<open>Constants\<close>

definition LOCK_STYLE :: "(string, string \<times> string \<times> string) dict" where
  \<comment> \<open>colour, marker and label\<close>
  "LOCK_STYLE =
     [(''wh-default'', (''#666666'', ''o'', ''wh-default (counter rwlock)'')),
      (''wh-tas'', (''#d62728'', ''s'', ''wh-tas (spinlock-as-rwlock)'')),
      (''wh-ttas'', (''#ff7f0e'', ''^'', ''wh-ttas'')),
      (''wh-cas'', (''#bcbd22'', ''D'', ''wh-cas'')),
      (''wh-occ'', (''#9467bd'', ''v'', ''wh-occ (seqlock write-side)'')),
      (''wh-occ-opt'', (''#8c564b'', ''*'', ''wh-occ-opt (lock-free reads)'')),
      (''wh-pcpu-rw'', (''#2ca02c'', ''P'', ''wh-pcpu-rw (per-CPU rwlock)'')),
      (''cds-std'', (''#666666'', ''o'', ''cds-std (pthread mutex)'')),
      (''cds-tas'', (''#d62728'', ''s'', ''cds-tas'')),
      (''cds-ttas'', (''#ff7f0e'', ''^'', ''cds-ttas'')),
      (''cds-cas'', (''#bcbd22'', ''D'', ''cds-cas'')),
      (''cds-ticket'', (''#17becf'', ''X'', ''cds-ticket'')),
      (''avl-std'', (''#666666'', ''o'', ''avl-std'')),
      (''avl-tas'', (''#d62728'', ''s'', ''avl-tas'')),
      (''avl-ttas'', (''#ff7f0e'', ''^'', ''avl-ttas'')),
      (''avl-cas'', (''#bcbd22'', ''D'', ''avl-cas'')),
      (''avl-ticket'', (''#17becf'', ''X'', ''avl-ticket''))]"

definition ARCH_LABEL :: "(string, string) dict" where
  "ARCH_LABEL = [(''x86_64'', ''Xeon E5-2650L v3''), (''aarch64'', ''Graviton2'')]"

definition ARCH_COLOR :: "(string, string) dict" where
  "ARCH_COLOR = [(''x86_64'', ''#1f77b4''), (''aarch64'', ''#ff7f0e'')]"

definition style_of :: "string \<Rightarrow> string \<times> string \<times> string" where
  \<comment> \<open>\<open>LOCK_STYLE.get(lk, dict(color='black', marker='.', label=lk))\<close>\<close>
  "style_of lk = (case map_of LOCK_STYLE lk of None \<Rightarrow> (''black'', ''.'', lk) | Some s \<Rightarrow> s)"

section \<open>Loading\<close>

definition to_float :: "cell \<Rightarrow> flt py" where
  "to_float x =
     (case x of
        CFlt f \<Rightarrow> Inr f
      | CInt i \<Rightarrow> Inr (fl (of_int i))
      | CStr s \<Rightarrow>
          if s = [] then Inr NaN
          else (case py_float (map (\<lambda>c. if c = CHR '','' then CHR ''.'' else c) s) of None \<Rightarrow> Inl ValueError | Some f \<Rightarrow> Inr f))"

definition convert_row :: "sample \<Rightarrow> sample py" where
  "convert_row r =
     bind_py (to_float (raw_zipf_theta r)) (\<lambda>z. bind_py (to_float (raw_ns_op r)) (\<lambda>ns. bind_py (to_float (raw_fairness_ratio r)) (\<lambda>fr.
       Inr (r\<lparr>col_zipf_theta := z, col_ns_op := ns, col_fairness_ratio := fr\<rparr>))))"

definition load_csv :: "'f pandas \<Rightarrow> 'f \<Rightarrow> 'f py" where
  \<comment> \<open>the columns are converted one after the other; every failure is a \<open>ValueError\<close>\<close>
  "load_csv pd df =
     bind_py (map_py convert_row (rows_of pd df)) (\<lambda>_. Inr (assign pd (\<lambda>r. projr (convert_row r)) df))"

definition SOURCES :: "(string \<times> string \<times> path) list" where
  "SOURCES =
     [(arch, bench, suffix). arch \<leftarrow> [''x86_64'', ''aarch64''],
        (bench, suffix) \<leftarrow> [(''wh'', [''wh_compare'', ''wh.csv'']), (''cds'', [''cdsbench'', ''cdsbench.csv'']),
          (''avl'', [''avl_compare'', ''cds_avl.csv''])]]"

definition load_source :: "'f pandas \<Rightarrow> 'f world \<Rightarrow> string \<times> string \<times> path \<Rightarrow> (string list \<times> 'f list) py" where
  \<comment> \<open>what is printed, and the frame if the file exists\<close>
  "load_source pd fs = (\<lambda>(arch, bench, suffix).
     let p = root fs @ [''results'', arch] @ suffix
     in if \<not> path_exists fs p then Inr ([''  skip (not found): '' @ path_text p], [])
        else bind_py (load_csv pd (csv_frame fs p)) (\<lambda>df.
          let df1 = assign pd (\<lambda>r. r\<lparr>col_bench := bench\<rparr>) df;
              df2 = (if has_arch pd df1 then df1 else assign pd (\<lambda>r. r\<lparr>col_arch := arch\<rparr>) df1)
          in Inr ([], [df2])))"

definition load_all :: "'f pandas \<Rightarrow> 'f world \<Rightarrow> (string list \<times> 'f) py" where
  \<comment> \<open>there is nothing to concatenate when no file exists\<close>
  "load_all pd fs =
     bind_py (map_py (load_source pd fs) SOURCES) (\<lambda>parts.
       let frames = concat (map snd parts)
       in if frames = [] then Inl ValueError else Inr (concat (map fst parts), concat_frames pd frames))"

definition cache_regime :: "sample \<Rightarrow> string" where
  "cache_regime r = (if col_key_range r \<le> 10000 then ''L1'' else if col_key_range r \<le> 500000 then ''L3'' else ''DRAM'')"

definition skew :: "sample \<Rightarrow> string" where
  "skew r =
     (if col_dist r = ''uniform'' then ''uniform''
      else if fless (col_zipf_theta r) (Fin 1) then ''warm''
      else if fless (col_zipf_theta r) (fl (14 / 10)) then ''hot'' else ''extreme'')"

definition mix_name :: "sample \<Rightarrow> string" where
  "mix_name r = (if 90 \<le> col_read_pct r then ''read_heavy'' else ''write_heavy'')"

definition label_text :: "string \<Rightarrow> string \<Rightarrow> string \<Rightarrow> string" where
  "label_text cr sk mx = cr @ ''_'' @ sk @ ''_'' @ mx"

definition derive_labels :: "'f pandas \<Rightarrow> 'f \<Rightarrow> 'f py" where
  "derive_labels pd df0 =
     bind_py (apply_rows pd (\<lambda>r. r\<lparr>col_skew_tier := skew r\<rparr>) (assign pd (\<lambda>r. r\<lparr>col_cache_regime := cache_regime r\<rparr>) df0)) (\<lambda>df.
       Inr (assign pd (\<lambda>r. r\<lparr>col_workload := label_text (col_cache_regime r) (col_skew_tier r) (col_mix r)\<rparr>)
         (assign pd (\<lambda>r. r\<lparr>col_mix := mix_name r\<rparr>) df)))"

section \<open>Aggregation\<close>

definition agg_key :: "sample \<Rightarrow> cell list" where
  "agg_key r =
     [CStr (col_arch r), CStr (col_bench r), CStr (col_lock r), CStr (col_workload r), CStr (col_cache_regime r),
      CStr (col_skew_tier r), CStr (col_mix r), CInt (col_key_range r), CFlt (col_zipf_theta r), CInt (col_read_pct r),
      CInt (col_insert_pct r), CInt (col_threads r), CInt (col_stream_len r), CInt (col_buckets r)]"

definition agg_row :: "'f pandas \<Rightarrow> 'f \<Rightarrow> sample" where
  \<comment> \<open>the key columns are those of any row of the group; the other columns of the row are not used\<close>
  "agg_row pd g = (hd (rows_of pd g))
     \<lparr>col_ops_s := median_of pd col_ops_s g, col_ops_s_p25 := percentile_of pd (1 / 4) col_ops_s g,
      col_ops_s_p75 := percentile_of pd (3 / 4) col_ops_s g, col_ns_op := median_of pd col_ns_op g,
      col_fairness_ratio := median_of pd col_fairness_ratio g,
      col_n := length (filter (\<lambda>r. col_ops_s r \<noteq> NaN) (rows_of pd g))\<rparr>"

definition aggregate_df :: "'f pandas \<Rightarrow> 'f \<Rightarrow> 'f" where
  "aggregate_df pd df = from_rows pd (map (\<lambda>(k, g). agg_row pd g) (group_all pd agg_key df))"

section \<open>The headline table\<close>

definition in_cell :: "string \<Rightarrow> string \<Rightarrow> string \<Rightarrow> string \<Rightarrow> sample \<Rightarrow> bool" where
  "in_cell bench cr sk mx r \<longleftrightarrow> col_bench r = bench \<and> col_cache_regime r = cr \<and> col_skew_tier r = sk \<and> col_mix r = mx"

definition at_max_threads :: "'f pandas \<Rightarrow> 'f \<Rightarrow> 'f py" where
  "at_max_threads pd df_arch =
     (if rows_of pd df_arch = [] then Inr df_arch
      else bind_py (max_threads pd df_arch) (\<lambda>maxT. Inr (select pd (\<lambda>r. col_threads r = maxT) df_arch)))"

definition loc_ops :: "'f pandas \<Rightarrow> 'f \<Rightarrow> string \<Rightarrow> flt py" where
  \<comment> \<open>\<open>float(top.loc[lk, "ops_s_median"])\<close>; several rows of a lock are a series, which is no float\<close>
  "loc_ops pd f lk =
     (case filter (\<lambda>r. col_lock r = lk) (rows_of pd f) of
        [] \<Rightarrow> Inl (KeyError lk) | [r] \<Rightarrow> Inr (col_ops_s r) | _ \<Rightarrow> Inl TypeError)"

definition loc_default :: "'f pandas \<Rightarrow> 'f \<Rightarrow> flt py" where
  \<comment> \<open>with several rows the value is a series, and the first round of the loop fails before it is used\<close>
  "loc_default pd f =
     (case filter (\<lambda>r. col_lock r = ''wh-default'') (rows_of pd f) of [] \<Rightarrow> Inl (KeyError ''wh-default'') | r # _ \<Rightarrow> Inr (col_ops_s r))"

type_synonym headline_row = "string \<times> flt \<times> flt \<times> flt \<times> flt \<times> flt"

definition headline_row_of :: "flt \<Rightarrow> flt \<Rightarrow> string \<Rightarrow> flt \<Rightarrow> flt \<Rightarrow> headline_row py" where
  \<comment> \<open>the defaults are numpy values, the others Python floats\<close>
  "headline_row_of xeon_default grav_default lk xv gv =
     bind_py (fdiv xv (Fin 1000000)) (\<lambda>xm. bind_py (fdiv gv (Fin 1000000)) (\<lambda>gm. bind_py (fdiv gv xv) (\<lambda>ratio.
       Inr (lk, round_py 2 xm, np_round 2 (np_div xv xeon_default), round_py 2 gm, np_round 2 (np_div gv grav_default), round_py 2 ratio))))"

definition headline_table :: "'f pandas \<Rightarrow> 'f \<Rightarrow> headline_row list py" where
  "headline_table pd agg =
     (let headline = select pd (in_cell ''wh'' ''L1'' ''warm'' ''read_heavy'') agg;
          locks = [''wh-default'', ''wh-pcpu-rw'', ''wh-occ-opt'', ''wh-occ'', ''wh-cas'', ''wh-ttas'', ''wh-tas'']
      in bind_py (at_max_threads pd (select pd (\<lambda>r. col_arch r = ''x86_64'') headline)) (\<lambda>xeon_top.
         bind_py (at_max_threads pd (select pd (\<lambda>r. col_arch r = ''aarch64'') headline)) (\<lambda>grav_top.
         bind_py (loc_default pd xeon_top) (\<lambda>xeon_default.
         bind_py (loc_default pd grav_top) (\<lambda>grav_default.
         bind_py (map_py (\<lambda>lk.
             if lk \<notin> col_lock ` set (rows_of pd xeon_top) \<or> lk \<notin> col_lock ` set (rows_of pd grav_top) then Inr []
             else bind_py (loc_ops pd xeon_top lk) (\<lambda>xv. bind_py (loc_ops pd grav_top lk) (\<lambda>gv.
               bind_py (headline_row_of xeon_default grav_default lk xv gv) (\<lambda>row. Inr [row])))) locks) (\<lambda>rows.
           Inr (concat rows)))))))"

section \<open>One thread\<close>

definition ns_locks :: "string list" where
  "ns_locks = [''wh-tas'', ''wh-ttas'', ''wh-cas'', ''wh-occ'', ''wh-occ-opt'', ''wh-pcpu-rw'', ''wh-default'']"

definition ns_of :: "'f pandas \<Rightarrow> 'f \<Rightarrow> string \<Rightarrow> string \<Rightarrow> flt" where
  "ns_of pd baseline arch lk =
     (case rows_of pd (select pd (\<lambda>r. col_arch r = arch \<and> col_lock r = lk) baseline) of [] \<Rightarrow> Fin 0 | r # _ \<Rightarrow> col_ns_op r)"

definition bar_width :: flt where
  "bar_width = fl (38 / 100)"

definition half_width :: flt where
  "half_width = projr (fdiv bar_width (Fin 2))"

definition side_bars :: "bool \<Rightarrow> flt list \<Rightarrow> string \<Rightarrow> string \<Rightarrow> draw" where
  \<comment> \<open>\<open>ax.bar(x - width/2, ...)\<close> on the left, \<open>x + width/2\<close> on the right\<close>
  "side_bars left ys label color =
     Bar (map (\<lambda>x. if left then fsub (Fin (of_nat x)) half_width else fadd (Fin (of_nat x)) half_width) [0..<length ys]) ys bar_width
       [(''label'', label), (''color'', color)]"

definition bar_texts :: "nat \<Rightarrow> flt \<Rightarrow> nat \<Rightarrow> string \<Rightarrow> flt list \<Rightarrow> draw list" where
  \<comment> \<open>a text above each bar of a series; the bars of the axes are counted from the first series on\<close>
  "bar_texts start lift decimals fontsize ys =
     map (\<lambda>(i, v). BarText (start + i) (fadd v lift) (format_fixed decimals v) [(''ha'', ''center''), (''fontsize'', fontsize)])
       (zip [0..<length ys] ys)"

definition baseline_of :: "'f pandas \<Rightarrow> 'f \<Rightarrow> 'f" where
  "baseline_of pd agg = select pd (\<lambda>r. in_cell ''wh'' ''L1'' ''warm'' ''read_heavy'' r \<and> col_threads r = 1) agg"

definition baseline_figure :: "'f pandas \<Rightarrow> 'f \<Rightarrow> figure" where
  "baseline_figure pd agg =
     (let x86_ns = map (ns_of pd (baseline_of pd agg) ''x86_64'') ns_locks;
          arm_ns = map (ns_of pd (baseline_of pd agg) ''aarch64'') ns_locks
      in \<lparr>fig_args = [(''figsize'', ''(11, 5.5)'')],
          fig_axes = [[side_bars True x86_ns ''Xeon E5-2650L v3'' ''#1f77b4'', side_bars False arm_ns ''Graviton2'' ''#ff7f0e''] @
            bar_texts 0 (Fin 1) 0 ''8'' x86_ns @ bar_texts (length x86_ns) (Fin 1) 0 ''8'' arm_ns @
            [Call ''set_xticks'' (map show_nat [0..<length ns_locks]) [], Call ''set_xticklabels'' ns_locks [(''rotation'', ''20'')],
             Call ''set_ylabel'' [''ns / op (lower is faster)''] [],
             Call ''set_title'' [''1-thread uncontended baseline '' @ mid_dot @ '' wormhole '' @ mid_dot @ '' L1_warm_zipf99 '' @ mid_dot @
               '' 90/5/5'' @ [CHR 0x0A] @ ''(pure microarchitectural cost '' @ em_dash @ '' no contention)''] [],
             Call ''legend'' [] []]],
          fig_calls = [Call ''tight_layout'' [] []], fig_file = []\<rparr>)"

definition baseline_lines :: "'f pandas \<Rightarrow> 'f \<Rightarrow> string list py" where
  "baseline_lines pd agg =
     bind_py (map_py (\<lambda>lk.
         let xv = ns_of pd (baseline_of pd agg) ''x86_64'' lk; av = ns_of pd (baseline_of pd agg) ''aarch64'' lk
         in if fless (Fin 0) av \<and> fless (Fin 0) xv
            then bind_py (fdiv xv av) (\<lambda>q.
              Inr [''  '' @ pad_right 12 lk @ ''  '' @ pad_left 9 (format_fixed 1 xv) @ ''   '' @ pad_left 13 (format_fixed 1 av) @
                   ''   '' @ pad_left 13 (format_fixed 2 q) @ ''x''])
            else Inr []) ns_locks) (\<lambda>ls.
       Inr (''Lock          Xeon ns/op   Graviton ns/op   Xeon/Graviton'' # concat ls))"

section \<open>Scaling efficiency\<close>

definition eff_line :: "'f pandas \<Rightarrow> 'f \<Rightarrow> string \<Rightarrow> draw list" where
  "eff_line pd sub_a lk =
     (let s = sort_values pd by_threads True (select pd (\<lambda>r. col_lock r = lk) sub_a);
          base = rows_of pd (select pd (\<lambda>r. col_threads r = 1) s)
      in if rows_of pd s = [] \<or> base = [] \<or> is_zero (col_ops_s (hd base)) then []
         else (case style_of lk of (color, marker, label) \<Rightarrow>
           [Plot (map col_threads (rows_of pd s))
              (map (\<lambda>r. np_div (col_ops_s r) (fmul (fl (of_int (col_threads r))) (col_ops_s (hd base)))) (rows_of pd s))
              [(''fmt'', ''-''), (''color'', color), (''marker'', marker), (''label'', label), (''lw'', ''1.5''), (''ms'', ''6'')]]))"

definition eff_panel :: "'f pandas \<Rightarrow> 'f \<Rightarrow> string \<Rightarrow> draw list py" where
  "eff_panel pd agg arch =
     (let sub_a = select pd (\<lambda>r. in_cell ''wh'' ''L1'' ''warm'' ''read_heavy'' r \<and> col_arch r = arch) agg
      in bind_py (get_item ARCH_LABEL arch) (\<lambda>name.
        Inr (concat (map (eff_line pd sub_a) (py_sorted (unique_of pd col_lock sub_a))) @
          [Call ''axhline'' [''1.0''] [(''color'', ''gray''), (''linestyle'', ''--''), (''lw'', ''1''), (''label'', ''perfect linear scaling'')],
           Call ''set_xlabel'' [''threads''] [], Call ''set_xticks'' (map show_int (thread_counts pd sub_a)) [],
           Call ''set_ylim'' [''0'', ''1.4''] [], Call ''set_title'' [name @ '' '' @ mid_dot @ '' scaling efficiency''] []])))"

definition efficiency_figure :: "'f pandas \<Rightarrow> 'f \<Rightarrow> figure py" where
  "efficiency_figure pd agg =
     bind_py (eff_panel pd agg ''x86_64'') (\<lambda>left. bind_py (eff_panel pd agg ''aarch64'') (\<lambda>right.
       Inr \<lparr>fig_args = [(''figsize'', ''(13, 5.5)''), (''sharey'', ''True'')],
            fig_axes = [left @ [Call ''set_ylabel'' [''efficiency  =  ops(T) / (T '' @ mid_dot @ '' ops(1T))''] [],
                Call ''legend'' [] [(''loc'', ''upper right''), (''fontsize'', ''7'')]], right],
            fig_calls = [Call ''tight_layout'' [] []], fig_file = []\<rparr>))"

section \<open>Ratios at the largest thread counts\<close>

definition top_ops :: "'f pandas \<Rightarrow> 'f \<Rightarrow> flt py" where
  \<comment> \<open>\<open>float(f[f.threads == int(f.threads.max())]["ops_s_median"].iloc[0])\<close>\<close>
  "top_ops pd f =
     bind_py (max_threads pd f) (\<lambda>maxT.
       case rows_of pd (select pd (\<lambda>r. col_threads r = maxT) f) of [] \<Rightarrow> Inl IndexError | r # _ \<Rightarrow> Inr (col_ops_s r))"

definition regime_locks :: "string list" where
  "regime_locks = [''wh-default'', ''wh-occ-opt'', ''wh-tas'', ''wh-pcpu-rw'']"

definition regime_cell :: "'f pandas \<Rightarrow> 'f \<Rightarrow> string \<Rightarrow> string \<Rightarrow> string \<Rightarrow> 'f" where
  "regime_cell pd agg arch lk cr =
     select pd (\<lambda>r. in_cell ''wh'' cr ''warm'' ''read_heavy'' r \<and> col_arch r = arch \<and> col_lock r = lk) agg"

definition regime_rows :: "'f pandas \<Rightarrow> 'f \<Rightarrow> (string \<times> string \<times> string \<times> int \<times> flt) list py" where
  "regime_rows pd agg =
     bind_py (map_py (\<lambda>(lk, cr, arch).
         let sub = regime_cell pd agg arch lk cr
         in if rows_of pd sub = [] then Inr []
            else bind_py (max_threads pd sub) (\<lambda>maxT. bind_py (top_ops pd sub) (\<lambda>v. bind_py (fdiv v (Fin 1000000)) (\<lambda>m.
              Inr [(lk, cr, arch, maxT, round_py 2 m)]))))
       (List.product regime_locks (List.product [''L1'', ''L3''] [''x86_64'', ''aarch64'']))) (\<lambda>rows. Inr (concat rows))"

definition ratio_locks :: "string list" where
  "ratio_locks = [''wh-default'', ''wh-tas'', ''wh-occ-opt'', ''wh-pcpu-rw'']"

definition regime_ratio :: "'f pandas \<Rightarrow> 'f \<Rightarrow> string \<Rightarrow> string \<Rightarrow> flt py" where
  "regime_ratio pd agg cr lk =
     (let x86 = regime_cell pd agg ''x86_64'' lk cr; arm = regime_cell pd agg ''aarch64'' lk cr
      in if rows_of pd x86 = [] \<or> rows_of pd arm = [] then Inr (Fin 0)
         else bind_py (top_ops pd x86) (\<lambda>xv. bind_py (top_ops pd arm) (\<lambda>av.
           if fless (Fin 0) xv then fdiv av xv else Inr (Fin 0))))"

definition regime_figure :: "'f pandas \<Rightarrow> 'f \<Rightarrow> figure py" where
  "regime_figure pd agg =
     bind_py (map_py (regime_ratio pd agg ''L1'') ratio_locks) (\<lambda>l1_ratios.
     bind_py (map_py (regime_ratio pd agg ''L3'') ratio_locks) (\<lambda>l3_ratios.
       Inr \<lparr>fig_args = [(''figsize'', ''(11, 5)'')],
            fig_axes = [[side_bars True l1_ratios ''L1-resident (1k keys)'' ''#1f77b4'', side_bars False l3_ratios ''L3-resident (100k keys)'' ''#d62728''] @
              bar_texts 0 (fl (2 / 100)) 2 ''9'' l1_ratios @ bar_texts (length l1_ratios) (fl (2 / 100)) 2 ''9'' l3_ratios @
              [Call ''axhline'' [''1.0''] [(''color'', ''gray''), (''linestyle'', ''--''), (''lw'', ''1''), (''label'', ''parity'')],
               Call ''axhline'' [''1.39''] [(''color'', ''green''), (''linestyle'', '':''), (''lw'', ''1''),
                 (''label'', ''Graviton clock advantage (1.39'' @ times_sign @ '')'')],
               Call ''axhline'' [''1.50''] [(''color'', ''purple''), (''linestyle'', '':''), (''lw'', ''1''),
                 (''label'', ''Graviton DRAM-bandwidth advantage (1.50'' @ times_sign @ '')'')],
               Call ''set_xticks'' (map show_nat [0..<length ratio_locks]) [], Call ''set_xticklabels'' ratio_locks [],
               Call ''set_ylabel'' [''Graviton2 ops/s  /  Xeon ops/s  at max T''] [],
               Call ''set_title'' [''Cross-arch ratio at max threads '' @ em_dash @ '' L1 vs L3 regime per lock'' @ [CHR 0x0A] @
                 ''(reference lines = expected ratios from clock & DRAM specs alone)''] [],
               Call ''legend'' [] [(''loc'', ''upper left''), (''fontsize'', ''8'')]]],
            fig_calls = [Call ''tight_layout'' [] []], fig_file = []\<rparr>))"

definition ratio_cell :: "'f pandas \<Rightarrow> 'f \<Rightarrow> string \<times> string \<Rightarrow> (string \<times> string \<times> flt) list py" where
  "ratio_cell pd agg = (\<lambda>(lk, wl).
     let of_arch = (\<lambda>arch. select pd (\<lambda>r. col_bench r = ''wh'' \<and> col_arch r = arch \<and> col_lock r = lk \<and> col_workload r = wl) agg)
     in if take 4 wl = ''DRAM'' then Inr []
        else if rows_of pd (of_arch ''x86_64'') = [] \<or> rows_of pd (of_arch ''aarch64'') = [] then Inr []
        else bind_py (top_ops pd (of_arch ''x86_64'')) (\<lambda>xv. bind_py (top_ops pd (of_arch ''aarch64'')) (\<lambda>av.
          if fless (Fin 0) xv then bind_py (fdiv av xv) (\<lambda>q. Inr [(lk, wl, q)]) else Inr [])))"

definition ratio_rows :: "'f pandas \<Rightarrow> 'f \<Rightarrow> (string \<times> string \<times> flt) list py" where
  "ratio_rows pd agg =
     bind_py (map_py (ratio_cell pd agg)
       (List.product (py_sorted (unique_of pd col_lock (select pd (\<lambda>r. col_bench r = ''wh'') agg))) (py_sorted (unique_of pd col_workload agg))))
       (\<lambda>rows. Inr (concat rows))"

definition ratio_text :: "flt \<Rightarrow> string" where
  "ratio_text v = (if fless v (fl (1 / 100)) then format_fixed 3 v else format_fixed 2 v)"

definition ratio_color :: "flt \<Rightarrow> string" where
  "ratio_color v = (if fless (fl (1 / 2)) v \<and> fless v (Fin 2) then ''black'' else ''white'')"

section \<open>Throughput over threads\<close>

definition per_million :: "flt \<Rightarrow> flt" where
  \<comment> \<open>\<open>v / 1e6\<close>\<close>
  "per_million v = projr (fdiv v (Fin 1000000))"

definition scaling_line :: "'f pandas \<Rightarrow> 'f \<Rightarrow> string \<Rightarrow> draw list py" where
  \<comment> \<open>matplotlib refuses error bars of negative length\<close>
  "scaling_line pd df_sub lk =
     (let rs = rows_of pd (sort_values pd by_threads True (select pd (\<lambda>r. col_lock r = lk) df_sub));
          lower = map (\<lambda>r. per_million (fsub (col_ops_s r) (col_ops_s_p25 r))) rs;
          upper = map (\<lambda>r. per_million (fsub (col_ops_s_p75 r) (col_ops_s r))) rs
      in if rs = [] then Inr []
         else if \<exists>v \<in> set (lower @ upper). fless v (Fin 0) then Inl ValueError
         else (case style_of lk of (color, marker, label) \<Rightarrow>
           Inr [ErrorBar (map col_threads rs) (map millions rs) lower upper
             [(''fmt'', ''-''), (''color'', color), (''marker'', marker), (''label'', label), (''lw'', ''1.5''), (''ms'', ''6''),
              (''capsize'', ''3''), (''alpha'', ''0.9'')]]))"

definition plot_scaling :: "'f pandas \<Rightarrow> 'f \<Rightarrow> string \<Rightarrow> draw list py" where
  \<comment> \<open>every call leaves \<open>locks\<close> at its default, the locks of the frame\<close>
  "plot_scaling pd df_sub title =
     bind_py (map_py (scaling_line pd df_sub) (py_sorted (unique_of pd col_lock df_sub))) (\<lambda>ls.
       Inr (concat ls @
         [Call ''set_xlabel'' [''threads''] [], Call ''set_ylabel'' [''throughput (M ops/s)''] [], Call ''set_title'' [title] []] @
         (if rows_of pd df_sub = [] then [] else [Call ''set_xticks'' (map show_int (thread_counts pd df_sub)) []])))"

definition WL_ORDER :: "(string \<times> string \<times> string) list" where
  "WL_ORDER =
     [(''L1'', ''uniform'', ''read_heavy''), (''L1'', ''warm'', ''read_heavy''), (''L1'', ''hot'', ''read_heavy''),
      (''L1'', ''extreme'', ''read_heavy''), (''L3'', ''warm'', ''read_heavy''), (''L3'', ''extreme'', ''read_heavy''),
      (''L1'', ''warm'', ''write_heavy''), (''L3'', ''warm'', ''write_heavy'')]"

definition row_ymax :: "sample list \<Rightarrow> flt" where
  \<comment> \<open>\<open>max()\<close> leaves NaN out\<close>
  "row_ymax rs =
     (if rs = [] then Fin 1
      else case idxmax_row col_ops_s rs of None \<Rightarrow> NaN | Some r \<Rightarrow> fmul (millions r) (fl (11 / 10)))"

definition set_ylim :: "flt \<Rightarrow> draw py" where
  \<comment> \<open>the limits of an axis are finite\<close>
  "set_ylim y = (if y \<in> {NaN, PInf, NInf} then Inl ValueError else Inr (YLim (Fin 0) y))"

definition scaling_axes :: "'f pandas \<Rightarrow> 'f \<Rightarrow> nat \<times> string \<times> string \<times> string \<Rightarrow> nat \<times> string \<Rightarrow> draw list py" where
  "scaling_axes pd agg = (\<lambda>(i, cr, sk, mx) (j, arch).
     let sub_row = select pd (in_cell ''wh'' cr sk mx) agg
     in bind_py (get_item ARCH_LABEL arch) (\<lambda>name.
        bind_py (plot_scaling pd (select pd (\<lambda>r. col_arch r = arch) sub_row)
          (name @ '' '' @ mid_dot @ '' '' @ label_text cr sk mx)) (\<lambda>ds.
        bind_py (set_ylim (row_ymax (rows_of pd sub_row))) (\<lambda>lim.
          Inr (ds @ [lim] @ (if j = 1 then [Call ''set_ylabel'' [[]] []] else []) @
            (if i = 0 \<and> j = 0 then [Call ''legend'' [] [(''loc'', ''upper left''), (''fontsize'', ''7'')]] else []))))))"

definition scaling_figure :: "'f pandas \<Rightarrow> 'f \<Rightarrow> figure py" where
  "scaling_figure pd agg =
     bind_py (map_py (\<lambda>(w, a). scaling_axes pd agg w a)
       (List.product (zip [0..<length WL_ORDER] WL_ORDER) [(0, ''x86_64''), (1, ''aarch64'')])) (\<lambda>axes.
       Inr \<lparr>fig_args = [(''figsize'', ''(13, 24.0)''), (''sharex'', ''col'')], fig_axes = axes,
            fig_calls = [Call ''tight_layout'' [] []], fig_file = []\<rparr>)"

section \<open>The best lock per workload\<close>

record best_entry =
  be_arch :: string
  be_bench :: string
  be_workload :: string
  be_maxT :: int
  be_lock :: string
  be_M_ops :: flt

definition best_entry_of :: "string \<Rightarrow> string \<Rightarrow> int \<Rightarrow> sample \<Rightarrow> best_entry" where
  \<comment> \<open>the row is a series of numpy values\<close>
  "best_entry_of arch bench maxT best =
     \<lparr>be_arch = arch, be_bench = bench, be_workload = col_workload best, be_maxT = maxT, be_lock = col_lock best,
      be_M_ops = np_round 2 (millions best)\<rparr>"

definition best_in_bench :: "'f pandas \<Rightarrow> 'f \<Rightarrow> string \<times> string \<Rightarrow> best_entry list py" where
  "best_in_bench pd agg = (\<lambda>(arch, bench).
     let sub_b = select pd (\<lambda>r. col_arch r = arch \<and> col_bench r = bench) agg
     in if rows_of pd sub_b = [] then Inr []
        else bind_py (max_threads pd sub_b) (\<lambda>maxT.
          let atT = select pd (\<lambda>r. col_threads r = maxT) sub_b
          in map_py (\<lambda>wl.
               case idxmax_row col_ops_s (rows_of pd (select pd (\<lambda>r. col_workload r = wl) atT)) of
                 None \<Rightarrow> Inl (KeyError ''nan'')
               | Some best \<Rightarrow> Inr (best_entry_of arch bench maxT best))
             (py_sorted (unique_of pd col_workload atT))))"

definition best_rows :: "'f pandas \<Rightarrow> 'f \<Rightarrow> best_entry list py" where
  "best_rows pd agg =
     bind_py (map_py (best_in_bench pd agg) (List.product [''x86_64'', ''aarch64''] [''wh'', ''cds'', ''avl''])) (\<lambda>rows.
       Inr (concat rows))"

section \<open>All benchmarks side by side\<close>

definition overview_axes :: "'f pandas \<Rightarrow> 'f \<Rightarrow> string \<times> nat \<times> string \<Rightarrow> draw list py" where
  "overview_axes pd agg = (\<lambda>(arch, col, bench).
     bind_py (get_item ARCH_LABEL arch) (\<lambda>name.
     bind_py (plot_scaling pd (select pd (\<lambda>r. in_cell bench ''L1'' ''warm'' ''read_heavy'' r \<and> col_arch r = arch) agg)
       (name @ '' '' @ mid_dot @ '' '' @ bench @ '' '' @ mid_dot @ '' L1_warm_read_heavy'')) (\<lambda>ds.
       Inr (ds @ (if 0 < col then [Call ''set_ylabel'' [[]] []] else []) @
         [Call ''legend'' [] [(''loc'', ''upper left''), (''fontsize'', ''6'')]]))))"

definition overview_figure :: "'f pandas \<Rightarrow> 'f \<Rightarrow> figure py" where
  "overview_figure pd agg =
     bind_py (map_py (overview_axes pd agg) (List.product [''x86_64'', ''aarch64''] [(0, ''wh''), (1, ''cds''), (2, ''avl'')])) (\<lambda>axes.
       Inr \<lparr>fig_args = [(''figsize'', ''(15, 7)''), (''sharex'', ''col'')], fig_axes = axes,
            fig_calls = [Call ''tight_layout'' [] []], fig_file = []\<rparr>)"

section \<open>No trial is lost\<close>

lemma sum_groups:
  "finite A \<Longrightarrow> key ` set rs \<subseteq> A \<Longrightarrow> (\<Sum>v \<in> A. length (filter P (filter (\<lambda>r. key r = v) rs))) = length (filter P rs)"
proof (induction rs)
  case (Cons r rs)
  have "(\<Sum>v \<in> A. length (filter P (filter (\<lambda>r. key r = v) (r # rs)))) =
      (\<Sum>v \<in> A. (if v = key r then (if P r then 1 else 0) else 0) + length (filter P (filter (\<lambda>r. key r = v) rs)))"
    by (rule sum.cong) auto
  also have "\<dots> = (if P r then 1 else 0) + length (filter P rs)"
    using Cons by (simp add: sum.distrib sum.delta')
  finally show ?case by simp
qed simp

context dataframe
begin

lemma groups_cover:
  "sum_list (map (\<lambda>(v, h). length (filter P (rows_of pd h))) (group_all pd key f)) = length (filter P (rows_of pd f))"
proof -
  let ?g = "\<lambda>v. length (filter P (filter (\<lambda>r. key r = v) (rows_of pd f)))"
  have "map (\<lambda>(v, h). length (filter P (rows_of pd h))) (group_all pd key f) = map ?g (map fst (group_all pd key f))"
    using rows_all [of _ _ key f] by auto
  also have "sum_list \<dots> = sum ?g (set (map fst (group_all pd key f)))"
    using distinct_all [of key f] by (rule sum_list_distinct_conv_sum_set)
  also have "\<dots> = length (filter P (rows_of pd f))"
    using all_keys [of key f] by (simp add: sum_groups del: filter_filter)
  finally show ?thesis .
qed

lemma agg_row_key: "(v, h) \<in> set (group_all pd agg_key f) \<Longrightarrow> agg_key (agg_row pd h) = v"
proof -
  assume vh: "(v, h) \<in> set (group_all pd agg_key f)"
  then have "v \<in> agg_key ` set (rows_of pd f)" using all_keys [of agg_key f] by force
  then have "rows_of pd h \<noteq> []" using rows_all [OF vh] by (auto simp: filter_empty_conv)
  then have "hd (rows_of pd h) \<in> set (rows_of pd h)" by simp
  then have "agg_key (hd (rows_of pd h)) = v" unfolding rows_all [OF vh] by simp
  then show ?thesis by (simp add: agg_key_def agg_row_def)
qed

lemma aggregate_keys: "map agg_key (rows_of pd (aggregate_df pd f)) = map fst (group_all pd agg_key f)"
  using agg_row_key [of _ _ f] by (auto simp: aggregate_df_def rows_from)

lemma aggregate_counts:
  "sum_list (map col_n (rows_of pd (aggregate_df pd f))) = length (filter (\<lambda>r. col_ops_s r \<noteq> NaN) (rows_of pd f))"
  unfolding groups_cover [of "\<lambda>r. col_ops_s r \<noteq> NaN" agg_key f, symmetric]
  by (simp add: aggregate_df_def rows_from agg_row_def comp_def split_def)

end

text \<open>
  C12. Aggregation makes exactly one row of every combination of the key columns that occurs, rows with a
  NaN among the keys included, and the counts of its rows add up to the number of trials with a
  throughput: no trial is dropped and none is counted twice.
\<close>

theorem aggregate_partition:
  assumes "dataframe pd"
  shows "distinct (map agg_key (rows_of pd (aggregate_df pd df))) \<and>
    set (map agg_key (rows_of pd (aggregate_df pd df))) = agg_key ` set (rows_of pd df) \<and>
    sum_list (map col_n (rows_of pd (aggregate_df pd df))) = length (filter (\<lambda>r. col_ops_s r \<noteq> NaN) (rows_of pd df))"
  using dataframe.aggregate_keys [OF assms, of df] dataframe.distinct_all [OF assms, of agg_key df]
    dataframe.all_keys [OF assms, of agg_key df] dataframe.aggregate_counts [OF assms, of df]
  by simp

section \<open>Labels\<close>

lemma cache_regime_cases: "cache_regime r \<in> {''L1'', ''L3'', ''DRAM''}"
  by (simp add: cache_regime_def)

lemma skew_cases: "skew r \<in> {''uniform'', ''warm'', ''hot'', ''extreme''}"
  by (simp add: skew_def)

lemma mix_cases: "mix_name r \<in> {''read_heavy'', ''write_heavy''}"
  by (simp add: mix_name_def)

lemma label_text_inj:
  assumes "CHR ''_'' \<notin> set cr" "CHR ''_'' \<notin> set cr'" "CHR ''_'' \<notin> set sk" "CHR ''_'' \<notin> set sk'"
  shows "label_text cr sk mx = label_text cr' sk' mx' \<longleftrightarrow> cr = cr' \<and> sk = sk' \<and> mx = mx'"
  using assms by (simp add: label_text_def split_at_first)

definition labelled :: "sample \<Rightarrow> sample" where
  \<comment> \<open>a row with the four columns the labels add\<close>
  "labelled r = r\<lparr>col_cache_regime := cache_regime r, col_skew_tier := skew r, col_mix := mix_name r,
     col_workload := label_text (cache_regime r) (skew r) (mix_name r)\<rparr>"

lemma labels_no_sep: "CHR ''_'' \<notin> set (cache_regime r)" "CHR ''_'' \<notin> set (skew r)"
  using cache_regime_cases [of r] skew_cases [of r] by auto

text \<open>
  Labelling keeps every row of a frame, in order, and adds the four columns; two rows get the same
  workload name exactly if they agree in cache regime, skew and mix, so a name stands for one kind of
  workload.
\<close>

theorem derive_labels_rows:
  assumes "dataframe pd" and "rows_of pd df \<noteq> []"
  shows "\<exists>g. derive_labels pd df = Inr g \<and> rows_of pd g = map labelled (rows_of pd df) \<and>
    (\<forall>r \<in> set (rows_of pd g). \<forall>r' \<in> set (rows_of pd g).
       col_workload r = col_workload r' \<longleftrightarrow>
         col_cache_regime r = col_cache_regime r' \<and> col_skew_tier r = col_skew_tier r' \<and> col_mix r = col_mix r')"
proof -
  note fs = dataframe.frame_simps [OF assms(1)]
  have "\<exists>g. derive_labels pd df = Inr g \<and> rows_of pd g = map labelled (rows_of pd df)"
    using assms(2) by (simp add: derive_labels_def dataframe.apply_rows_Inr [OF assms(1)] fs labelled_def comp_def cache_regime_def skew_def mix_name_def)
  moreover have "col_workload (labelled r) = col_workload (labelled r') \<longleftrightarrow>
      col_cache_regime (labelled r) = col_cache_regime (labelled r') \<and> col_skew_tier (labelled r) = col_skew_tier (labelled r') \<and>
      col_mix (labelled r) = col_mix (labelled r')" for r r'
    by (simp add: labelled_def label_text_inj labels_no_sep)
  ultimately show ?thesis by auto
qed

section \<open>The best entries\<close>

lemma filter_concat_key:
  "distinct ps \<Longrightarrow> p \<in> set ps \<Longrightarrow> (\<And>q e. q \<in> set ps \<Longrightarrow> e \<in> set (f q) \<Longrightarrow> key e = q) \<Longrightarrow>
     filter (\<lambda>e. key e = p) (concat (map f ps)) = f p"
proof (induction ps)
  case (Cons q ps)
  have all: "filter (\<lambda>e. key e = p) (f q) = (if q = p then f q else [])"
    using Cons.prems(3) [of q] by (auto simp: filter_id_conv filter_empty_conv)
  show ?case
  proof (cases "q = p")
    case True
    then have "filter (\<lambda>e. key e = p) (concat (map f ps)) = []"
      using Cons.prems by (auto simp: filter_empty_conv)
    then show ?thesis using all True by simp
  next
    case False
    then show ?thesis using all Cons by simp
  qed
qed simp

definition at_top :: "sample list \<Rightarrow> string \<times> string \<Rightarrow> sample list" where
  \<comment> \<open>the rows of a machine and benchmark with its largest number of threads\<close>
  "at_top rs p =
     (let sub = filter (\<lambda>r. (col_arch r, col_bench r) = p) rs
      in filter (\<lambda>r. col_threads r = Max (col_threads ` set sub)) sub)"

definition best_of_workloads :: "sample list \<Rightarrow> sample list \<Rightarrow> bool" where
  \<comment> \<open>one best row per workload, the workloads in ascending order\<close>
  "best_of_workloads rs bs \<longleftrightarrow>
     sorted_wrt (<) (map col_workload bs) \<and> set (map col_workload bs) = col_workload ` set rs \<and> set bs \<subseteq> set rs \<and>
     (\<forall>b \<in> set bs. \<forall>r \<in> set rs. col_workload r = col_workload b \<longrightarrow> \<not> fless (col_ops_s b) (col_ops_s r))"

lemma best_per_workload:
  assumes "\<forall>r \<in> set rs. col_ops_s r \<noteq> NaN" and "sorted_wrt (<) ws" and "set ws = col_workload ` set rs"
  shows "\<exists>bs. map_py (\<lambda>wl. case idxmax_row col_ops_s (filter (\<lambda>r. col_workload r = wl) rs) of
        None \<Rightarrow> Inl e | Some b \<Rightarrow> Inr (g b)) ws = Inr (map g bs) \<and> best_of_workloads rs bs"
proof -
  let ?rows = "\<lambda>wl. filter (\<lambda>r. col_workload r = wl) rs"
  have "\<exists>b. idxmax_row col_ops_s (?rows wl) = Some b" if "wl \<in> set ws" for wl
    using that assms(1,3) by (intro idxmax_row_total) auto
  then obtain b where b: "\<And>wl. wl \<in> set ws \<Longrightarrow> idxmax_row col_ops_s (?rows wl) = Some (b wl)" by metis
  have best: "b wl \<in> set rs \<and> col_workload (b wl) = wl \<and>
      (\<forall>r \<in> set rs. col_workload r = wl \<longrightarrow> \<not> fless (col_ops_s (b wl)) (col_ops_s r))" if "wl \<in> set ws" for wl
    using idxmax_row_best [OF b [OF that]] by auto
  have "map_py (\<lambda>wl. case idxmax_row col_ops_s (?rows wl) of None \<Rightarrow> Inl e | Some b \<Rightarrow> Inr (g b)) ws =
      map_py (\<lambda>wl. Inr (g (b wl))) ws"
    by (rule map_py_cong) (simp_all add: b)
  moreover have "map (col_workload \<circ> b) ws = ws" using best by (auto intro!: map_idI)
  ultimately show ?thesis
    using best assms(2,3) by (intro exI [of _ "map b ws"]) (auto simp: map_py_total best_of_workloads_def)
qed

context dataframe
begin

lemma best_in_bench_best:
  assumes "\<forall>r \<in> set (rows_of pd agg). col_ops_s r \<noteq> NaN"
  shows "\<exists>maxT bs. best_in_bench pd agg p = Inr (map (best_entry_of (fst p) (snd p) maxT) bs) \<and>
    best_of_workloads (at_top (rows_of pd agg) p) bs \<and> (\<forall>b \<in> set bs. col_threads b = maxT)"
proof -
  obtain arch bench where p: "p = (arch, bench)" by fastforce
  let ?S = "select pd (\<lambda>r. col_arch r = arch \<and> col_bench r = bench) agg"
  show ?thesis
  proof (cases "rows_of pd ?S = []")
    case True
    then show ?thesis by (simp add: p best_in_bench_def rows_select at_top_def best_of_workloads_def exI [of _ "[]"])
  next
    case False
    let ?m = "Max (col_threads ` set (rows_of pd ?S))"
    let ?T = "select pd (\<lambda>r. col_threads r = ?m) ?S"
    have top: "rows_of pd ?T = at_top (rows_of pd agg) p" by (simp add: p at_top_def rows_select)
    have "\<forall>r \<in> set (rows_of pd ?T). col_ops_s r \<noteq> NaN" using assms by (simp add: rows_select)
    from best_per_workload [OF this sorted_unique [of col_workload ?T], of "KeyError ''nan''" "best_entry_of arch bench ?m"]
    obtain bs where bs: "map_py (\<lambda>wl. case idxmax_row col_ops_s (filter (\<lambda>r. col_workload r = wl) (rows_of pd ?T)) of
          None \<Rightarrow> Inl (KeyError ''nan'') | Some b \<Rightarrow> Inr (best_entry_of arch bench ?m b)) (py_sorted (unique_of pd col_workload ?T))
        = Inr (map (best_entry_of arch bench ?m) bs)" "best_of_workloads (rows_of pd ?T) bs" by blast
    have "\<forall>b \<in> set bs. col_threads b = ?m" using bs(2) by (auto simp: best_of_workloads_def rows_select)
    moreover have "best_in_bench pd agg p = Inr (map (best_entry_of arch bench ?m) bs)"
      using False bs(1) by (simp add: p best_in_bench_def max_threads_value Let_def rows_select [of _ ?T])
    ultimately show ?thesis using bs(2) unfolding top by (intro exI [of _ ?m] exI [of _ bs]) (simp add: p)
  qed
qed

end

text \<open>
  C13. The table of best locks has, for each machine and benchmark with results, exactly one entry for every
  workload measured with the largest number of threads, in ascending order, and its lock is one whose
  median throughput no other lock of that workload exceeds.
\<close>

theorem best_rows_best:
  assumes "dataframe pd" and "\<forall>r \<in> set (rows_of pd agg). col_ops_s r \<noteq> NaN"
  shows "\<exists>es. best_rows pd agg = Inr es \<and>
    (\<forall>arch \<in> {''x86_64'', ''aarch64''}. \<forall>bench \<in> {''wh'', ''cds'', ''avl''}.
       \<exists>maxT bs. filter (\<lambda>e. (be_arch e, be_bench e) = (arch, bench)) es = map (best_entry_of arch bench maxT) bs \<and>
         best_of_workloads (at_top (rows_of pd agg) (arch, bench)) bs \<and> (\<forall>b \<in> set bs. col_threads b = maxT))"
proof -
  let ?ps = "List.product [''x86_64'', ''aarch64''] [''wh'', ''cds'', ''avl'']"
  obtain t b where tb: "\<And>p. best_in_bench pd agg p = Inr (map (best_entry_of (fst p) (snd p) (t p)) (b p))"
      "\<And>p. best_of_workloads (at_top (rows_of pd agg) p) (b p)" "\<And>p. \<forall>x \<in> set (b p). col_threads x = t p"
    using dataframe.best_in_bench_best [OF assms] by metis
  let ?f = "\<lambda>p. map (best_entry_of (fst p) (snd p) (t p)) (b p)"
  have rows: "best_rows pd agg = Inr (concat (map ?f ?ps))"
    unfolding best_rows_def using tb(1) map_py_total [of ?f ?ps] by simp
  have pick: "filter (\<lambda>e. (be_arch e, be_bench e) = p) (concat (map ?f ?ps)) = ?f p" if "p \<in> set ?ps" for p
    using that by (intro filter_concat_key) (auto simp: best_entry_of_def)
  show ?thesis unfolding rows
  proof (intro exI conjI ballI)
    fix arch bench assume "arch \<in> {''x86_64'', ''aarch64''}" "bench \<in> {''wh'', ''cds'', ''avl''}"
    then have "(arch, bench) \<in> set ?ps" by auto
    from pick [OF this]
    show "filter (\<lambda>e. (be_arch e, be_bench e) = (arch, bench)) (concat (map ?f ?ps)) =
        map (best_entry_of arch bench (t (arch, bench))) (b (arch, bench))" unfolding fst_conv snd_conv .
  qed (rule refl tb(2) tb(3) [rule_format] | assumption)+
qed

section \<open>Witnesses\<close>

definition two_trials :: "sample list" where
  "two_trials = [zipfian_reads, zipfian_reads\<lparr>col_ops_s := Fin 6000000\<rparr>, zipfian_reads\<lparr>col_threads := 1\<rparr>]"

theorem aggregate_partition_witness:
  "sum_list (map col_n (rows_of list_pandas (aggregate_df list_pandas two_trials))) = 3"
  using aggregate_partition [OF rows.dataframe_axioms, of two_trials]
  by (simp add: two_trials_def zipfian_reads_def list_pandas_def)

theorem derive_labels_rows_witness:
  "\<exists>g. derive_labels list_pandas two_trials = Inr g \<and> map col_workload g = replicate 3 ''L1_warm_read_heavy''"
proof -
  have "rows_of list_pandas two_trials \<noteq> []" by (simp add: list_pandas_def two_trials_def)
  from derive_labels_rows [OF rows.dataframe_axioms this] obtain g
    where "derive_labels list_pandas two_trials = Inr g" "rows_of list_pandas g = map labelled (rows_of list_pandas two_trials)"
    by blast
  then show ?thesis
    by (simp add: list_pandas_def two_trials_def labelled_def zipfian_reads_def cache_regime_def skew_def mix_name_def label_text_def
      eval_nat_numeral)
qed

lemma one_sorted: "sorted_wrt (<) (xs :: string list) \<Longrightarrow> set xs = {x} \<Longrightarrow> xs = [x]"
proof (cases xs)
  case (Cons y ys)
  assume "sorted_wrt (<) xs" "set xs = {x}"
  then show ?thesis using Cons by (cases ys) auto
qed simp

theorem best_rows_best_witness:
  "\<exists>es bs. best_rows list_pandas two_trials = Inr es \<and> filter (\<lambda>e. (be_arch e, be_bench e) = (''x86_64'', ''wh'')) es =
     map (best_entry_of ''x86_64'' ''wh'' 8) bs \<and> map col_workload bs = [[]]"
proof -
  have "\<forall>r \<in> set (rows_of list_pandas two_trials). col_ops_s r \<noteq> NaN"
    by (simp add: list_pandas_def two_trials_def zipfian_reads_def)
  from best_rows_best [OF rows.dataframe_axioms this] obtain es maxT bs
    where es: "best_rows list_pandas two_trials = Inr es"
      "filter (\<lambda>e. (be_arch e, be_bench e) = (''x86_64'', ''wh'')) es = map (best_entry_of ''x86_64'' ''wh'' maxT) bs"
      "best_of_workloads (at_top (rows_of list_pandas two_trials) (''x86_64'', ''wh'')) bs" "\<forall>b \<in> set bs. col_threads b = maxT"
    by blast
  have "at_top (rows_of list_pandas two_trials) (''x86_64'', ''wh'') = [zipfian_reads, zipfian_reads\<lparr>col_ops_s := Fin 6000000\<rparr>]"
    by (simp add: at_top_def list_pandas_def two_trials_def zipfian_reads_def)
  with es(3) have top: "best_of_workloads [zipfian_reads, zipfian_reads\<lparr>col_ops_s := Fin 6000000\<rparr>] bs" by simp
  have bs: "sorted_wrt (<) (map col_workload bs)" "set (map col_workload bs) = {[]}" "\<forall>b \<in> set bs. col_threads b = 8"
  proof -
    show "sorted_wrt (<) (map col_workload bs)" using top by (simp only: best_of_workloads_def)
    have "set (map col_workload bs) = col_workload ` set [zipfian_reads, zipfian_reads\<lparr>col_ops_s := Fin 6000000\<rparr>]"
      "set bs \<subseteq> set [zipfian_reads, zipfian_reads\<lparr>col_ops_s := Fin 6000000\<rparr>]" using top by (simp_all only: best_of_workloads_def)
    moreover have "col_workload zipfian_reads = []" "col_threads zipfian_reads = 8" by (simp_all add: zipfian_reads_def)
    ultimately show "set (map col_workload bs) = {[]}" "\<forall>b \<in> set bs. col_threads b = 8" by auto
  qed
  have "map col_workload bs = [[]]" using bs(1,2) by (intro one_sorted)
  moreover have "bs \<noteq> []" using bs(2) by auto
  then have "maxT = 8" using es(4) bs(3) by (metis list.set_sel(1))
  ultimately show ?thesis using es(1,2) by (intro exI [of _ es] exI [of _ bs] conjI) (simp_all only:)
qed

end
