(* ===== verification/AnalysisTrials.thy ===== *)
theory AnalysisTrials
  imports AnalysisModel
begin

text \<open>
  The cells of \<open>scripts/lockbench_analysis.ipynb\<close> about the spread of the trials, the ratio of the
  machines over the thread counts, the pivoted tables and the heat map, and the whole notebook as the
  cells in order.
\<close>

section \<open>The summary lines\<close>

fun commas :: "string \<Rightarrow> string" where
  \<comment> \<open>on the reversed digits\<close>
  "commas (a # b # c # d # ds) = a # b # c # CHR '','' # commas (d # ds)"
| "commas ds = ds"

definition show_grouped :: "nat \<Rightarrow> string" where
  \<comment> \<open>\<open>format(n, ",")\<close>\<close>
  "show_grouped n = rev (commas (rev (show_nat n)))"

definition summary_lines :: "'f pandas \<Rightarrow> 'f \<Rightarrow> 'f \<Rightarrow> string list" where
  "summary_lines pd raw agg =
     (let uniq = (\<lambda>c. repr_list (py_sorted (unique_of pd c raw)));
          threads_on = (\<lambda>arch. repr_np_ints (thread_counts pd (select pd (\<lambda>r. col_arch r = arch) raw)))
      in [''raw rows: '' @ show_grouped (length (rows_of pd raw)) @ ''  agg rows: '' @ show_grouped (length (rows_of pd agg)),
          ''archs: '' @ uniq col_arch, ''benches: '' @ uniq col_bench, ''locks: '' @ uniq col_lock,
          ''unique workloads: '' @ uniq col_workload,
          ''threads: x86_64 '' @ arrow @ '' '' @ threads_on ''x86_64'' @ '',  aarch64 '' @ arrow @ '' '' @ threads_on ''aarch64''])"

section \<open>The spread of the trials\<close>

definition cov_key :: "sample \<Rightarrow> cell list" where
  "cov_key r = [CStr (col_arch r), CStr (col_bench r), CStr (col_lock r), CStr (col_workload r), CInt (col_threads r)]"

definition cov_row :: "'f pandas \<Rightarrow> 'f \<Rightarrow> sample" where
  "cov_row pd g = (hd (rows_of pd g))\<lparr>col_cov_pct := np_div (fmul (Fin 100) (std_of pd col_ops_s g)) (mean_of pd col_ops_s g)\<rparr>"

definition cov_table :: "'f pandas \<Rightarrow> 'f \<Rightarrow> 'f" where
  "cov_table pd raw = from_rows pd (map (\<lambda>(k, g). cov_row pd g) (groupby pd cov_key raw))"

definition cov_axes :: "'f pandas \<Rightarrow> 'f \<Rightarrow> (nat \<times> string) \<times> nat \<times> string \<Rightarrow> draw list py" where
  \<comment> \<open>a histogram of infinite values has no range\<close>
  "cov_axes pd cov = (\<lambda>((row, arch), (col, bench)).
     let sub = map col_cov_pct (rows_of pd (select pd (\<lambda>r. col_bench r = bench \<and> col_arch r = arch) cov));
         n_high = length (filter (\<lambda>v. fless (Fin 10) v) sub)
     in bind_py (get_item ARCH_COLOR arch) (\<lambda>color. bind_py (get_item ARCH_LABEL arch) (\<lambda>name.
        if PInf \<in> set sub \<or> NInf \<in> set sub then Inl ValueError
        else Inr ([Hist (filter (\<lambda>v. v \<noteq> NaN) sub) [(''bins'', ''30''), (''color'', color), (''alpha'', ''0.8'')],
             Call ''axvline'' [''10''] [(''color'', ''red''), (''linestyle'', ''--''), (''lw'', ''1''), (''label'', ''10 % warn'')],
             Call ''set_title'' [name @ '' '' @ mid_dot @ '' '' @ bench] [], Call ''set_xlabel'' [''CoV % (3-trial)''] []] @
           (if col = 0 then [Call ''set_ylabel'' [''# cells''] []] else []) @
           [Call ''text'' [''0.98'', ''0.95'', show_nat n_high @ ''/'' @ show_nat (length sub) @ '' > 10 %'']
              [(''transform'', ''ax.transAxes''), (''ha'', ''right''), (''va'', ''top''), (''fontsize'', ''9''),
               (''bbox'', ''dict(boxstyle='round', fc='white', ec='0.7', alpha=0.85)'')]] @
           (if row = 0 \<and> col = 0 then [Call ''legend'' [] [(''loc'', ''upper right''), (''fontsize'', ''8'')]] else [])))))"

definition cov_figure :: "'f pandas \<Rightarrow> 'f \<Rightarrow> figure py" where
  "cov_figure pd cov =
     bind_py (map_py (cov_axes pd cov)
       (List.product [(0, ''x86_64''), (1, ''aarch64'')] [(0, ''wh''), (1, ''cds''), (2, ''avl'')])) (\<lambda>axes.
       Inr \<lparr>fig_args = [(''figsize'', ''(13, 6)''), (''sharey'', ''True'')], fig_axes = axes,
            fig_calls = [Call ''suptitle'' [''Trial-to-trial CoV per cell (3 trials)''] [(''y'', ''1.02'')], Call ''tight_layout'' [] []],
            fig_file = []\<rparr>)"

definition cov_lines :: "'f pandas \<Rightarrow> 'f \<Rightarrow> string list" where
  "cov_lines pd cov =
     [CHR 0x0A # ''Highest-CoV cells (all archs, all benches):''] @
     map (\<lambda>r. ''  CoV='' @ pad_left 5 (format_fixed 1 (col_cov_pct r)) @ ''%  '' @ pad_right 8 (col_arch r) @ '' '' @
         pad_right 12 (col_lock r) @ '' '' @ pad_right 32 (col_workload r) @ '' threads='' @ show_int (col_threads r))
       (take 12 (rows_of pd (sort_values pd col_cov_pct False cov)))"

section \<open>The ratio over the thread counts\<close>

definition common_counts :: "int list \<Rightarrow> int list \<Rightarrow> int list" where
  \<comment> \<open>\<open>sorted(set(xs) & set(ys))\<close>\<close>
  "common_counts xs ys = py_sorted (first_occurrences (filter (\<lambda>t. t \<in> set ys) xs))"

definition at_threads :: "sample list \<Rightarrow> int \<Rightarrow> sample list" where
  "at_threads rs t = filter (\<lambda>r. col_threads r = t) rs"

definition thread_ratio_line :: "'f pandas \<Rightarrow> 'f \<Rightarrow> string \<Rightarrow> draw list py" where
  \<comment> \<open>with several rows for a number of threads the ratio has more values than there are numbers\<close>
  "thread_ratio_line pd sub lk =
     (let x86 = rows_of pd (select pd (\<lambda>r. col_lock r = lk \<and> col_arch r = ''x86_64'') sub);
          arm = rows_of pd (select pd (\<lambda>r. col_lock r = lk \<and> col_arch r = ''aarch64'') sub);
          t = common_counts (map col_threads x86) (map col_threads arm)
      in if t = [] then Inr []
         else if \<exists>n \<in> set t. length (at_threads x86 n) \<noteq> 1 \<or> length (at_threads arm n) \<noteq> 1 then Inl ValueError
         else (case style_of lk of (color, marker, label) \<Rightarrow>
           Inr [Plot t (map (\<lambda>n. np_div (col_ops_s (hd (at_threads arm n))) (col_ops_s (hd (at_threads x86 n)))) t)
             [(''fmt'', ''-''), (''color'', color), (''marker'', marker), (''label'', label), (''lw'', ''1.6''), (''ms'', ''7'')]]))"

definition thread_ratio_figure :: "'f pandas \<Rightarrow> 'f \<Rightarrow> figure py" where
  "thread_ratio_figure pd agg =
     (let counts = (\<lambda>arch. map col_threads (rows_of pd (select pd (\<lambda>r. col_arch r = arch \<and> col_bench r = ''wh'') agg)));
          common_T = common_counts (counts ''x86_64'') (counts ''aarch64'');
          sub = select pd (\<lambda>r. in_cell ''wh'' ''L1'' ''warm'' ''read_heavy'' r \<and> col_threads r \<in> set common_T) agg
      in bind_py (map_py (thread_ratio_line pd sub) (py_sorted (unique_of pd col_lock sub))) (\<lambda>ls.
         Inr \<lparr>fig_args = [(''figsize'', ''(11, 5.5)'')],
              fig_axes = [concat ls @
                [Call ''axhline'' [''1.0''] [(''color'', ''gray''), (''linestyle'', ''--''), (''lw'', ''1''), (''label'', ''parity'')],
                 Call ''set_xlabel'' [''threads''] [], Call ''set_ylabel'' [''Graviton2 ops/s  /  Xeon ops/s''] [],
                 Call ''set_title'' [''Cross-arch throughput ratio '' @ em_dash @ '' wormhole '' @ mid_dot @ '' L1_warm_read_heavy'' @
                   [CHR 0x0A] @ ''(>1 means Graviton2 is faster)''] [],
                 Call ''set_yscale'' [''log''] [], Call ''legend'' [] [(''loc'', ''lower left''), (''fontsize'', ''8'')]]],
              fig_calls = [Call ''tight_layout'' [] []], fig_file = []\<rparr>))"

section \<open>Pivoted tables\<close>

type_synonym regime_row = "string \<times> string \<times> string \<times> int \<times> flt"

definition regime_value :: "regime_row list \<Rightarrow> string \<times> string \<Rightarrow> string \<Rightarrow> flt" where
  \<comment> \<open>each lock, cache and machine has at most one row, which is its own mean\<close>
  "regime_value rows k arch =
     (case filter (\<lambda>(lk, cr, a, _). (lk, cr) = k \<and> a = arch) rows of [] \<Rightarrow> NaN | (_, _, _, _, v) # _ \<Rightarrow> v)"

definition regime_table :: "'f pandas \<Rightarrow> 'f \<Rightarrow> ((string \<times> string) \<times> flt \<times> flt \<times> flt) list py" where
  \<comment> \<open>aarch64, x86\_64 and their ratio; rows and columns without a value are dropped\<close>
  "regime_table pd agg =
     bind_py (regime_rows pd agg) (\<lambda>rows.
       let ok = filter (\<lambda>(_, _, _, _, v). v \<noteq> NaN) rows;
           keys = py_sorted (first_occurrences (map (\<lambda>(lk, cr, _). (lk, cr)) ok));
           has = (\<lambda>arch. \<exists>(_, _, a, _) \<in> set ok. a = arch)
       in if rows = [] then Inl (KeyError ''M_ops_s'')
          else if \<not> has ''aarch64'' then Inl (KeyError ''aarch64'')
          else if \<not> has ''x86_64'' then Inl (KeyError ''x86_64'')
          else Inr (map (\<lambda>k.
            let a = regime_value ok k ''aarch64''; x = regime_value ok k ''x86_64'' in (k, a, x, np_round 2 (np_div a x))) keys))"

definition best_table :: "best_entry list \<Rightarrow> ((string \<times> string) \<times> (string \<times> best_entry option) list) list py" where
  \<comment> \<open>the first entry of a benchmark, workload and machine\<close>
  "best_table es =
     (if es = [] then Inl (KeyError ''best_lock'')
      else Inr (map (\<lambda>k. (k, map (\<lambda>arch. (arch, find (\<lambda>e. (be_bench e, be_workload e) = k \<and> be_arch e = arch) es))
         (py_sorted (first_occurrences (map be_arch es)))))
       (py_sorted (first_occurrences (map (\<lambda>e. (be_bench e, be_workload e)) es)))))"

section \<open>The heat map\<close>

definition ratio_matrix :: "(string \<times> string \<times> flt) list \<Rightarrow> string list \<Rightarrow> string list \<Rightarrow> flt list list" where
  "ratio_matrix rs locks wls =
     map (\<lambda>lk. map (\<lambda>wl. case find (\<lambda>(l, w, _). l = lk \<and> w = wl) rs of None \<Rightarrow> NaN | Some (_, _, v) \<Rightarrow> v) wls) locks"

definition heat_texts :: "flt list list \<Rightarrow> draw list" where
  "heat_texts m =
     concat (map (\<lambda>(i, row). concat (map (\<lambda>(j, v).
         if v = NaN then []
         else [Call ''text'' [show_nat j, show_nat i, ratio_text v]
           [(''ha'', ''center''), (''va'', ''center''), (''fontsize'', ''9''), (''color'', ratio_color v)]])
       (zip [0..<length row] row))) (zip [0..<length m] m))"

definition heat_figure :: "'f pandas \<Rightarrow> 'f \<Rightarrow> figure py" where
  "heat_figure pd agg =
     bind_py (ratio_rows pd agg) (\<lambda>rs.
       let locks = py_sorted (first_occurrences (map fst rs)); wls = py_sorted (first_occurrences (map (fst \<circ> snd) rs));
           m = ratio_matrix rs locks wls
       in if rs = [] then Inl (KeyError ''lock'')
          else Inr \<lparr>fig_args = [(''figsize'', ''(14, 5)'')],
            fig_axes = [[Heat m [(''cmap'', ''RdYlGn''), (''norm'', ''TwoSlopeNorm(vmin=0.01, vcenter=1.0, vmax=3.0)''), (''aspect'', ''auto'')],
                Call ''set_xticks'' (map show_nat [0..<length wls]) [], Call ''set_xticklabels'' wls [(''rotation'', ''45''), (''ha'', ''right'')],
                Call ''set_yticks'' (map show_nat [0..<length locks]) [], Call ''set_yticklabels'' locks []] @ heat_texts m @
               [Call ''set_title'' [''Graviton2 / Xeon throughput ratio at max threads '' @ mid_dot @ '' wormhole'' @ [CHR 0x0A] @
                  ''(green = Graviton faster; red = Xeon faster)''] []]],
            fig_calls = [Call ''colorbar'' [] [(''label'', ''ratio (log-distorted around 1.0)'')], Call ''tight_layout'' [] []],
            fig_file = []\<rparr>)"

section \<open>Trials of the per-CPU lock\<close>

definition trials_of :: "'f pandas \<Rightarrow> 'f \<Rightarrow> string \<Rightarrow> 'f" where
  "trials_of pd raw lk =
     select pd (\<lambda>r. col_bench r = ''wh'' \<and> col_lock r = lk \<and> col_arch r = ''aarch64'' \<and> col_key_range r = 1000 \<and>
       col_zipf_theta r = fl (99 / 100) \<and> col_read_pct r = 90 \<and> col_dist r = ''zipfian'') raw"

definition trial_points :: "'f pandas \<Rightarrow> 'f \<Rightarrow> int \<Rightarrow> string \<times> string \<times> string \<times> string \<Rightarrow> draw" where
  "trial_points pd f t = (\<lambda>(color, marker, s, label).
     let vals = map millions (rows_of pd (select pd (\<lambda>r. col_threads r = t) f))
     in Scatter (replicate (length vals) t) vals
          ([(''color'', color), (''marker'', marker), (''s'', s)] @ (if t = 1 then [(''label'', label)] else []) @ [(''zorder'', ''3'')]))"

definition trials_figure :: "'f pandas \<Rightarrow> 'f \<Rightarrow> figure" where
  "trials_figure pd raw =
     (let pcpu = trials_of pd raw ''wh-pcpu-rw''; def = trials_of pd raw ''wh-default''
      in \<lparr>fig_args = [(''figsize'', ''(11, 5.5)'')],
          fig_axes = [concat (map (\<lambda>t. [trial_points pd pcpu t (''#2ca02c'', ''P'', ''80'', ''wh-pcpu-rw trials''),
                trial_points pd def t (''#666666'', ''o'', ''60'', ''wh-default trials'')]) (thread_counts pd pcpu)) @
            [Call ''set_yscale'' [''log''] [], Call ''set_xticks'' (map show_int (thread_counts pd pcpu)) [],
             Call ''set_xlabel'' [''threads''] [], Call ''set_ylabel'' [''throughput (M ops/s, log scale)''] [],
             Call ''set_title'' [''wh-pcpu-rw trial spread vs wh-default on Graviton2 '' @ mid_dot @ '' L1_warm_read_heavy''] [],
             Call ''legend'' [] [(''loc'', ''lower left'')]]],
          fig_calls = [Call ''tight_layout'' [] []], fig_file = []\<rparr>)"

definition max_ops :: "'f pandas \<Rightarrow> 'f \<Rightarrow> flt" where
  \<comment> \<open>\<open>max()\<close>: the value at \<open>idxmax\<close>\<close>
  "max_ops pd g = (case idxmax_of pd col_ops_s g of None \<Rightarrow> NaN | Some r \<Rightarrow> col_ops_s r)"

definition trials_summary :: "'f pandas \<Rightarrow> 'f \<Rightarrow> (int \<times> flt \<times> flt \<times> flt \<times> flt) list" where
  \<comment> \<open>threads, minimum, median and maximum in millions, and the coefficient of variation\<close>
  "trials_summary pd raw =
     (let pcpu = trials_of pd raw ''wh-pcpu-rw''
      in map (\<lambda>t. let g = select pd (\<lambda>r. col_threads r = t) pcpu
           in (t, np_round 3 (per_million (min_of pd col_ops_s g)), np_round 3 (per_million (median_of pd col_ops_s g)),
               np_round 3 (per_million (max_ops pd g)),
               np_round 1 (np_div (fmul (Fin 100) (std_of pd col_ops_s g)) (mean_of pd col_ops_s g)))) (thread_counts pd pcpu))"

section \<open>The cells in order\<close>

record analysis_out =
  an_lines :: "string list"
  an_headline :: "headline_row list"
  an_regimes :: "((string \<times> string) \<times> flt \<times> flt \<times> flt) list"
  an_best :: "((string \<times> string) \<times> (string \<times> best_entry option) list) list"
  an_trials :: "(int \<times> flt \<times> flt \<times> flt \<times> flt) list"
  an_figures :: "figure list"

definition analysis_cells :: "'f pandas \<Rightarrow> 'f world \<Rightarrow> analysis_out py" where
  "analysis_cells pd fs =
     bind_py (load_all pd fs) (\<lambda>(skipped, df).
     bind_py (derive_labels pd df) (\<lambda>raw.
       let agg = aggregate_df pd raw; cov = cov_table pd raw
       in bind_py (cov_figure pd cov) (\<lambda>f1.
          bind_py (headline_table pd agg) (\<lambda>headline.
          bind_py (thread_ratio_figure pd agg) (\<lambda>f2.
          bind_py (baseline_lines pd agg) (\<lambda>base.
          bind_py (efficiency_figure pd agg) (\<lambda>f4.
          bind_py (regime_table pd agg) (\<lambda>regimes.
          bind_py (regime_figure pd agg) (\<lambda>f5.
          bind_py (heat_figure pd agg) (\<lambda>f6.
          bind_py (scaling_figure pd agg) (\<lambda>f7.
          bind_py (best_rows pd agg) (\<lambda>es.
          bind_py (best_table es) (\<lambda>best.
          bind_py (overview_figure pd agg) (\<lambda>f9.
            Inr \<lparr>an_lines = skipped @ summary_lines pd raw agg @ cov_lines pd cov @ base, an_headline = headline,
                 an_regimes = regimes, an_best = best, an_trials = trials_summary pd raw,
                 an_figures = [f1, f2, baseline_figure pd agg, f4, f5, f6, f7, trials_figure pd raw, f9]\<rparr>))))))))))))))"

section \<open>What a cell of the spread is\<close>

fun cov_part :: "cell list \<Rightarrow> cell list" where
  \<comment> \<open>the part of the key of an aggregated row that the spread is grouped by\<close>
  "cov_part [a, b, l, w, cr, sk, mx, kr, z, rd, ins, t, sl, bk] = [a, b, l, w, t]"
| "cov_part k = k"

lemma cov_part_agg_key: "cov_part (agg_key r) = cov_key r"
  by (simp add: agg_key_def cov_key_def)

context dataframe
begin

lemma cov_table_length: "length (rows_of pd (cov_table pd f)) = card (cov_key ` set (rows_of pd f))"
proof -
  have "{v \<in> cov_key ` set (rows_of pd f). \<not> nan_key v} = cov_key ` set (rows_of pd f)"
    by (auto simp: nan_key_def cov_key_def)
  then have "set (map fst (groupby pd cov_key f)) = cov_key ` set (rows_of pd f)"
    using group_keys [of cov_key f] by simp
  then have "length (map fst (groupby pd cov_key f)) = card (cov_key ` set (rows_of pd f))"
    using distinct_card [OF distinct_groups [of cov_key f]] by simp
  then show ?thesis by (simp add: cov_table_def rows_from)
qed

lemma aggregate_length: "length (rows_of pd (aggregate_df pd f)) = card (agg_key ` set (rows_of pd f))"
  using distinct_card [OF distinct_all [of agg_key f]] all_keys [of agg_key f]
  by (simp add: aggregate_df_def rows_from)

lemma cov_coarser:
  "card (cov_key ` set rs) \<le> card (agg_key ` set rs) \<and>
   (card (cov_key ` set rs) = card (agg_key ` set rs) \<longleftrightarrow>
     (\<forall>r \<in> set rs. \<forall>r' \<in> set rs. cov_key r = cov_key r' \<longrightarrow> agg_key r = agg_key r'))"
proof -
  have img: "cov_key ` set rs = cov_part ` agg_key ` set rs" by (simp add: image_image cov_part_agg_key)
  have "card (cov_key ` set rs) = card (agg_key ` set rs) \<longleftrightarrow> inj_on cov_part (agg_key ` set rs)"
    unfolding img by (auto intro: eq_card_imp_inj_on card_image)
  also have "\<dots> \<longleftrightarrow> (\<forall>r \<in> set rs. \<forall>r' \<in> set rs. cov_key r = cov_key r' \<longrightarrow> agg_key r = agg_key r')"
    by (simp add: inj_on_def cov_part_agg_key)
  finally show ?thesis unfolding img by (simp add: card_image_le)
qed

end

text \<open>
  The cells whose spread the notebook calls trial-to-trial are at least as coarse as the cells it
  aggregates the trials into, and they are the same cells exactly if no two rows of one machine,
  benchmark, lock, workload name and number of threads differ in key range, skew parameter, mix,
  stream length or number of buckets. Otherwise different configurations are mixed and their
  difference counts as noise.
\<close>

theorem cov_cells_mix:
  assumes "dataframe pd"
  shows "length (rows_of pd (cov_table pd raw)) \<le> length (rows_of pd (aggregate_df pd raw)) \<and>
    (length (rows_of pd (cov_table pd raw)) = length (rows_of pd (aggregate_df pd raw)) \<longleftrightarrow>
      (\<forall>r \<in> set (rows_of pd raw). \<forall>r' \<in> set (rows_of pd raw). cov_key r = cov_key r' \<longrightarrow> agg_key r = agg_key r'))"
  unfolding dataframe.cov_table_length [OF assms] dataframe.aggregate_length [OF assms]
  by (rule dataframe.cov_coarser [OF assms])

definition bucket_sweep :: "sample list" where
  "bucket_sweep = [zipfian_reads\<lparr>col_buckets := 256\<rparr>, zipfian_reads\<lparr>col_buckets := 1024\<rparr>]"

theorem cov_cells_mix_witness:
  "length (rows_of list_pandas (cov_table list_pandas bucket_sweep)) <
     length (rows_of list_pandas (aggregate_df list_pandas bucket_sweep))"
proof -
  let ?r = "zipfian_reads\<lparr>col_buckets := 256\<rparr>" and ?s = "zipfian_reads\<lparr>col_buckets := 1024\<rparr>"
  have "cov_key ?r = cov_key ?s" "agg_key ?r \<noteq> agg_key ?s" by (simp_all add: cov_key_def agg_key_def)
  moreover have "?r \<in> set (rows_of list_pandas bucket_sweep)" "?s \<in> set (rows_of list_pandas bucket_sweep)"
    by (simp_all add: list_pandas_def bucket_sweep_def)
  ultimately show ?thesis using cov_cells_mix [OF rows.dataframe_axioms, of bucket_sweep] by (metis le_neq_implies_less)
qed

section \<open>Thousands\<close>

lemma commas_digits: "\<forall>c \<in> set ds. is_digit c \<Longrightarrow> filter (\<lambda>c. c \<noteq> CHR '','') (commas ds) = ds"
  by (induction ds rule: commas.induct) (auto simp: is_digit_def)

lemma show_grouped_digits: "filter (\<lambda>c. c \<noteq> CHR '','') (show_grouped n) = show_nat n"
  using commas_digits [of "rev (show_nat n)"] show_nat_digits [of n]
  by (simp add: show_grouped_def rev_filter [symmetric] list_all_iff)

end
