(* ===== verification/AvlCompare.thy ===== *)
theory AvlCompare
  imports IndexCrossArch
begin

text \<open>
  The code cells of \<open>scripts/avl_compare.ipynb\<close>: three result files are read and labelled, each index
  gets a grid of line plots, the two libcds indexes are drawn against each other, and tables give the
  throughput with eight threads and the speedup over the default lock. The text layout of a printed
  table is not modelled. The column \<open>ds\<close> that the first cell adds is read nowhere.
\<close>

section \<open>Loading\<close>

definition workload :: "sample \<Rightarrow> string" where
  "workload row =
     (let rd = col_read_pct row; ins = col_insert_pct row
      in if rd = 80 \<and> ins = 10 then col_dist row @ '' 80/10/10''
         else if rd = 90 \<and> ins = 5 then ''uniform 90/5/5 read-heavy''
         else if rd = 20 \<and> ins = 40 then ''zipfian 20/40/40 write-heavy''
         else mix_label CHR '' '' CHR ''/'' (col_dist row) rd ins)"

definition RESULTS_AVL :: path where
  "RESULTS_AVL = [''..'', ''results'', ''avl_compare'']"

definition RESULTS_WH :: path where
  "RESULTS_WH = [''..'', ''results'', ''wh_compare'']"

definition strip_lock :: "'f pandas \<Rightarrow> string \<Rightarrow> 'f \<Rightarrow> 'f" where
  "strip_lock pd prefix f = assign pd (\<lambda>r. r\<lparr>col_lk := remove_all prefix (col_lock r)\<rparr>) f"

definition add_workload :: "'f pandas \<Rightarrow> 'f \<Rightarrow> 'f py" where
  "add_workload pd f = apply_rows pd (\<lambda>r. r\<lparr>col_workload := workload r\<rparr>) f"

definition rows_line :: "'f pandas \<Rightarrow> string \<Rightarrow> 'f \<Rightarrow> string" where
  "rows_line pd name df =
     name @ '' rows: '' @ show_nat (length (rows_of pd df)) @ '' variants: '' @ repr_list (py_sorted (unique_of pd col_lk df))"

definition load_frames :: "'f pandas \<Rightarrow> 'f world \<Rightarrow> ('f \<times> 'f \<times> 'f) py" where
  \<comment> \<open>all files are read before the first label is made\<close>
  "load_frames pd fs =
     bind_py (read_results fs (RESULTS_AVL @ [''cds_striped.csv''])) (\<lambda>cds0.
     bind_py (read_results fs (RESULTS_AVL @ [''cds_avl.csv''])) (\<lambda>avl0.
     bind_py (read_results fs (RESULTS_WH @ [''wh.csv''])) (\<lambda>wh0.
     bind_py (add_workload pd (strip_lock pd ''cds-'' cds0)) (\<lambda>cds.
     bind_py (add_workload pd (strip_lock pd ''avl-'' avl0)) (\<lambda>avl.
     bind_py (add_workload pd (strip_lock pd ''wh-'' wh0)) (\<lambda>wh.
       Inr (cds, avl, wh)))))))"

section \<open>Figures\<close>

definition lock_palette :: "(string, string) dict" where
  "lock_palette =
     [(''std'', ''#888''), (''tas'', ''tab:blue''), (''ttas'', ''tab:green''), (''cas'', ''tab:orange''), (''ticket'', ''tab:red'')]"

definition stripe_locks :: "string list" where
  "stripe_locks = [''std'', ''tas'', ''ttas'', ''cas'', ''ticket'']"

definition wh_palette :: "(string, string) dict" where
  "wh_palette =
     [(''default'', ''#888''), (''rw'', ''#444''), (''tas'', ''tab:blue''), (''ttas'', ''tab:green''), (''cas'', ''tab:orange''),
      (''occ'', ''tab:purple'')]"

definition wh_styles :: "(string, string) dict" where
  "wh_styles = [(''default'', ''--''), (''rw'', ''-''), (''tas'', ''-''), (''ttas'', ''-''), (''cas'', ''-''), (''occ'', ''-'')]"

definition leaf_locks :: "string list" where
  "leaf_locks = [''default'', ''rw'', ''tas'', ''ttas'', ''cas'', ''occ'']"

definition stripe_attrs :: "string \<Rightarrow> attrs py" where
  "stripe_attrs lk =
     bind_py (get_item lock_palette lk) (\<lambda>color.
       Inr [(''marker'', ''o''), (''color'', color), (''linestyle'', if lk = ''std'' then ''--'' else ''-''), (''label'', lk)])"

definition leaf_attrs :: "string \<Rightarrow> attrs py" where
  "leaf_attrs lk =
     bind_py (get_item wh_palette lk) (\<lambda>color. bind_py (get_item wh_styles lk) (\<lambda>style.
       Inr [(''marker'', ''o''), (''color'', color), (''linestyle'', style), (''label'', lk)]))"

definition axis_calls :: "string \<Rightarrow> attrs \<Rightarrow> draw list" where
  "axis_calls wkl legend =
     [Call ''set_title'' [wkl] [], Call ''set_xlabel'' [''Threads''] [], Call ''set_ylabel'' [''M ops/s''] [],
      Call ''legend'' [] legend, Call ''grid'' [''True''] [(''alpha'', ''0.3'')]]"

definition locks_axes :: "'f pandas \<Rightarrow> string list \<Rightarrow> (string \<Rightarrow> attrs py) \<Rightarrow> 'f \<Rightarrow> string \<Rightarrow> draw list py" where
  "locks_axes pd locks kwargs df wkl =
     (let sub = select pd (\<lambda>r. col_workload r = wkl) df
      in bind_py (map_py (\<lambda>lk. series pd (select pd (\<lambda>r. col_lk r = lk) sub) (kwargs lk)) locks) (\<lambda>dss.
         Inr (concat dss @ axis_calls wkl [(''fontsize'', ''8'')])))"

definition locks_grid :: "'f pandas \<Rightarrow> string list \<Rightarrow> (string \<Rightarrow> attrs py) \<Rightarrow> 'f \<Rightarrow> string \<Rightarrow> figure py" where
  "locks_grid pd locks kwargs df title =
     bind_py (grid_2x2 (locks_axes pd locks kwargs df) (py_sorted (unique_of pd col_workload df))) (\<lambda>axes.
       Inr \<lparr>fig_args = [(''figsize'', ''(13, 9)'')], fig_axes = axes,
            fig_calls = [Call ''suptitle'' [title] [], Call ''tight_layout'' [] []], fig_file = []\<rparr>)"

definition plot_locks :: "'f pandas \<Rightarrow> 'f \<Rightarrow> string \<Rightarrow> figure py" where
  \<comment> \<open>every call leaves the grid and the size at their defaults\<close>
  "plot_locks pd df title = locks_grid pd stripe_locks stripe_attrs df title"

definition plot_wh :: "'f pandas \<Rightarrow> 'f \<Rightarrow> string \<Rightarrow> figure py" where
  "plot_wh pd df title = locks_grid pd leaf_locks leaf_attrs df title"

definition duel_lines :: "'f pandas \<Rightarrow> 'f \<Rightarrow> 'f \<Rightarrow> string \<Rightarrow> string \<Rightarrow> draw list py" where
  "duel_lines pd cds avl wkl lk =
     (let rows_at = (\<lambda>f. select pd (\<lambda>r. col_workload r = wkl \<and> col_lk r = lk) f);
          look = (\<lambda>marker style c name. [(''marker'', marker), (''linestyle'', style), (''color'', c), (''label'', name @ lk)])
      in bind_py (get_item lock_palette lk) (\<lambda>c.
         bind_py (series pd (rows_at cds) (Inr (look ''o'' ''-'' c ''cds-''))) (\<lambda>d1.
         bind_py (series pd (rows_at avl) (Inr (look ''s'' ''--'' c ''avl-''))) (\<lambda>d2.
           Inr (d1 @ d2)))))"

definition duel_figure :: "'f pandas \<Rightarrow> 'f \<Rightarrow> 'f \<Rightarrow> figure py" where
  "duel_figure pd cds avl =
     (let workloads = py_sorted (first_occurrences (unique_of pd col_workload cds @ unique_of pd col_workload avl))
      in bind_py (grid_2x2 (\<lambda>wkl. bind_py (map_py (duel_lines pd cds avl wkl) stripe_locks) (\<lambda>dss.
             Inr (concat dss @ axis_calls wkl [(''fontsize'', ''7''), (''ncol'', ''2'')]))) workloads) (\<lambda>axes.
         Inr \<lparr>fig_args = [(''figsize'', ''(13, 9)'')], fig_axes = axes,
              fig_calls = [Call ''suptitle'' [''StripedMap (solid circles) vs BronsonAVL (dashed squares) by lock primitive''] [],
                Call ''tight_layout'' [] []], fig_file = []\<rparr>))"

section \<open>Tables\<close>

definition map_cells :: "(string \<Rightarrow> string \<Rightarrow> flt \<Rightarrow> flt) \<Rightarrow> pivot \<Rightarrow> pivot" where
  "map_cells g t = t\<lparr>pv_cell := \<lambda>x y. g x y (pv_cell t x y)\<rparr>"

definition table8 :: "'f pandas \<Rightarrow> 'f \<Rightarrow> pivot" where
  \<comment> \<open>\<open>df[df.threads == 8].pivot_table(...) / 1e6\<close>\<close>
  "table8 pd df =
     map_cells (\<lambda>_ _ v. np_div v (Fin 1000000))
       (pivot_mean pd col_workload col_lk col_ops_s (select pd (\<lambda>r. col_threads r = 8) df))"

definition pick_columns :: "string list \<Rightarrow> pivot \<Rightarrow> pivot" where
  \<comment> \<open>\<open>s[[c for c in locks if c in s.columns]]\<close>\<close>
  "pick_columns locks t = t\<lparr>pv_columns := filter (\<lambda>c. c \<in> set (pv_columns t)) locks\<rparr>"

definition at8 :: "'f pandas \<Rightarrow> 'f \<Rightarrow> string list \<Rightarrow> pivot" where
  "at8 pd df locks = pick_columns locks (table8 pd df)"

definition round_table :: "nat \<Rightarrow> pivot \<Rightarrow> pivot" where
  "round_table n t = map_cells (\<lambda>_ _ v. np_round n v) t"

definition speedup_vs_baseline :: "'f pandas \<Rightarrow> 'f \<Rightarrow> string list \<Rightarrow> string \<Rightarrow> pivot py" where
  "speedup_vs_baseline pd df locks baseline =
     (let t = table8 pd df
      in if baseline \<notin> set (pv_columns t) then Inl (KeyError baseline)
         else Inr (round_table 2 (map_cells (\<lambda>x _ v. np_div v (pv_cell t x baseline)) (pick_columns locks t))))"

section \<open>The cells in order\<close>

record avl_out =
  avl_lines :: "string list"
  avl_figures :: "figure list"
  avl_tables :: "(string \<times> pivot) list"

definition avl_notebook :: "'f pandas \<Rightarrow> 'f world \<Rightarrow> avl_out py" where
  "avl_notebook pd fs =
     bind_py (load_frames pd fs) (\<lambda>(cds, avl, wh).
     bind_py (plot_locks pd cds (''libcds StripedMap '' @ em_dash @ '' pluggable stripe lock'')) (\<lambda>f1.
     bind_py (plot_locks pd avl (''libcds BronsonAVLTreeMap '' @ em_dash @ '' pluggable per-node lock'')) (\<lambda>f2.
     bind_py (plot_wh pd wh (''Wormhole '' @ em_dash @ '' pluggable per-leaf lock'')) (\<lambda>f3.
     bind_py (duel_figure pd cds avl) (\<lambda>f4.
     bind_py (speedup_vs_baseline pd cds stripe_locks ''std'') (\<lambda>s1.
     bind_py (speedup_vs_baseline pd avl stripe_locks ''std'') (\<lambda>s2.
     bind_py (speedup_vs_baseline pd wh leaf_locks ''default'') (\<lambda>s3.
       Inr \<lparr>avl_lines = [rows_line pd ''StripedMap'' cds, rows_line pd ''BronsonAVL'' avl, rows_line pd ''Wormhole'' wh],
            avl_figures = [f1, f2, f3, f4],
            avl_tables =
              [(''=== StripedMap, 8 threads, M ops/s ==='', round_table 1 (at8 pd cds stripe_locks)),
               (''=== BronsonAVL, 8 threads, M ops/s ==='', round_table 1 (at8 pd avl stripe_locks)),
               (''=== Wormhole,  8 threads, M ops/s ==='', round_table 1 (at8 pd wh leaf_locks)),
               (''=== StripedMap speedup vs cds-std (8 threads) ==='', s1),
               (''=== BronsonAVL speedup vs avl-std (8 threads) ==='', s2),
               (''=== Wormhole speedup vs wh-default (8 threads) ==='', s3)]\<rparr>))))))))"

section \<open>Rounded ratios\<close>

lemma np_div_pos: "0 < b \<Longrightarrow> 0 \<le> a \<Longrightarrow> np_div (Fin a) (Fin b) = (if a = 0 then Fin 0 else fl (a / b))"
  by (auto simp: np_div_def fdiv_def is_zero_def signed_def Let_def)

lemma one_less_max_bound: "1 < max_bound"
  by (simp add: max_bound_def)

lemma fl_1: "fl 1 = Fin 1"
  using representable_of_int [of 1] one_less_max_bound by (simp add: fl_def Let_def)

lemma np_round_ge_1: "1 \<le> r \<Longrightarrow> \<not> fless (np_round 2 (fl r)) (Fin 1)"
proof -
  assume "1 \<le> r"
  then have v: "1 \<le> rnd r" using rnd_mono [of 1 r] representable_of_int [of 1] by simp
  have w: "100 \<le> rnd (rnd r * 100)" using rnd_mono [of 100 "rnd r * 100"] representable_of_int [of 100] v by simp
  have d: "100 \<le> rhe (rnd (rnd r * 100))" using rhe_mono [OF w] rhe_of_int [of 100] by simp
  then have "1 \<le> (of_int (rhe (rnd (rnd r * 100))) / 100 :: rat)" by simp
  from fl_mono [OF this] have "\<not> fless (fl (of_int (rhe (rnd (rnd r * 100))) / 100)) (fl 1)" .
  then show ?thesis using v w d
    by (auto simp: fl_1 signed_def np_round_def fl_def [of r] fl_def [of "rnd r * 100"] fmul_def fdiv_def is_zero_def Let_def)
qed

lemma np_round_le_1: "0 \<le> r \<Longrightarrow> r \<le> 1 \<Longrightarrow> \<not> fless (Fin 1) (np_round 2 (fl r))"
proof -
  assume r: "0 \<le> r" "r \<le> 1"
  then have v: "0 \<le> rnd r" "rnd r \<le> 1" using rnd_mono [of r 1] representable_of_int [of 1] rnd_nonneg by simp_all
  have w: "0 \<le> rnd (rnd r * 100)" "rnd (rnd r * 100) \<le> 100"
    using rnd_mono [of "rnd r * 100" 100] representable_of_int [of 100] v rnd_nonneg by simp_all
  have d: "0 \<le> rhe (rnd (rnd r * 100))" "rhe (rnd (rnd r * 100)) \<le> 100"
    using rhe_mono [OF w(2)] rhe_of_int [of 100] rhe_sign(1) [OF w(1)] by simp_all
  then have "of_int (rhe (rnd (rnd r * 100))) / 100 \<le> (1 :: rat)" by simp
  from fl_mono [OF this] have "\<not> fless (Fin 1) (fl (of_int (rhe (rnd (rnd r * 100))) / 100))" by (simp add: fl_1)
  moreover have "100 < max_bound" by (simp add: max_bound_def)
  ultimately show ?thesis using v w d r
    by (auto simp: signed_def np_round_def fl_def [of r] fl_def [of "rnd r * 100"] fmul_def fdiv_def is_zero_def Let_def)
qed

lemma np_round_1: "np_round 2 (Fin 1) = Fin 1"
  by code_simp

section \<open>What the speedup table shows\<close>

definition rows8 :: "sample list \<Rightarrow> string \<Rightarrow> string \<Rightarrow> sample list" where
  \<comment> \<open>the measurements of a workload and a lock with eight threads\<close>
  "rows8 rs w lk = filter (\<lambda>r. col_threads r = 8 \<and> col_workload r = w \<and> col_lk r = lk) rs"

context dataframe
begin

lemma table8_cell:
  assumes "rows8 (rows_of pd df) w lk = [r]"
  shows "pv_cell (table8 pd df) w lk = millions r"
proof -
  let ?f = "select pd (\<lambda>r. col_threads r = 8) df"
  have one: "rows_of pd (select pd (\<lambda>r. col_workload r = w \<and> col_lk r = lk) ?f) = [r]"
    using assms by (simp add: rows_select rows8_def conj_ac)
  then have "r \<in> set (rows_of pd (select pd (\<lambda>r. col_workload r = w \<and> col_lk r = lk) ?f))" by simp
  then have "\<exists>r \<in> set (rows_of pd ?f). col_workload r = w \<and> col_lk r = lk" by (auto simp: rows_select)
  then have "pv_cell (pivot_mean pd col_workload col_lk col_ops_s ?f) w lk = col_ops_s r"
    by (simp add: pivot_cell mean_single [OF one])
  then show ?thesis by (simp add: table8_def map_cells_def np_div_def millions_def is_zero_def)
qed

lemma table8_labels:
  assumes "pv_cell (table8 pd df) w lk \<noteq> NaN"
  shows "w \<in> set (pv_index (table8 pd df))" "lk \<in> set (pv_columns (table8 pd df))"
proof -
  let ?f = "select pd (\<lambda>r. col_threads r = 8) df" and ?p = "pivot_mean pd col_workload col_lk col_ops_s (select pd (\<lambda>r. col_threads r = 8) df)"
  have val: "pv_cell ?p w lk \<noteq> NaN"
    using assms by (auto simp: table8_def map_cells_def np_div_def fdiv_def is_zero_def Let_def)
  then have "\<exists>r \<in> set (rows_of pd ?f). col_workload r = w \<and> col_lk r = lk" by (auto simp: pivot_cell split: if_splits)
  then show "w \<in> set (pv_index (table8 pd df))" "lk \<in> set (pv_columns (table8 pd df))"
    using val by (auto simp: table8_def map_cells_def pivot_index [of _ _ _ ?f] pivot_columns [of _ _ _ ?f] set_unique)
qed

lemma table8_no_column:
  assumes "\<forall>r \<in> set (rows_of pd df). col_threads r = 8 \<longrightarrow> col_lk r \<noteq> lk"
  shows "lk \<notin> set (pv_columns (table8 pd df))"
  using assms by (auto simp: table8_def map_cells_def pivot_columns [of _ _ _ "select pd (\<lambda>r. col_threads r = 8) df"] set_unique rows_select)

end

text \<open>
  C18. The speedup table: without a measurement of the baseline with eight threads it is a
  \<open>KeyError\<close>. For a workload in which the baseline and a lock have one measurement each, the
  baseline's entry is exactly 1, and a lock that is at least as fast never gets an entry below 1, one
  that is at most as fast never one above 1, whatever the roundings do.
\<close>

theorem speedup_of_measurements:
  assumes "dataframe pd" and "rows8 (rows_of pd df) w baseline = [rb]" and "rows8 (rows_of pd df) w lk = [r]"
    and "millions rb = Fin b" and "0 < b" and "millions r = Fin a" and "0 \<le> a" and "lk \<in> set locks"
  shows "((\<forall>r \<in> set (rows_of pd df). col_threads r = 8 \<longrightarrow> col_lk r \<noteq> other) \<longrightarrow>
      speedup_vs_baseline pd df locks other = Inl (KeyError other)) \<and>
    (\<exists>s. speedup_vs_baseline pd df locks baseline = Inr s \<and> w \<in> set (pv_index s) \<and> lk \<in> set (pv_columns s) \<and>
       pv_cell s w baseline = Fin 1 \<and> (b \<le> a \<longrightarrow> \<not> fless (pv_cell s w lk) (Fin 1)) \<and> (a \<le> b \<longrightarrow> \<not> fless (Fin 1) (pv_cell s w lk)))"
proof -
  note cell = dataframe.table8_cell [OF assms(1)] and labels = dataframe.table8_labels [OF assms(1)]
  let ?t = "table8 pd df"
  let ?s = "round_table 2 (map_cells (\<lambda>x _ v. np_div v (pv_cell ?t x baseline)) (pick_columns locks ?t))"
  have c: "pv_cell ?t w baseline = Fin b" "pv_cell ?t w lk = Fin a" using cell assms(2-6) by auto
  have l: "w \<in> set (pv_index ?t)" "baseline \<in> set (pv_columns ?t)" "lk \<in> set (pv_columns ?t)"
    using labels [of df w baseline] labels [of df w lk] c by simp_all
  have s: "speedup_vs_baseline pd df locks baseline = Inr ?s" using l(2) by (simp add: speedup_vs_baseline_def Let_def)
  have entry: "pv_cell ?s w lk' = np_round 2 (np_div (pv_cell ?t w lk') (Fin b))" for lk'
    by (simp add: round_table_def map_cells_def pick_columns_def c(1))
  have zero: "np_round 2 (Fin 0) = Fin 0" by code_simp
  have "pv_cell ?s w baseline = Fin 1" using assms(5) by (simp add: entry c np_div_pos fl_1 np_round_1)
  moreover have "b \<le> a \<longrightarrow> \<not> fless (pv_cell ?s w lk) (Fin 1)"
    using assms(5,7) np_round_ge_1 [of "a / b"] by (auto simp: entry c np_div_pos)
  moreover have "a \<le> b \<longrightarrow> \<not> fless (Fin 1) (pv_cell ?s w lk)"
    using assms(5,7) np_round_le_1 [of "a / b"] by (auto simp: entry c np_div_pos zero)
  moreover have "w \<in> set (pv_index ?s)" "lk \<in> set (pv_columns ?s)"
    using l assms(8) by (simp_all add: round_table_def map_cells_def pick_columns_def)
  moreover have "speedup_vs_baseline pd df locks other = Inl (KeyError other)"
    if "\<forall>r \<in> set (rows_of pd df). col_threads r = 8 \<longrightarrow> col_lk r \<noteq> other"
    using dataframe.table8_no_column [OF assms(1) that] by (simp add: speedup_vs_baseline_def Let_def)
  ultimately show ?thesis using s by blast
qed

definition duel_rows :: "sample list" where
  "duel_rows = [zipfian_reads\<lparr>col_lk := ''std''\<rparr>, zipfian_reads\<lparr>col_ops_s := Fin 9000000\<rparr>]"

theorem speedup_of_measurements_witness:
  "\<exists>s. speedup_vs_baseline list_pandas duel_rows [''std'', ''tas''] ''std'' = Inr s \<and>
     pv_cell s [] ''std'' = Fin 1 \<and> \<not> fless (pv_cell s [] ''tas'') (Fin 1)"
proof -
  have m: "millions (zipfian_reads\<lparr>col_lk := ''std''\<rparr>) = Fin 7" "millions (zipfian_reads\<lparr>col_ops_s := Fin 9000000\<rparr>) = Fin 9"
    by code_simp+
  have rows: "rows8 (rows_of list_pandas duel_rows) [] ''std'' = [zipfian_reads\<lparr>col_lk := ''std''\<rparr>]"
    "rows8 (rows_of list_pandas duel_rows) [] ''tas'' = [zipfian_reads\<lparr>col_ops_s := Fin 9000000\<rparr>]"
    by (simp_all add: rows8_def list_pandas_def duel_rows_def zipfian_reads_def)
  show ?thesis
    using speedup_of_measurements [OF rows.dataframe_axioms rows m(1) _ m(2), of "[''std'', ''tas'']"] by auto
qed

section \<open>What the figures show\<close>

context dataframe
begin

lemma locks_grid_shows:
  assumes "\<forall>lk \<in> set locks. \<exists>a. kwargs lk = Inr a"
  shows "\<exists>fig. locks_grid pd locks kwargs df title = Inr fig \<and> length (fig_axes fig) = 4 \<and>
    list_all2 (panel_shows (rows_of pd df) locks kwargs) (take 4 (py_sorted (unique_of pd col_workload df)))
      (take (min 4 (length (py_sorted (unique_of pd col_workload df)))) (fig_axes fig))"
proof -
  have "\<forall>w \<in> set (py_sorted (unique_of pd col_workload df)). \<exists>ds. locks_axes pd locks kwargs df w = Inr ds \<and>
      panel_shows (rows_of pd df) locks kwargs w ds"
    unfolding locks_axes_def Let_def
    using assms by (intro ballI panel_lines) (auto simp: rows_select lock_rows_def axis_calls_def conj_ac)
  from grid_2x2_panels [OF this] show ?thesis by (auto simp: locks_grid_def)
qed

end

text \<open>
  The grid of an index never fails: each of the first four workloads in sorted order gets a panel
  with exactly one line, in the order of the list, for every listed lock that has measurements there,
  through exactly its points in ascending order of threads.
\<close>

theorem index_grids_show:
  assumes "dataframe pd" and "ws = py_sorted (unique_of pd col_workload df)"
  shows "(\<exists>fig. plot_locks pd df title = Inr fig \<and> length (fig_axes fig) = 4 \<and>
      list_all2 (panel_shows (rows_of pd df) stripe_locks stripe_attrs) (take 4 ws) (take (min 4 (length ws)) (fig_axes fig))) \<and>
    (\<exists>fig. plot_wh pd df title = Inr fig \<and> length (fig_axes fig) = 4 \<and>
      list_all2 (panel_shows (rows_of pd df) leaf_locks leaf_attrs) (take 4 ws) (take (min 4 (length ws)) (fig_axes fig)))"
proof -
  have "\<forall>lk \<in> set stripe_locks. \<exists>a. stripe_attrs lk = Inr a" "\<forall>lk \<in> set leaf_locks. \<exists>a. leaf_attrs lk = Inr a"
    by (simp_all add: stripe_locks_def stripe_attrs_def lock_palette_def leaf_locks_def leaf_attrs_def wh_palette_def wh_styles_def
      get_item_def)
  then show ?thesis
    using dataframe.locks_grid_shows [OF assms(1)] unfolding plot_locks_def plot_wh_def assms(2) by blast
qed

theorem index_grids_show_witness:
  "\<exists>fig. plot_locks list_pandas duel_rows [] = Inr fig \<and> length (fig_axes fig) = 4"
  using index_grids_show [OF rows.dataframe_axioms refl, of duel_rows] by blast

end
