(* ===== verification/PlatformNotebook.thy ===== *)
theory PlatformNotebook
  imports IndexCrossArch
begin

text \<open>
  The code cells of \<open>results/lockbench/graviton_vs_xeon_notebook.ipynb\<close> and of
  \<open>results/lockbench/presentation_notebook.ipynb\<close>, which share most of their code: two files of the lock
  benchmark are read, trials are averaged per machine, lock and number of threads, and figures compare
  the machines. The files have other columns than those of the index benchmarks, so a row is a record of
  its own and a frame the list of its rows. What pandas computes as mean and standard deviation of a
  column, and the number it reads in a text, are arguments. A missing integer is \<open>None\<close>.
\<close>

section \<open>Constants\<close>

definition LOCK_ORDER :: "string list" where
  "LOCK_ORDER = [''tas'', ''ttas'', ''cas'', ''ticket'', ''rw'', ''occ'', ''rcu'']"

definition LOCK_LABELS :: "(string, string) dict" where
  "LOCK_LABELS =
     [(''tas'', ''TAS''), (''ttas'', ''TTAS''), (''cas'', ''CAS''), (''ticket'', ''Ticket''), (''rw'', ''RW Lock''), (''occ'', ''OCC''),
      (''rcu'', ''RCU'')]"

definition LOCK_COLORS :: "(string, string) dict" where
  "LOCK_COLORS =
     [(''tas'', ''#4e79a7''), (''ttas'', ''#f28e2b''), (''cas'', ''#e15759''), (''ticket'', ''#76b7b2''), (''rw'', ''#59a14f''),
      (''occ'', ''#af7aa1''), (''rcu'', ''#ff9da7'')]"

definition PLAT_COLORS :: "(string, string) dict" where
  "PLAT_COLORS = [(''arm'', ''#2ca02c''), (''x86'', ''#1f77b4'')]"

definition platforms :: "string list" where
  "platforms = [''arm'', ''x86'']"

definition INT_COLS :: "string list" where
  "INT_COLS = [''threads'', ''cs_work'', ''read_pct'', ''total_ops'', ''read_ops'', ''write_ops'']"

definition FLOAT_COLS :: "string list" where
  "FLOAT_COLS = [''ops_s'', ''ns_op'', ''fairness_min'', ''fairness_max'', ''fairness_ratio'']"

text \<open>What differs between the two notebooks: the files and the names of the machines.\<close>

record notebook_cfg =
  arm_csv :: string
  x86_csv :: string
  PLAT_LABELS :: "(string, string) dict"

definition graviton_cfg :: notebook_cfg where
  "graviton_cfg = \<lparr>arm_csv = ''arm_graviton_lockbench.csv'', x86_csv = ''x86_xeon_lockbench_new_rw_split.csv'',
     PLAT_LABELS = [(''arm'', ''Graviton 4 (ARM)''), (''x86'', ''Xeon (x86)'')]\<rparr>"

definition presentation_cfg :: notebook_cfg where
  "presentation_cfg = \<lparr>arm_csv = ''arm_xgene1_lockbench.csv'', x86_csv = ''x86_xeon_lockbench.csv'',
     PLAT_LABELS = [(''arm'', ''X-Gene 1 (ARM)''), (''x86'', ''Haswell (x86)'')]\<rparr>"

section \<open>Loading\<close>

record raw_trial =
  raw_lock :: string
  raw_workload :: string
  raw_col :: "string \<Rightarrow> cell"

record trial =
  tr_platform :: string
  tr_lock :: string
  tr_workload :: string
  tr_threads :: "int option"
  tr_cs_work :: "int option"
  tr_read_pct :: "int option"
  tr_ops_m :: flt
  tr_ns_op :: flt
  tr_fairness :: flt

text \<open>The files (\<open>None\<close> for one that does not exist) and what pandas does with columns of numbers.\<close>

record bench_world =
  csv_trials :: "path \<Rightarrow> raw_trial list option"
  text_number :: "string \<Rightarrow> flt"
  col_mean :: "flt list \<Rightarrow> flt"
  col_std :: "flt list \<Rightarrow> flt"

definition resolve_csv :: "bench_world \<Rightarrow> string \<Rightarrow> path py" where
  "resolve_csv bw name =
     (case filter (\<lambda>p. csv_trials bw p \<noteq> None) [[name], [''results'', name]] of [] \<Rightarrow> Inl FileNotFoundError | p # _ \<Rightarrow> Inr p)"

fun to_numeric :: "bench_world \<Rightarrow> cell \<Rightarrow> flt" where
  \<comment> \<open>\<open>pd.to_numeric(df[c], errors='coerce')\<close>\<close>
  "to_numeric bw (CInt i) = fl (of_int i)"
| "to_numeric bw (CFlt f) = f"
| "to_numeric bw (CStr s) = text_number bw s"

fun to_Int64 :: "bench_world \<Rightarrow> cell \<Rightarrow> int option py" where
  \<comment> \<open>\<open>.astype('Int64')\<close>, which accepts only whole numbers\<close>
  "to_Int64 bw (CInt i) = Inr (Some i)"
| "to_Int64 bw c =
     (case to_numeric bw c of
        NaN \<Rightarrow> Inr None
      | Fin r \<Rightarrow> if r = of_int \<lfloor>r\<rfloor> then Inr (Some \<lfloor>r\<rfloor>) else Inl TypeError
      | NegZero \<Rightarrow> Inr (Some 0)
      | _ \<Rightarrow> Inl TypeError)"

definition convert_trial :: "bench_world \<Rightarrow> string \<Rightarrow> raw_trial \<Rightarrow> trial py" where
  "convert_trial bw platform r =
     bind_py (map_py (\<lambda>c. bind_py (to_Int64 bw (raw_col r c)) (\<lambda>v. Inr (c, v))) INT_COLS) (\<lambda>ints.
       let int_col = (\<lambda>c. the (map_of ints c)); float_col = (\<lambda>c. to_numeric bw (raw_col r c))
       in Inr \<lparr>tr_platform = platform, tr_lock = raw_lock r, tr_workload = raw_workload r,
            tr_threads = int_col ''threads'', tr_cs_work = int_col ''cs_work'', tr_read_pct = int_col ''read_pct'',
            tr_ops_m = projr (fdiv (float_col ''ops_s'') (Fin 1000000)), tr_ns_op = float_col ''ns_op'',
            tr_fairness = float_col ''fairness_ratio''\<rparr>)"

definition load_csv :: "bench_world \<Rightarrow> path \<Rightarrow> string \<Rightarrow> trial list py" where
  \<comment> \<open>the only failure is that of a conversion to integers\<close>
  "load_csv bw p platform =
     (case csv_trials bw p of None \<Rightarrow> Inl FileNotFoundError | Some rs \<Rightarrow> map_py (convert_trial bw platform) rs)"

definition load_platforms :: "bench_world \<Rightarrow> notebook_cfg \<Rightarrow> (trial list \<times> trial list) py" where
  "load_platforms bw cfg =
     bind_py (resolve_csv bw (arm_csv cfg)) (\<lambda>pa. bind_py (load_csv bw pa ''arm'') (\<lambda>arm.
     bind_py (resolve_csv bw (x86_csv cfg)) (\<lambda>px. bind_py (load_csv bw px ''x86'') (\<lambda>x86.
       Inr (arm, x86)))))"

definition known_threads :: "trial list \<Rightarrow> int list" where
  "known_threads ts = map the (filter (\<lambda>v. v \<noteq> None) (map tr_threads ts))"

definition shared_threads :: "trial list \<Rightarrow> trial list \<Rightarrow> int list" where
  "shared_threads arm x86 = py_sorted (first_occurrences (filter (\<lambda>t. t \<in> set (known_threads x86)) (known_threads arm)))"

section \<open>Averages\<close>

record agg_trial =
  ag_platform :: string
  ag_lock :: string
  ag_read_pct :: int
  ag_threads :: int
  ag_runs :: nat
  ag_ops_mean :: flt
  ag_ops_std :: flt
  ag_ns_mean :: flt
  ag_fair_mean :: flt
  ag_fair_std :: flt

type_synonym agg_group = "string \<times> string \<times> int \<times> int"

definition lock_threads_key :: "trial \<Rightarrow> agg_group option" where
  \<comment> \<open>\<open>['platform','lock','threads']\<close>; rows with a missing key are left out\<close>
  "lock_threads_key r = map_option (\<lambda>t. (tr_platform r, tr_lock r, 0, t)) (tr_threads r)"

definition read_mix_key :: "trial \<Rightarrow> agg_group option" where
  \<comment> \<open>\<open>['platform','lock','read\_pct','threads']\<close>\<close>
  "read_mix_key r =
     (case (tr_read_pct r, tr_threads r) of (Some p, Some t) \<Rightarrow> Some (tr_platform r, tr_lock r, p, t) | _ \<Rightarrow> None)"

definition agg_group_row :: "bench_world \<Rightarrow> agg_group \<Rightarrow> trial list \<Rightarrow> agg_trial" where
  "agg_group_row bw = (\<lambda>(plat, lk, rp, t) g.
     \<lparr>ag_platform = plat, ag_lock = lk, ag_read_pct = rp, ag_threads = t, ag_runs = length g,
      ag_ops_mean = col_mean bw (map tr_ops_m g), ag_ops_std = col_std bw (map tr_ops_m g),
      ag_ns_mean = col_mean bw (map tr_ns_op g), ag_fair_mean = col_mean bw (map tr_fairness g),
      ag_fair_std = col_std bw (map tr_fairness g)\<rparr>)"

definition agg :: "bench_world \<Rightarrow> (trial \<Rightarrow> agg_group option) \<Rightarrow> trial list \<Rightarrow> agg_trial list" where
  \<comment> \<open>one row per key, in ascending order\<close>
  "agg bw key df =
     map (\<lambda>k. agg_group_row bw k (filter (\<lambda>r. key r = Some k) df))
       (py_sorted (first_occurrences (map the (filter (\<lambda>k. k \<noteq> None) (map key df)))))"

definition in_threads :: "int list \<Rightarrow> trial \<Rightarrow> bool" where
  "in_threads shared r = (case tr_threads r of None \<Rightarrow> False | Some t \<Rightarrow> t \<in> set shared)"

definition mutex_trials :: "int list \<Rightarrow> trial list \<Rightarrow> trial list" where
  "mutex_trials shared df = filter (\<lambda>r. tr_workload r = ''mutex'' \<and> tr_cs_work r = Some 0 \<and> in_threads shared r) df"

definition g_mutex :: "bench_world \<Rightarrow> int list \<Rightarrow> trial list \<Rightarrow> agg_trial list" where
  \<comment> \<open>\<open>.sort\_values(['lock','platform','threads'])\<close>: the keys are distinct\<close>
  "g_mutex bw shared df =
     sort_key (\<lambda>a. (ag_lock a, ag_platform a, ag_threads a)) (agg bw lock_threads_key (mutex_trials shared df))"

definition rw_prims :: "string list" where
  "rw_prims = [''rw'', ''occ'', ''rcu'']"

definition rw_trials :: "int list \<Rightarrow> trial list \<Rightarrow> trial list" where
  "rw_trials shared df = filter (\<lambda>r. tr_workload r \<in> {''rw'', ''rcu''} \<and> tr_lock r \<in> set rw_prims \<and> in_threads shared r) df"

definition present_locks :: "string list \<Rightarrow> trial list \<Rightarrow> string list" where
  "present_locks order df = filter (\<lambda>l. l \<in> tr_lock ` set df) order"

definition excl_locks :: "int list \<Rightarrow> trial list \<Rightarrow> string list" where
  "excl_locks shared df =
     filter (\<lambda>l. l \<in> set (present_locks LOCK_ORDER (mutex_trials shared df))) [''tas'', ''ttas'', ''cas'', ''ticket'']"

definition intro_lines :: "int list \<Rightarrow> trial list \<Rightarrow> string list py" where
  "intro_lines shared df =
     bind_py (map_py (get_item LOCK_LABELS)
       (filter (\<lambda>l. l \<in> {''tas'', ''ttas'', ''cas'', ''ticket''}) (present_locks LOCK_ORDER (mutex_trials shared df)))) (\<lambda>ex.
     bind_py (map_py (get_item LOCK_LABELS) rw_prims) (\<lambda>rw.
       Inr [''Shared threads: '' @ repr_np_ints shared, ''Exclusive locks: '' @ repr_list ex,
            ''RW primitives:   '' @ repr_list rw]))"

section \<open>Bars per lock and machine\<close>

definition bar_w :: flt where
  "bar_w = fl (35 / 100)"

definition reindex :: "(agg_trial \<Rightarrow> flt) \<Rightarrow> agg_trial list \<Rightarrow> string \<Rightarrow> string list \<Rightarrow> flt list" where
  \<comment> \<open>\<open>sub[sub['platform']==plat].set\_index('lock').reindex(locks)[col]\<close>\<close>
  "reindex col rows plat locks =
     map (\<lambda>l. case find (\<lambda>a. ag_platform a = plat \<and> ag_lock a = l) rows of None \<Rightarrow> NaN | Some a \<Rightarrow> col a) locks"

definition bar_xs :: "nat \<Rightarrow> nat \<Rightarrow> flt list" where
  \<comment> \<open>\<open>x\_pos + i*w\<close>\<close>
  "bar_xs n i = map (\<lambda>x. fadd (Fin (of_nat x)) (fmul (Fin (of_nat i)) bar_w)) [0..<n]"

definition labels_above :: "nat \<Rightarrow> flt \<Rightarrow> (flt \<Rightarrow> bool) \<Rightarrow> (flt \<Rightarrow> string) \<Rightarrow> attrs \<Rightarrow> flt list \<Rightarrow> draw list" where
  \<comment> \<open>a text above each bar that has one; bars are counted over both machines\<close>
  "labels_above first_bar gap shown to_text kw vs =
     concat (map (\<lambda>(j, v). if shown v then [BarText (first_bar + j) (fadd v gap) (to_text v) kw] else []) (zip [0..<length vs] vs))"

definition bar_attrs :: "notebook_cfg \<Rightarrow> string \<Rightarrow> attrs \<Rightarrow> attrs py" where
  "bar_attrs cfg plat kws =
     bind_py (get_item (PLAT_LABELS cfg) plat) (\<lambda>label. bind_py (get_item PLAT_COLORS plat) (\<lambda>color.
       Inr ([(''label'', label), (''color'', color)] @ kws)))"

definition tick_calls :: "string list \<Rightarrow> draw list py" where
  \<comment> \<open>\<open>set\_xticks(x\_pos + w/2)\<close> and the labels of the locks\<close>
  "tick_calls locks =
     bind_py (map_py (get_item LOCK_LABELS) locks) (\<lambda>labels.
       Inr [Call ''set_xticks'' [''x_pos + w/2''] [], Call ''set_xticklabels'' labels []])"

definition throughput_axes :: "notebook_cfg \<Rightarrow> string list \<Rightarrow> agg_trial list \<Rightarrow> int \<times> string \<Rightarrow> draw list py" where
  "throughput_axes cfg locks g = (\<lambda>(t, title).
     let sub = filter (\<lambda>a. ag_threads a = t \<and> ag_lock a \<in> set locks) g; n = length locks
     in bind_py (map_py (\<lambda>(i, plat).
            let vs = reindex ag_ops_mean sub plat locks
            in bind_py (bar_attrs cfg plat [(''capsize'', ''3''), (''alpha'', ''0.85'')]) (\<lambda>kw.
                 Inr (BarErr (bar_xs n i) vs (reindex ag_ops_std sub plat locks) bar_w kw #
                   labels_above (i * n) (fl (3 / 10)) (\<lambda>v. v \<noteq> NaN \<and> fless (Fin 0) v) (format_fixed 1)
                     [(''ha'', ''center''), (''va'', ''bottom''), (''fontsize'', ''8'')] vs)))
          (zip [0, 1] platforms)) (\<lambda>bars.
        bind_py (tick_calls locks) (\<lambda>ticks.
          Inr (concat bars @ ticks @
            [Call ''set_ylabel'' [''Throughput (Mops/s)''] [], Call ''set_title'' [title] [(''fontweight'', ''bold'')],
             Call ''legend'' [] []]))))"

definition throughput_figure :: "notebook_cfg \<Rightarrow> string list \<Rightarrow> agg_trial list \<Rightarrow> figure py" where
  "throughput_figure cfg locks g =
     bind_py (map_py (throughput_axes cfg locks g) [(1, ''Uncontended (1 Thread)''), (8, ''Contended (8 Threads)'')]) (\<lambda>axes.
       Inr \<lparr>fig_args = [(''figsize'', ''(14, 5)'')], fig_axes = axes,
            fig_calls = [Call ''suptitle'' [''Exclusive Locks: Mutex Workload (lock '' @ arrow @ '' unlock)'']
                [(''fontsize'', ''13''), (''fontweight'', ''bold'')], Call ''tight_layout'' [] []],
            fig_file = []\<rparr>)"

definition retention :: "agg_trial list \<Rightarrow> string \<Rightarrow> string \<Rightarrow> flt" where
  \<comment> \<open>the merge keeps the machines and locks that have both numbers of threads\<close>
  "retention g plat l =
     (let at_t = (\<lambda>t. find (\<lambda>a. ag_threads a = t \<and> ag_platform a = plat \<and> ag_lock a = l) g)
      in case (at_t 1, at_t 8) of
           (Some a1, Some a8) \<Rightarrow> fmul (np_div (ag_ops_mean a8) (ag_ops_mean a1)) (Fin 100)
         | _ \<Rightarrow> NaN)"

definition retention_figure :: "notebook_cfg \<Rightarrow> string list \<Rightarrow> agg_trial list \<Rightarrow> figure py" where
  \<comment> \<open>the legend is made before the reference line is drawn\<close>
  "retention_figure cfg locks g =
     bind_py (map_py (\<lambda>(i, plat).
         let vs = map (retention g plat) locks
         in bind_py (bar_attrs cfg plat [(''alpha'', ''0.85'')]) (\<lambda>kw.
              Inr (Bar (bar_xs (length locks) i) vs bar_w kw #
                labels_above (i * length locks) (fl (1 / 2)) (\<lambda>v. v \<noteq> NaN) (\<lambda>v. format_fixed 1 v @ ''%'')
                  [(''ha'', ''center''), (''va'', ''bottom''), (''fontsize'', ''9''), (''fontweight'', ''bold'')] vs)))
       (zip [0, 1] platforms)) (\<lambda>bars.
     bind_py (tick_calls locks) (\<lambda>ticks.
       Inr \<lparr>fig_args = [(''figsize'', ''(10, 5)'')],
            fig_axes = [concat bars @ ticks @
              [Call ''set_ylabel'' [''Retention: throughput(8T) / throughput(1T) [%]''] [],
               Call ''set_title'' [''Contention Retention '' @ em_dash @ '' Mutex Workload'' @ [CHR 0x0A] @
                 ''How much 1-thread throughput survives at 8 threads''] [(''fontweight'', ''bold'')],
               Call ''legend'' [] [],
               Call ''axhline'' [''50''] [(''color'', ''gray''), (''ls'', '':''), (''lw'', ''0.8''), (''label'', ''50% reference'')]]],
            fig_calls = [Call ''tight_layout'' [] []], fig_file = []\<rparr>))"

definition fairness_figure :: "notebook_cfg \<Rightarrow> agg_trial list \<Rightarrow> figure py" where
  "fairness_figure cfg g =
     (let locks = filter (\<lambda>l. l \<in> ag_lock ` set g) LOCK_ORDER; sub = filter (\<lambda>a. ag_threads a = 8 \<and> ag_lock a \<in> set locks) g;
          n = length locks
      in bind_py (map_py (\<lambda>(i, plat).
             let vs = reindex ag_fair_mean sub plat locks
             in bind_py (bar_attrs cfg plat [(''capsize'', ''3''), (''alpha'', ''0.85'')]) (\<lambda>kw.
                  Inr (BarErr (bar_xs n i) vs (reindex ag_fair_std sub plat locks) bar_w kw #
                    labels_above (i * n) (fl (1 / 100)) (\<lambda>v. v \<noteq> NaN) (format_fixed 2)
                      [(''ha'', ''center''), (''va'', ''bottom''), (''fontsize'', ''8'')] vs)))
           (zip [0, 1] platforms)) (\<lambda>bars.
         bind_py (tick_calls locks) (\<lambda>ticks.
           Inr \<lparr>fig_args = [(''figsize'', ''(10, 5)'')],
                fig_axes = [concat bars @ ticks @
                  [Call ''set_ylabel'' [''Fairness (min/max per-thread ops)''] [], Call ''set_ylim'' [''0'', ''1.15''] [],
                   Call ''axhline'' [''1.0''] [(''color'', ''gray''), (''ls'', '':''), (''lw'', ''0.8'')],
                   Call ''set_title'' [''Fairness at 8 Threads '' @ em_dash @ '' Mutex Workload'' @ [CHR 0x0A] @
                     ''1.0 = perfect; <0.5 = one thread gets >2'' @ times_sign @ '' the work of another''] [(''fontweight'', ''bold'')],
                   Call ''legend'' [] []]],
                fig_calls = [Call ''tight_layout'' [] []], fig_file = []\<rparr>)))"

section \<open>Tables over threads and locks\<close>

definition pivot_threads :: "agg_trial list \<Rightarrow> string list \<Rightarrow> string \<Rightarrow> (int \<times> flt list) list py" where
  \<comment> \<open>\<open>sub.pivot(index='threads', columns='lock', values='ops\_m\_mean')[excl\_locks]\<close>\<close>
  "pivot_threads g locks plat =
     (let sub = filter (\<lambda>a. ag_platform a = plat \<and> ag_lock a \<in> set locks) g
      in case filter (\<lambda>l. l \<notin> ag_lock ` set sub) locks of
           l # _ \<Rightarrow> Inl (KeyError l)
         | [] \<Rightarrow> Inr (map (\<lambda>t. (t, reindex ag_ops_mean (filter (\<lambda>a. ag_threads a = t) sub) plat locks))
             (py_sorted (first_occurrences (map ag_threads sub)))))"

fun row_max :: "flt list \<Rightarrow> flt" where
  \<comment> \<open>\<open>max(axis=1)\<close> leaves NaN out\<close>
  "row_max [] = NaN"
| "row_max (v # vs) = (let m = row_max vs in if m = NaN then v else if v = NaN \<or> fless v m then m else v)"

definition normalized :: "(int \<times> flt list) list \<Rightarrow> (int \<times> flt list) list" where
  \<comment> \<open>\<open>tbl.div(tbl.max(axis=1), axis=0) * 100\<close>\<close>
  "normalized tbl = map (\<lambda>(t, vs). (t, map (\<lambda>v. fmul (np_div v (row_max vs)) (Fin 100)) vs)) tbl"

definition radar_lines :: "notebook_cfg \<Rightarrow> (string \<Rightarrow> (int \<times> flt list) list) \<Rightarrow> int \<Rightarrow> string \<times> string \<Rightarrow> draw list py" where
  \<comment> \<open>the line is closed at the first lock; then the area\<close>
  "radar_lines cfg tables t = (\<lambda>(plat, ls).
     case map_of (tables plat) t of
       None \<Rightarrow> Inr []
     | Some vs \<Rightarrow> bind_py (case vs of [] \<Rightarrow> Inl IndexError | v # _ \<Rightarrow> Inr (vs @ [v])) (\<lambda>closed.
         bind_py (get_item PLAT_COLORS plat) (\<lambda>color. bind_py (get_item (PLAT_LABELS cfg) plat) (\<lambda>label.
           Inr [Radar closed [(''color'', color), (''ls'', ls), (''lw'', ''2.5''), (''label'', label), (''marker'', ''o''), (''ms'', ''5'')],
                Radar closed [(''fill'', ''True''), (''color'', color), (''alpha'', ''0.07'')]]))))"

definition radar_figure :: "notebook_cfg \<Rightarrow> string list \<Rightarrow> agg_trial list \<Rightarrow> figure py" where
  "radar_figure cfg locks g =
     bind_py (pivot_threads g locks ''arm'') (\<lambda>arm. bind_py (pivot_threads g locks ''x86'') (\<lambda>x86.
     bind_py (map_py (\<lambda>t.
         bind_py (map_py (radar_lines cfg (\<lambda>plat. normalized (if plat = ''arm'' then arm else x86)) t) [(''x86'', ''-''), (''arm'', ''--'')]) (\<lambda>ls.
         bind_py (map_py (get_item LOCK_LABELS) locks) (\<lambda>labels.
           Inr (concat ls @
             [Call ''set_xticks'' [''angles[:-1]''] [], Call ''set_xticklabels'' labels [(''fontweight'', ''bold'')],
              Call ''set_ylim'' [''0'', ''110''] [], Call ''set_yticks'' [''25'', ''50'', ''75'', ''100''] [],
              Call ''set_yticklabels'' [''25%'', ''50%'', ''75%'', ''100%''] [(''fontsize'', ''7''), (''color'', ''gray'')],
              Call ''set_title'' [show_int t @ '' thread'' @ (if 1 < t then ''s'' else [])]
                [(''fontsize'', ''12''), (''pad'', ''18''), (''fontweight'', ''bold'')],
              Call ''legend'' [] [(''fontsize'', ''8''), (''loc'', ''upper right''), (''bbox_to_anchor'', ''(1.3, 1.15)'')]]))))
       [1, 4, 8]) (\<lambda>axes.
       Inr \<lparr>fig_args = [(''figsize'', ''(15, 5.5)''), (''subplot_kw'', ''dict(polar=True)'')], fig_axes = axes,
            fig_calls = [Call ''suptitle'' [''Exclusive Locks: Throughput as % of Best (mutex workload)'' @ [CHR 0x0A] @
                ''Shape divergence = different optimal lock per platform''] [(''fontsize'', ''13''), (''fontweight'', ''bold''), (''y'', ''1.06'')],
              Call ''tight_layout'' [] []], fig_file = []\<rparr>)))"

section \<open>Reading\<close>

definition err_line :: "agg_trial list \<Rightarrow> string \<Rightarrow> draw list py" where
  \<comment> \<open>one line with error bars, if there are rows\<close>
  "err_line sub lock =
     (if sub = [] then Inr []
      else bind_py (get_item LOCK_LABELS lock) (\<lambda>label. bind_py (get_item LOCK_COLORS lock) (\<lambda>color.
        Inr [ErrorBar (map ag_threads sub) (map ag_ops_mean sub) (map ag_ops_std sub) (map ag_ops_std sub)
          [(''label'', label), (''color'', color), (''marker'', ''o''), (''lw'', ''2''), (''capsize'', ''3'')]])))"

definition read_only_trials :: "int list \<Rightarrow> trial list \<Rightarrow> trial list" where
  "read_only_trials shared df = filter (\<lambda>r. tr_read_pct r = Some 100) (rw_trials shared df)"

definition shared_ticks :: "int list \<Rightarrow> draw" where
  "shared_ticks shared = Call ''set_xticks'' (map show_int shared) []"

definition read_axes :: "notebook_cfg \<Rightarrow> int list \<Rightarrow> agg_trial list \<Rightarrow> string \<Rightarrow> draw list py" where
  "read_axes cfg shared g plat =
     bind_py (map_py (\<lambda>lock. err_line (filter (\<lambda>a. ag_platform a = plat \<and> ag_lock a = lock) g) lock) rw_prims) (\<lambda>ls.
     bind_py (get_item (PLAT_LABELS cfg) plat) (\<lambda>name.
       Inr (concat ls @
         [Call ''set_xlabel'' [''Threads''] [], Call ''set_ylabel'' [''Throughput (Mops/s)''] [],
          Call ''set_title'' [name] [(''fontweight'', ''bold'')], shared_ticks shared,
          Call ''legend'' [] [(''fontsize'', ''9'')], Call ''set_yscale'' [''log''] []])))"

definition read_figure :: "bench_world \<Rightarrow> notebook_cfg \<Rightarrow> int list \<Rightarrow> trial list \<Rightarrow> figure py" where
  "read_figure bw cfg shared df =
     bind_py (map_py (read_axes cfg shared (agg bw lock_threads_key (read_only_trials shared df))) platforms) (\<lambda>axes.
       Inr \<lparr>fig_args = [(''figsize'', ''(15, 6)'')], fig_axes = axes,
            fig_calls = [Call ''suptitle'' [''Read-Only Workload (read_pct=100): RW Primitives'' @ [CHR 0x0A] @
                ''RCU/OCC scale with readers; RW Lock degrades due to CAS on read_lock''] [(''fontsize'', ''13''), (''fontweight'', ''bold'')],
              Call ''tight_layout'' [] []], fig_file = []\<rparr>)"

definition read_pcts :: "agg_trial list \<Rightarrow> int list" where
  "read_pcts g = py_sorted (filter (\<lambda>p. p \<noteq> 100) (first_occurrences (map ag_read_pct g)))"

definition mix_axes :: "notebook_cfg \<Rightarrow> int list \<Rightarrow> agg_trial list \<Rightarrow> (nat \<times> string) \<times> nat \<times> int \<Rightarrow> draw list py" where
  "mix_axes cfg shared g = (\<lambda>((row, plat), (col, rp)).
     bind_py (map_py (\<lambda>lock. err_line (filter (\<lambda>a. ag_platform a = plat \<and> ag_lock a = lock \<and> ag_read_pct a = rp) g) lock) rw_prims) (\<lambda>ls.
     bind_py (get_item (PLAT_LABELS cfg) plat) (\<lambda>name.
       Inr (concat ls @ [shared_ticks shared, Call ''set_xlabel'' [''Threads''] []] @
         (if col = 0 then [Call ''set_ylabel'' [name @ [CHR 0x0A] @ ''Throughput (Mops/s)''] []] else []) @
         [Call ''set_title'' [show_int rp @ ''% reads''] [(''fontweight'', ''bold'')]] @
         (if row = 0 \<and> col = 0 then [Call ''legend'' [] [(''fontsize'', ''9''), (''loc'', ''best'')]] else []) @
         [Call ''set_yscale'' [''log''] []]))))"

definition mix_figure :: "notebook_cfg \<Rightarrow> int list \<Rightarrow> agg_trial list \<Rightarrow> (string list \<times> figure) py" where
  \<comment> \<open>a grid without columns cannot be made\<close>
  "mix_figure cfg shared g =
     (let rps = read_pcts g; n = length rps
      in if n = 0 then Inl ValueError
         else bind_py (map_py (mix_axes cfg shared g) (List.product (zip [0, 1] platforms) (zip [0..<n] rps))) (\<lambda>axes.
           Inr ([''read_pct splits used here: ['' @ join_with '', '' (map show_int rps) @ '']''],
             \<lparr>fig_args = [(''figsize'', ''('' @ show_nat (4 * n) @ '', 9)''), (''sharey'', ''row'')], fig_axes = axes,
              fig_calls = [Call ''suptitle'' [''RW Primitives Across Read Mixes '' @ em_dash @ '' Graviton 4 vs Xeon'' @ [CHR 0x0A] @
                  ''Row 1 = ARM, Row 2 = x86. RW lock degrades as contention grows; OCC/RCU improve with read share.'']
                  [(''fontsize'', ''13''), (''fontweight'', ''bold'')], Call ''tight_layout'' [] []],
              fig_file = []\<rparr>)))"

section \<open>Reading, in the presentation\<close>

definition read_all_trials :: "int list \<Rightarrow> trial list \<Rightarrow> trial list" where
  "read_all_trials shared df = mutex_trials shared df @ read_only_trials shared df"

definition read_all_line :: "agg_trial list \<Rightarrow> string \<Rightarrow> draw list py" where
  "read_all_line sub lock =
     (if sub = [] then Inr []
      else bind_py (get_item LOCK_LABELS lock) (\<lambda>label. bind_py (get_item LOCK_COLORS lock) (\<lambda>color.
        Inr [Plot (map ag_threads sub) (map ag_ops_mean sub)
          [(''label'', label), (''color'', color), (''ls'', if lock \<in> {''rcu'', ''occ''} then ''-'' else ''--''),
           (''lw'', if lock \<in> {''rcu'', ''occ''} then ''2.5'' else ''1.2''),
           (''alpha'', if lock \<in> {''rcu'', ''occ'', ''rw''} then ''1.0'' else ''0.5''), (''marker'', ''o''), (''ms'', ''4'')]])))"

definition read_all_axes :: "notebook_cfg \<Rightarrow> int list \<Rightarrow> agg_trial list \<Rightarrow> string \<Rightarrow> draw list py" where
  "read_all_axes cfg shared g plat =
     bind_py (map_py (\<lambda>lock. read_all_line (filter (\<lambda>a. ag_platform a = plat \<and> ag_lock a = lock) g) lock) LOCK_ORDER) (\<lambda>ls.
     bind_py (get_item (PLAT_LABELS cfg) plat) (\<lambda>name.
       Inr (concat ls @
         [Call ''set_xlabel'' [''Threads''] [], Call ''set_ylabel'' [''Throughput (Mops/s)''] [],
          Call ''set_title'' [name] [(''fontweight'', ''bold'')], shared_ticks shared,
          Call ''legend'' [] [(''fontsize'', ''8''), (''ncol'', ''2'')], Call ''set_yscale'' [''log''] []])))"

definition read_all_figure :: "bench_world \<Rightarrow> notebook_cfg \<Rightarrow> int list \<Rightarrow> trial list \<Rightarrow> figure py" where
  "read_all_figure bw cfg shared df =
     bind_py (map_py (read_all_axes cfg shared (agg bw lock_threads_key (read_all_trials shared df))) platforms) (\<lambda>axes.
       Inr \<lparr>fig_args = [(''figsize'', ''(15, 6)'')], fig_axes = axes,
            fig_calls = [Call ''suptitle'' [''Read-Only Workload (read_pct=100): All Locks'' @ [CHR 0x0A] @
                ''RCU/OCC scale with readers; RW Lock and exclusive locks degrade''] [(''fontsize'', ''13''), (''fontweight'', ''bold'')],
              Call ''tight_layout'' [] []], fig_file = []\<rparr>)"

definition two_mix_axes :: "notebook_cfg \<Rightarrow> int list \<Rightarrow> agg_trial list \<Rightarrow> string \<times> int \<times> string \<Rightarrow> draw list py" where
  \<comment> \<open>the title of the loop is replaced after it\<close>
  "two_mix_axes cfg shared g = (\<lambda>(plat, rp, kind).
     bind_py (map_py (\<lambda>lock. err_line (filter (\<lambda>a. ag_platform a = plat \<and> ag_lock a = lock \<and> ag_read_pct a = rp) g) lock) rw_prims) (\<lambda>ls.
     bind_py (get_item (PLAT_LABELS cfg) plat) (\<lambda>name.
       Inr (concat ls @
         [Call ''set_xlabel'' [''Threads''] [], Call ''set_ylabel'' [''Throughput (Mops/s)''] [],
          Call ''set_title'' [name @ '' '' @ em_dash @ '' '' @ show_int rp @ ''% reads''] [(''fontweight'', ''bold'')], shared_ticks shared,
          Call ''legend'' [] [(''fontsize'', ''9'')],
          Call ''set_title'' [name @ '' '' @ em_dash @ '' '' @ kind @ '' ('' @ show_int rp @ ''% reads)''] [(''fontweight'', ''bold'')]]))))"

definition two_mix_figure :: "notebook_cfg \<Rightarrow> int list \<Rightarrow> agg_trial list \<Rightarrow> figure py" where
  "two_mix_figure cfg shared g =
     bind_py (map_py (two_mix_axes cfg shared g) (List.product platforms [(0, ''Write-Only''), (50, ''Mixed'')])) (\<lambda>axes.
       Inr \<lparr>fig_args = [(''figsize'', ''(14, 10)'')], fig_axes = axes,
            fig_calls = [Call ''suptitle'' [''RW Primitives: Write-Only and Mixed Workloads'' @ [CHR 0x0A] @
                ''RW/OCC/RCU under write_lock/unlock and 50/50 read/write''] [(''fontsize'', ''13''), (''fontweight'', ''bold'')],
              Call ''tight_layout'' [] []], fig_file = []\<rparr>)"

section \<open>Ranks\<close>

definition rank_value :: "flt list \<Rightarrow> flt \<Rightarrow> int py" where
  \<comment> \<open>\<open>rank(ascending=False)\<close> gives equal values the mean of their places, and \<open>astype(int)\<close> cuts it off;
    a missing value has no rank\<close>
  "rank_value vs v =
     (if v = NaN then Inl ValueError
      else Inr (int (length (filter (\<lambda>u. fless v u) vs)) +
        (int (length (filter (\<lambda>u. u \<noteq> NaN \<and> \<not> fless v u \<and> \<not> fless u v) vs)) + 1) div 2))"

definition rank_table :: "(int \<times> flt list) list \<Rightarrow> (int \<times> int list) list py" where
  "rank_table tbl = map_py (\<lambda>(t, vs). bind_py (map_py (rank_value vs) vs) (\<lambda>rs. Inr (t, rs))) tbl"

definition rank_texts :: "(int \<Rightarrow> string) \<Rightarrow> (int \<Rightarrow> attrs) \<Rightarrow> int list list \<Rightarrow> draw list" where
  "rank_texts to_text kw m =
     concat (map (\<lambda>(i, row). map (\<lambda>(j, v). Call ''text'' [show_nat j, show_nat i, to_text v]
         ([(''ha'', ''center''), (''va'', ''center''), (''fontsize'', ''10'')] @ kw v)) (zip [0..<length row] row))
       (zip [0..<length m] m))"

definition heat_calls :: "attrs \<Rightarrow> string list \<Rightarrow> int list \<Rightarrow> int list list \<Rightarrow> draw list" where
  "heat_calls kw labels threads m =
     [Heat (map (map (\<lambda>v. Fin (of_int v))) m) kw, Call ''set_xticks'' (map show_nat [0..<length labels]) [],
      Call ''set_xticklabels'' labels [(''rotation'', ''30''), (''ha'', ''right'')],
      Call ''set_yticks'' (map show_nat [0..<length threads]) [], Call ''set_yticklabels'' (map show_int threads) [],
      Call ''set_ylabel'' [''Threads''] []]"

definition show_signed :: "int \<Rightarrow> string" where
  \<comment> \<open>\<open>format(v, "+d")\<close>\<close>
  "show_signed v = (if v < 0 then show_int v else CHR ''+'' # show_int v)"

definition shift_attrs :: "int \<Rightarrow> int \<Rightarrow> attrs" where
  "shift_attrs abs_max v =
     [(''fontweight'', if 2 \<le> \<bar>v\<bar> then ''bold'' else ''normal''),
      (''color'', if fless (Fin (of_int \<bar>v\<bar>)) (fmul (Fin (of_int abs_max)) (fl (6 / 10))) then ''black'' else ''white'')]"

definition shift_max :: "int list list \<Rightarrow> int py" where
  \<comment> \<open>the minimum of no values is an error\<close>
  "shift_max m = (if concat m = [] then Inl ValueError else Inr (Max (set [\<bar>Min (set (concat m))\<bar>, \<bar>Max (set (concat m))\<bar>, 1])))"

definition rank_shift :: "(int \<times> int list) list \<Rightarrow> (int \<times> int list) list \<Rightarrow> int list list py" where
  \<comment> \<open>tables over the same numbers of threads subtract row by row; a number of threads that x86 lacks is a
    \<open>KeyError\<close>, and one that only x86 has makes the differences floats, which \<open>+d\<close> refuses\<close>
  "rank_shift arm x86 =
     (case filter (\<lambda>t. t \<notin> fst ` set x86) (map fst arm) of
        t # _ \<Rightarrow> Inl (KeyError (show_int t))
      | [] \<Rightarrow> if \<exists>t \<in> fst ` set x86. t \<notin> fst ` set arm then Inl ValueError
              else Inr (map (\<lambda>(t, rs). map (\<lambda>(a, x). a - x) (zip rs (the (map_of x86 t)))) arm))"

definition rank_figure :: "notebook_cfg \<Rightarrow> string list \<Rightarrow> agg_trial list \<Rightarrow> figure py" where
  "rank_figure cfg locks g =
     bind_py (pivot_threads g locks ''arm'') (\<lambda>ta. bind_py (rank_table ta) (\<lambda>arm.
     bind_py (pivot_threads g locks ''x86'') (\<lambda>tx. bind_py (rank_table tx) (\<lambda>x86.
     bind_py (map_py (get_item LOCK_LABELS) locks) (\<lambda>labels.
     bind_py (get_item (PLAT_LABELS cfg) ''arm'') (\<lambda>arm_name. bind_py (get_item (PLAT_LABELS cfg) ''x86'') (\<lambda>x86_name.
     bind_py (rank_shift arm x86) (\<lambda>diff. bind_py (shift_max diff) (\<lambda>abs_max.
       let threads = map fst arm;
           panel = (\<lambda>title m. heat_calls [(''aspect'', ''auto''), (''cmap'', ''YlOrRd''), (''vmin'', ''1''), (''vmax'', show_nat (length locks))]
               labels threads m @ [Call ''set_title'' [title] [(''fontweight'', ''bold'')]] @
             rank_texts show_int (\<lambda>_. [(''fontweight'', ''bold'')]) m)
       in Inr \<lparr>fig_args = [(''figsize'', ''(16, 4.5)''), (''gridspec_kw'', ''width_ratios: [1, 1, 1.2]'')],
            fig_axes = [panel arm_name (map snd arm), panel x86_name (map (\<lambda>t. the (map_of x86 t)) threads),
              heat_calls [(''aspect'', ''auto''), (''cmap'', ''RdBu''), (''vmin'', show_int (- abs_max)), (''vmax'', show_int abs_max)]
                labels threads diff @
              [Call ''set_title'' [''Rank Shift (ARM '' @ minus_sign @ '' x86)''] [(''fontweight'', ''bold'')]] @
              rank_texts show_signed (shift_attrs abs_max) diff],
            fig_calls = [Call ''colorbar'' [] [(''label'', ''+ = worse on ARM''), (''shrink'', ''0.8'')],
              Call ''suptitle'' [''Exclusive Lock Rankings '' @ em_dash @ '' Mutex Workload (1 = fastest)'']
                [(''fontsize'', ''13''), (''fontweight'', ''bold'')], Call ''tight_layout'' [] []],
            fig_file = []\<rparr>)))))))))"

section \<open>The cells in order\<close>

definition platform_notebook ::
  "bench_world \<Rightarrow> notebook_cfg \<Rightarrow> (int list \<Rightarrow> trial list \<Rightarrow> (string list \<times> figure list) py) \<Rightarrow> (string list \<times> figure list) py" where
  \<comment> \<open>the cells both notebooks have, around the cells about reading\<close>
  "platform_notebook bw cfg reading =
     bind_py (load_platforms bw cfg) (\<lambda>(arm, x86).
       let df = arm @ x86; shared = shared_threads arm x86; g = g_mutex bw shared df; locks = excl_locks shared df
       in bind_py (intro_lines shared df) (\<lambda>ls.
          bind_py (throughput_figure cfg locks g) (\<lambda>f1.
          bind_py (retention_figure cfg locks g) (\<lambda>f2.
          bind_py (radar_figure cfg locks g) (\<lambda>f3.
          bind_py (reading shared df) (\<lambda>(rl, rf).
          bind_py (fairness_figure cfg g) (\<lambda>f6.
          bind_py (rank_figure cfg locks g) (\<lambda>f7.
            Inr (ls @ rl, [f1, f2, f3] @ rf @ [f6, f7])))))))))"

definition graviton_notebook :: "bench_world \<Rightarrow> (string list \<times> figure list) py" where
  "graviton_notebook bw = platform_notebook bw graviton_cfg (\<lambda>shared df.
     bind_py (read_figure bw graviton_cfg shared df) (\<lambda>f4.
     bind_py (mix_figure graviton_cfg shared (agg bw read_mix_key (rw_trials shared df))) (\<lambda>(ls, f5).
       Inr (ls, [f4, f5]))))"

definition presentation_notebook :: "bench_world \<Rightarrow> (string list \<times> figure list) py" where
  "presentation_notebook bw = platform_notebook bw presentation_cfg (\<lambda>shared df.
     bind_py (read_all_figure bw presentation_cfg shared df) (\<lambda>f4.
     bind_py (two_mix_figure presentation_cfg shared (agg bw read_mix_key (rw_trials shared df))) (\<lambda>f5.
       Inr ([], [f4, f5]))))"

section \<open>Averages over the right trials\<close>

lemma set_somes: "k \<in> set (map the (filter (\<lambda>k. k \<noteq> None) (map key df))) \<longleftrightarrow> Some k \<in> key ` set df"
proof (induction df)
  case (Cons r df)
  then show ?case by (cases "key r") auto
qed simp

lemma agg_rows:
  "a \<in> set (agg bw key df) \<longleftrightarrow>
     (\<exists>k. a = agg_group_row bw k (filter (\<lambda>r. key r = Some k) df) \<and> Some k \<in> key ` set df)"
proof -
  define ks where "ks = map the (filter (\<lambda>k. k \<noteq> None) (map key df))"
  have "k \<in> set ks \<longleftrightarrow> Some k \<in> key ` set df" for k
    unfolding ks_def by (rule set_somes)
  then have "set ks = {k. Some k \<in> key ` set df}" by blast
  then have "set (agg bw key df) = (\<lambda>k. agg_group_row bw k (filter (\<lambda>r. key r = Some k) df)) ` {k. Some k \<in> key ` set df}"
    unfolding agg_def ks_def [symmetric] by simp
  then show ?thesis by (simp only: image_iff mem_Collect_eq Bex_def conj_commute)
qed

definition group_of :: "agg_trial \<Rightarrow> trial list \<Rightarrow> trial list" where
  \<comment> \<open>the trials of a machine, a lock and a number of threads\<close>
  "group_of a df = filter (\<lambda>r. tr_platform r = ag_platform a \<and> tr_lock r = ag_lock a \<and> tr_threads r = Some (ag_threads a)) df"

lemma agg_lock_threads:
  assumes "a \<in> set (agg bw lock_threads_key df)"
  shows "ag_runs a = length (group_of a df) \<and> ag_ops_mean a = col_mean bw (map tr_ops_m (group_of a df)) \<and> group_of a df \<noteq> []"
proof -
  obtain k where k: "a = agg_group_row bw k (filter (\<lambda>r. lock_threads_key r = Some k) df)" "Some k \<in> lock_threads_key ` set df"
    using assms agg_rows by blast
  obtain plat lk rp t where kk: "k = (plat, lk, rp, t)" by (cases k) auto
  obtain r where r: "r \<in> set df" "lock_threads_key r = Some k" using k(2) by force
  then have "rp = 0" by (auto simp: kk lock_threads_key_def)
  then have key: "lock_threads_key r = Some k \<longleftrightarrow> tr_platform r = plat \<and> tr_lock r = lk \<and> tr_threads r = Some t" for r
    by (cases "tr_threads r") (auto simp: kk lock_threads_key_def)
  have a: "ag_platform a = plat" "ag_lock a = lk" "ag_threads a = t" using k(1) by (simp_all add: kk agg_group_row_def)
  have "filter (\<lambda>r. lock_threads_key r = Some k) df = group_of a df" unfolding key group_of_def a ..
  moreover have "r \<in> set (group_of a df)" using r by (simp add: group_of_def a key)
  then have "group_of a df \<noteq> []" by auto
  ultimately show ?thesis using k(1) by (simp add: kk agg_group_row_def)
qed

text \<open>
  C22. The points called read-only: in the Graviton notebook every point is the mean over read-only
  trials of the readers' primitives alone. In the presentation a point averages the trials of the mutex
  workload and the read-only trials of its lock together, so that for a lock measured in both, as
  \<open>rw\<close> and \<open>occ\<close> are, it is not a read-only throughput.
\<close>

theorem read_only_points:
  assumes "a \<in> set (agg bw lock_threads_key (read_only_trials shared df))"
    and "b \<in> set (agg bw lock_threads_key (read_all_trials shared df))"
  shows "ag_ops_mean a = col_mean bw (map tr_ops_m (group_of a (read_only_trials shared df))) \<and>
    (\<forall>r \<in> set (group_of a (read_only_trials shared df)). tr_read_pct r = Some 100 \<and> tr_workload r \<in> {''rw'', ''rcu''} \<and> tr_lock r \<in> set rw_prims) \<and>
    ag_ops_mean b = col_mean bw (map tr_ops_m (group_of b (mutex_trials shared df)) @ map tr_ops_m (group_of b (read_only_trials shared df))) \<and>
    ag_runs b = length (group_of b (mutex_trials shared df)) + length (group_of b (read_only_trials shared df))"
proof -
  have "group_of b (read_all_trials shared df) = group_of b (mutex_trials shared df) @ group_of b (read_only_trials shared df)"
    by (simp add: group_of_def read_all_trials_def)
  then show ?thesis
    using agg_lock_threads [OF assms(1)] agg_lock_threads [OF assms(2)] by (auto simp: group_of_def read_only_trials_def rw_trials_def)
qed

definition occ_reads :: trial where
  "occ_reads = \<lparr>tr_platform = ''x86'', tr_lock = ''occ'', tr_workload = ''rw'', tr_threads = Some 8, tr_cs_work = Some 0,
     tr_read_pct = Some 100, tr_ops_m = Fin 100, tr_ns_op = Fin 1, tr_fairness = Fin 1\<rparr>"

definition plain_world :: bench_world where
  "plain_world = \<lparr>csv_trials = \<lambda>_. None, text_number = \<lambda>_. NaN, col_mean = \<lambda>vs. case vs of [] \<Rightarrow> NaN | v # _ \<Rightarrow> v, col_std = \<lambda>_. Fin 0\<rparr>"

theorem read_only_points_witness:
  "\<exists>b \<in> set (agg plain_world lock_threads_key (read_all_trials [8] [occ_reads, occ_reads\<lparr>tr_workload := ''mutex'', tr_ops_m := Fin 5\<rparr>])).
     ag_runs b = 2 \<and> ag_ops_mean b = Fin 5"
proof -
  let ?df = "[occ_reads, occ_reads\<lparr>tr_workload := ''mutex'', tr_ops_m := Fin 5\<rparr>]"
  have t: "read_only_trials [8] ?df = [occ_reads]" "mutex_trials [8] ?df = [occ_reads\<lparr>tr_workload := ''mutex'', tr_ops_m := Fin 5\<rparr>]"
    by (simp_all add: read_only_trials_def rw_trials_def mutex_trials_def occ_reads_def rw_prims_def in_threads_def)
  let ?k = "(''x86'', ''occ'', 0, 8)"
  have k: "lock_threads_key occ_reads = Some ?k" "lock_threads_key (occ_reads\<lparr>tr_workload := ''mutex'', tr_ops_m := Fin 5\<rparr>) = Some ?k"
    by (simp_all add: lock_threads_key_def occ_reads_def)
  let ?b = "agg_group_row plain_world ?k (filter (\<lambda>r. lock_threads_key r = Some ?k) (read_all_trials [8] ?df))"
  have b: "?b \<in> set (agg plain_world lock_threads_key (read_all_trials [8] ?df))"
    unfolding agg_rows by (rule exI [of _ ?k]) (simp add: read_all_trials_def t k)
  have "agg_group_row plain_world ?k (filter (\<lambda>r. lock_threads_key r = Some ?k) (read_only_trials [8] ?df))
      \<in> set (agg plain_world lock_threads_key (read_only_trials [8] ?df))"
    unfolding agg_rows by (rule exI [of _ ?k]) (simp add: t k)
  note points = read_only_points [OF this b]
  have f: "ag_platform ?b = ''x86''" "ag_lock ?b = ''occ''" "ag_threads ?b = 8" by (simp_all add: agg_group_row_def)
  have g: "group_of ?b [occ_reads] = [occ_reads]"
    "group_of ?b [occ_reads\<lparr>tr_workload := ''mutex'', tr_ops_m := Fin 5\<rparr>] = [occ_reads\<lparr>tr_workload := ''mutex'', tr_ops_m := Fin 5\<rparr>]"
    unfolding group_of_def f by (simp_all add: occ_reads_def)
  have "ag_runs ?b = 2" "ag_ops_mean ?b = Fin 5" using points unfolding t g by (simp_all add: plain_world_def)
  then show ?thesis by (intro bexI [OF _ b] conjI)
qed

section \<open>Ranks and shares\<close>

lemma row_max_best: "\<forall>v \<in> set vs. v \<noteq> NaN \<Longrightarrow> vs \<noteq> [] \<Longrightarrow> row_max vs \<in> set vs \<and> (\<forall>v \<in> set vs. \<not> fless (row_max vs) v)"
proof (induction vs)
  case (Cons v vs)
  show ?case
  proof (cases "vs = []")
    case True
    then show ?thesis using float.irrefl [of v] Cons.prems by (simp add: Let_def)
  next
    case False
    let ?m = "row_max vs"
    have m: "?m \<in> set vs" "\<forall>u \<in> set vs. \<not> fless ?m u" "?m \<noteq> NaN" "v \<noteq> NaN" using Cons False by auto
    show ?thesis
    proof (cases "fless v ?m")
      case True
      then show ?thesis using m float.asym [of v ?m] by (auto simp: Let_def)
    next
      case ge: False
      have "\<not> fless v u" if "u \<in> set vs" for u
        using that m ge Cons.prems(1) float.le_trans [of u ?m v] by auto
      then show ?thesis using m ge float.irrefl [of v] by (auto simp: Let_def)
    qed
  qed
qed simp

lemma fmul_hundred: "0 \<le> v \<Longrightarrow> v \<le> 1 \<Longrightarrow> \<exists>w. fmul (Fin v) (Fin 100) = Fin w \<and> w \<le> 100"
proof (cases "v = 0")
  case True
  then show ?thesis by (simp add: fmul_def is_zero_def signed_def Let_def)
next
  case False
  assume v: "0 \<le> v" "v \<le> 1"
  have "rnd (v * 100) \<le> 100" "0 \<le> rnd (v * 100)"
    using rnd_mono [of "v * 100" 100] representable_of_int [of 100] v rnd_nonneg by simp_all
  moreover have "(100 :: rat) < max_bound" by (simp add: max_bound_def)
  ultimately show ?thesis using v False by (auto simp: fmul_def is_zero_def Let_def fl_def)
qed

lemma fraction_of_best:
  assumes "0 < m" and "0 \<le> v" and "v \<le> m"
  shows "\<exists>w. np_div (Fin v) (Fin m) = Fin w \<and> 0 \<le> w \<and> w \<le> 1 \<and> (v = m \<longrightarrow> w = 1)"
proof (cases "v = 0")
  case True
  then show ?thesis using assms by (simp add: np_div_def fdiv_def is_zero_def signed_def Let_def)
next
  case False
  then have d: "np_div (Fin v) (Fin m) = fl (v / m)" using assms by (simp add: np_div_def fdiv_def is_zero_def Let_def)
  have r: "0 \<le> rnd (v / m)" "rnd (v / m) \<le> 1"
    using rnd_mono [of "v / m" 1] representable_of_int [of 1] assms rnd_nonneg [of "v / m"] by simp_all
  have "(1 :: rat) < max_bound" by (simp add: max_bound_def)
  moreover have "0 \<le> v / m" using assms by simp
  ultimately have f: "fl (v / m) = Fin (rnd (v / m))" using r by (auto simp: fl_def Let_def)
  have "v = m \<Longrightarrow> rnd (v / m) = 1" using assms(1) representable_of_int [of 1] by simp
  then show ?thesis using d f r by auto
qed

lemma share_of_best:
  assumes "0 < m" and "0 \<le> v" and "v \<le> m"
  shows "\<exists>w. fmul (np_div (Fin v) (Fin m)) (Fin 100) = Fin w \<and> w \<le> 100 \<and> (v = m \<longrightarrow> w = 100)"
proof -
  have one: "fmul (Fin 1) (Fin 100) = Fin 100" by code_simp
  obtain w where "np_div (Fin v) (Fin m) = Fin w" "0 \<le> w" "w \<le> 1" "v = m \<longrightarrow> w = 1" using fraction_of_best [OF assms] by blast
  then show ?thesis using fmul_hundred [of w] one by auto
qed

lemma flt_nonneg_cases: "is_finite v \<Longrightarrow> v \<noteq> NegZero \<Longrightarrow> v = Fin (fval v)"
  by (cases v) auto

text \<open>
  The radar chart: in a row of finite throughputs that are not all zero, the fastest lock gets
  exactly 100 per cent and no lock more; every lock as fast as it gets 100 as well.
\<close>

theorem radar_shares:
  assumes "vs \<noteq> []" and "\<forall>v \<in> set vs. \<exists>r \<ge> 0. v = Fin r" and "fless (Fin 0) (row_max vs)"
  shows "\<exists>us. normalized [(t, vs)] = [(t, us)] \<and> length us = length vs \<and> Fin 100 \<in> set us \<and>
    (\<forall>i < length vs. \<not> fless (Fin 100) (us ! i) \<and> (vs ! i = row_max vs \<longrightarrow> us ! i = Fin 100))"
proof -
  have "\<forall>v \<in> set vs. v \<noteq> NaN" using assms(2) by auto
  from row_max_best [OF this assms(1)] have m: "row_max vs \<in> set vs" "\<forall>v \<in> set vs. \<not> fless (row_max vs) v" by auto
  obtain m where mm: "row_max vs = Fin m" using assms(2) m(1) by blast
  have "0 < m" using assms(3) by (simp add: mm)
  let ?us = "map (\<lambda>v. fmul (np_div v (row_max vs)) (Fin 100)) vs"
  have each: "\<exists>w. fmul (np_div v (row_max vs)) (Fin 100) = Fin w \<and> w \<le> 100 \<and> (v = row_max vs \<longrightarrow> w = 100)" if v: "v \<in> set vs" for v
  proof -
    obtain r where r: "v = Fin r" "0 \<le> r" using assms(2) v by blast
    then have "r \<le> m" using m(2) v by (auto simp: mm)
    then show ?thesis using share_of_best [OF \<open>0 < m\<close> r(2)] by (simp add: r(1) mm)
  qed
  have "Fin 100 \<in> set ?us" using each [OF m(1)] m(1) by force
  moreover have "\<not> fless (Fin 100) (?us ! i) \<and> (vs ! i = row_max vs \<longrightarrow> ?us ! i = Fin 100)" if "i < length vs" for i
    using each [OF nth_mem [OF that]] that by auto
  ultimately show ?thesis by (intro exI [of _ ?us]) (simp add: normalized_def)
qed

theorem radar_shares_witness:
  "\<exists>us. normalized [(8, [Fin 3, Fin 7])] = [(8, us)] \<and> Fin 100 \<in> set us"
proof -
  have "row_max [Fin 3, Fin 7] = Fin 7" by code_simp
  then show ?thesis using radar_shares [of "[Fin 3, Fin 7]" 8] by (auto intro: exI [of _ 3] exI [of _ 7])
qed

lemma filter_length_mono: "(\<And>u. u \<in> set vs \<Longrightarrow> P u \<Longrightarrow> Q u) \<Longrightarrow> length (filter P vs) \<le> length (filter Q vs)"
  by (induction vs) auto

lemma feq_class:
  assumes "\<forall>u \<in> set vs. u \<noteq> NaN" "x \<in> set vs" "y \<in> set vs" "fless y x"
  shows "length (filter (\<lambda>u. fless x u) vs) + length (filter (\<lambda>u. u \<noteq> NaN \<and> \<not> fless x u \<and> \<not> fless u x) vs)
    \<le> length (filter (\<lambda>u. fless y u) vs)"
proof -
  have imp: "fless y u" if "u \<in> set vs" "\<not> fless u x" for u
    using that assms float.le_trans [of x u y] by auto
  have "length (filter (\<lambda>u. fless x u) vs) + length (filter (\<lambda>u. u \<noteq> NaN \<and> \<not> fless x u \<and> \<not> fless u x) vs)
      = length (filter (\<lambda>u. fless x u \<or> u \<noteq> NaN \<and> \<not> fless x u \<and> \<not> fless u x) vs)"
    by (induction vs) auto
  also have "\<dots> \<le> length (filter (\<lambda>u. fless y u) vs)"
  proof (rule filter_length_mono)
    fix u assume u: "u \<in> set vs" "fless x u \<or> u \<noteq> NaN \<and> \<not> fless x u \<and> \<not> fless u x"
    have "u \<noteq> NaN" "x \<noteq> NaN" using u(1) assms by auto
    then have "\<not> fless u x" using u(2) float.asym [of x u] by auto
    then show "fless y u" by (rule imp [OF u(1)])
  qed
  finally show ?thesis .
qed

text \<open>
  The ranks of a row without missing values: every lock gets one, between 1 and the number of
  locks; a faster lock always has a strictly smaller rank, equally fast locks have the same, and a lock
  that no other equals has one more than the number of faster locks. With a missing value the
  conversion to integers fails.
\<close>

theorem ranks_of_row:
  assumes "\<forall>v \<in> set vs. v \<noteq> NaN"
  shows "\<exists>rank. rank_table [(t, vs)] = Inr [(t, map rank vs)] \<and>
    (\<forall>x \<in> set vs. 1 \<le> rank x \<and> rank x \<le> int (length vs) \<and>
       (\<forall>y \<in> set vs. (fless y x \<longrightarrow> rank x < rank y) \<and> (\<not> fless y x \<and> \<not> fless x y \<longrightarrow> rank x = rank y)) \<and>
       (length (filter (\<lambda>u. \<not> fless x u \<and> \<not> fless u x) vs) = 1 \<longrightarrow> rank x = 1 + int (length (filter (\<lambda>u. fless x u) vs)))) \<and>
    rank_table [(t, NaN # vs)] = Inl ValueError"
proof -
  define gt where "gt x = length (filter (\<lambda>u. fless x u) vs)" for x
  define eq where "eq x = length (filter (\<lambda>u. u \<noteq> NaN \<and> \<not> fless x u \<and> \<not> fless u x) vs)" for x
  define rank where "rank x = int (gt x) + (int (eq x) + 1) div 2" for x
  have "map_py (rank_value vs) vs = map_py (\<lambda>x. Inr (rank x)) vs"
    by (rule map_py_cong) (use assms in \<open>auto simp: rank_value_def rank_def gt_def eq_def\<close>)
  then have table: "rank_table [(t, vs)] = Inr [(t, map rank vs)]" by (simp add: rank_table_def map_py_total)
  have eq_pos: "1 \<le> eq x" if "x \<in> set vs" for x
  proof -
    have "x \<in> set (filter (\<lambda>u. u \<noteq> NaN \<and> \<not> fless x u \<and> \<not> fless u x) vs)"
      using that assms float.irrefl [of x] by simp
    then show ?thesis unfolding eq_def by (metis One_nat_def Suc_leI length_pos_if_in_set)
  qed
  have total: "gt x + eq x \<le> length vs" if "x \<in> set vs" for x
  proof -
    have "gt x + eq x = length (filter (\<lambda>u. fless x u \<or> u \<noteq> NaN \<and> \<not> fless x u \<and> \<not> fless u x) vs)"
      unfolding gt_def eq_def by (induction vs) auto
    then show ?thesis by simp
  qed
  have less: "rank x < rank y" if "x \<in> set vs" "y \<in> set vs" "fless y x" for x y
  proof -
    have "gt x + eq x \<le> gt y" using feq_class [OF assms that] unfolding gt_def eq_def .
    then show ?thesis using eq_pos [OF that(1)] eq_pos [OF that(2)] unfolding rank_def by linarith
  qed
  have same: "rank x = rank y" if "x \<in> set vs" "y \<in> set vs" "\<not> fless y x" "\<not> fless x y" for x y
  proof -
    have nn: "x \<noteq> NaN" "y \<noteq> NaN" using that assms by auto
    have iff: "fless x u = fless y u" "fless u x = fless u y" if u: "u \<in> set vs" for u
    proof -
      have "u \<noteq> NaN" using u assms by auto
      then show "fless x u = fless y u" "fless u x = fless u y"
        using nn \<open>\<not> fless y x\<close> \<open>\<not> fless x y\<close>
          float.le_trans [of u x y] float.le_trans [of u y x] float.le_trans [of x y u] float.le_trans [of y x u] by fastforce+
    qed
    have "gt x = gt y" "eq x = eq y" unfolding gt_def eq_def using iff by (simp_all cong: filter_cong)
    then show ?thesis by (simp add: rank_def)
  qed
  have range: "1 \<le> rank x \<and> rank x \<le> int (length vs)" if "x \<in> set vs" for x
    using eq_pos [OF that] total [OF that] unfolding rank_def by linarith
  have alone: "rank x = 1 + int (gt x)" if "length (filter (\<lambda>u. \<not> fless x u \<and> \<not> fless u x) vs) = 1" for x
  proof -
    have "eq x = 1" unfolding eq_def that [symmetric] using assms by (intro arg_cong [where f = length] filter_cong) auto
    then show ?thesis by (simp add: rank_def)
  qed
  have "rank_table [(t, NaN # vs)] = Inl ValueError" by (simp add: rank_table_def rank_value_def)
  moreover have "\<forall>x \<in> set vs. 1 \<le> rank x \<and> rank x \<le> int (length vs) \<and>
       (\<forall>y \<in> set vs. (fless y x \<longrightarrow> rank x < rank y) \<and> (\<not> fless y x \<and> \<not> fless x y \<longrightarrow> rank x = rank y)) \<and>
       (length (filter (\<lambda>u. \<not> fless x u \<and> \<not> fless u x) vs) = 1 \<longrightarrow> rank x = 1 + int (length (filter (\<lambda>u. fless x u) vs)))"
    using range less same alone unfolding gt_def [symmetric] by blast
  ultimately show ?thesis using table by blast
qed

theorem ranks_of_row_witness:
  "\<exists>rank. rank_table [(8, [Fin 3, Fin 7])] = Inr [(8, map rank [Fin 3, Fin 7])] \<and> rank (Fin 7) < rank (Fin 3)"
proof -
  have "\<forall>v \<in> set [Fin 3, Fin 7]. v \<noteq> NaN" by simp
  from ranks_of_row [OF this, of 8] obtain rank where "rank_table [(8, [Fin 3, Fin 7])] = Inr [(8, map rank [Fin 3, Fin 7])]"
    "\<forall>x \<in> set [Fin 3, Fin 7]. \<forall>y \<in> set [Fin 3, Fin 7]. fless y x \<longrightarrow> rank x < rank y" by blast
  then show ?thesis by (intro exI [of _ rank]) simp
qed

end
