(* ===== verification/ArmX86Notebook.thy ===== *)
theory ArmX86Notebook
  imports PlatformNotebook
begin

text \<open>
  The code cells of \<open>results/archive/arm_vs_x86_comparison.ipynb\<close>: the loading and the averages of the platform
  notebooks on two files, and nineteen cells of figures and tables. A cell is a function from the averaged rows
  to what it prints, tabulates and draws. Tables have one list of labels per row, the names of their columns
  and their values.
\<close>

section \<open>Constants and loading\<close>

definition LOCK_ORDER :: "string list" where
  "LOCK_ORDER = [''tas'', ''ttas'', ''cas'', ''ticket'', ''rw'', ''occ'', ''rcu'', ''lock'']"

definition LOCK_LABELS :: "(string, string) dict" where
  "LOCK_LABELS =
     [(''tas'', ''TAS''), (''ttas'', ''TTAS''), (''cas'', ''CAS''), (''ticket'', ''Ticket''), (''rw'', ''RW''), (''occ'', ''OCC''),
      (''rcu'', ''RCU''), (''lock'', ''Lock'')]"

definition LOCK_COLORS :: "(string, string) dict" where
  "LOCK_COLORS =
     [(''tas'', ''#4e79a7''), (''ttas'', ''#f28e2b''), (''cas'', ''#e15759''), (''ticket'', ''#76b7b2''), (''rw'', ''#59a14f''),
      (''occ'', ''#af7aa1''), (''rcu'', ''#ff9da7''), (''lock'', ''#9c755f'')]"

definition PLAT_LABELS :: "(string, string) dict" where
  "PLAT_LABELS = [(''arm'', ''ARM Server''), (''x86'', ''Intel x86'')]"

definition PLAT_MARKER :: "(string, string) dict" where
  "PLAT_MARKER = [(''arm'', ''s''), (''x86'', ''o'')]"

definition label_of :: "string \<Rightarrow> string" where
  \<comment> \<open>\<open>LOCK\_LABELS.get(c, c)\<close>\<close>
  "label_of c = (case map_of LOCK_LABELS c of None \<Rightarrow> c | Some s \<Rightarrow> s)"

datatype cell_out =
    CellLine string
  | CellTable "string list list" "string list" "flt list list"
  | CellNames "string list list" "string list" "string list list"
  | CellFigure figure

definition resolve_csv :: "bench_world \<Rightarrow> string \<Rightarrow> path py" where
  "resolve_csv bw name =
     (case filter (\<lambda>p. csv_trials bw p \<noteq> None) (map (\<lambda>base. base @ [name]) [[], [''..''], [''..'', ''results''], [''results'']]) of
        [] \<Rightarrow> Inl FileNotFoundError
      | p # _ \<Rightarrow> Inr p)"

definition load_both :: "bench_world \<Rightarrow> (trial list \<times> trial list) py" where
  "load_both bw =
     bind_py (resolve_csv bw ''arm_xgene1_lockbench.csv'') (\<lambda>pa. bind_py (load_csv bw pa ''arm'') (\<lambda>arm.
     bind_py (resolve_csv bw ''x86_xeon_lockbench.csv'') (\<lambda>px. bind_py (load_csv bw px ''x86'') (\<lambda>x86.
       Inr (arm, x86)))))"

definition intro_lines :: "trial list \<Rightarrow> trial list \<Rightarrow> cell_out list" where
  "intro_lines arm x86 =
     (let threads_of = (\<lambda>ts. repr_np_ints (py_sorted (first_occurrences (known_threads ts))));
          locks_of = (\<lambda>ts. repr_list (py_sorted (first_occurrences (map tr_lock ts))))
      in map CellLine
        [''ARM threads  : '' @ threads_of arm, ''x86 threads  : '' @ threads_of x86,
         ''Shared threads: '' @ repr_np_ints (shared_threads arm x86),
         ''ARM locks    : '' @ locks_of arm, ''x86 locks    : '' @ locks_of x86])"

section \<open>Idioms of the cells\<close>

definition plat_attrs :: "string \<Rightarrow> attrs \<Rightarrow> attrs py" where
  "plat_attrs plat kws =
     bind_py (get_item PLAT_LABELS plat) (\<lambda>label. bind_py (get_item PLAT_COLORS plat) (\<lambda>color.
     bind_py (get_item PLAT_MARKER plat) (\<lambda>marker.
       Inr ([(''label'', label), (''color'', color), (''marker'', marker)] @ kws))))"

definition err_of :: "(agg_trial \<Rightarrow> flt) \<Rightarrow> (agg_trial \<Rightarrow> flt) \<Rightarrow> agg_trial list \<Rightarrow> string \<Rightarrow> draw list py" where
  \<comment> \<open>\<open>if sub.empty: continue\<close>, else a line with error bars\<close>
  "err_of mean std sub plat =
     (if sub = [] then Inr []
      else bind_py (plat_attrs plat [(''linewidth'', ''1.8''), (''capsize'', ''3'')]) (\<lambda>a.
        Inr [ErrorBar (map ag_threads sub) (map mean sub) (map std sub) (map std sub) a]))"

definition line_of :: "(int \<times> flt) list \<Rightarrow> string \<Rightarrow> draw list py" where
  "line_of pts plat = bind_py (plat_attrs plat [(''linewidth'', ''1.8'')]) (\<lambda>a. Inr [Plot (map fst pts) (map snd pts) a])"

definition of_lock :: "string \<Rightarrow> string \<Rightarrow> agg_trial list \<Rightarrow> agg_trial list" where
  "of_lock lock plat g = filter (\<lambda>a. ag_lock a = lock \<and> ag_platform a = plat) g"

definition fig_of :: "attrs \<Rightarrow> draw list list \<Rightarrow> draw list \<Rightarrow> figure" where
  "fig_of args axes calls = \<lparr>fig_args = args, fig_axes = axes, fig_calls = calls @ [Call ''tight_layout'' [] []], fig_file = []\<rparr>"

definition suptitle :: "string \<Rightarrow> attrs \<Rightarrow> draw" where
  "suptitle t kws = Call ''suptitle'' [t] ((''fontsize'', ''13'') # kws)"

definition lock_grid :: "attrs \<Rightarrow> (string \<Rightarrow> draw list py) \<Rightarrow> string list \<Rightarrow> string \<Rightarrow> cell_out list py" where
  \<comment> \<open>three columns, as many rows as needed, the axes left over hidden; a grid without rows cannot be made\<close>
  "lock_grid kws body locks title =
     (let n = length locks; nrows = (n + 3 - 1) div 3
      in if nrows = 0 then Inl ValueError
         else bind_py (map_py body locks) (\<lambda>axes.
           Inr [CellFigure (fig_of ([(''figsize'', ''(18, '' @ show_nat (4 * nrows) @ '')'')] @ kws)
             (axes @ replicate (nrows * 3 - n) [Call ''set_visible'' [''False''] []]) [suptitle title [(''y'', ''1.01'')]])]))"

definition axis_labels :: "string \<Rightarrow> string \<Rightarrow> string \<Rightarrow> draw list" where
  "axis_labels title x y = [Call ''set_title'' [title] [], Call ''set_xlabel'' [x] [], Call ''set_ylabel'' [y] []]"

definition cell_texts :: "string \<Rightarrow> (flt \<Rightarrow> string) \<Rightarrow> (flt \<Rightarrow> string) \<Rightarrow> flt list list \<Rightarrow> draw list" where
  \<comment> \<open>a text in every cell that has a value\<close>
  "cell_texts fontsize to_text color m =
     concat (map (\<lambda>(i, row). concat (map (\<lambda>(j, v).
         if v = NaN then []
         else [Call ''text'' [show_nat j, show_nat i, to_text v]
           [(''ha'', ''center''), (''va'', ''center''), (''fontsize'', fontsize), (''color'', color v)]])
       (zip [0..<length row] row))) (zip [0..<length m] m))"

definition heat_ticks :: "string list \<Rightarrow> attrs \<Rightarrow> string list \<Rightarrow> draw list" where
  "heat_ticks columns kws index =
     [Call ''set_xticks'' (map show_nat [0..<length columns]) [], Call ''set_xticklabels'' columns kws,
      Call ''set_yticks'' (map show_nat [0..<length index]) [], Call ''set_yticklabels'' index []]"

definition slanted :: attrs where
  "slanted = [(''rotation'', ''30''), (''ha'', ''right'')]"

definition color_map :: "string \<Rightarrow> string \<Rightarrow> string \<Rightarrow> attrs" where
  "color_map cmap vmin vmax = [(''aspect'', ''auto''), (''cmap'', cmap), (''vmin'', vmin), (''vmax'', vmax)]"

definition threads_in :: "agg_trial list \<Rightarrow> int list" where
  "threads_in g = py_sorted (first_occurrences (map ag_threads g))"

definition lock_heat :: "string \<Rightarrow> string \<Rightarrow> (flt \<Rightarrow> string) \<Rightarrow> string list \<Rightarrow> (agg_trial \<Rightarrow> flt) \<Rightarrow> string \<Rightarrow> agg_trial list \<Rightarrow> draw list" where
  \<comment> \<open>\<open>sub.pivot(index='lock', columns='threads')\<close> in the given order of locks, as a heat map with texts\<close>
  "lock_heat cmap fontsize color order val title sub =
     (let ls = filter (\<lambda>l. l \<in> ag_lock ` set sub) order; ts = threads_in sub;
          m = map (\<lambda>l. map (\<lambda>t. case find (\<lambda>a. ag_lock a = l \<and> ag_threads a = t) sub of None \<Rightarrow> NaN | Some a \<Rightarrow> val a) ts) ls
      in [Heat m (color_map cmap ''0'' ''1.0'')] @ heat_ticks (map show_int ts) [] (map label_of ls) @
         [Call ''set_xlabel'' [''Threads''] [], Call ''set_title'' [title] []] @ cell_texts fontsize (format_fixed 2) color m)"

definition plat_heats :: "string \<Rightarrow> (flt \<Rightarrow> string) \<Rightarrow> (agg_trial \<Rightarrow> flt) \<Rightarrow> string \<Rightarrow> string \<Rightarrow> string \<Rightarrow> agg_trial list \<Rightarrow> cell_out list py" where
  \<comment> \<open>two such maps side by side\<close>
  "plat_heats cmap color val caption bar_label title g =
     bind_py (map_py (\<lambda>plat. bind_py (get_item PLAT_LABELS plat) (\<lambda>name.
         Inr (lock_heat cmap ''9'' color LOCK_ORDER val (name @ caption) (filter (\<lambda>a. ag_platform a = plat) g)))) [''x86'', ''arm'']) (\<lambda>axes.
       Inr [CellFigure (fig_of [(''figsize'', ''(16, 5)'')] axes
         [Call ''colorbar'' [] [(''label'', bar_label), (''shrink'', ''0.8'')], suptitle title [(''y'', ''1.02'')]])])"

definition above_half :: "flt \<Rightarrow> string" where
  "above_half v = (if fless (fl (1 / 2)) v then ''white'' else ''black'')"

definition need_column :: "string \<Rightarrow> string list \<Rightarrow> unit py" where
  \<comment> \<open>\<open>frame[name]\<close>\<close>
  "need_column name columns = (if name \<in> set columns then Inr () else Inl (KeyError name))"

definition val_at :: "(agg_trial \<Rightarrow> flt) \<Rightarrow> agg_trial list \<Rightarrow> string \<Rightarrow> string \<Rightarrow> int \<Rightarrow> flt" where
  "val_at val g plat l t =
     (case find (\<lambda>a. ag_platform a = plat \<and> ag_lock a = l \<and> ag_threads a = t) g of None \<Rightarrow> NaN | Some a \<Rightarrow> val a)"

definition mean_at :: "agg_trial list \<Rightarrow> string \<Rightarrow> string \<Rightarrow> int \<Rightarrow> flt" where
  "mean_at = val_at ag_ops_mean"

section \<open>The mutex workload\<close>

definition mutex_cell :: "int list \<Rightarrow> string list \<Rightarrow> agg_trial list \<Rightarrow> cell_out list py" where
  "mutex_cell shared locks g =
     lock_grid [(''sharey'', ''False'')] (\<lambda>lock.
       bind_py (map_py (\<lambda>plat. err_of ag_ops_mean ag_ops_std (of_lock lock plat g) plat) platforms) (\<lambda>ls.
       bind_py (get_item LOCK_LABELS lock) (\<lambda>name.
         Inr (concat ls @ axis_labels (''Mutex '' @ em_dash @ '' '' @ name) ''Threads'' ''Throughput (M ops/s)'' @
           [shared_ticks shared, Call ''legend'' [] [(''fontsize'', ''9'')]])))) locks
       ''ARM Server vs Intel x86: Mutex Throughput per Lock''"

definition measured :: "agg_trial list \<Rightarrow> agg_trial list" where
  \<comment> \<open>\<open>pivot\_table\<close> leaves out rows and columns without a value\<close>
  "measured g = filter (\<lambda>a. ag_ops_mean a \<noteq> NaN) g"

definition ratio_table :: "agg_trial list \<Rightarrow> (int list \<times> string list \<times> flt list list) py" where
  "ratio_table g =
     (let ok = measured g; plats = map ag_platform ok; ts = threads_in ok; ls = py_sorted (first_occurrences (map ag_lock ok))
      in bind_py (need_column ''x86'' plats) (\<lambda>_. bind_py (need_column ''arm'' plats) (\<lambda>_.
        Inr (ts, ls, map (\<lambda>t. map (\<lambda>l. np_round 3 (np_div (mean_at g ''x86'' l t) (mean_at g ''arm'' l t))) ls) ts))))"

definition ratio_cell :: "agg_trial list \<Rightarrow> cell_out list py" where
  "ratio_cell g =
     bind_py (ratio_table g) (\<lambda>(ts, ls, m).
       Inr [CellLine ''x86 / ARM throughput ratio (>1 means x86 is faster):'',
            CellTable (map (\<lambda>t. [show_int t]) ts) (map label_of ls) (map (map (np_round 3)) m),
            CellFigure (fig_of [(''figsize'', ''(10, 4)'')]
              [[Heat m (color_map ''RdYlGn'' ''0.3'' ''3.0'')] @ heat_ticks (map label_of ls) slanted (map show_int ts) @
               [Call ''set_xlabel'' [''Lock''] [], Call ''set_ylabel'' [''Threads''] [],
                Call ''set_title'' [''x86 / ARM Throughput Ratio '' @ em_dash @ '' Mutex Workload'' @ [CHR 0x0A] @
                  ''(green > 1 = x86 faster, red < 1 = ARM faster)''] []] @
               cell_texts ''9'' (format_fixed 2) (\<lambda>_. ''black'') m]
              [Call ''colorbar'' [] [(''label'', ''x86 / ARM ratio'')]])])"

definition fairness_cell :: "int list \<Rightarrow> string list \<Rightarrow> agg_trial list \<Rightarrow> cell_out list py" where
  "fairness_cell shared locks g =
     (let g_fair = filter (\<lambda>a. 1 < ag_threads a) g
      in lock_grid [(''sharey'', ''True'')] (\<lambda>lock.
        bind_py (map_py (\<lambda>plat. err_of ag_fair_mean ag_fair_std (of_lock lock plat g_fair) plat) platforms) (\<lambda>ls.
        bind_py (get_item LOCK_LABELS lock) (\<lambda>name.
          Inr (concat ls @ axis_labels (''Fairness '' @ em_dash @ '' '' @ name) ''Threads'' ''Fairness ratio (min/max)'' @
            [shared_ticks (filter (\<lambda>t. 1 < t) shared), Call ''set_ylim'' [''-0.05'', ''1.05''] [],
             Call ''legend'' [] [(''fontsize'', ''9'')]])))) locks
        ''ARM Server vs Intel x86: Mutex Fairness per Lock'')"

section \<open>Reading and writing\<close>

definition READ_PCTS :: "int list" where
  "READ_PCTS = [0, 50, 100]"

definition rw_rows :: "bench_world \<Rightarrow> int list \<Rightarrow> trial list \<Rightarrow> agg_trial list" where
  "rw_rows bw shared df =
     agg bw read_mix_key (filter (\<lambda>r. tr_workload r = ''rw'' \<and> tr_lock r \<in> {''rw'', ''occ''} \<and> in_threads shared r) df)"

definition of_mix :: "string \<Rightarrow> string \<Rightarrow> int \<Rightarrow> agg_trial list \<Rightarrow> agg_trial list" where
  "of_mix lock plat rp g = filter (\<lambda>a. ag_platform a = plat \<and> ag_lock a = lock \<and> ag_read_pct a = rp) g"

definition occ_over_rw :: "agg_trial list \<Rightarrow> string \<Rightarrow> cell_out list py" where
  "occ_over_rw g plat =
     (let sub = filter (\<lambda>a. ag_read_pct a = 100 \<and> ag_platform a = plat) g;
          ls = py_sorted (first_occurrences (map ag_lock sub)); val = (\<lambda>t l. mean_at sub plat l t)
      in bind_py (need_column ''occ'' ls) (\<lambda>_. bind_py (need_column ''rw'' ls) (\<lambda>_.
         bind_py (get_item PLAT_LABELS plat) (\<lambda>name.
           Inr [CellLine (''  '' @ name),
             CellTable (map (\<lambda>t. [show_int t]) (threads_in sub)) (ls @ [''occ_over_rw''])
               (map (\<lambda>t. map (np_round 3) (map (val t) ls @ [np_div (val t ''occ'') (val t ''rw'')])) (threads_in sub))]))))"

definition rw_cell :: "int list \<Rightarrow> agg_trial list \<Rightarrow> cell_out list py" where
  "rw_cell shared g =
     bind_py (map_py (\<lambda>(lock, rp).
         bind_py (map_py (\<lambda>plat. err_of ag_ops_mean ag_ops_std (of_mix lock plat rp g) plat) platforms) (\<lambda>ls.
         bind_py (get_item LOCK_LABELS lock) (\<lambda>name.
           Inr (concat ls @ axis_labels (name @ '' '' @ em_dash @ '' '' @ show_int rp @ ''% reads'') ''Threads'' ''Throughput (M ops/s)'' @
             [shared_ticks shared, Call ''legend'' [] [(''fontsize'', ''9'')]]))))
       (List.product [''rw'', ''occ''] READ_PCTS)) (\<lambda>axes.
     bind_py (map_py (occ_over_rw g) platforms) (\<lambda>tables.
       Inr ([CellFigure (fig_of [(''figsize'', ''(18, 10)''), (''sharey'', ''False'')] axes
               [suptitle ''ARM Server vs Intel x86: RW Workload Throughput'' []]),
             CellLine ([CHR 0x0A] @ ''OCC / RW throughput ratio at 100% reads:'')] @ concat tables)))"

definition rcu_rows :: "bench_world \<Rightarrow> int list \<Rightarrow> trial list \<Rightarrow> agg_trial list" where
  \<comment> \<open>the key without the lock, which is the same in all rows\<close>
  "rcu_rows bw shared df =
     agg bw read_mix_key (filter (\<lambda>r. tr_workload r = ''rcu'' \<and> tr_lock r = ''rcu'' \<and> in_threads shared r) df)"

definition rcu_ratios :: "agg_trial list \<Rightarrow> cell_out list py" where
  "rcu_ratios g =
     (let ok = measured g; plats = py_sorted (first_occurrences (map ag_platform ok));
          keys = py_sorted (first_occurrences (map (\<lambda>a. (ag_read_pct a, ag_threads a)) ok));
          val = (\<lambda>(rp, t) plat. mean_at (filter (\<lambda>a. ag_read_pct a = rp) ok) plat ''rcu'' t)
      in bind_py (need_column ''x86'' plats) (\<lambda>_. bind_py (need_column ''arm'' plats) (\<lambda>_.
        Inr [CellTable (map (\<lambda>(rp, t). [show_int rp, show_int t]) keys) (plats @ [''x86_over_arm''])
          (map (\<lambda>k. map (np_round 3) (map (val k) plats @ [np_div (val k ''x86'') (val k ''arm'')])) keys)])))"

definition rcu_cell :: "int list \<Rightarrow> agg_trial list \<Rightarrow> cell_out list py" where
  "rcu_cell shared g =
     bind_py (map_py (\<lambda>rp.
         bind_py (map_py (\<lambda>plat. err_of ag_ops_mean ag_ops_std (filter (\<lambda>a. ag_platform a = plat \<and> ag_read_pct a = rp) g) plat) platforms) (\<lambda>ls.
           Inr (concat ls @ axis_labels (''RCU '' @ em_dash @ '' '' @ show_int rp @ ''% reads'') ''Threads'' ''Throughput (M ops/s)'' @
             [shared_ticks shared, Call ''set_yscale'' [''log''] [], Call ''legend'' [] [(''fontsize'', ''9'')]])))
       READ_PCTS) (\<lambda>axes.
     bind_py (rcu_ratios g) (\<lambda>table.
       Inr ([CellFigure (fig_of [(''figsize'', ''(18, 5)''), (''sharey'', ''False'')] axes
               [suptitle ''ARM Server vs Intel x86: RCU Workload Throughput (log scale)'' []]),
             CellLine ([CHR 0x0A] @ ''RCU throughput ratio x86/ARM by read_pct and threads:'')] @ table)))"

section \<open>Latency\<close>

definition latency_rows :: "bench_world \<Rightarrow> trial list \<Rightarrow> (string \<times> string \<times> flt \<times> flt) list" where
  "latency_rows bw df =
     (let lat1 = filter (\<lambda>r. tr_workload r = ''mutex'' \<and> tr_cs_work r = Some 0 \<and> tr_threads r = Some 1) df
      in map (\<lambda>(p, l). let ns = map tr_ns_op (filter (\<lambda>r. tr_platform r = p \<and> tr_lock r = l) lat1) in (p, l, col_mean bw ns, col_std bw ns))
           (py_sorted (first_occurrences (map (\<lambda>r. (tr_platform r, tr_lock r)) lat1))))"

definition latency_at :: "(flt \<times> flt \<Rightarrow> flt) \<Rightarrow> (string \<times> string \<times> flt \<times> flt) list \<Rightarrow> string \<Rightarrow> string \<Rightarrow> flt" where
  "latency_at val gs plat l = (case find (\<lambda>(p, k, _). p = plat \<and> k = l) gs of None \<Rightarrow> NaN | Some (_, _, v) \<Rightarrow> val v)"

definition bar_kw :: "string \<Rightarrow> attrs \<Rightarrow> attrs py" where
  "bar_kw plat kws =
     bind_py (get_item PLAT_LABELS plat) (\<lambda>label. bind_py (get_item PLAT_COLORS plat) (\<lambda>color.
       Inr ([(''label'', label), (''color'', color)] @ kws)))"

definition bar_ticks :: "string list \<Rightarrow> draw list py" where
  "bar_ticks locks =
     bind_py (map_py (get_item LOCK_LABELS) locks) (\<lambda>labels.
       Inr [Call ''set_xticks'' [''x + width / 2''] [], Call ''set_xticklabels'' labels []])"

definition latency_cell :: "bench_world \<Rightarrow> trial list \<Rightarrow> cell_out list py" where
  "latency_cell bw df =
     (let gs = latency_rows bw df; locks = filter (\<lambda>l. l \<in> (\<lambda>(_, l, _). l) ` set gs) LOCK_ORDER;
          plats = py_sorted (first_occurrences (map fst gs)); ns = (\<lambda>l p. latency_at fst gs p l)
      in bind_py (map_py (\<lambda>(i, plat).
             bind_py (bar_kw plat [(''alpha'', ''0.85''), (''capsize'', ''4''), (''error_kw'', ''elinewidth: 1.2'')]) (\<lambda>kw.
               Inr (BarErr (bar_xs (length locks) i) (map (latency_at fst gs plat) locks) (map (latency_at snd gs plat) locks) bar_w kw)))
           (zip [0, 1] platforms)) (\<lambda>bars.
         bind_py (bar_ticks locks) (\<lambda>ticks.
         bind_py (need_column ''x86'' plats) (\<lambda>_. bind_py (need_column ''arm'' plats) (\<lambda>_.
           Inr [CellFigure (fig_of [(''figsize'', ''(12, 5)'')]
                  [bars @ ticks @ [Call ''set_ylabel'' [''Latency (ns/op)''] [],
                    Call ''set_title'' [''Single-Thread Lock Latency: ARM Server vs Intel x86''] [], Call ''legend'' [] []]] []),
                CellLine ''Single-thread latency (ns/op):'',
                CellTable (map (\<lambda>l. [label_of l]) locks) (plats @ [''x86_over_arm''])
                  (map (\<lambda>l. map (np_round 3) (map (ns l) plats @ [np_div (ns l ''x86'') (ns l ''arm'')])) locks)])))))"

section \<open>Scaling\<close>

definition relative :: "agg_trial list \<Rightarrow> (agg_trial \<times> flt) list" where
  \<comment> \<open>merged with the rows of one thread on machine and lock, the quotient of the throughputs\<close>
  "relative g =
     concat (map (\<lambda>a. map (\<lambda>b. (a, np_div (ag_ops_mean a) (ag_ops_mean b)))
       (filter (\<lambda>b. ag_threads b = 1 \<and> ag_platform b = ag_platform a \<and> ag_lock b = ag_lock a) g)) g)"

definition relative_of :: "string \<Rightarrow> string \<Rightarrow> agg_trial list \<Rightarrow> (int \<times> flt) list" where
  "relative_of lock plat g =
     map (\<lambda>(a, v). (ag_threads a, v)) (filter (\<lambda>(a, _). ag_lock a = lock \<and> ag_platform a = plat) (relative g))"

definition scaling_cell :: "int list \<Rightarrow> string list \<Rightarrow> agg_trial list \<Rightarrow> cell_out list py" where
  "scaling_cell shared locks g =
     lock_grid [(''sharey'', ''False'')] (\<lambda>lock.
       bind_py (map_py (\<lambda>plat. let pts = relative_of lock plat g in if pts = [] then Inr [] else line_of pts plat) platforms) (\<lambda>ls.
       bind_py (get_item LOCK_LABELS lock) (\<lambda>name.
         Inr (concat ls @
           [Plot shared (map (\<lambda>t. Fin (of_int t)) shared) [(''fmt'', ''k--''), (''linewidth'', ''0.8''), (''label'', ''Linear ideal'')]] @
           axis_labels (''Scaling '' @ em_dash @ '' '' @ name) ''Threads'' (''Normalised throughput (t=1 '' @ arrow @ '' 1.0)'') @
           [shared_ticks shared, Call ''legend'' [] [(''fontsize'', ''8'')]])))) locks
       ''ARM Server vs Intel x86: Mutex Lock Scaling (normalised to 1-thread)''"

definition x86_rows :: "bench_world \<Rightarrow> trial list \<Rightarrow> agg_trial list" where
  "x86_rows bw x86 = agg bw lock_threads_key (filter (\<lambda>r. tr_workload r = ''mutex'' \<and> tr_cs_work r = Some 0) x86)"

definition x86_cell :: "bench_world \<Rightarrow> string list \<Rightarrow> trial list \<Rightarrow> cell_out list py" where
  \<comment> \<open>all numbers of threads of one machine; an axis without rows stays bare\<close>
  "x86_cell bw locks x86 =
     (let g = x86_rows bw x86; all_threads = threads_in g
      in lock_grid [(''sharey'', ''False'')] (\<lambda>lock.
        let sub = filter (\<lambda>a. ag_lock a = lock) g
        in if sub = [] then Inr []
           else bind_py (get_item PLAT_COLORS ''x86'') (\<lambda>color. bind_py (get_item LOCK_LABELS lock) (\<lambda>name.
             Inr ([ErrorBar (map ag_threads sub) (map ag_ops_mean sub) (map ag_ops_std sub) (map ag_ops_std sub)
                    [(''color'', color), (''marker'', ''o''), (''linewidth'', ''1.8''), (''capsize'', ''3'')]] @
               axis_labels (''x86 '' @ em_dash @ '' '' @ name) ''Threads'' ''Throughput (M ops/s)'' @
               [shared_ticks all_threads, Call ''tick_params'' [] [(''axis'', ''x''), (''labelrotation'', ''45'')]])))) locks
        ''Intel x86: Mutex Throughput up to 32 Threads'')"

section \<open>Ranks\<close>

definition ranked_locks :: "agg_trial list \<Rightarrow> string \<Rightarrow> string list" where
  "ranked_locks g plat = py_sorted (first_occurrences (map ag_lock (filter (\<lambda>a. ag_platform a = plat) g)))"

definition int_table :: "string list \<Rightarrow> (int \<times> int list) list \<Rightarrow> cell_out" where
  "int_table columns rs = CellTable (map (\<lambda>(t, _). [show_int t]) rs) columns (map (\<lambda>(_, vs). map (\<lambda>v. Fin (of_int v)) vs) rs)"

definition rank_list :: "agg_trial list \<Rightarrow> string \<Rightarrow> cell_out list py" where
  "rank_list g plat =
     bind_py (pivot_threads g (ranked_locks g plat) plat) (\<lambda>tbl. bind_py (rank_table tbl) (\<lambda>rs.
     bind_py (get_item PLAT_LABELS plat) (\<lambda>name.
       Inr [CellLine ([CHR 0x0A] @ name @ '' '' @ em_dash @ '' Lock ranking by throughput (1 = fastest):''),
            int_table (map label_of (ranked_locks g plat)) rs])))"

definition side_bars :: "string list \<Rightarrow> agg_trial list \<Rightarrow> int \<Rightarrow> draw list py" where
  "side_bars locks g t =
     (let sub = filter (\<lambda>a. ag_threads a = t) g; n = length locks; half = projr (fdiv bar_w (Fin 2));
          bars = (\<lambda>plat name off. bind_py (get_item PLAT_COLORS plat) (\<lambda>color.
            Inr (HBarErr (map (\<lambda>x. off (Fin (of_nat x)) half) [0..<n]) (reindex ag_ops_mean sub plat locks)
              (reindex ag_ops_std sub plat locks) bar_w
              [(''color'', color), (''label'', name), (''capsize'', ''2''), (''alpha'', ''0.85'')])))
      in bind_py (map_py (get_item LOCK_LABELS) locks) (\<lambda>labels.
         bind_py (bars ''arm'' ''ARM'' fsub) (\<lambda>arm. bind_py (bars ''x86'' ''x86'' fadd) (\<lambda>x86.
           Inr [arm, x86, Call ''set_yticks'' [''x''] [], Call ''set_yticklabels'' labels [], Call ''set_xlabel'' [''M ops/s''] [],
                Call ''set_title'' [show_int t @ '' threads''] [], Call ''legend'' [] [(''fontsize'', ''8'')]]))))"

definition ranking_cell :: "int list \<Rightarrow> string list \<Rightarrow> agg_trial list \<Rightarrow> cell_out list py" where
  \<comment> \<open>a single axis cannot be iterated over\<close>
  "ranking_cell shared locks g =
     bind_py (map_py (rank_list g) [''x86'', ''arm'']) (\<lambda>tables.
       let n = length shared
       in if n = 0 then Inl ValueError
          else if n = 1 then Inl TypeError
          else bind_py (map_py (side_bars locks g) shared) (\<lambda>axes.
            Inr (concat tables @ [CellFigure (fig_of [(''figsize'', ''('' @ show_nat (4 * n) @ '', 5)''), (''sharey'', ''True'')] axes
              [suptitle ''Mutex Throughput by Lock: ARM vs x86 at Each Thread Count'' [(''y'', ''1.02'')]])])))"

section \<open>Spread\<close>

definition ag_cv :: "agg_trial \<Rightarrow> flt" where
  "ag_cv a = np_div (ag_ops_std a) (ag_ops_mean a)"

definition locks_in :: "agg_trial list \<Rightarrow> string list" where
  "locks_in g = filter (\<lambda>l. l \<in> ag_lock ` set g) LOCK_ORDER"

definition cv_table :: "agg_trial list \<Rightarrow> cell_out list py" where
  "cv_table g =
     (let plats = map ag_platform g
      in bind_py (need_column ''arm'' plats) (\<lambda>_. bind_py (need_column ''x86'' plats) (\<lambda>_.
        Inr [CellLine ''CV difference (ARM - x86), positive = ARM noisier:'',
          CellTable (map (\<lambda>t. [show_int t]) (threads_in g)) (map label_of (locks_in g))
            (map (\<lambda>t. map (\<lambda>l. np_round 3 (fsub (val_at ag_cv g ''arm'' l t) (val_at ag_cv g ''x86'' l t))) (locks_in g)) (threads_in g))])))"

definition cv_cell :: "int list \<Rightarrow> string list \<Rightarrow> agg_trial list \<Rightarrow> cell_out list py" where
  "cv_cell shared locks g =
     bind_py (plat_heats ''YlOrRd'' above_half ag_cv '': CV (std/mean)'' ''CV (lower = more stable)''
       ''Mutex Throughput: Coefficient of Variation (run-to-run stability)'' g) (\<lambda>heats.
     bind_py (lock_grid [(''sharex'', ''True''), (''sharey'', ''True'')] (\<lambda>lock.
       bind_py (map_py (\<lambda>plat. line_of (map (\<lambda>a. (ag_threads a, ag_cv a)) (of_lock lock plat g)) plat) platforms) (\<lambda>ls.
       bind_py (get_item LOCK_LABELS lock) (\<lambda>name.
         Inr (concat ls @ axis_labels (''CV '' @ em_dash @ '' '' @ name) ''Threads'' ''CV (std/mean)'' @
           [shared_ticks shared, Call ''legend'' [] [(''fontsize'', ''8'')], Call ''set_ylim'' [''0'', ''None''] []])))) locks
       ''Mutex: CV per Lock (lower = more predictable throughput)'') (\<lambda>grid.
     bind_py (cv_table g) (\<lambda>table.
       Inr (heats @ grid @ table))))"

section \<open>Contention\<close>

definition relative_at :: "agg_trial list \<Rightarrow> string \<Rightarrow> string \<Rightarrow> int \<Rightarrow> flt" where
  "relative_at g plat l t =
     (case find (\<lambda>(a, _). ag_platform a = plat \<and> ag_lock a = l \<and> ag_threads a = t) (relative g) of None \<Rightarrow> NaN | Some (_, v) \<Rightarrow> v)"

definition contention_8t :: "agg_trial list \<Rightarrow> agg_trial list" where
  "contention_8t g = filter (\<lambda>a. ag_threads a = 8) (map fst (relative g))"

definition grouped_bars :: "(string \<Rightarrow> string \<Rightarrow> flt) \<Rightarrow> string list \<Rightarrow> draw list py" where
  \<comment> \<open>one bar call per machine, \<open>x + i * w\<close>\<close>
  "grouped_bars val locks =
     map_py (\<lambda>(i, plat). bind_py (bar_kw plat [(''alpha'', ''0.85'')]) (\<lambda>kw.
       Inr (Bar (bar_xs (length locks) i) (map (val plat) locks) bar_w kw))) (zip [0, 1] platforms)"

definition contention_bars :: "agg_trial list \<Rightarrow> cell_out list py" where
  "contention_bars g =
     (let locks = locks_in (contention_8t g)
      in bind_py (grouped_bars (\<lambda>plat l. relative_at g plat l 8) locks) (\<lambda>bars. bind_py (bar_ticks locks) (\<lambda>ticks.
        Inr [CellFigure (fig_of [(''figsize'', ''(12, 5)'')]
          [bars @ [Call ''axhline'' [''1.0''] [(''color'', ''gray''), (''linestyle'', ''--''), (''linewidth'', ''1'')]] @ ticks @
           [Call ''set_ylabel'' [''Throughput ratio vs 1-thread''] [],
            Call ''set_title'' [''Contention Penalty at 8 Threads: throughput(8T) / throughput(1T)''] [], Call ''legend'' [] []]] [])])))"

definition contention_table :: "agg_trial list \<Rightarrow> cell_out list py" where
  "contention_table g =
     (let rows = contention_8t g; locks = locks_in rows; plats = py_sorted (first_occurrences (map ag_platform rows));
          val = (\<lambda>l plat. relative_at g plat l 8)
      in bind_py (need_column ''arm'' plats) (\<lambda>_. bind_py (need_column ''x86'' plats) (\<lambda>_.
        Inr [CellLine ''Contention ratio at 8T (>1 = scales positively, <1 = contention hurts):'',
          CellTable (map (\<lambda>l. [label_of l]) locks) (plats @ [''arm_minus_x86''])
            (map (\<lambda>l. map (np_round 3) (map (val l) plats @ [fsub (val l ''arm'') (val l ''x86'')])) locks)])))"

definition contention_cell :: "int list \<Rightarrow> string list \<Rightarrow> agg_trial list \<Rightarrow> cell_out list py" where
  "contention_cell shared locks g =
     bind_py (contention_bars g) (\<lambda>bars.
     bind_py (lock_grid [(''sharex'', ''True''), (''sharey'', ''True'')] (\<lambda>lock.
       bind_py (map_py (\<lambda>plat. line_of (relative_of lock plat g) plat) platforms) (\<lambda>ls.
       bind_py (get_item LOCK_LABELS lock) (\<lambda>name.
         Inr (concat ls @ [Call ''axhline'' [''1.0''] [(''color'', ''gray''), (''linestyle'', ''--''), (''linewidth'', ''0.8'')]] @
           axis_labels (''Contention '' @ em_dash @ '' '' @ name) ''Threads'' ''throughput / throughput(1T)'' @
           [shared_ticks shared, Call ''legend'' [] [(''fontsize'', ''8'')]])))) locks
       ''Contention Curves: Throughput Relative to Single-Thread (per lock)'') (\<lambda>grid.
     bind_py (contention_table g) (\<lambda>table.
       Inr (bars @ grid @ table))))"

section \<open>Shift of ranks\<close>

definition plat_locks :: "agg_trial list \<Rightarrow> string \<Rightarrow> string list" where
  "plat_locks g plat = locks_in (filter (\<lambda>a. ag_platform a = plat) g)"

definition plat_ranks :: "agg_trial list \<Rightarrow> string \<Rightarrow> (int \<times> int list) list py" where
  "plat_ranks g plat = bind_py (pivot_threads g (plat_locks g plat) plat) rank_table"

definition rank_diff :: "agg_trial list \<Rightarrow> (int \<times> int list) list \<Rightarrow> (int \<times> int list) list \<Rightarrow> int list list py" where
  \<comment> \<open>tables with other rows or columns subtract to floats, which \<open>+d\<close> refuses; no values have no minimum\<close>
  "rank_diff g x86 arm =
     (if plat_locks g ''arm'' = plat_locks g ''x86'' \<and> map fst arm = map fst x86 \<and> arm \<noteq> [] \<and> plat_locks g ''arm'' \<noteq> []
      then Inr (map (\<lambda>((_, a), (_, x)). map (\<lambda>(v, w). v - w) (zip a x)) (zip arm x86))
      else Inl ValueError)"

definition shift_figure :: "string list \<Rightarrow> int list \<Rightarrow> int list list \<Rightarrow> cell_out list py" where
  "shift_figure locks threads diff =
     bind_py (shift_max diff) (\<lambda>abs_max.
       Inr [CellFigure (fig_of [(''figsize'', ''(10, 4)'')]
         [[Heat (map (map (\<lambda>v. Fin (of_int v))) diff) (color_map ''RdBu'' (show_int (- abs_max)) (show_int abs_max))] @
          heat_ticks (map label_of locks) slanted (map show_int threads) @
          [Call ''set_xlabel'' [''Lock''] [], Call ''set_ylabel'' [''Threads''] [],
           Call ''set_title'' [''Lock Rank Shift: ARM rank - x86 rank'' @ [CHR 0x0A] @ ''(red = drops on ARM, blue = improves on ARM)''] []] @
          rank_texts show_signed (shift_attrs abs_max) diff]
         [Call ''colorbar'' [] [(''label'', ''Rank shift (+ = worse on ARM)'')]])])"

definition percent_marks :: "string \<Rightarrow> draw list" where
  "percent_marks rim =
     [Call ''set_ylim'' [''0'', rim] [], Call ''set_yticks'' [''25'', ''50'', ''75'', ''100''] [],
      Call ''set_yticklabels'' [''25%'', ''50%'', ''75%'', ''100%''] [(''fontsize'', ''7''), (''color'', ''gray'')]]"

definition closed :: "flt list \<Rightarrow> flt list" where
  \<comment> \<open>\<open>vals += vals[:1]\<close>\<close>
  "closed vs = vs @ take 1 vs"

definition spoke_lines :: "(int \<times> flt list) list \<Rightarrow> int \<Rightarrow> string \<Rightarrow> string \<Rightarrow> draw list py" where
  "spoke_lines tbl t plat ls =
     bind_py (get_item PLAT_COLORS plat) (\<lambda>color.
       case map_of tbl t of
         None \<Rightarrow> Inr []
       | Some vs \<Rightarrow> bind_py (get_item PLAT_LABELS plat) (\<lambda>label.
           Inr [Radar (closed vs) [(''color'', color), (''linestyle'', ls), (''linewidth'', ''2.5''), (''label'', label), (''marker'', ''o''), (''markersize'', ''5'')],
                Radar (closed vs) [(''fill'', ''True''), (''color'', color), (''alpha'', ''0.08'')]]))"

definition best_radar :: "int list \<Rightarrow> string list \<Rightarrow> agg_trial list \<Rightarrow> cell_out list py" where
  "best_radar shared locks g =
     (let n = length shared
      in bind_py (pivot_threads g locks ''x86'') (\<lambda>x86. bind_py (pivot_threads g locks ''arm'') (\<lambda>arm.
         if n = 0 then Inl ValueError
         else bind_py (map_py (\<lambda>t.
             bind_py (spoke_lines (normalized x86) t ''x86'' ''-'') (\<lambda>lx. bind_py (spoke_lines (normalized arm) t ''arm'' ''--'') (\<lambda>la.
             bind_py (map_py (get_item LOCK_LABELS) locks) (\<lambda>labels.
               Inr (lx @ la @
                 [Call ''set_xticks'' [''spoke_angles[:-1]''] [], Call ''set_xticklabels'' labels [(''fontsize'', ''10''), (''fontweight'', ''bold'')]] @
                 percent_marks ''110'' @
                 [Call ''set_title'' [show_int t @ '' thread'' @ (if 1 < t then ''s'' else [])]
                    [(''fontsize'', ''12''), (''pad'', ''20''), (''fontweight'', ''bold'')],
                  Call ''legend'' [] [(''fontsize'', ''9''), (''loc'', ''upper right''), (''bbox_to_anchor'', ''(1.35, 1.15)'')],
                  Call ''set_rlabel_position'' [''30''] []])))))
           shared) (\<lambda>axes.
           Inr [CellFigure (fig_of [(''figsize'', ''('' @ show_nat (5 * n) @ '', 5.5)''), (''subplot_kw'', ''dict(polar=True)'')] axes
             [Call ''suptitle'' [''Mutex: Throughput as % of Best Lock (outer = faster)'' @ [CHR 0x0A] @
               ''Where shapes differ, lock choice matters when porting x86 '' @ arrow @ '' ARM''] [(''fontsize'', ''14''), (''y'', ''1.08'')]])]))))"

definition shift_cell :: "int list \<Rightarrow> agg_trial list \<Rightarrow> cell_out list py" where
  "shift_cell shared g =
     bind_py (plat_ranks g ''x86'') (\<lambda>x86. bind_py (plat_ranks g ''arm'') (\<lambda>arm.
     bind_py (rank_diff g x86 arm) (\<lambda>diff. bind_py (shift_figure (plat_locks g ''arm'') (map fst arm) diff) (\<lambda>f1.
     bind_py (best_radar shared (plat_locks g ''x86'') g) (\<lambda>f2.
     bind_py (map_py (\<lambda>(plat, rs). bind_py (get_item PLAT_LABELS plat) (\<lambda>name.
         Inr [CellLine ([CHR 0x0A] @ name @ '':''), int_table (map label_of (plat_locks g plat)) rs])) [(''x86'', x86), (''arm'', arm)]) (\<lambda>tables.
       Inr (f1 @ f2 @ [CellLine ([CHR 0x0A] @ ''Rank tables (1 = fastest):'')] @ concat tables)))))))"

section \<open>Fractions of the best lock\<close>

definition fractions :: "(int \<times> flt list) list \<Rightarrow> (int \<times> flt list) list" where
  \<comment> \<open>\<open>tbl.div(tbl.max(axis=1), axis=0)\<close>\<close>
  "fractions tbl = map (\<lambda>(t, vs). (t, map (\<lambda>v. np_div v (row_max vs)) vs)) tbl"

definition below :: "rat \<Rightarrow> flt \<Rightarrow> string" where
  "below b v = (if fless v (fl b) then ''white'' else ''black'')"

definition fraction_panel :: "string list \<Rightarrow> (int \<times> flt list) list \<Rightarrow> string \<Rightarrow> draw list" where
  "fraction_panel labels tbl title =
     [Heat (map snd tbl) (color_map ''RdYlGn'' ''0'' ''1.0'')] @ heat_ticks labels slanted (map (show_int o fst) tbl) @
     [Call ''set_xlabel'' [''Lock''] [], Call ''set_ylabel'' [''Threads''] [], Call ''set_title'' [title] []] @
     cell_texts ''9'' (format_fixed 2) (below (4 / 10)) (map snd tbl)"

definition union_of :: "'a::linorder list \<Rightarrow> 'a list \<Rightarrow> 'a list" where
  \<comment> \<open>the labels of a sum of frames: kept if they are the same, else all of them in order\<close>
  "union_of xs ys = (if xs = ys then xs else py_sorted (first_occurrences (xs @ ys)))"

definition frame_at :: "string list \<Rightarrow> (int \<times> flt list) list \<Rightarrow> int \<Rightarrow> string \<Rightarrow> flt" where
  "frame_at labels tbl t l =
     (case map_of tbl t of None \<Rightarrow> NaN | Some vs \<Rightarrow> (case map_of (zip labels vs) l of None \<Rightarrow> NaN | Some v \<Rightarrow> v))"

definition np_extreme :: "bool \<Rightarrow> flt list \<Rightarrow> flt py" where
  \<comment> \<open>\<open>values.min()\<close> and \<open>values.max()\<close>: NaN if there is one, an error for no values\<close>
  "np_extreme largest vs =
     (if vs = [] then Inl ValueError
      else if NaN \<in> set vs then Inr NaN
      else Inr (fold (\<lambda>v m. if (if largest then fless m v else fless v m) then v else m) (tl vs) (hd vs)))"

fun fabs :: "flt \<Rightarrow> flt" where
  "fabs (Fin r) = Fin \<bar>r\<bar>"
| "fabs NegZero = Fin 0"
| "fabs NInf = PInf"
| "fabs v = v"

definition float_max :: "flt \<Rightarrow> flt \<Rightarrow> flt" where
  \<comment> \<open>\<open>max(a, b)\<close> keeps \<open>a\<close> unless \<open>b > a\<close>\<close>
  "float_max a b = (if fless a b then b else a)"

definition abs_limit :: "flt list list \<Rightarrow> flt py" where
  "abs_limit m =
     bind_py (np_extreme False (concat m)) (\<lambda>lo. bind_py (np_extreme True (concat m)) (\<lambda>hi.
       Inr (float_max (float_max (fabs lo) (fabs hi)) (fl (1 / 10)))))"

definition format_signed :: "nat \<Rightarrow> flt \<Rightarrow> string" where
  "format_signed n v = (let s = format_fixed n v in if take 1 s = ''-'' then s else CHR ''+'' # s)"

definition quality_shift :: "string list \<Rightarrow> string list \<Rightarrow> (int \<times> flt list) list \<Rightarrow> (int \<times> flt list) list \<Rightarrow> (int list \<times> string list \<times> flt list list)" where
  "quality_shift la lx arm x86 =
     (let ts = union_of (map fst arm) (map fst x86); ls = union_of la lx
      in (ts, ls, map (\<lambda>t. map (\<lambda>l. fsub (frame_at la arm t l) (frame_at lx x86 t l)) ls) ts))"

definition fraction_cell :: "agg_trial list \<Rightarrow> cell_out list py" where
  "fraction_cell g =
     bind_py (pivot_threads g (plat_locks g ''x86'') ''x86'') (\<lambda>tx. bind_py (pivot_threads g (plat_locks g ''arm'') ''arm'') (\<lambda>ta.
     bind_py (get_item PLAT_LABELS ''x86'') (\<lambda>nx. bind_py (get_item PLAT_LABELS ''arm'') (\<lambda>na.
       let x86 = fractions tx; arm = fractions ta; lx = map label_of (plat_locks g ''x86''); la = map label_of (plat_locks g ''arm'');
           (ts, ls, diff) = quality_shift la lx arm x86
       in bind_py (abs_limit diff) (\<lambda>abs_max.
         Inr ([CellFigure (fig_of [(''figsize'', ''(16, 5)'')]
                [fraction_panel lx x86 (nx @ '': Fraction of Best Lock''), fraction_panel la arm (na @ '': Fraction of Best Lock'')]
                [Call ''colorbar'' [] [(''label'', ''Fraction of best (1.0 = best choice)''), (''shrink'', ''0.8'')],
                 suptitle ''Lock Quality: Throughput as Fraction of Best Lock on Each Platform'' [(''y'', ''1.02'')]]),
               CellFigure (fig_of [(''figsize'', ''(10, 4)'')]
                [[Heat diff (color_map ''RdBu'' ''-abs_max'' ''abs_max'')] @ heat_ticks ls slanted (map show_int ts) @
                 [Call ''set_xlabel'' [''Lock''] [], Call ''set_ylabel'' [''Threads''] [],
                  Call ''set_title'' [''Relative Lock Quality Shift (ARM '' @ minus_sign @ '' x86)'' @ [CHR 0x0A] @
                    ''Blue = lock is relatively better on ARM vs peers''] []] @
                 cell_texts ''9'' (format_signed 2) (\<lambda>v. if fless (fmul abs_max (fl (6 / 10))) (fabs v) then ''white'' else ''black'') diff]
                [Call ''colorbar'' [] [(''label'', ''ARM '' @ minus_sign @ '' x86 (+ = relatively better on ARM)'')]]),
               CellLine ([CHR 0x0A] @ ''Normalized throughput (fraction of best lock per platform):''),
               CellLine ([CHR 0x0A] @ nx @ '':''), CellTable (map (\<lambda>(t, _). [show_int t]) x86) lx (map (map (np_round 3) o snd) x86),
               CellLine ([CHR 0x0A] @ na @ '':''), CellTable (map (\<lambda>(t, _). [show_int t]) arm) la (map (map (np_round 3) o snd) arm)]))))))"

section \<open>Spread of the readers' primitives\<close>

definition occ_rw_points :: "agg_trial list \<Rightarrow> string \<Rightarrow> int \<Rightarrow> (int \<times> flt) list" where
  \<comment> \<open>merged on the number of threads\<close>
  "occ_rw_points g plat rp =
     concat (map (\<lambda>a. map (\<lambda>b. (ag_threads a, np_div (ag_ops_mean a) (ag_ops_mean b)))
       (filter (\<lambda>b. ag_threads b = ag_threads a) (of_mix ''rw'' plat rp g))) (of_mix ''occ'' plat rp g))"

definition rw_spread_cell :: "int list \<Rightarrow> agg_trial list \<Rightarrow> cell_out list py" where
  "rw_spread_cell shared g =
     bind_py (map_py (\<lambda>(plat, rp). bind_py (get_item PLAT_LABELS plat) (\<lambda>name.
         Inr (lock_heat ''YlOrRd'' ''10'' above_half [''rw'', ''occ''] ag_cv (name @ '': '' @ show_int rp @ ''% reads'')
           (filter (\<lambda>a. ag_platform a = plat \<and> ag_read_pct a = rp) g)))) (List.product [''x86'', ''arm''] READ_PCTS)) (\<lambda>heats.
     bind_py (map_py (\<lambda>rp. bind_py (map_py (\<lambda>plat. line_of (occ_rw_points g plat rp) plat) platforms) (\<lambda>ls.
         Inr (concat ls @ [Call ''axhline'' [''1.0''] [(''color'', ''gray''), (''linestyle'', ''--''), (''linewidth'', ''0.8'')]] @
           axis_labels (show_int rp @ ''% reads'') ''Threads'' ''OCC / RW throughput ratio'' @
           [shared_ticks shared, Call ''legend'' [] [(''fontsize'', ''9'')]]))) READ_PCTS) (\<lambda>ratios.
       Inr [CellFigure (fig_of [(''figsize'', ''(18, 9)'')] heats
              [suptitle ''RW Workload: CV of Throughput (OCC vs RW lock)'' [(''y'', ''1.02'')]]),
            CellFigure (fig_of [(''figsize'', ''(18, 5)'')] ratios
              [suptitle ''OCC vs RW Lock: Throughput Ratio per Platform (>1 = OCC wins)'' [(''y'', ''1.03'')]])]))"

section \<open>The best primitive\<close>

definition PRIM_ORDER :: "string list" where
  "PRIM_ORDER = [''rw'', ''occ'', ''rcu'']"

definition PRIM_LABELS :: "(string, string) dict" where
  "PRIM_LABELS = [(''rw'', ''RW Lock''), (''occ'', ''OCC''), (''rcu'', ''RCU'')]"

definition prim_rows :: "bench_world \<Rightarrow> int list \<Rightarrow> trial list \<Rightarrow> agg_trial list" where
  "prim_rows bw shared df =
     agg bw read_mix_key (filter (\<lambda>r. in_threads shared r \<and>
       (tr_workload r = ''rw'' \<and> tr_lock r \<in> {''occ'', ''rw''} \<or> tr_workload r = ''rcu'' \<and> tr_lock r = ''rcu'')) df)"

definition of_read_pct :: "string \<Rightarrow> int \<Rightarrow> agg_trial list \<Rightarrow> agg_trial list" where
  "of_read_pct plat rp g = filter (\<lambda>a. ag_platform a = plat \<and> ag_read_pct a = rp) g"

definition prim_axes :: "int list \<Rightarrow> agg_trial list \<Rightarrow> int \<Rightarrow> string \<Rightarrow> draw list py" where
  \<comment> \<open>a chart without rows stays bare; the table is brought to all shared numbers of threads\<close>
  "prim_axes shared g rp plat =
     (let sub = of_read_pct plat rp g; locks = filter (\<lambda>l. l \<in> ag_lock ` set sub) PRIM_ORDER;
          norm = normalized (map (\<lambda>t. (t, map (\<lambda>l. mean_at sub plat l t) locks)) shared)
      in if sub = [] then Inr []
         else bind_py (map_py (\<lambda>(j, l).
             let vals = closed (map (\<lambda>(_, vs). vs ! j) norm)
             in bind_py (get_item LOCK_COLORS l) (\<lambda>color. bind_py (get_item PRIM_LABELS l) (\<lambda>label.
               Inr [Radar vals [(''color'', color), (''linewidth'', ''2.5''), (''label'', label), (''marker'', ''o''), (''markersize'', ''6'')],
                    Radar vals [(''fill'', ''True''), (''color'', color), (''alpha'', ''0.08'')]]))) (zip [0..<length locks] locks)) (\<lambda>ls.
           bind_py (get_item PLAT_LABELS plat) (\<lambda>name.
             Inr (concat ls @
               [Call ''set_xticks'' [''spoke_angles_rw[:-1]''] [],
                Call ''set_xticklabels'' (map (\<lambda>t. show_int t @ ''T'') shared) [(''fontsize'', ''10''), (''fontweight'', ''bold'')]] @
               percent_marks ''115'' @
               [Call ''set_title'' [name] [(''fontsize'', ''12''), (''pad'', ''20''), (''fontweight'', ''bold'')],
                Call ''legend'' [] [(''fontsize'', ''9''), (''loc'', ''upper right''), (''bbox_to_anchor'', ''(1.4, 1.15)'')],
                Call ''set_rlabel_position'' [''30''] []]))))"

definition idxmax :: "(string \<times> flt) list \<Rightarrow> (string \<times> flt) py" where
  \<comment> \<open>the first label with the largest value; a row without any number is refused\<close>
  "idxmax row =
     (case filter (\<lambda>(_, v). v \<noteq> NaN) row of
        [] \<Rightarrow> Inl ValueError
      | r # rs \<Rightarrow> Inr (fold (\<lambda>x m. if fless (snd m) (snd x) then x else m) rs r))"

record winner_row =
  wn_platform :: string
  wn_read_pct :: int
  wn_threads :: int
  wn_best :: string
  wn_Mops :: flt

definition winner_of :: "agg_trial list \<Rightarrow> string \<Rightarrow> int \<Rightarrow> int \<Rightarrow> winner_row py" where
  "winner_of sub plat rp t =
     bind_py (get_item PLAT_LABELS plat) (\<lambda>name.
     bind_py (idxmax (map (\<lambda>l. (l, mean_at sub plat l t)) (py_sorted (first_occurrences (map ag_lock sub))))) (\<lambda>(l, v).
       Inr \<lparr>wn_platform = name, wn_read_pct = rp, wn_threads = t,
            wn_best = (case map_of PRIM_LABELS l of None \<Rightarrow> l | Some s \<Rightarrow> s), wn_Mops = np_round 1 v\<rparr>))"

definition winner_rows :: "int list \<Rightarrow> agg_trial list \<Rightarrow> winner_row list py" where
  "winner_rows shared g =
     bind_py (map_py (\<lambda>(rp, plat). let sub = of_read_pct plat rp g
         in map_py (winner_of sub plat rp) (filter (\<lambda>t. t \<in> ag_threads ` set sub) shared)) (List.product READ_PCTS [''x86'', ''arm''])) (\<lambda>rs.
       Inr (concat rs))"

definition winner_table :: "winner_row list \<Rightarrow> cell_out list py" where
  "winner_table rs =
     (let keys = py_sorted (first_occurrences (map (\<lambda>r. (wn_read_pct r, wn_threads r)) rs)); plats = py_sorted (first_occurrences (map wn_platform rs))
      in if rs = [] then Inl (KeyError ''read_pct'')
         else Inr [CellNames (map (\<lambda>(rp, t). [show_int rp, show_int t]) keys) plats
           (map (\<lambda>(rp, t). map (\<lambda>p. case find (\<lambda>r. wn_platform r = p \<and> wn_read_pct r = rp \<and> wn_threads r = t) rs of
              None \<Rightarrow> ''NaN'' | Some r \<Rightarrow> wn_best r) plats) keys)])"

definition prim_cell :: "int list \<Rightarrow> agg_trial list \<Rightarrow> cell_out list py" where
  "prim_cell shared g =
     bind_py (map_py (\<lambda>rp. bind_py (map_py (prim_axes shared g rp) [''x86'', ''arm'']) (\<lambda>axes.
         Inr (CellFigure (fig_of [(''figsize'', ''(12, 5.5)''), (''subplot_kw'', ''dict(polar=True)'')] axes
           [suptitle (''OCC vs RW Lock vs RCU at '' @ show_int rp @ ''% Reads'' @ [CHR 0x0A] @ ''Throughput as % of best primitive (outer = faster)'')
             [(''y'', ''1.08'')]])))) READ_PCTS) (\<lambda>figs.
     bind_py (winner_rows shared g) (\<lambda>rs. bind_py (winner_table rs) (\<lambda>table.
       Inr (figs @ [CellLine ([CHR 0x0A] @ ''Best primitive per scenario:'')] @ table))))"

section \<open>Fairness and throughput together\<close>

definition fwt_score :: "agg_trial list \<Rightarrow> agg_trial \<Rightarrow> flt" where
  "fwt_score g a =
     fmul (np_div (ag_ops_mean a) (row_max (map ag_ops_mean (filter (\<lambda>b. ag_platform b = ag_platform a \<and> ag_threads b = ag_threads a) g))))
       (ag_fair_mean a)"

definition fwt_cell :: "agg_trial list \<Rightarrow> cell_out list py" where
  "fwt_cell g =
     (let g_fwt = filter (\<lambda>a. 1 < ag_threads a) g; at8 = filter (\<lambda>a. ag_threads a = 8) g_fwt; locks = locks_in at8
      in bind_py (plat_heats ''RdYlGn'' (below (35 / 100)) (fwt_score g_fwt) '': Fairness-Weighted Score''
           (''Score = norm_throughput '' @ times_sign @ '' fairness'') ''Fairness-Weighted Throughput Score (higher = better trade-off)'' g_fwt) (\<lambda>heats.
         bind_py (grouped_bars (\<lambda>plat l. val_at (fwt_score g_fwt) at8 plat l 8) locks) (\<lambda>bars. bind_py (bar_ticks locks) (\<lambda>ticks.
           Inr (heats @ [CellFigure (fig_of [(''figsize'', ''(12, 5)'')]
             [bars @ ticks @ [Call ''set_ylabel'' [''Fairness-Weighted Score''] [],
               Call ''set_title'' [''Fairness-Weighted Score at 8 Threads (higher = better)''] [], Call ''legend'' [] []]] [])])))))"

section \<open>Raw samples\<close>

definition box_axes :: "(trial \<Rightarrow> flt) \<Rightarrow> string \<Rightarrow> string \<Rightarrow> trial list \<Rightarrow> int \<Rightarrow> string \<Rightarrow> draw list py" where
  \<comment> \<open>no boxes are one empty box for matplotlib, which then misses its label\<close>
  "box_axes val y_label suffix mutex t plat =
     (let sub = filter (\<lambda>r. tr_threads r = Some t \<and> tr_platform r = plat) mutex; order = present_locks LOCK_ORDER sub;
          data = map (\<lambda>l. map val (filter (\<lambda>r. tr_lock r = l) sub)) order
      in bind_py (map_py (get_item LOCK_LABELS) order) (\<lambda>labels.
         if order = [] then Inl ValueError
         else bind_py (map_py (get_item LOCK_COLORS) order) (\<lambda>colors. bind_py (get_item PLAT_LABELS plat) (\<lambda>name.
           Inr ([BoxPlot data [(''labels'', repr_list labels), (''patch_artist'', ''True''), (''widths'', ''0.6'')]] @
             concat (map (\<lambda>(i, c). [BarColor i c, BarAlpha i (fl (7 / 10))]) (zip [0..<length colors] colors)) @
             [Call ''set_ylabel'' [y_label] [],
              Call ''set_title'' [name @ '' '' @ em_dash @ '' '' @ show_int t @ '' thread'' @ (if 1 < t then ''s'' else []) @ suffix] [],
              Call ''grid'' [''True''] [(''alpha'', ''0.3'')]])))))"

definition samples_cell :: "trial list \<Rightarrow> cell_out list py" where
  "samples_cell mutex =
     bind_py (map_py (\<lambda>(t, plat). box_axes tr_ops_m ''Throughput (M ops/s)'' [] mutex t plat) (List.product [1, 4, 8] [''x86'', ''arm''])) (\<lambda>a1.
     bind_py (map_py (\<lambda>(t, plat). box_axes tr_ns_op ''Latency (ns/op)'' '': Latency'' mutex t plat) (List.product [1, 8] [''x86'', ''arm''])) (\<lambda>a2.
       Inr [CellFigure (fig_of [(''figsize'', ''(16, 15)''), (''sharey'', ''row'')] a1
              [suptitle ''Raw Throughput Distribution per Lock (5 runs each)'' [(''y'', ''1.01'')]]),
            CellFigure (fig_of [(''figsize'', ''(16, 10)'')] a2 [suptitle ''Raw Latency Distribution per Lock'' [(''y'', ''1.01'')]])]))"

section \<open>Pairs of locks\<close>

definition PAIRS :: "(string \<times> string) list" where
  "PAIRS = [(''ttas'', ''tas''), (''cas'', ''ttas''), (''ticket'', ''cas''), (''ttas'', ''ticket''), (''cas'', ''tas'')]"

definition pair_rows :: "agg_trial list \<Rightarrow> (string \<times> string \<times> flt) list py" where
  \<comment> \<open>a pair of which one lock was not measured is passed over\<close>
  "pair_rows g =
     (let has = (\<lambda>plat l. \<exists>a \<in> set g. ag_threads a = 8 \<and> ag_platform a = plat \<and> ag_lock a = l)
      in map_py (\<lambda>((a, b), plat). bind_py (get_item LOCK_LABELS a) (\<lambda>la. bind_py (get_item LOCK_LABELS b) (\<lambda>lb.
             Inr (la @ ''/'' @ lb, plat, np_div (mean_at g plat a 8) (mean_at g plat b 8)))))
           (filter (\<lambda>((a, b), plat). has plat a \<and> has plat b) (List.product PAIRS [''x86'', ''arm''])))"

definition pair_at :: "(string \<times> string \<times> flt) list \<Rightarrow> string \<Rightarrow> string \<Rightarrow> flt" where
  "pair_at rows plat p = (case find (\<lambda>(q, r, _). q = p \<and> r = plat) rows of None \<Rightarrow> NaN | Some (_, _, v) \<Rightarrow> v)"

definition pair_bars :: "(string \<times> string \<times> flt) list \<Rightarrow> cell_out list py" where
  "pair_bars rows =
     (let ps = py_sorted (first_occurrences (map fst rows)); plats = py_sorted (first_occurrences (map (\<lambda>(_, p, _). p) rows));
          w = fl (3 / 10); half = projr (fdiv w (Fin 2)); n = length ps;
          bars = (\<lambda>plat name off. bind_py (get_item PLAT_COLORS plat) (\<lambda>color.
            Inr (Bar (map (\<lambda>x. off (Fin (of_nat x)) half) [0..<n]) (map (pair_at rows plat) ps) w
              [(''label'', name), (''color'', color), (''alpha'', ''0.85'')])))
      in if rows = [] then Inl (KeyError ''pair'')
         else bind_py (need_column ''arm'' plats) (\<lambda>_. bind_py (need_column ''x86'' plats) (\<lambda>_.
           bind_py (bars ''x86'' ''x86'' fsub) (\<lambda>x86. bind_py (bars ''arm'' ''ARM'' fadd) (\<lambda>arm.
             Inr [CellFigure (fig_of [(''figsize'', ''(12, 5)'')]
                    [[x86, arm, Call ''axhline'' [''1.0''] [(''color'', ''gray''), (''linestyle'', ''--''), (''linewidth'', ''0.8'')],
                      Call ''set_xticks'' [''x''] [], Call ''set_xticklabels'' ps [(''rotation'', ''15'')],
                      Call ''set_ylabel'' [''Throughput Ratio (A / B)''] [],
                      Call ''set_title'' [''Pairwise Lock Ratios at 8 Threads: Does the gap change across platforms?''] [],
                      Call ''legend'' [] []]] []),
                  CellLine ''Pairwise ratios (>1 = numerator lock is faster):'',
                  CellTable (map (\<lambda>p. [p]) ps) (plats @ [''gap_shift''])
                    (map (\<lambda>p. map (np_round 3) (map (\<lambda>plat. pair_at rows plat p) plats @
                       [fsub (pair_at rows ''arm'' p) (pair_at rows ''x86'' p)])) ps)])))))"

definition pair_points :: "agg_trial list \<Rightarrow> string \<Rightarrow> string \<Rightarrow> string \<Rightarrow> (int \<times> flt) list" where
  \<comment> \<open>the quotient of two columns, over all numbers of threads of either\<close>
  "pair_points g a b plat =
     map (\<lambda>t. (t, np_div (mean_at g plat a t) (mean_at g plat b t)))
       (union_of (map ag_threads (of_lock a plat g)) (map ag_threads (of_lock b plat g)))"

definition pair_cell :: "int list \<Rightarrow> agg_trial list \<Rightarrow> cell_out list py" where
  "pair_cell shared g =
     bind_py (pair_rows g) (\<lambda>rows. bind_py (pair_bars rows) (\<lambda>bars.
     bind_py (map_py (\<lambda>(i, a, b).
         bind_py (map_py (\<lambda>plat. line_of (pair_points g a b plat) plat) [''x86'', ''arm'']) (\<lambda>ls.
         bind_py (get_item LOCK_LABELS a) (\<lambda>la. bind_py (get_item LOCK_LABELS b) (\<lambda>lb.
           Inr (concat ls @ [Call ''axhline'' [''1.0''] [(''color'', ''gray''), (''linestyle'', ''--''), (''linewidth'', ''0.8'')],
               Call ''set_title'' [la @ '' / '' @ lb] [], Call ''set_xlabel'' [''Threads''] [], shared_ticks shared,
               Call ''legend'' [] [(''fontsize'', ''8'')]] @
             (if i = 0 then [Call ''set_ylabel'' [''Throughput ratio''] []] else [])))))) (zip [0..<length PAIRS] PAIRS)) (\<lambda>axes.
       Inr (bars @ [CellFigure (fig_of [(''figsize'', ''(20, 5)''), (''sharey'', ''True'')] axes
         [suptitle ''Pairwise Lock Ratios across Thread Counts'' [(''y'', ''1.03'')]])]))))"

section \<open>Spread of fairness\<close>

definition fair_cv :: "agg_trial \<Rightarrow> flt" where
  "fair_cv a = np_div (ag_fair_std a) (ag_fair_mean a)"

definition stability_axes :: "agg_trial list \<Rightarrow> string \<Rightarrow> draw list py" where
  \<comment> \<open>both spreads come from the same rows, so the merge on lock and threads pairs every row with itself\<close>
  "stability_axes g plat =
     (let sub = filter (\<lambda>a. ag_platform a = plat) g
      in bind_py (map_py (\<lambda>l. let rows = filter (\<lambda>a. ag_lock a = l) sub
            in bind_py (get_item LOCK_LABELS l) (\<lambda>label. bind_py (get_item LOCK_COLORS l) (\<lambda>color.
              Inr (Points (map ag_cv rows) (map fair_cv rows) (map (\<lambda>a. ag_threads a * 15) rows)
                [(''label'', label), (''color'', color), (''alpha'', ''0.8''), (''edgecolors'', ''k''), (''linewidths'', ''0.5'')])))) (locks_in sub)) (\<lambda>ps.
         bind_py (get_item PLAT_LABELS plat) (\<lambda>name.
           Inr (ps @ [Call ''set_xlabel'' [''Throughput CV''] [], Call ''set_ylabel'' [''Fairness CV''] [],
             Call ''set_title'' [name @ '': Throughput CV vs Fairness CV''] [], Call ''legend'' [] [(''fontsize'', ''8'')],
             Call ''set_xlim'' [''0'', ''None''] [], Call ''set_ylim'' [''0'', ''None''] []]))))"

definition proportional :: string where "proportional = [CHR 0xE2, CHR 0x88, CHR 0x9D]"

definition fair_spread_cell :: "agg_trial list \<Rightarrow> cell_out list py" where
  "fair_spread_cell g =
     (let g_mt = filter (\<lambda>a. 1 < ag_threads a) g
      in bind_py (plat_heats ''YlOrRd'' above_half fair_cv '': Fairness CV'' ''CV of Fairness (lower = more predictable)''
           ''Fairness Coefficient of Variation (run-to-run variability)'' g_mt) (\<lambda>heats.
         bind_py (map_py (stability_axes g_mt) [''x86'', ''arm'']) (\<lambda>axes.
           Inr (heats @ [CellFigure (fig_of [(''figsize'', ''(16, 6)'')] axes
             [suptitle (''Stability Map: lower-left = most predictable lock'' @ [CHR 0x0A] @ ''(point size '' @ proportional @ '' thread count)'')
               [(''y'', ''1.03'')]])]))))"

section \<open>The cells in order\<close>

definition arm_x86_notebook :: "bench_world \<Rightarrow> cell_out list py" where
  "arm_x86_notebook bw =
     bind_py (load_both bw) (\<lambda>(arm, x86).
       let df = arm @ x86; shared = shared_threads arm x86; mutex = mutex_trials shared df; g = g_mutex bw shared df;
           locks = present_locks LOCK_ORDER mutex; g_rw = rw_rows bw shared df
       in bind_py (map_py (\<lambda>c. c)
            [mutex_cell shared locks g, ratio_cell g, fairness_cell shared locks g, rw_cell shared g_rw, rcu_cell shared (rcu_rows bw shared df),
             latency_cell bw df, scaling_cell shared locks g, x86_cell bw locks x86, ranking_cell shared locks g, cv_cell shared locks g,
             contention_cell shared locks g, shift_cell shared g, fraction_cell g, rw_spread_cell shared g_rw,
             prim_cell shared (prim_rows bw shared df), fwt_cell g, samples_cell mutex, pair_cell shared g, fair_spread_cell g])
            (\<lambda>outs. Inr (intro_lines arm x86 @ concat outs)))"

section \<open>Rows with a baseline\<close>

lemma agg_keys_distinct: "distinct (map (\<lambda>a. (ag_platform a, ag_lock a, ag_threads a)) (agg bw lock_threads_key df))"
proof -
  define ks where "ks = py_sorted (first_occurrences (map the (filter (\<lambda>k. k \<noteq> None) (map lock_threads_key df))))"
  have zero: "fst (snd (snd k)) = 0" if "k \<in> set ks" for k
    using that unfolding ks_def py_sorted_eq_sort set_sort set_first_occurrences set_somes
    by (auto simp: lock_threads_key_def map_option_case split: option.splits)
  have "inj_on (\<lambda>k. (fst k, fst (snd k), snd (snd (snd k)))) (set ks)"
    by (rule inj_onI) (simp add: prod_eq_iff zero)
  moreover have "distinct ks" by (simp add: ks_def py_sorted_eq_sort)
  ultimately have "distinct (map (\<lambda>k. (fst k, fst (snd k), snd (snd (snd k)))) ks)" by (simp add: distinct_map)
  moreover have "map (\<lambda>a. (ag_platform a, ag_lock a, ag_threads a)) (agg bw lock_threads_key df) = map (\<lambda>k. (fst k, fst (snd k), snd (snd (snd k)))) ks"
    by (simp add: agg_def ks_def agg_group_row_def case_prod_unfold)
  ultimately show ?thesis by simp
qed

lemma g_mutex_keys_inj:
  assumes "a \<in> set (g_mutex bw shared df)" and "b \<in> set (g_mutex bw shared df)"
    and "ag_platform a = ag_platform b" and "ag_lock a = ag_lock b" and "ag_threads a = ag_threads b"
  shows "a = b"
  using agg_keys_distinct [of bw "mutex_trials shared df"] assms by (auto simp: g_mutex_def distinct_map dest: inj_onD)

lemma g_mutex_distinct: "distinct (g_mutex bw shared df)"
  using agg_keys_distinct [of bw "mutex_trials shared df"] by (simp add: g_mutex_def distinct_map)

lemma filter_unique: "distinct xs \<Longrightarrow> x \<in> set xs \<Longrightarrow> (\<And>y. y \<in> set xs \<Longrightarrow> P y \<longleftrightarrow> y = x) \<Longrightarrow> filter P xs = [x]"
proof (induction xs)
  case (Cons y ys)
  show ?case
  proof (cases "y = x")
    case True
    then have "filter P ys = []" using Cons.prems(1,3) by (auto simp: filter_empty_conv)
    then show ?thesis using True Cons.prems(3) [of y] by simp
  next
    case False
    then show ?thesis using Cons by auto
  qed
qed simp

definition one_thread_row :: "agg_trial list \<Rightarrow> agg_trial \<Rightarrow> agg_trial \<Rightarrow> bool" where
  \<comment> \<open>the row of one thread of the same machine and lock\<close>
  "one_thread_row g a b \<longleftrightarrow> b \<in> set g \<and> ag_threads b = 1 \<and> ag_platform b = ag_platform a \<and> ag_lock b = ag_lock a"

lemma baseline_rows:
  assumes "g = g_mutex bw shared df"
  shows "filter (\<lambda>b. ag_threads b = 1 \<and> ag_platform b = ag_platform a \<and> ag_lock b = ag_lock a) g =
    (if \<exists>b. one_thread_row g a b then [SOME b. one_thread_row g a b] else [])"
proof (cases "\<exists>b. one_thread_row g a b")
  case True
  then have b: "one_thread_row g a (SOME b. one_thread_row g a b)" by (rule someI_ex)
  have "filter (\<lambda>b. ag_threads b = 1 \<and> ag_platform b = ag_platform a \<and> ag_lock b = ag_lock a) g = [SOME b. one_thread_row g a b]"
    by (rule filter_unique) (use b assms g_mutex_distinct g_mutex_keys_inj in \<open>auto simp: one_thread_row_def\<close>)
  then show ?thesis using True by simp
next
  case False
  then show ?thesis by (auto simp: one_thread_row_def filter_empty_conv)
qed

text \<open>
  C19. Throughput relative to one thread, behind the scaling and contention figures: the rows of the mutex
  workload whose machine and lock were measured with one thread appear, each exactly once and in order, no
  others; each has its throughput over that of its row of one thread, and a row of one thread itself has exactly 1.
\<close>

theorem relative_to_one_thread:
  assumes "g = g_mutex bw shared df"
  shows "map fst (relative g) = filter (\<lambda>a. \<exists>b. one_thread_row g a b) g \<and>
    (\<forall>(a, v) \<in> set (relative g). \<exists>b. one_thread_row g a b \<and> v = np_div (ag_ops_mean a) (ag_ops_mean b) \<and>
       (ag_threads a = 1 \<longrightarrow> (\<forall>r > 0. ag_ops_mean a = Fin r \<longrightarrow> v = Fin 1)))"
proof -
  have rel: "relative g = concat (map (\<lambda>a. if \<exists>b. one_thread_row g a b
      then [(a, np_div (ag_ops_mean a) (ag_ops_mean (SOME b. one_thread_row g a b)))] else []) g)"
    unfolding relative_def baseline_rows [OF assms] by (rule arg_cong [where f = concat]) auto
  have "map fst (concat (map (\<lambda>a. if P a then [(a, q a)] else []) xs)) = filter P xs" for P and q :: "agg_trial \<Rightarrow> flt" and xs
    by (induction xs) auto
  then have "map fst (relative g) = filter (\<lambda>a. \<exists>b. one_thread_row g a b) g" unfolding rel .
  moreover have "\<exists>b. one_thread_row g a b \<and> v = np_div (ag_ops_mean a) (ag_ops_mean b) \<and>
      (ag_threads a = 1 \<longrightarrow> (\<forall>r > 0. ag_ops_mean a = Fin r \<longrightarrow> v = Fin 1))" if av: "(a, v) \<in> set (relative g)" for a v
  proof -
    obtain b where b: "a \<in> set g" "one_thread_row g a b" "v = np_div (ag_ops_mean a) (ag_ops_mean b)"
      using av unfolding relative_def one_thread_row_def by auto
    have "v = Fin 1" if "ag_threads a = 1" "0 < r" "ag_ops_mean a = Fin r" for r
    proof -
      have "a = b" using g_mutex_keys_inj [of a bw shared df b] b that(1) assms by (simp add: one_thread_row_def)
      then show ?thesis using fraction_of_best [of r r] that b(3) by auto
    qed
    then show ?thesis using b by blast
  qed
  ultimately show ?thesis by blast
qed

definition two_tas :: "trial list" where
  "two_tas =
     (let one = \<lparr>tr_platform = ''arm'', tr_lock = ''tas'', tr_workload = ''mutex'', tr_threads = Some 1, tr_cs_work = Some 0,
        tr_read_pct = Some 100, tr_ops_m = Fin 40, tr_ns_op = Fin 1, tr_fairness = Fin 1\<rparr>
      in [one, one\<lparr>tr_threads := Some 8, tr_ops_m := Fin 10\<rparr>])"

lemma two_tas_rows: "g_mutex plain_world [1, 8] two_tas =
    map (\<lambda>(t, m). \<lparr>ag_platform = ''arm'', ag_lock = ''tas'', ag_read_pct = 0, ag_threads = t, ag_runs = 1, ag_ops_mean = Fin m,
      ag_ops_std = Fin 0, ag_ns_mean = Fin 1, ag_fair_mean = Fin 1, ag_fair_std = Fin 0\<rparr>) [(1, 40), (8, 10)]"
  by code_simp

theorem relative_to_one_thread_witness:
  "map (ag_threads o fst) (relative (g_mutex plain_world [1, 8] two_tas)) = [1, 8]"
proof -
  let ?g = "g_mutex plain_world [1, 8] two_tas"
  have "map fst (relative ?g) = filter (\<lambda>a. \<exists>b. one_thread_row ?g a b) ?g" using relative_to_one_thread [OF refl, of plain_world "[1, 8]" two_tas] by blast
  moreover have base: "one_thread_row ?g a (?g ! 0)" if "a \<in> set ?g" for a using that by (auto simp: one_thread_row_def two_tas_rows)
  have "filter (\<lambda>a. \<exists>b. one_thread_row ?g a b) ?g = ?g"
    unfolding filter_id_conv using base by blast
  ultimately have "map ag_threads (map fst (relative ?g)) = map ag_threads ?g" by simp
  then show ?thesis by (simp add: two_tas_rows)
qed

section \<open>Scores\<close>

lemma fmul_unit:
  assumes "0 \<le> v" and "v \<le> 1" and "0 \<le> f" and "f \<le> 1"
  shows "\<exists>s. fmul (Fin v) (Fin f) = Fin s \<and> 0 \<le> s \<and> s \<le> 1"
proof (cases "v = 0 \<or> f = 0")
  case True
  then show ?thesis using assms by (auto simp: fmul_def is_zero_def signed_def Let_def)
next
  case False
  have p: "0 \<le> v * f" "v * f \<le> 1" using assms by (simp_all add: mult_le_one)
  have r: "0 \<le> rnd (v * f)" "rnd (v * f) \<le> 1"
    using rnd_mono [of "v * f" 1] representable_of_int [of 1] p rnd_nonneg [of "v * f"] by simp_all
  have "(1 :: rat) < max_bound" by (simp add: max_bound_def)
  then have "fl (v * f) = Fin (rnd (v * f))" using r p by (auto simp: fl_def Let_def)
  then show ?thesis using False assms r by (auto simp: fmul_def is_zero_def Let_def)
qed

text \<open>
  The fairness-weighted score: with throughputs that are not negative and not all zero and fairness
  between zero and one, every score lies between zero and one, and the fastest lock of a machine at a number
  of threads gets exactly 1 if it is perfectly fair.
\<close>

theorem fwt_score_unit:
  assumes "a \<in> set g" and "\<forall>b \<in> set g. (\<exists>m \<ge> 0. ag_ops_mean b = Fin m) \<and> (\<exists>f \<ge> 0. ag_fair_mean b = Fin f \<and> f \<le> 1)"
    and "c \<in> set g" and "ag_platform c = ag_platform a" and "ag_threads c = ag_threads a" and "fless (Fin 0) (ag_ops_mean c)"
    and "\<forall>b \<in> set g. ag_platform b = ag_platform a \<longrightarrow> ag_threads b = ag_threads a \<longrightarrow> \<not> fless (ag_ops_mean c) (ag_ops_mean b)"
  shows "\<exists>s. fwt_score g a = Fin s \<and> 0 \<le> s \<and> s \<le> 1 \<and> (ag_ops_mean a = ag_ops_mean c \<longrightarrow> ag_fair_mean a = Fin 1 \<longrightarrow> s = 1)"
proof -
  let ?vs = "map ag_ops_mean (filter (\<lambda>b. ag_platform b = ag_platform a \<and> ag_threads b = ag_threads a) g)"
  have mem: "ag_ops_mean a \<in> set ?vs" "ag_ops_mean c \<in> set ?vs" using assms(1,3-5) by auto
  have fin: "\<exists>m \<ge> 0. v = Fin m" if "v \<in> set ?vs" for v using assms(2) that by auto
  have "\<forall>v \<in> set ?vs. v \<noteq> NaN" using fin by blast
  moreover have "?vs \<noteq> []" using mem(1) by (metis empty_iff list.set(1))
  ultimately have max: "row_max ?vs \<in> set ?vs" "\<And>v. v \<in> set ?vs \<Longrightarrow> \<not> fless (row_max ?vs) v" using row_max_best by blast+
  obtain m where m: "row_max ?vs = Fin m" using fin [OF max(1)] by blast
  obtain k where k: "ag_ops_mean c = Fin k" using fin [OF mem(2)] by blast
  obtain v where v: "ag_ops_mean a = Fin v" "0 \<le> v" using fin [OF mem(1)] by blast
  have best: "\<not> fless (ag_ops_mean c) v" if "v \<in> set ?vs" for v using assms(7) that by auto
  have "k \<le> m" "v \<le> m" using max(2) [OF mem(2)] max(2) [OF mem(1)] by (simp_all add: m k v(1))
  moreover have "m \<le> k" using best [OF max(1)] unfolding m k by simp
  ultimately have "m = k" "0 < m" using assms(6) by (simp_all add: k)
  obtain w where w: "np_div (Fin v) (Fin m) = Fin w" "0 \<le> w" "w \<le> 1" "v = m \<longrightarrow> w = 1"
    using fraction_of_best [OF \<open>0 < m\<close> v(2) \<open>v \<le> m\<close>] by blast
  obtain f where f: "ag_fair_mean a = Fin f" "0 \<le> f" "f \<le> 1" using assms(1,2) by blast
  have one: "fmul (Fin 1) (Fin 1) = Fin 1" by code_simp
  have "fwt_score g a = fmul (Fin w) (Fin f)" unfolding fwt_score_def m v(1) f(1) w(1) ..
  then show ?thesis using fmul_unit [OF w(2,3) f(2,3)] w(4) one \<open>m = k\<close> by (auto simp: v(1) k f(1))
qed

theorem fwt_score_unit_witness:
  "\<exists>s. fwt_score (g_mutex plain_world [1, 8] two_tas) (g_mutex plain_world [1, 8] two_tas ! 1) = Fin s \<and> s = 1"
proof -
  let ?g = "g_mutex plain_world [1, 8] two_tas"
  let ?a = "?g ! 1"
  have a: "?a \<in> set ?g" "ag_ops_mean ?a = Fin 10" "ag_fair_mean ?a = Fin 1" "ag_threads ?a = 8" by (simp_all add: two_tas_rows)
  have "\<forall>b \<in> set ?g. (\<exists>m \<ge> 0. ag_ops_mean b = Fin m) \<and> (\<exists>f \<ge> 0. ag_fair_mean b = Fin f \<and> f \<le> 1)"
    "\<forall>b \<in> set ?g. ag_platform b = ag_platform ?a \<longrightarrow> ag_threads b = ag_threads ?a \<longrightarrow> \<not> fless (ag_ops_mean ?a) (ag_ops_mean b)"
    by (simp_all add: two_tas_rows)
  from fwt_score_unit [OF a(1) this(1) a(1) refl refl _ this(2)] show ?thesis using a(2,3) by auto
qed

end
