(* ===== verification/ArchiveAnalysis.thy ===== *)
theory ArchiveAnalysis
  imports ArmX86Notebook
begin

text \<open>
  The code cells of \<open>results/archive/analysis.ipynb\<close>, which compares two machines on one file of the lock
  benchmark. Means and deviations of columns, decimal logarithms and the order \<open>sort_values\<close> finds are
  functions of pandas and numpy and come as arguments.
\<close>

section \<open>Rows and averages\<close>

record arow =
  ar_platform :: string
  ar_lock :: string
  ar_workload :: string
  ar_threads :: int
  ar_cs_work :: int
  ar_read_pct :: int
  ar_ops_s :: flt
  ar_fair :: flt

record column_fns =
  cf_mean :: "flt list \<Rightarrow> flt"
  cf_std :: "flt list \<Rightarrow> flt"
  cf_log10 :: "flt \<Rightarrow> flt"
  cf_argsort :: "flt list \<Rightarrow> nat list"

definition ops_m :: "arow \<Rightarrow> flt" where
  "ops_m r = np_div (ar_ops_s r) (Fin 1000000)"

definition mutex_rows :: "arow list \<Rightarrow> arow list" where
  "mutex_rows df = filter (\<lambda>r. ar_workload r = ''mutex'' \<and> ar_cs_work r = 0) df"

definition cs_sweep :: "arow list \<Rightarrow> arow list" where
  "cs_sweep df = filter (\<lambda>r. ar_workload r = ''mutex'' \<and> 0 \<le> ar_cs_work r \<and> ar_lock r = ''ttas'' \<and> ar_threads r = 4) df"

definition of_workload :: "string \<Rightarrow> arow list \<Rightarrow> arow list" where
  "of_workload w df = filter (\<lambda>r. ar_workload r = w) df"

definition row_counts :: "arow list \<Rightarrow> cell_out list" where
  "row_counts df = map CellLine
     [''Total: '' @ show_nat (length df) @ '' rows'',
      ''  Mutex (cs_work=0): '' @ show_nat (length (mutex_rows df)) @ '' rows'',
      ''  CS sweep (ttas 4T): '' @ show_nat (length (cs_sweep df)) @ '' rows'',
      ''  RW workloads: '' @ show_nat (length (of_workload ''rw'' df)) @ '' rows'',
      ''  RCU: '' @ show_nat (length (of_workload ''rcu'' df)) @ '' rows'']"

definition LOCK_ORDER :: "string list" where
  "LOCK_ORDER = [''tas'', ''ttas'', ''cas'', ''ticket'', ''rw'', ''occ'']"

definition LOCK_LABELS :: "(string, string) dict" where
  "LOCK_LABELS =
     [(''tas'', ''TAS''), (''ttas'', ''TTAS''), (''cas'', ''CAS''), (''ticket'', ''Ticket''), (''rw'', ''RW''), (''occ'', ''OCC''), (''rcu'', ''RCU'')]"

definition LOCK_COLORS :: "(string, string) dict" where
  "LOCK_COLORS =
     [(''tas'', ''#d62728''), (''ttas'', ''#1f77b4''), (''cas'', ''#2ca02c''), (''ticket'', ''#9467bd''), (''rw'', ''#ff7f0e''),
      (''occ'', ''#8c564b''), (''rcu'', ''#17becf'')]"

definition LOCK_MARKERS :: "(string, string) dict" where
  "LOCK_MARKERS =
     [(''tas'', ''o''), (''ttas'', ''s''), (''cas'', ''^''), (''ticket'', ''D''), (''rw'', ''v''), (''occ'', ''P''), (''rcu'', ''X'')]"

definition PLAT_NAMES :: "(string, string) dict" where
  "PLAT_NAMES = [(''arm'', ''Apple M3 Pro (ARM)''), (''intel'', ''Xeon E5-2650L v3 (x86)'')]"

definition PLAT_SHORT :: "(string, string) dict" where
  "PLAT_SHORT = [(''arm'', ''ARM''), (''intel'', ''x86'')]"

definition machines :: "string list" where
  "machines = [''arm'', ''intel'']"

record astat =
  as_mean :: flt
  as_std :: flt
  as_cv :: flt
  as_fair :: flt
  as_fair_std :: flt
  as_count :: nat

definition stat_of :: "column_fns \<Rightarrow> arow list \<Rightarrow> astat" where
  "stat_of cf rs =
     (let m = cf_mean cf (map ops_m rs); s = cf_std cf (map ops_m rs)
      in \<lparr>as_mean = m, as_std = s, as_cv = (if fless (Fin 0) m then fmul (np_div s m) (Fin 100) else Fin 0),
          as_fair = cf_mean cf (map ar_fair rs), as_fair_std = cf_std cf (map ar_fair rs),
          as_count = length (filter (\<lambda>v. v \<noteq> NaN) (map ops_m rs))\<rparr>)"

definition agg_by :: "column_fns \<Rightarrow> (arow \<Rightarrow> 'k::linorder) \<Rightarrow> arow list \<Rightarrow> ('k \<times> astat) list" where
  \<comment> \<open>one entry per key, ascending\<close>
  "agg_by cf key rs = map (\<lambda>k. (k, stat_of cf (filter (\<lambda>r. key r = k) rs))) (py_sorted (first_occurrences (map key rs)))"

type_synonym lock_stats = "((string \<times> string \<times> int) \<times> astat) list"

definition lock_key :: "arow \<Rightarrow> string \<times> string \<times> int" where
  "lock_key r = (ar_platform r, ar_lock r, ar_threads r)"

definition series_of :: "string \<Rightarrow> string \<Rightarrow> ((string \<times> string \<times> int) \<times> 'a) list \<Rightarrow> (int \<times> 'a) list" where
  \<comment> \<open>the entries of a machine and a lock; ascending in the threads, as the keys are\<close>
  "series_of plat lock g = map (\<lambda>((_, _, t), s). (t, s)) (filter (\<lambda>((p, l, _), _). p = plat \<and> l = lock) g)"

definition threads_of :: "string \<Rightarrow> ((string \<times> string \<times> int) \<times> 'a) list \<Rightarrow> int list" where
  "threads_of plat g = py_sorted (first_occurrences (map (\<lambda>((_, _, t), _). t) (filter (\<lambda>((p, _), _). p = plat) g)))"

section \<open>Idioms of the cells\<close>

definition lock_attrs :: "string \<Rightarrow> attrs \<Rightarrow> attrs py" where
  "lock_attrs lock kws =
     bind_py (get_item LOCK_LABELS lock) (\<lambda>label. bind_py (get_item LOCK_COLORS lock) (\<lambda>color.
     bind_py (get_item LOCK_MARKERS lock) (\<lambda>marker.
       Inr ([(''label'', label), (''color'', color), (''marker'', marker)] @ kws))))"

definition err_points :: "(astat \<Rightarrow> flt) \<Rightarrow> (astat \<Rightarrow> flt) \<Rightarrow> (int \<times> astat) list \<Rightarrow> attrs \<Rightarrow> draw" where
  "err_points mean std d kws = ErrorBar (map fst d) (map (mean o snd) d) (map (std o snd) d) (map (std o snd) d) kws"

definition saved_fig :: "attrs \<Rightarrow> draw list list \<Rightarrow> draw list \<Rightarrow> string \<Rightarrow> cell_out" where
  "saved_fig args axes calls file_name =
     CellFigure \<lparr>fig_args = args, fig_axes = axes, fig_calls = calls @ [Call ''tight_layout'' [] []], fig_file = [file_name]\<rparr>"

definition gridded :: draw where
  "gridded = Call ''grid'' [''True''] [(''alpha'', ''0.3'')]"

definition ticks :: "int list \<Rightarrow> draw" where
  "ticks ts = Call ''set_xticks'' (map show_int ts) []"

definition first_label :: "string \<Rightarrow> draw list list \<Rightarrow> draw list list" where
  \<comment> \<open>\<open>axes[0].set\_ylabel\<close> after the loop over the axes\<close>
  "first_label y axes = (case axes of [] \<Rightarrow> [] | a # as \<Rightarrow> (a @ [Call ''set_ylabel'' [y] []]) # as)"

definition short_title :: "string \<Rightarrow> string \<Rightarrow> string py" where
  "short_title what plat = bind_py (get_item PLAT_SHORT plat) (\<lambda>s. Inr (what @ '' '' @ em_dash @ '' '' @ s))"

definition texts_in :: "(flt \<Rightarrow> string) \<Rightarrow> string \<Rightarrow> (flt \<Rightarrow> string) \<Rightarrow> flt list list \<Rightarrow> draw list" where
  "texts_in to_text fontsize color m =
     concat (map (\<lambda>(i, row). concat (map (\<lambda>(j, v).
         if v = NaN then []
         else [Call ''text'' [show_nat j, show_nat i, to_text v]
           [(''ha'', ''center''), (''va'', ''center''), (''fontweight'', ''bold''), (''fontsize'', fontsize), (''color'', color v)]])
       (zip [0..<length row] row))) (zip [0..<length m] m))"

definition lock_matrix :: "string \<Rightarrow> ((string \<times> string \<times> int) \<times> flt) list \<Rightarrow> flt list list" where
  \<comment> \<open>\<open>pivot(index='lock', columns='threads').reindex(LOCK\_ORDER)\<close> of one machine\<close>
  "lock_matrix plat g =
     map (\<lambda>l. map (\<lambda>t. case map_of g (plat, l, t) of None \<Rightarrow> NaN | Some v \<Rightarrow> v) (threads_of plat g)) LOCK_ORDER"

definition matrix_panel :: "(flt \<Rightarrow> flt) \<Rightarrow> attrs \<Rightarrow> (flt \<Rightarrow> string) \<Rightarrow> string \<Rightarrow> (flt \<Rightarrow> string) \<Rightarrow> string \<Rightarrow> string \<Rightarrow> ((string \<times> string \<times> int) \<times> flt) list \<Rightarrow> draw list" where
  "matrix_panel shade kws to_text fontsize color title plat g =
     [Heat (map (map shade) (lock_matrix plat g)) kws] @
     heat_ticks (map show_int (threads_of plat g)) [] (map (\<lambda>l. case map_of LOCK_LABELS l of None \<Rightarrow> l | Some s \<Rightarrow> s) LOCK_ORDER) @
     [Call ''set_xlabel'' [''Threads''] [], Call ''set_title'' [title] []] @ texts_in to_text fontsize color (lock_matrix plat g)"

section \<open>Throughput and efficiency\<close>

definition scaling_cell :: "lock_stats \<Rightarrow> cell_out list py" where
  "scaling_cell g =
     bind_py (map_py (\<lambda>plat.
         bind_py (map_py (\<lambda>lock. let d = series_of plat lock g
             in if d = [] then Inr []
                else bind_py (lock_attrs lock [(''capsize'', ''3''), (''linewidth'', ''1.5'')]) (\<lambda>a. Inr [err_points as_mean as_std d a])) LOCK_ORDER) (\<lambda>ls.
         bind_py (get_item PLAT_NAMES plat) (\<lambda>name.
           Inr (concat ls @ [Call ''set_yscale'' [''log''] [], Call ''set_xlabel'' [''Threads''] [],
             Call ''set_title'' [''Mutex Workload '' @ em_dash @ '' '' @ name] [], Call ''legend'' [] [(''fontsize'', ''9'')],
             ticks (threads_of plat g), gridded])))) machines) (\<lambda>axes.
       Inr [saved_fig [(''figsize'', ''(14, 5)''), (''sharey'', ''True'')] (first_label ''Throughput (M ops/s)'' axes) [] ''plot1_throughput_scaling.png''])"

definition per_base :: "(flt \<Rightarrow> flt \<Rightarrow> flt) \<Rightarrow> lock_stats \<Rightarrow> ((string \<times> string \<times> int) \<times> flt) list" where
  \<comment> \<open>merged with the entries of one thread on machine and lock\<close>
  "per_base q g =
     concat (map (\<lambda>((p, l, t), s). case map_of g (p, l, 1) of None \<Rightarrow> [] | Some b \<Rightarrow> [((p, l, t), q (as_mean s) (as_mean b))]) g)"

definition efficiency :: "lock_stats \<Rightarrow> ((string \<times> string \<times> int) \<times> flt) list" where
  "efficiency g = per_base np_div g"

definition worst_lines :: "column_fns \<Rightarrow> ((string \<times> string \<times> int) \<times> flt) list \<Rightarrow> cell_out list py" where
  \<comment> \<open>the rows come as Python floats, whose division by zero raises\<close>
  "worst_lines cf effs =
     (let six = filter (\<lambda>((_, _, t), _). t = 6) effs
      in bind_py (map_py (\<lambda>i. case six ! i of ((p, l, _), e) \<Rightarrow>
             bind_py (get_item PLAT_SHORT p) (\<lambda>ps. bind_py (get_item LOCK_LABELS l) (\<lambda>ll. bind_py (fdiv (Fin 1) e) (\<lambda>pen.
               Inr (CellLine (''  '' @ pad_left 4 ps @ '' '' @ pad_left 6 ll @ '': '' @ format_fixed 4 e @ ''  ('' @ format_fixed 0 pen @ ''x contention penalty)''))))))
           (cf_argsort cf (map snd six))) (\<lambda>ls.
        Inr (CellLine ''Efficiency at 6 threads (throughput retained vs 1T):'' # ls)))"

definition efficiency_cell :: "column_fns \<Rightarrow> lock_stats \<Rightarrow> cell_out list py" where
  "efficiency_cell cf g =
     (let effs = efficiency g
      in bind_py (map_py (\<lambda>plat.
             bind_py (map_py (\<lambda>lock. let d = series_of plat lock effs
                 in if d = [] then Inr [] else bind_py (lock_attrs lock [(''linewidth'', ''1.5'')]) (\<lambda>a. Inr [Plot (map fst d) (map snd d) a])) LOCK_ORDER) (\<lambda>ls.
             bind_py (short_title ''Scalability Efficiency'' plat) (\<lambda>title.
               Inr (concat ls @ [Call ''set_xlabel'' [''Threads''] [], Call ''set_title'' [title] [], Call ''set_yscale'' [''log''] [],
                 ticks (threads_of plat effs), Call ''legend'' [] [(''fontsize'', ''9'')], gridded,
                 Call ''axhline'' [] [(''y'', ''1.0''), (''color'', ''gray''), (''linestyle'', '':''), (''alpha'', ''0.5'')]])))) machines) (\<lambda>axes.
         bind_py (worst_lines cf effs) (\<lambda>ls.
           Inr (saved_fig [(''figsize'', ''(14, 5)''), (''sharey'', ''True'')] (first_label ''Throughput(N) / Throughput(1)'' axes)
             [suptitle ''Contention Cost: How much throughput survives scaling?'' [(''y'', ''1.02'')]] ''plot7_scalability_efficiency.png'' # ls))))"

section \<open>Fairness\<close>

definition tradeoff_axes :: "lock_stats \<Rightarrow> string \<Rightarrow> draw list py" where
  "tradeoff_axes g plat =
     bind_py (map_py (\<lambda>lock. let d = series_of plat lock g; xs = map (as_mean o snd) d; ys = map (as_fair o snd) d
         in if d = [] then Inr []
            else bind_py (lock_attrs lock [(''zorder'', ''5'')]) (\<lambda>a. bind_py (get_item LOCK_COLORS lock) (\<lambda>color.
              Inr ([Points xs ys (map (\<lambda>(t, _). t * 30) d) a, Curve xs ys [(''color'', color), (''alpha'', ''0.4''), (''linewidth'', ''1'')]] @
                map (\<lambda>(t, s). Note (show_int t @ ''T'') (as_mean s) (as_fair s)
                  [(''textcoords'', ''offset points''), (''xytext'', ''(5, 5)''), (''fontsize'', ''7''), (''alpha'', ''0.7'')]) d)))) LOCK_ORDER) (\<lambda>ls.
     bind_py (short_title ''Throughput vs Fairness'' plat) (\<lambda>title.
       Inr (concat ls @ [Call ''set_xlabel'' [''Throughput (M ops/s)''] [], Call ''set_title'' [title] [],
         Call ''legend'' [] [(''fontsize'', ''8''), (''loc'', ''lower left'')], gridded, Call ''set_ylim'' [''-0.05'', ''1.1''] []])))"

definition tradeoff_cell :: "column_fns \<Rightarrow> arow list \<Rightarrow> cell_out list py" where
  "tradeoff_cell cf mutex =
     bind_py (map_py (tradeoff_axes (agg_by cf lock_key (filter (\<lambda>r. 1 < ar_threads r) mutex))) machines) (\<lambda>axes.
       Inr [saved_fig [(''figsize'', ''(14, 5.5)'')] (first_label ''Fairness Ratio (min/max, 1.0 = perfect)'' axes) [] ''plot2_fairness_vs_throughput.png''])"

definition values_of :: "(astat \<Rightarrow> flt) \<Rightarrow> lock_stats \<Rightarrow> ((string \<times> string \<times> int) \<times> flt) list" where
  "values_of val g = map (\<lambda>(k, s). (k, val s)) g"

definition fairness_heat_cell :: "column_fns \<Rightarrow> arow list \<Rightarrow> cell_out list py" where
  "fairness_heat_cell cf mutex =
     (let g = values_of as_fair (agg_by cf lock_key (filter (\<lambda>r. 1 < ar_threads r) mutex))
      in bind_py (map_py (\<lambda>plat. bind_py (short_title ''Mean Fairness Ratio'' plat) (\<lambda>title.
             Inr (matrix_panel id [(''cmap'', ''cmap_fair''), (''vmin'', ''0''), (''vmax'', ''1''), (''aspect'', ''auto'')] (format_fixed 2) ''11''
               (\<lambda>v. if fless v (fl (3 / 10)) then ''white'' else ''black'') title plat g))) machines) (\<lambda>axes.
           Inr [saved_fig [(''figsize'', ''(14, 5)'')] axes
             [Call ''colorbar'' [] [(''label'', ''Fairness Ratio''), (''shrink'', ''0.8'')],
              suptitle ''Fairness Heatmap (Mutex Workload, threads > 1)'' [(''y'', ''1.02'')]] ''plot8_fairness_heatmap.png'']))"

section \<open>Optimistic locks\<close>

definition wl_label :: "arow \<Rightarrow> string" where
  "wl_label r = (if ar_workload r = ''mutex'' then ''Mutex (exclusive)'' else ''RW '' @ show_int (ar_read_pct r) @ ''% reads'')"

definition occ_stats :: "column_fns \<Rightarrow> arow list \<Rightarrow> lock_stats" where
  "occ_stats cf df = agg_by cf (\<lambda>r. (ar_platform r, wl_label r, ar_threads r)) (filter (\<lambda>r. ar_lock r = ''occ'') df)"

definition OCC_WLS :: "(string \<times> string \<times> string) list" where
  \<comment> \<open>the labels with their colours and markers\<close>
  "OCC_WLS = [(''Mutex (exclusive)'', ''#d62728'', ''o''), (''RW 80% reads'', ''#1f77b4'', ''s''), (''RW 95% reads'', ''#2ca02c'', ''^'')]"

definition occ_lines_of :: "(astat \<Rightarrow> flt) \<Rightarrow> (astat \<Rightarrow> flt) \<Rightarrow> lock_stats \<Rightarrow> string \<Rightarrow> draw list" where
  "occ_lines_of mean std g plat =
     concat (map (\<lambda>(wl, color, marker). let d = series_of plat wl g
       in if d = [] then []
          else [err_points mean std d [(''label'', wl), (''color'', color), (''marker'', marker), (''capsize'', ''3''), (''linewidth'', ''1.5'')]]) OCC_WLS)"

definition first_value :: "lock_stats \<Rightarrow> string \<Rightarrow> int \<Rightarrow> astat py" where
  \<comment> \<open>\<open>.values[0]\<close>\<close>
  "first_value g plat t = (case map_of g (plat, ''Mutex (exclusive)'', t) of None \<Rightarrow> Inl IndexError | Some s \<Rightarrow> Inr s)"

definition occ_text :: "lock_stats \<Rightarrow> cell_out list py" where
  "occ_text g =
     bind_py (first_value g ''arm'' 4) (\<lambda>a4. bind_py (first_value g ''arm'' 6) (\<lambda>a6. bind_py (first_value g ''intel'' 6) (\<lambda>i6.
       Inr (map CellLine
         [[CHR 0x0A] @ ''Key OCC observations:'',
          ''  ARM mutex 4T: '' @ format_fixed 1 (as_mean a4) @ '' M ops/s, fairness='' @ format_fixed 3 (as_fair a4),
          ''  ARM mutex 6T: '' @ format_fixed 1 (as_mean a6) @ '' M ops/s, fairness='' @ format_fixed 3 (as_fair a6),
          ''  4T->6T cliff: '' @ format_fixed 1 (np_div (as_mean a4) (as_mean a6)) @ ''x drop'',
          ''  Intel mutex 6T: '' @ format_fixed 1 (as_mean i6) @ '' M ops/s (beats ARM!)'']))))"

definition occ_cell :: "column_fns \<Rightarrow> arow list \<Rightarrow> cell_out list py" where
  "occ_cell cf df =
     (let g = occ_stats cf df; g_mt = filter (\<lambda>((_, _, t), _). 1 < t) g
      in bind_py (map_py (\<lambda>plat. bind_py (short_title ''OCC Throughput'' plat) (\<lambda>title.
             Inr (occ_lines_of as_mean as_std g plat @ [Call ''set_yscale'' [''log''] [], Call ''set_xlabel'' [''Threads''] [],
               Call ''set_ylabel'' [''Throughput (M ops/s)''] [], Call ''set_title'' [title] [], Call ''legend'' [] [(''fontsize'', ''9'')],
               gridded, ticks [1, 2, 4, 6]]))) machines) (\<lambda>first_row.
         bind_py (map_py (\<lambda>plat. bind_py (short_title ''OCC Fairness'' plat) (\<lambda>title.
             Inr (occ_lines_of as_fair as_fair_std g_mt plat @ [Call ''set_xlabel'' [''Threads''] [], Call ''set_ylabel'' [''Fairness Ratio''] [],
               Call ''set_title'' [title] [], Call ''set_ylim'' [''-0.05'', ''1.1''] [],
               Call ''axhline'' [] [(''y'', ''1.0''), (''color'', ''gray''), (''linestyle'', '':''), (''alpha'', ''0.5'')],
               Call ''legend'' [] [(''fontsize'', ''9'')], gridded, ticks [2, 4, 6]]))) machines) (\<lambda>second_row.
         bind_py (occ_text g) (\<lambda>ls.
           Inr (saved_fig [(''figsize'', ''(14, 10)'')] (first_row @ second_row)
             [suptitle ''OCC Lock: Livelock under Exclusive Workload, Recovery with Reads'' [(''y'', ''1.01'')]] ''plot9_occ_deep_dive.png'' # ls)))))"

section \<open>Primitives for reading\<close>

definition by_threads_stats :: "column_fns \<Rightarrow> arow list \<Rightarrow> (int \<times> astat) list" where
  "by_threads_stats cf rs = agg_by cf ar_threads rs"

definition rw_at :: "string \<Rightarrow> int \<Rightarrow> arow list \<Rightarrow> arow list" where
  "rw_at lock rp df = filter (\<lambda>r. ar_lock r = lock \<and> ar_read_pct r = rp) (of_workload ''rw'' df)"

definition read_series :: "arow list \<Rightarrow> (arow list \<times> attrs) list" where
  "read_series df =
     (let kw = (\<lambda>label color ls marker. [(''label'', label), (''color'', color), (''linestyle'', ls), (''marker'', marker), (''capsize'', ''3''), (''linewidth'', ''1.5'')])
      in [(rw_at ''rw'' 80 df, kw ''RW (80% reads)'' ''#ff7f0e'' ''-'' ''v''), (rw_at ''rw'' 95 df, kw ''RW (95% reads)'' ''#ff7f0e'' ''--'' ''v''),
          (rw_at ''occ'' 80 df, kw ''OCC (80% reads)'' ''#8c564b'' ''-'' ''P''), (rw_at ''occ'' 95 df, kw ''OCC (95% reads)'' ''#8c564b'' ''--'' ''P''),
          (of_workload ''rcu'' df, kw ''RCU (90% reads)'' ''#17becf'' ''-'' ''X'')])"

definition read_cell :: "column_fns \<Rightarrow> arow list \<Rightarrow> cell_out list py" where
  "read_cell cf df =
     bind_py (map_py (\<lambda>plat. bind_py (short_title ''Read-Optimized Primitives'' plat) (\<lambda>title.
         Inr (concat (map (\<lambda>(rs, kws). let sub = filter (\<lambda>r. ar_platform r = plat) rs
               in if sub = [] then [] else [err_points as_mean as_std (by_threads_stats cf sub) kws]) (read_series df)) @
           [Call ''set_xlabel'' [''Threads''] [], Call ''set_ylabel'' [''Throughput (M ops/s)''] [], Call ''set_title'' [title] [],
            Call ''legend'' [] [(''fontsize'', ''8'')], gridded, ticks [1, 2, 4, 6]]))) machines) (\<lambda>axes.
       Inr [saved_fig [(''figsize'', ''(14, 5.5)'')] axes [] ''plot3_read_optimization.png''])"

definition spin_lines :: "((string \<times> string \<times> int) \<times> flt) list \<Rightarrow> draw list py" where
  "spin_lines g =
     map_py (\<lambda>((plat, ls), lock). let d = series_of plat lock g
         in bind_py (get_item LOCK_LABELS lock) (\<lambda>label. bind_py (get_item PLAT_SHORT plat) (\<lambda>short.
            bind_py (get_item LOCK_COLORS lock) (\<lambda>color. bind_py (get_item LOCK_MARKERS lock) (\<lambda>marker.
              Inr (Plot (map fst d) (map snd d) [(''label'', label @ '' ('' @ short @ '')''), (''color'', color), (''linestyle'', ls),
                (''marker'', marker), (''linewidth'', ''1.5'')]))))))
       (List.product [(''arm'', ''-''), (''intel'', ''--'')] [''tas'', ''ttas'', ''cas''])"

definition spin_axes :: "((string \<times> string \<times> int) \<times> flt) list \<Rightarrow> draw list \<Rightarrow> string \<Rightarrow> string \<Rightarrow> draw list \<Rightarrow> draw list py" where
  "spin_axes g before y title after =
     bind_py (spin_lines g) (\<lambda>ls.
       Inr (ls @ before @ [Call ''set_xlabel'' [''Threads''] [], Call ''set_ylabel'' [y] [], Call ''set_title'' [title] [],
         Call ''legend'' [] [(''fontsize'', ''8''), (''ncol'', ''2'')], gridded] @ after))"

definition spin_cell :: "column_fns \<Rightarrow> arow list \<Rightarrow> cell_out list py" where
  "spin_cell cf mutex =
     (let g = agg_by cf lock_key (filter (\<lambda>r. ar_lock r \<in> {''tas'', ''ttas'', ''cas''}) mutex); g_mt = filter (\<lambda>((_, _, t), _). 1 < t) g
      in bind_py (spin_axes (values_of as_mean g) [Call ''set_yscale'' [''log''] []] ''Throughput (M ops/s)'' ''Spinlock Throughput'' [ticks [1, 2, 4, 6]]) (\<lambda>a1.
         bind_py (spin_axes (values_of as_fair g_mt) [] ''Fairness Ratio'' ''Spinlock Fairness'' [Call ''set_ylim'' [''0'', ''1.05''] [], ticks [2, 4, 6]]) (\<lambda>a2.
         bind_py (spin_axes (values_of (\<lambda>s. fmul (as_mean s) (as_fair s)) g_mt) [] (''Throughput '' @ times_sign @ '' Fairness (M ops/s)'')
           ''Fair Throughput (combined metric)'' [ticks [2, 4, 6]]) (\<lambda>a3.
           Inr [saved_fig [(''figsize'', ''(18, 5)'')] [a1, a2, a3] [suptitle ''Spinlock Taxonomy: TAS vs TTAS vs CAS'' [(''y'', ''1.02'')]]
             ''plot10_spinlock_taxonomy.png'']))))"

section \<open>One machine over the other\<close>

definition quotient :: "('k::linorder \<times> flt) list \<Rightarrow> ('k \<times> flt) list \<Rightarrow> ('k \<times> flt) list" where
  \<comment> \<open>a quotient of two columns, NaN where one of them has no entry\<close>
  "quotient xs ys =
     (let val = (\<lambda>zs k. case map_of zs k of None \<Rightarrow> NaN | Some v \<Rightarrow> v)
      in map (\<lambda>k. (k, np_div (val xs k) (val ys k))) (union_of (map fst xs) (map fst ys)))"

definition on_machine :: "string \<Rightarrow> ((string \<times> 'k) \<times> astat) list \<Rightarrow> ('k \<times> flt) list" where
  "on_machine plat g = map (\<lambda>((_, k), s). (k, as_mean s)) (filter (\<lambda>((p, _), _). p = plat) g)"

definition machine_ratio :: "((string \<times> 'k::linorder) \<times> astat) list \<Rightarrow> ('k \<times> flt) list" where
  "machine_ratio g = quotient (on_machine ''arm'' g) (on_machine ''intel'' g)"

definition ratio_bars :: "((string \<times> int) \<times> flt) list \<Rightarrow> int list \<Rightarrow> nat \<times> string \<Rightarrow> draw list py" where
  "ratio_bars ratio ts = (\<lambda>(i, lock).
     let vals = map (\<lambda>t. case map_of ratio (lock, t) of None \<Rightarrow> Fin 0 | Some v \<Rightarrow> v) ts; width = fl (12 / 100);
         offset = fmul (Fin (of_nat i - of_nat (length LOCK_ORDER) / 2 + 1 / 2)) width
     in bind_py (get_item LOCK_LABELS lock) (\<lambda>label. bind_py (get_item LOCK_COLORS lock) (\<lambda>color.
       Inr (Bar (bar_positions (length ts) offset) vals width [(''label'', label), (''color'', color)] #
         labels_above (i * length ts) (fl (1 / 10)) (\<lambda>v. fless (Fin 0) v) (format_fixed 1)
           [(''ha'', ''center''), (''va'', ''bottom''), (''fontsize'', ''7'')] vals))))"

definition machine_cell :: "lock_stats \<Rightarrow> cell_out list py" where
  "machine_cell g =
     (let ratio = machine_ratio g; ts = py_sorted (first_occurrences (map (\<lambda>((_, t), _). t) ratio))
      in bind_py (map_py (ratio_bars ratio ts) (zip [0..<length LOCK_ORDER] LOCK_ORDER)) (\<lambda>bars.
        Inr [saved_fig [(''figsize'', ''(14, 6)'')]
          [concat bars @ [Call ''axhline'' [] [(''y'', ''1''), (''color'', ''gray''), (''linestyle'', ''--''), (''alpha'', ''0.5'')],
            Call ''set_xlabel'' [''Threads''] [], Call ''set_ylabel'' [''ARM / Intel Throughput Ratio''] [],
            Call ''set_title'' [''Relative Performance: ARM vs x86 (Mutex Workload)''] [], Call ''set_xticks'' [''x''] [],
            Call ''set_xticklabels'' (map show_int ts) [], Call ''legend'' [] [(''fontsize'', ''10'')],
            Call ''grid'' [''True''] [(''alpha'', ''0.3''), (''axis'', ''y'')]]] [] ''plot5_arm_intel_ratio.png'']))"

definition cs_stats :: "column_fns \<Rightarrow> arow list \<Rightarrow> ((string \<times> int) \<times> astat) list" where
  "cs_stats cf df = agg_by cf (\<lambda>r. (ar_platform r, ar_cs_work r)) (cs_sweep df)"

definition cs_cell :: "((string \<times> int) \<times> astat) list \<Rightarrow> cell_out list" where
  "cs_cell g =
     (let line = (\<lambda>(plat, label, color, marker). err_points as_mean as_std (map (\<lambda>((_, w), s). (w, s)) (filter (\<lambda>((p, _), _). p = plat) g))
            [(''label'', label), (''color'', color), (''marker'', marker), (''capsize'', ''4''), (''linewidth'', ''2''), (''markersize'', ''8'')]);
          ratio = machine_ratio g
      in [saved_fig [(''figsize'', ''(14, 5)'')]
        [map line [(''arm'', ''ARM (M3 Pro)'', ''#d62728'', ''o''), (''intel'', ''x86 (Xeon E5-2650L)'', ''#1f77b4'', ''s'')] @
           [Call ''set_yscale'' [''log''] [], Call ''set_xlabel'' [''Critical Section Work (iterations)''] [],
            Call ''set_ylabel'' [''Throughput (M ops/s)''] [], Call ''set_title'' [''Absolute Throughput''] [],
            Call ''legend'' [] [(''fontsize'', ''11'')], gridded],
         [Plot (map fst ratio) (map snd ratio) [(''fmt'', ''ko-''), (''linewidth'', ''2''), (''markersize'', ''8'')],
          Call ''axhline'' [] [(''y'', ''1''), (''color'', ''gray''), (''linestyle'', ''--''), (''alpha'', ''0.5'')],
          Call ''set_xlabel'' [''Critical Section Work (iterations)''] [], Call ''set_ylabel'' [''ARM / Intel Ratio''] [],
          Call ''set_title'' [''ARM advantage narrows with longer CS''] [], gridded] @
          map (\<lambda>(w, v). Note (format_fixed 1 v @ ''x'') (Fin (of_int w)) v
            [(''textcoords'', ''offset points''), (''xytext'', ''(8, 5)''), (''fontsize'', ''10'')]) ratio]
        [suptitle (''Critical Section Sensitivity '' @ em_dash @ '' TTAS Lock, 4 Threads'') [(''y'', ''1.02'')]] ''plot4_cs_sensitivity.png''])"

definition cv_heat_cell :: "lock_stats \<Rightarrow> cell_out list py" where
  "cv_heat_cell g =
     bind_py (map_py (\<lambda>plat. bind_py (short_title ''Throughput CV%'' plat) (\<lambda>title.
         Inr (matrix_panel id [(''cmap'', ''cmap_cv''), (''vmin'', ''0''), (''vmax'', ''10''), (''aspect'', ''auto'')] (\<lambda>v. format_fixed 1 v @ ''%'') ''10''
           (\<lambda>v. if fless (Fin 7) v then ''white'' else ''black'') title plat
           (values_of (\<lambda>s. fmul (np_div (as_std s) (as_mean s)) (Fin 100)) g)))) machines) (\<lambda>axes.
       Inr [saved_fig [(''figsize'', ''(14, 5)'')] axes
         [Call ''colorbar'' [] [(''label'', ''CV%''), (''shrink'', ''0.8'')], suptitle ''Run-to-Run Variance (Mutex Workload)'' [(''y'', ''1.02'')]]
         ''plot6_variance_heatmap.png''])"

section \<open>Several measures at once\<close>

fun row_min :: "flt list \<Rightarrow> flt" where
  \<comment> \<open>\<open>min()\<close> of a column leaves NaN out\<close>
  "row_min [] = NaN"
| "row_min (v # vs) = (let m = row_min vs in if m = NaN then v else if v = NaN \<or> fless m v then m else v)"

definition scaled_value :: "flt list \<Rightarrow> flt \<Rightarrow> flt" where
  "scaled_value vs v = np_div (fsub v (row_min vs)) (fadd (fsub (row_max vs) (row_min vs)) (fl (1 / 10 ^ 10)))"

definition RADAR_METRICS :: "(astat \<Rightarrow> flt) list" where
  "RADAR_METRICS = [as_mean, as_fair, \<lambda>s. fsub (Fin 1) (np_div (as_std s) (as_mean s))]"

definition radar_values :: "((string \<times> string) \<times> astat) list \<Rightarrow> string \<Rightarrow> astat \<Rightarrow> flt list" where
  \<comment> \<open>each measure normalized within the machine\<close>
  "radar_values g plat s = map (\<lambda>val. scaled_value (map (val o snd) (filter (\<lambda>((p, _), _). p = plat) g)) (val s)) RADAR_METRICS"

definition metrics_cell :: "column_fns \<Rightarrow> arow list \<Rightarrow> cell_out list py" where
  "metrics_cell cf mutex =
     (let g = agg_by cf (\<lambda>r. (ar_platform r, ar_lock r)) (filter (\<lambda>r. ar_threads r = 4) mutex)
      in bind_py (map_py (\<lambda>plat.
             bind_py (map_py (\<lambda>lock. case map_of g (plat, lock) of
                 None \<Rightarrow> Inr []
               | Some s \<Rightarrow> bind_py (lock_attrs lock [(''linewidth'', ''1.5''), (''markersize'', ''6'')]) (\<lambda>a. bind_py (get_item LOCK_COLORS lock) (\<lambda>color.
                   let vals = closed (radar_values g plat s)
                   in Inr [Radar vals a, Radar vals [(''fill'', ''True''), (''alpha'', ''0.05''), (''color'', color)]]))) LOCK_ORDER) (\<lambda>ls.
             bind_py (get_item PLAT_SHORT plat) (\<lambda>short.
               Inr (concat ls @ [Call ''set_xticks'' [''angles[:-1]''] [],
                 Call ''set_xticklabels'' [''Throughput'', ''Fairness'', ''Consistency''] [(''fontsize'', ''10'')],
                 Call ''set_title'' [short @ '' (4 Threads)''] [(''y'', ''1.1''), (''fontsize'', ''12'')],
                 Call ''legend'' [] [(''fontsize'', ''8''), (''loc'', ''upper right''), (''bbox_to_anchor'', ''(1.3, 1.1)'')],
                 Call ''set_ylim'' [''0'', ''1.1''] []])))) machines) (\<lambda>axes.
           Inr [saved_fig [(''figsize'', ''(12, 5)''), (''subplot_kw'', ''dict(polar=True)'')] axes
             [suptitle ''Lock Properties at 4 Threads (normalized)'' [(''y'', ''1.05'')]] ''plot11_radar_chart.png'']))"

section \<open>Where one machine loses\<close>

definition config_of :: "arow \<Rightarrow> string" where
  "config_of r = ar_lock r @ ''_'' @ ar_workload r @ ''_r'' @ show_int (ar_read_pct r)"

definition contains :: "string \<Rightarrow> string \<Rightarrow> bool" where
  \<comment> \<open>\<open>sub in s\<close>\<close>
  "contains s sub = list_ex (\<lambda>i. take (length sub) (drop i s) = sub) [0..<Suc (length s)]"

definition config_ratio :: "column_fns \<Rightarrow> arow list \<Rightarrow> ((string \<times> int) \<times> flt) list" where
  "config_ratio cf df = machine_ratio (agg_by cf (\<lambda>r. (ar_platform r, config_of r, ar_threads r)) (filter (\<lambda>r. ar_cs_work r = 0) df))"

definition config_line :: "((string \<times> int) \<times> flt) list \<Rightarrow> string \<Rightarrow> draw" where
  "config_line ratio config =
     (let d = filter (\<lambda>((c, _), _). c = config) ratio; lock = takeWhile (\<lambda>c. c \<noteq> CHR ''_'') config; workload = drop (Suc (length lock)) config;
          ls = (if contains workload ''mutex'' then ''-'' else if contains workload ''80'' then ''--'' else '':'');
          get = (\<lambda>m default. case map_of m lock of None \<Rightarrow> default | Some s \<Rightarrow> s)
      in Plot (map (\<lambda>((_, t), _). t) d) (map snd d)
           [(''color'', get LOCK_COLORS ''gray''), (''linestyle'', ls), (''marker'', get LOCK_MARKERS ''o''), (''linewidth'', ''1.2''),
            (''markersize'', ''5''), (''alpha'', ''0.8'')])"

definition arm_loses :: "((string \<times> int) \<times> flt) list \<Rightarrow> cell_out list py" where
  "arm_loses ratio =
     bind_py (map_py (\<lambda>((c, _), v). bind_py (fdiv (Fin 1) v) (\<lambda>q.
         Inr (CellLine (''  '' @ c @ '': ratio = '' @ format_fixed 2 v @ '' (Intel is '' @ format_fixed 1 q @ ''x faster)''))))
       (filter (\<lambda>((_, t), v). t = 6 \<and> fless v (Fin 1)) ratio)) (\<lambda>ls.
       Inr (CellLine ([CHR 0x0A] @ ''Configs where Intel beats ARM at 6 threads:'') # ls))"

definition crossover_cell :: "column_fns \<Rightarrow> arow list \<Rightarrow> cell_out list py" where
  "crossover_cell cf df =
     (let ratio = config_ratio cf df; configs = py_sorted (first_occurrences (map (\<lambda>((c, _), _). c) ratio))
      in bind_py (map_py (get_item LOCK_LABELS) (LOCK_ORDER @ [''rcu''])) (\<lambda>labels.
         bind_py (arm_loses ratio) (\<lambda>ls.
           Inr (saved_fig [(''figsize'', ''(14, 6)'')]
             [map (config_line ratio) configs @
              [Call ''axhline'' [] [(''y'', ''1''), (''color'', ''black''), (''linestyle'', ''-''), (''linewidth'', ''2''), (''alpha'', ''0.3''), (''label'', ''Parity'')],
               Call ''set_xlabel'' [''Threads''] [], Call ''set_ylabel'' [''ARM / Intel Throughput Ratio''] [],
               Call ''set_title'' [''Platform Crossover: All Workloads''] [], ticks [1, 2, 4, 6], gridded,
               Call ''legend'' (labels @ [''mutex'', ''rw 80%'', ''rw 95% / rcu'']) [(''fontsize'', ''8''), (''ncol'', ''2''), (''loc'', ''upper right'')]]]
             [] ''plot12_platform_crossover.png'' # ls))))"

section \<open>Penalties\<close>

definition penalty :: "lock_stats \<Rightarrow> ((string \<times> string \<times> int) \<times> flt) list" where
  "penalty g = per_base (\<lambda>m b. np_div b m) g"

definition penalty_text :: "flt \<Rightarrow> string" where
  "penalty_text v = (if fless v (Fin 10) then format_fixed 1 v else format_fixed 0 v) @ ''x''"

definition penalty_cell :: "column_fns \<Rightarrow> lock_stats \<Rightarrow> cell_out list" where
  "penalty_cell cf g =
     [saved_fig [(''figsize'', ''(14, 4)'')]
       (map (\<lambda>(plat, name). matrix_panel (cf_log10 cf) [(''cmap'', ''YlOrRd''), (''aspect'', ''auto'')] penalty_text ''10''
          (\<lambda>v. if fless (Fin 30) v then ''white'' else ''black'') (''Contention Penalty (1T/NT) '' @ em_dash @ '' '' @ name) plat (penalty g))
        [(''arm'', ''ARM''), (''intel'', ''x86'')])
       [suptitle ''Contention Penalty: How much slower is N threads vs 1 thread?'' [(''y'', ''1.02'')]] ''plot13_contention_penalty.png'']"

section \<open>Readers and writers\<close>

definition rcu_axes :: "column_fns \<Rightarrow> arow list \<Rightarrow> string \<Rightarrow> draw list py" where
  "rcu_axes cf df plat =
     (let line = (\<lambda>rs kws. err_points as_mean as_std (by_threads_stats cf (filter (\<lambda>r. ar_platform r = plat) rs)) kws)
      in bind_py (short_title ''Read-Optimized Primitives'' plat) (\<lambda>title.
        Inr [line (of_workload ''rcu'' df) [(''label'', ''RCU (90% reads)''), (''color'', ''#17becf''), (''marker'', ''X''), (''linewidth'', ''2''), (''capsize'', ''3'')],
             line (rw_at ''rw'' 80 df) [(''label'', ''RW (80% reads)''), (''color'', ''#ff7f0e''), (''marker'', ''v''), (''linewidth'', ''2''), (''capsize'', ''3'')],
             line (rw_at ''occ'' 95 df) [(''label'', ''OCC (95% reads)''), (''color'', ''#8c564b''), (''marker'', ''P''), (''linewidth'', ''2''), (''capsize'', ''3'')],
             line (filter (\<lambda>r. ar_lock r = ''rw'') (mutex_rows df))
               [(''label'', ''RW exclusive (baseline)''), (''color'', ''#ff7f0e''), (''marker'', ''v''), (''linewidth'', ''1''), (''capsize'', ''3''),
                (''linestyle'', '':''), (''alpha'', ''0.5'')],
             Call ''set_xlabel'' [''Threads''] [], Call ''set_ylabel'' [''Throughput (M ops/s)''] [], Call ''set_title'' [title] [],
             Call ''legend'' [] [(''fontsize'', ''9'')], gridded, ticks [1, 2, 4, 6]]))"

definition rcu_scaling :: "column_fns \<Rightarrow> arow list \<Rightarrow> string \<Rightarrow> cell_out list py" where
  \<comment> \<open>a missing mean is the integer 0; only a quotient of two such integers raises\<close>
  "rcu_scaling cf df plat =
     (let means = map (\<lambda>(t, s). (t, as_mean s)) (by_threads_stats cf (filter (\<lambda>r. ar_platform r = plat) (of_workload ''rcu'' df)));
          get = (\<lambda>t. case map_of means t of None \<Rightarrow> Fin 0 | Some v \<Rightarrow> v)
      in bind_py (get_item PLAT_SHORT plat) (\<lambda>short.
         bind_py (if map_of means 6 = None \<and> map_of means 1 = None then Inl ZeroDivisionError else Inr (np_div (get 6) (get 1))) (\<lambda>eff.
           Inr [CellLine ([CHR 0x0A] @ short @ '' RCU scaling: 1T='' @ format_fixed 1 (get 1) @ ''  2T='' @ format_fixed 1 (get 2) @
                  ''  4T='' @ format_fixed 1 (get 4) @ ''  6T='' @ format_fixed 1 (get 6)),
                CellLine (''  6T/1T efficiency: '' @ format_fixed 3 eff)])))"

definition rcu_compare_cell :: "column_fns \<Rightarrow> arow list \<Rightarrow> cell_out list py" where
  "rcu_compare_cell cf df =
     bind_py (map_py (rcu_axes cf df) machines) (\<lambda>axes. bind_py (map_py (rcu_scaling cf df) machines) (\<lambda>ls.
       Inr (saved_fig [(''figsize'', ''(14, 5.5)'')] axes [suptitle ''RCU vs RW Lock vs OCC: Read-Heavy Workloads'' [(''y'', ''1.02'')]]
         ''plot14_rcu_comparison.png'' # concat ls)))"

section \<open>One thread, and the summary\<close>

definition single_cell :: "lock_stats \<Rightarrow> cell_out list py" where
  "single_cell g =
     (let one = map (\<lambda>((p, l, _), s). ((p, l), as_mean s)) (filter (\<lambda>((_, _, t), _). t = 1) g); plats = map (fst o fst) one;
          val = (\<lambda>plat l. case map_of one (plat, l) of None \<Rightarrow> NaN | Some v \<Rightarrow> v); ratio = (\<lambda>l. np_div (val ''arm'' l) (val ''intel'' l));
          n = length LOCK_ORDER; half = projr (fdiv bar_w (Fin 2));
          name = (\<lambda>l. case map_of LOCK_LABELS l of None \<Rightarrow> l | Some s \<Rightarrow> s);
          bars = (\<lambda>off plat label color. Bar (map (\<lambda>x. off (Fin (of_nat x)) half) [0..<n]) (map (val plat) LOCK_ORDER) bar_w
            [(''label'', label), (''color'', color), (''alpha'', ''0.8'')])
      in bind_py (need_column ''arm'' plats) (\<lambda>_. bind_py (need_column ''intel'' plats) (\<lambda>_.
        Inr [saved_fig [(''figsize'', ''(10, 5)'')]
               [[bars fsub ''arm'' ''ARM (M3 Pro)'' ''#d62728'', bars fadd ''intel'' ''x86 (Xeon E5-2650L)'' ''#1f77b4''] @
                map (\<lambda>(i, l). Note (format_fixed 1 (ratio l) @ ''x'') (Fin (of_nat i)) (float_max (val ''arm'' l) (val ''intel'' l))
                  [(''textcoords'', ''offset points''), (''xytext'', ''(0, 8)''), (''ha'', ''center''), (''fontsize'', ''10''), (''fontweight'', ''bold'')])
                  (zip [0..<n] LOCK_ORDER) @
                [Call ''set_xticks'' [''x''] [], Call ''set_xticklabels'' (map name LOCK_ORDER) [], Call ''set_ylabel'' [''Throughput (M ops/s)''] [],
                 Call ''set_title'' [''Single-Thread Performance (no contention) '' @ em_dash @ '' Pure Atomic Operation Cost''] [],
                 Call ''legend'' [] [(''fontsize'', ''11'')], Call ''grid'' [''True''] [(''alpha'', ''0.3''), (''axis'', ''y'')]]]
               [] ''plot15_single_thread.png'',
             CellLine ([CHR 0x0A] @ ''1-thread throughput (M ops/s):''),
             CellTable (map (\<lambda>l. [name l]) LOCK_ORDER) [''arm'', ''intel'', ''ratio'']
               (map (\<lambda>l. map (np_round 1) [val ''arm'' l, val ''intel'' l, ratio l]) LOCK_ORDER)])))"

definition summary_cell :: "lock_stats \<Rightarrow> cell_out list" where
  "summary_cell g =
     [CellLine ''Mutex workload summary (cs_work=0 only):'',
      CellTable (map (\<lambda>((p, l, t), _). [p, l, show_int t]) g) [''mean_ops_m'', ''std_ops_m'', ''mean_fairness'', ''std_fairness'', ''cv_pct'']
        (map (\<lambda>(_, s). [np_round 1 (as_mean s), np_round 2 (as_std s), np_round 3 (as_fair s), as_fair_std s,
           np_round 1 (fmul (np_div (as_std s) (as_mean s)) (Fin 100))]) g)]"

section \<open>The cells in order\<close>

definition archive_analysis :: "column_fns \<Rightarrow> arow list option \<Rightarrow> cell_out list py" where
  \<comment> \<open>the rows of \<open>combined\_lockbench.csv\<close>, if it exists\<close>
  "archive_analysis cf csv =
     (case csv of
        None \<Rightarrow> Inl FileNotFoundError
      | Some df \<Rightarrow> let mutex = mutex_rows df; g = agg_by cf lock_key mutex
          in bind_py (map_py (\<lambda>c. c)
            [scaling_cell g, efficiency_cell cf g, tradeoff_cell cf mutex, fairness_heat_cell cf mutex, occ_cell cf df, read_cell cf df,
             spin_cell cf mutex, machine_cell g, Inr (cs_cell (cs_stats cf df)), cv_heat_cell g, metrics_cell cf mutex, crossover_cell cf df,
             Inr (penalty_cell cf g), rcu_compare_cell cf df, single_cell g, Inr (summary_cell g)]) (\<lambda>outs.
            Inr (row_counts df @ concat outs)))"

section \<open>Normalized measures\<close>

lemma row_min_best: "\<forall>v \<in> set vs. v \<noteq> NaN \<Longrightarrow> vs \<noteq> [] \<Longrightarrow> row_min vs \<in> set vs \<and> (\<forall>v \<in> set vs. \<not> fless v (row_min vs))"
proof (induction vs)
  case (Cons v vs)
  show ?case
  proof (cases "vs = []")
    case True
    then show ?thesis using float.irrefl [of v] Cons.prems by (simp add: Let_def)
  next
    case False
    let ?m = "row_min vs"
    have m: "?m \<in> set vs" "\<forall>u \<in> set vs. \<not> fless u ?m" "?m \<noteq> NaN" "v \<noteq> NaN" using Cons False by auto
    show ?thesis
    proof (cases "fless ?m v")
      case True
      then show ?thesis using m float.asym [of ?m v] by (auto simp: Let_def)
    next
      case ge: False
      have "\<not> fless u v" if "u \<in> set vs" for u
        using that m ge Cons.prems(1) float.le_trans [of v ?m u] by auto
      then show ?thesis using m ge float.irrefl [of v] by (auto simp: Let_def)
    qed
  qed
qed simp

lemma fsub_Fin: "fsub (Fin a) (Fin b) = fl (a - b)"
  by (simp add: fsub_def fadd_def)

lemma fl_moderate: "0 \<le> r \<Longrightarrow> r \<le> 2 ^ 52 \<Longrightarrow> fl r = Fin (rnd r) \<and> 0 \<le> rnd r \<and> rnd r \<le> 2 ^ 52"
proof -
  assume r: "0 \<le> r" "r \<le> 2 ^ 52"
  have "representable (2 ^ 52 :: rat)" using representable_of_int [of "2 ^ 52"] by simp
  then have b: "0 \<le> rnd r" "rnd r \<le> 2 ^ 52" using rnd_between [of 0 "2 ^ 52" r] r by auto
  have "(2 ^ 52 :: rat) < max_bound" by (simp add: max_bound_def)
  then show ?thesis using b r by (auto simp: fl_def Let_def)
qed

definition norm_range :: "rat \<Rightarrow> rat \<Rightarrow> rat" where
  \<comment> \<open>the denominator\<close>
  "norm_range lo hi = rnd (rnd (hi - lo) + rnd (1 / 10 ^ 10))"

lemma norm_range_pos:
  assumes "lo \<le> hi"
  shows "0 < norm_range lo hi" and "rnd (hi - lo) \<le> norm_range lo hi"
proof -
  have e: "0 < rnd (1 / 10 ^ 10)" by code_simp
  have d: "0 \<le> rnd (hi - lo)" using assms rnd_nonneg by simp
  have "rnd (rnd (1 / 10 ^ 10)) \<le> norm_range lo hi" unfolding norm_range_def by (rule rnd_mono) (use d in simp)
  then show "0 < norm_range lo hi" using e by (simp add: rnd_idem)
  have "rnd (rnd (hi - lo)) \<le> norm_range lo hi" unfolding norm_range_def by (rule rnd_mono) (use e in simp)
  then show "rnd (hi - lo) \<le> norm_range lo hi" by (simp add: rnd_idem)
qed

lemma scaled_value_rnd:
  assumes "row_min vs = Fin lo" and "row_max vs = Fin hi" and "\<bar>lo\<bar> \<le> 2 ^ 50" and "\<bar>hi\<bar> \<le> 2 ^ 50" and "lo \<le> r" and "r \<le> hi"
  shows "scaled_value vs (Fin r) = Fin (rnd (rnd (r - lo) / norm_range lo hi)) \<and>
    0 \<le> rnd (rnd (r - lo) / norm_range lo hi) \<and> rnd (rnd (r - lo) / norm_range lo hi) \<le> 1"
proof -
  have e: "fl (1 / 10 ^ 10) = Fin (rnd (1 / 10 ^ 10))" "rnd (1 / 10 ^ 10) \<le> 1" "0 < rnd (1 / 10 ^ 10)" by code_simp+
  have lim: "\<bar>lo\<bar> + \<bar>hi\<bar> \<le> 2 ^ 51" using assms(3,4) by simp
  have "representable (2 ^ 51 :: rat)" using representable_of_int [of "2 ^ 51"] by simp
  then have d: "fl (hi - lo) = Fin (rnd (hi - lo))" "0 \<le> rnd (hi - lo)" "rnd (hi - lo) \<le> 2 ^ 51"
    using fl_moderate [of "hi - lo"] rnd_between [of 0 "2 ^ 51" "hi - lo"] assms(5,6) lim by auto
  have n: "fl (r - lo) = Fin (rnd (r - lo))" "0 \<le> rnd (r - lo)" "rnd (r - lo) \<le> rnd (hi - lo)"
    using fl_moderate [of "r - lo"] rnd_mono [of "r - lo" "hi - lo"] assms(5,6) lim by auto
  have "rnd (hi - lo) + rnd (1 / 10 ^ 10) \<le> 2 ^ 52" using d(3) e(2) by simp
  then have "fadd (Fin (rnd (hi - lo))) (Fin (rnd (1 / 10 ^ 10))) = Fin (norm_range lo hi)"
    using fl_moderate [of "rnd (hi - lo) + rnd (1 / 10 ^ 10)"] d(2) e(3) by (simp add: fadd_def norm_range_def)
  then have q: "scaled_value vs (Fin r) = np_div (Fin (rnd (r - lo))) (Fin (norm_range lo hi))"
    unfolding scaled_value_def assms(1,2) fsub_Fin d(1) n(1) e(1) by simp
  have D: "0 < norm_range lo hi" "rnd (r - lo) \<le> norm_range lo hi" using norm_range_pos [of lo hi] assms(5,6) n(3) by linarith+
  obtain w where w: "np_div (Fin (rnd (r - lo))) (Fin (norm_range lo hi)) = Fin w" "0 \<le> w" "w \<le> 1"
    using fraction_of_best [OF D(1) n(2) D(2)] by blast
  have "w = rnd (rnd (r - lo) / norm_range lo hi)"
  proof (cases "rnd (r - lo) = 0")
    case True
    then show ?thesis using w(1) D(1) by (simp add: np_div_def fdiv_def is_zero_def signed_def Let_def)
  next
    case False
    then have "np_div (Fin (rnd (r - lo))) (Fin (norm_range lo hi)) = fl (rnd (r - lo) / norm_range lo hi)"
      using D(1) by (simp add: np_div_def fdiv_def is_zero_def Let_def)
    then show ?thesis using w(1) by (auto simp: fl_def Let_def split: if_splits)
  qed
  then show ?thesis using q w by simp
qed

text \<open>
  C20. The measures of the radar chart: for finite values of moderate size every normalized value lies
  between zero and one, the smallest is exactly zero, and a larger value never gets a smaller share.
\<close>

theorem scaled_value_unit:
  assumes "\<forall>u \<in> set vs. \<exists>r. u = Fin r \<and> \<bar>r\<bar> \<le> 2 ^ 50" and "v \<in> set vs"
  shows "(\<exists>w. scaled_value vs v = Fin w \<and> 0 \<le> w \<and> w \<le> 1) \<and> scaled_value vs (row_min vs) = Fin 0 \<and>
    (\<forall>u \<in> set vs. fless u v \<longrightarrow> \<not> fless (scaled_value vs v) (scaled_value vs u))"
proof -
  have nn: "\<forall>u \<in> set vs. u \<noteq> NaN" "vs \<noteq> []" using assms by auto
  note lo_best = row_min_best [OF nn] and hi_best = row_max_best [OF nn]
  obtain lo where lo: "row_min vs = Fin lo" "\<bar>lo\<bar> \<le> 2 ^ 50" using lo_best assms(1) by blast
  obtain hi where hi: "row_max vs = Fin hi" "\<bar>hi\<bar> \<le> 2 ^ 50" using hi_best assms(1) by blast
  have range: "lo \<le> r \<and> r \<le> hi" if "Fin r \<in> set vs" for r
    using lo_best hi_best that unfolding lo(1) hi(1) by force
  note val = scaled_value_rnd [OF lo(1) hi(1) lo(2) hi(2)]
  obtain r where r: "v = Fin r" using assms by blast
  have zero: "scaled_value vs (Fin lo) = Fin 0" using val [of lo] range [of lo] lo_best lo(1) by simp
  have D: "0 < norm_range lo hi" using norm_range_pos(1) range assms(2) r by fastforce
  have "\<not> fless (scaled_value vs v) (scaled_value vs u)" if u: "u \<in> set vs" "fless u v" for u
  proof -
    obtain k where k: "u = Fin k" using assms(1) u(1) by blast
    have "rnd (rnd (k - lo) / norm_range lo hi) \<le> rnd (rnd (r - lo) / norm_range lo hi)"
      using u(2) D by (intro rnd_mono divide_right_mono) (simp_all add: k r)
    then show ?thesis using val [of k] val [of r] range [of k] range [of r] u(1) assms(2) by (simp add: k r)
  qed
  then show ?thesis using val [of r] range [of r] assms(2) zero by (auto simp: r lo(1))
qed

theorem scaled_value_unit_witness:
  "scaled_value [Fin 3, Fin 7] (row_min [Fin 3, Fin 7]) = Fin 0 \<and> \<not> fless (scaled_value [Fin 3, Fin 7] (Fin 7)) (scaled_value [Fin 3, Fin 7] (Fin 3))"
  using scaled_value_unit [of "[Fin 3, Fin 7]" "Fin 7"] by auto

end
