(* ===== verification/Mutex.thy ===== *)
theory Mutex
  imports Main
begin

text \<open>
  What a lock promises, and machines for the threads that use it. A configuration holds the shared
  memory of a lock and the program point of every thread; a step is one atomic operation of one
  thread, in any interleaving. The abstract lock is owned by at most one thread. The locale
  \<open>mutex\<close> states what an implementation has to show of its steps; from it follow mutual exclusion
  and that every run of the implementation is a run of the abstract lock.
\<close>

type_synonym thread = nat

record ('m, 'p) config =
  mem :: 'm
  pc :: "thread \<Rightarrow> 'p"

definition goto :: "thread \<Rightarrow> 'p \<Rightarrow> 'm \<Rightarrow> ('m, 'p) config \<Rightarrow> ('m, 'p) config" where
  "goto t p m c = \<lparr>mem = m, pc = (pc c)(t := p)\<rparr>"

lemma goto_simps [simp]: "mem (goto t p m c) = m" "pc (goto t p m c) = (pc c)(t := p)"
  by (simp_all add: goto_def)

lemma goto_goto [simp]: "goto t p m (goto t q m' c) = goto t p m c"
  by (simp add: goto_def)

definition some_step :: "(thread \<Rightarrow> 'c \<Rightarrow> 'c \<Rightarrow> bool) \<Rightarrow> 'c \<Rightarrow> 'c \<Rightarrow> bool" where
  "some_step step c c' \<longleftrightarrow> (\<exists>t. step t c c')"

definition reachable :: "'c \<Rightarrow> (thread \<Rightarrow> 'c \<Rightarrow> 'c \<Rightarrow> bool) \<Rightarrow> 'c \<Rightarrow> bool" where
  "reachable c0 step c \<longleftrightarrow> (some_step step)\<^sup>*\<^sup>* c0 c"

lemma reachable_induct [consumes 1, case_names start move]:
  assumes "reachable c0 step c" and "P c0" and "\<And>t c c'. reachable c0 step c \<Longrightarrow> P c \<Longrightarrow> step t c c' \<Longrightarrow> P c'"
  shows "P c"
  using assms(1) unfolding reachable_def
proof (induction rule: rtranclp_induct)
  case base
  then show ?case by (rule assms(2))
next
  case (step c c')
  then show ?case using assms(3) [of c _ c'] by (auto simp: some_step_def reachable_def)
qed

lemma reachable_refl: "reachable c step c"
  by (simp add: reachable_def)

lemma reachable_step: "reachable c0 step c \<Longrightarrow> step t c c' \<Longrightarrow> reachable c0 step c'"
  unfolding reachable_def by (rule rtranclp.rtrancl_into_rtrancl) (auto simp: some_step_def)

text \<open>A run as the list of its steps: who moved, and what it led to.\<close>

fun follows :: "(thread \<Rightarrow> 'c \<Rightarrow> 'c \<Rightarrow> bool) \<Rightarrow> 'c \<Rightarrow> (thread \<times> 'c) list \<Rightarrow> bool" where
  "follows step c [] = True"
| "follows step c ((t, d) # tr) = (step t c d \<and> follows step d tr)"

lemma follows_reachable:
  "follows step c tr \<Longrightarrow> reachable c0 step c \<Longrightarrow> \<forall>d \<in> set (map snd tr). reachable c0 step d"
  by (induction step c tr rule: follows.induct) (auto intro: reachable_step)

text \<open>
  How the memory treats operations that are not sequentially consistent: they take effect at once, in one
  order; or a plain store waits in a buffer of its thread, as on x86, until it is flushed, at the latest before
  the next read-modify-write of the thread; or the store of an exchange without release order reaches other threads
  late, after operations that follow it, as C++ and ARM allow.
\<close>

datatype memory = OneOrder | StoreBuffers | LateExchange

section \<open>The abstract lock\<close>

inductive lock_step :: "thread \<Rightarrow> thread option \<Rightarrow> thread option \<Rightarrow> bool" where
  work: "lock_step t a a"
| acquire: "lock_step t None (Some t)"
| release: "lock_step t (Some t) None"

definition owned_by :: "('c \<Rightarrow> thread \<Rightarrow> bool) \<Rightarrow> 'c \<Rightarrow> thread option \<Rightarrow> bool" where
  \<comment> \<open>the owner of the abstract lock is the thread that holds the implementation\<close>
  "owned_by holds c a \<longleftrightarrow> (\<forall>t. holds c t \<longleftrightarrow> a = Some t)"

locale mutex =
  fixes start :: 'c
    and step :: "thread \<Rightarrow> 'c \<Rightarrow> 'c \<Rightarrow> bool"
    and holds :: "'c \<Rightarrow> thread \<Rightarrow> bool"
    and inv :: "'c \<Rightarrow> bool"
  assumes inv_start: "inv start"
    and inv_step: "inv c \<Longrightarrow> step t c c' \<Longrightarrow> inv c'"
    and free_start: "\<not> holds start t"
    and others: "step t c c' \<Longrightarrow> s \<noteq> t \<Longrightarrow> holds c' s \<longleftrightarrow> holds c s"
    and acquire_free: "inv c \<Longrightarrow> step t c c' \<Longrightarrow> holds c' t \<Longrightarrow> \<not> holds c t \<Longrightarrow> \<not> holds c s"
begin

lemma reachable_inv: "reachable start step c \<Longrightarrow> inv c"
  by (induction rule: reachable_induct) (auto intro: inv_start inv_step)

lemma step_simulated:
  assumes "inv c" and "step t c c'" and "owned_by holds c a"
  shows "\<exists>a'. lock_step t a a' \<and> owned_by holds c' a'"
proof (cases "holds c' t")
  case True
  show ?thesis
  proof (cases "holds c t")
    case True
    then have "owned_by holds c' a" using \<open>holds c' t\<close> assms others [OF assms(2)] unfolding owned_by_def by metis
    then show ?thesis using lock_step.work by blast
  next
    case False
    then have "\<forall>s. \<not> holds c s" using acquire_free [OF assms(1,2) True] by blast
    then have "a = None" "owned_by holds c' (Some t)"
      using assms(3) True others [OF assms(2)] unfolding owned_by_def by (metis not_Some_eq, metis option.inject)
    then show ?thesis using lock_step.acquire by blast
  qed
next
  case False
  show ?thesis
  proof (cases "holds c t")
    case True
    then have "a = Some t" "owned_by holds c' None"
      using assms(3) False others [OF assms(2)] unfolding owned_by_def by (blast, metis option.distinct(1) option.inject)
    then show ?thesis using lock_step.release by blast
  next
    case False
    then have "owned_by holds c' a" using \<open>\<not> holds c' t\<close> assms others [OF assms(2)] unfolding owned_by_def by metis
    then show ?thesis using lock_step.work by blast
  qed
qed

lemma trace_simulated:
  "follows step c tr \<Longrightarrow> inv c \<Longrightarrow> owned_by holds c a \<Longrightarrow>
    \<exists>as. follows lock_step a (zip (map fst tr) as) \<and> list_all2 (owned_by holds) (map snd tr) as"
proof (induction tr arbitrary: c a)
  case (Cons td tr)
  obtain t d where td: "td = (t, d)" by force
  then have s: "step t c d" "follows step d tr" using Cons.prems(1) by simp_all
  obtain a' where a': "lock_step t a a'" "owned_by holds d a'" using step_simulated [OF Cons.prems(2) s(1) Cons.prems(3)] by blast
  obtain as where "follows lock_step a' (zip (map fst tr) as)" "list_all2 (owned_by holds) (map snd tr) as"
    using Cons.IH [OF s(2) inv_step [OF Cons.prems(2) s(1)] a'(2)] by blast
  with a' td show ?case by (intro exI [of _ "a' # as"]) simp
qed simp

text \<open>Every run is a run of the abstract lock, step by step: the same threads move, and after each step the owner is the holder.\<close>

lemma refines:
  "follows step start tr \<Longrightarrow>
    \<exists>as. follows lock_step None (zip (map fst tr) as) \<and> list_all2 (owned_by holds) (map snd tr) as"
  by (rule trace_simulated) (auto simp: inv_start owned_by_def free_start)

lemma owned: "reachable start step c \<Longrightarrow> \<exists>a. owned_by holds c a"
proof (induction rule: reachable_induct)
  case start
  then show ?case using free_start by (intro exI [of _ None]) (simp add: owned_by_def)
next
  case (move t c c')
  then show ?case using step_simulated [OF reachable_inv [OF move(1)] move(2)] by blast
qed

lemma exclusive: "reachable start step c \<Longrightarrow> holds c s \<Longrightarrow> holds c t \<Longrightarrow> s = t"
  using owned unfolding owned_by_def by (metis option.inject)

end

end
