(* ===== verification/SpinLocks.thy ===== *)
theory SpinLocks
  imports Mutex
begin

text \<open>
  The locks on one flag of \<open>include/primitives\<close>: \<open>tas_lock\<close>, \<open>ttas_lock\<close> and \<open>cas_lock\<close>. The
  program points name the atomic operation a thread is about to execute; \<open>cpu_relax\<close> changes
  nothing. Operations on the flag take effect in one order. A weak compare-and-exchange may fail
  although the flag is free.
\<close>

section \<open>Test and set\<close>

datatype tas_pc = TasIdle | TasSet | TasHeld

type_synonym tas_config = "(bool, tas_pc) config"

definition tas_start :: tas_config where
  "tas_start = \<lparr>mem = False, pc = \<lambda>t. TasIdle\<rparr>"

inductive tas_step :: "thread \<Rightarrow> tas_config \<Rightarrow> tas_config \<Rightarrow> bool" where
  lock_call: "pc c t = TasIdle \<Longrightarrow> tas_step t c (goto t TasSet (mem c) c)"
| set_busy: "pc c t = TasSet \<Longrightarrow> mem c \<Longrightarrow> tas_step t c (goto t TasSet True c)"
| set_free: "pc c t = TasSet \<Longrightarrow> \<not> mem c \<Longrightarrow> tas_step t c (goto t TasHeld True c)"
| unlock: "pc c t = TasHeld \<Longrightarrow> tas_step t c (goto t TasIdle False c)"

section \<open>Test, then test and set\<close>

datatype ttas_pc = TtasIdle | TtasRead | TtasExchange | TtasHeld

type_synonym ttas_config = "(bool, ttas_pc) config"

definition ttas_start :: ttas_config where
  "ttas_start = \<lparr>mem = False, pc = \<lambda>t. TtasIdle\<rparr>"

inductive ttas_step :: "thread \<Rightarrow> ttas_config \<Rightarrow> ttas_config \<Rightarrow> bool" where
  lock_call: "pc c t = TtasIdle \<Longrightarrow> ttas_step t c (goto t TtasRead (mem c) c)"
| read_busy: "pc c t = TtasRead \<Longrightarrow> mem c \<Longrightarrow> ttas_step t c (goto t TtasRead (mem c) c)"
| read_free: "pc c t = TtasRead \<Longrightarrow> \<not> mem c \<Longrightarrow> ttas_step t c (goto t TtasExchange (mem c) c)"
| exchange_busy: "pc c t = TtasExchange \<Longrightarrow> mem c \<Longrightarrow> ttas_step t c (goto t TtasRead True c)"
| exchange_free: "pc c t = TtasExchange \<Longrightarrow> \<not> mem c \<Longrightarrow> ttas_step t c (goto t TtasHeld True c)"
| unlock: "pc c t = TtasHeld \<Longrightarrow> ttas_step t c (goto t TtasIdle False c)"

section \<open>Compare and exchange\<close>

datatype cas_pc = CasIdle | CasTry | CasRead | CasHeld

type_synonym cas_config = "(bool, cas_pc) config"

definition cas_start :: cas_config where
  "cas_start = \<lparr>mem = False, pc = \<lambda>t. CasIdle\<rparr>"

inductive cas_step :: "thread \<Rightarrow> cas_config \<Rightarrow> cas_config \<Rightarrow> bool" where
  lock_call: "pc c t = CasIdle \<Longrightarrow> cas_step t c (goto t CasTry (mem c) c)"
| try_ok: "pc c t = CasTry \<Longrightarrow> \<not> mem c \<Longrightarrow> cas_step t c (goto t CasHeld True c)"
| try_fail: "pc c t = CasTry \<Longrightarrow> cas_step t c (goto t CasRead (mem c) c)"
| read_busy: "pc c t = CasRead \<Longrightarrow> mem c \<Longrightarrow> cas_step t c (goto t CasRead (mem c) c)"
| read_free: "pc c t = CasRead \<Longrightarrow> \<not> mem c \<Longrightarrow> cas_step t c (goto t CasTry (mem c) c)"
| unlock: "pc c t = CasHeld \<Longrightarrow> cas_step t c (goto t CasIdle False c)"

inductive_cases tas_stepE: "tas_step t c c'"
inductive_cases ttas_stepE: "ttas_step t c c'"
inductive_cases cas_stepE: "cas_step t c c'"

section \<open>They are locks\<close>

text \<open>In all three the flag is set exactly while one thread holds the lock.\<close>

definition flag_inv :: "'p \<Rightarrow> (bool, 'p) config \<Rightarrow> bool" where
  "flag_inv held c \<longleftrightarrow>
     (mem c \<longleftrightarrow> (\<exists>t. pc c t = held)) \<and> (\<forall>s t. pc c s = held \<longrightarrow> pc c t = held \<longrightarrow> s = t)"

lemma flag_inv_acquire: "flag_inv held c \<Longrightarrow> \<not> mem c \<Longrightarrow> flag_inv held (goto t held True c)"
  by (auto simp: flag_inv_def)

lemma flag_inv_release: "flag_inv held c \<Longrightarrow> pc c t = held \<Longrightarrow> p \<noteq> held \<Longrightarrow> flag_inv held (goto t p False c)"
  by (auto simp: flag_inv_def)

lemma flag_inv_other:
  assumes "flag_inv held c" and "pc c t \<noteq> held" and "p \<noteq> held" and "m = mem c"
  shows "flag_inv held (goto t p m c)"
proof -
  have "((pc c)(t := p)) s = held \<longleftrightarrow> pc c s = held" for s using assms(2,3) by auto
  then show ?thesis using assms(1,4) by (simp add: flag_inv_def del: fun_upd_apply)
qed

lemmas flag_inv_intros = flag_inv_acquire flag_inv_release flag_inv_other

interpretation tas: mutex tas_start tas_step "\<lambda>c t. pc c t = TasHeld" "flag_inv TasHeld"
proof
  fix t :: thread and c c' :: tas_config
  show "flag_inv TasHeld c'" if "flag_inv TasHeld c" "tas_step t c c'" using that(2)
    by (rule tas_stepE) (use that(1) in \<open>simp_all add: flag_inv_intros\<close>)
  show "pc c s \<noteq> TasHeld" if "flag_inv TasHeld c" "tas_step t c c'" "pc c' t = TasHeld" "pc c t \<noteq> TasHeld" for s
    using that(2) by (rule tas_stepE) (use that in \<open>auto simp: flag_inv_def\<close>)
qed (auto simp: tas_start_def flag_inv_def elim: tas_stepE)

interpretation ttas: mutex ttas_start ttas_step "\<lambda>c t. pc c t = TtasHeld" "flag_inv TtasHeld"
proof
  fix t :: thread and c c' :: ttas_config
  show "flag_inv TtasHeld c'" if "flag_inv TtasHeld c" "ttas_step t c c'" using that(2)
    by (rule ttas_stepE) (use that(1) in \<open>simp_all add: flag_inv_intros\<close>)
  show "pc c s \<noteq> TtasHeld" if "flag_inv TtasHeld c" "ttas_step t c c'" "pc c' t = TtasHeld" "pc c t \<noteq> TtasHeld" for s
    using that(2) by (rule ttas_stepE) (use that in \<open>auto simp: flag_inv_def\<close>)
qed (auto simp: ttas_start_def flag_inv_def elim: ttas_stepE)

interpretation cas: mutex cas_start cas_step "\<lambda>c t. pc c t = CasHeld" "flag_inv CasHeld"
proof
  fix t :: thread and c c' :: cas_config
  show "flag_inv CasHeld c'" if "flag_inv CasHeld c" "cas_step t c c'" using that(2)
    by (rule cas_stepE) (use that(1) in \<open>simp_all add: flag_inv_intros\<close>)
  show "pc c s \<noteq> CasHeld" if "flag_inv CasHeld c" "cas_step t c c'" "pc c' t = CasHeld" "pc c t \<noteq> CasHeld" for s
    using that(2) by (rule cas_stepE) (use that in \<open>auto simp: flag_inv_def\<close>)
qed (auto simp: cas_start_def flag_inv_def elim: cas_stepE)

section \<open>A waiting thread can always get in\<close>

definition can_hold :: "(thread \<Rightarrow> ('m, 'p) config \<Rightarrow> ('m, 'p) config \<Rightarrow> bool) \<Rightarrow> 'p \<Rightarrow> ('m, 'p) config \<Rightarrow> thread \<Rightarrow> bool" where
  "can_hold step held c t \<longleftrightarrow> (\<exists>c'. (some_step step)\<^sup>*\<^sup>* c c' \<and> pc c' t = held)"

lemma can_hold_now: "pc c t = held \<Longrightarrow> can_hold step held c t"
  unfolding can_hold_def by blast

lemma can_hold_step: "step s c c' \<Longrightarrow> can_hold step held c' t \<Longrightarrow> can_hold step held c t"
proof -
  assume "step s c c'" and "can_hold step held c' t"
  then obtain d where "some_step step c c'" "(some_step step)\<^sup>*\<^sup>* c' d" "pc d t = held"
    by (auto simp: some_step_def can_hold_def)
  then show ?thesis unfolding can_hold_def by (metis converse_rtranclp_into_rtranclp)
qed

lemma tas_free: "\<not> mem c \<Longrightarrow> pc c t = TasSet \<Longrightarrow> can_hold tas_step TasHeld c t"
  by (rule can_hold_step [where step = tas_step, OF tas_step.set_free]) (auto intro: can_hold_now)

lemma ttas_free:
  assumes "\<not> mem c" and "pc c t \<in> {TtasRead, TtasExchange}"
  shows "can_hold ttas_step TtasHeld c t"
proof -
  have exchange: "can_hold ttas_step TtasHeld d t" if "\<not> mem d" "pc d t = TtasExchange" for d
    by (rule can_hold_step [where step = ttas_step, OF ttas_step.exchange_free]) (use that in \<open>auto intro: can_hold_now\<close>)
  then show ?thesis
    using assms can_hold_step [where step = ttas_step, OF ttas_step.read_free [of c t] exchange [of "goto t TtasExchange (mem c) c"]] by auto
qed

lemma cas_free:
  assumes "\<not> mem c" and "pc c t \<in> {CasTry, CasRead}"
  shows "can_hold cas_step CasHeld c t"
proof -
  have grab: "can_hold cas_step CasHeld d t" if "\<not> mem d" "pc d t = CasTry" for d
    by (rule can_hold_step [where step = cas_step, OF cas_step.try_ok]) (use that in \<open>auto intro: can_hold_now\<close>)
  then show ?thesis
    using assms can_hold_step [where step = cas_step, OF cas_step.read_free [of c t] grab [of "goto t CasTry (mem c) c"]] by auto
qed

text \<open>When the lock is held, its holder can release it first.\<close>

lemma wait_for_holder:
  assumes "flag_inv held c" and "pc c t \<noteq> held"
    and "\<And>d. \<not> mem d \<Longrightarrow> pc d t = pc c t \<Longrightarrow> can_hold step held d t"
    and "\<And>s. pc c s = held \<Longrightarrow> step s c (goto s idle False c)"
  shows "can_hold step held c t"
proof (cases "mem c")
  case True
  then obtain s where s: "pc c s = held" using assms(1) by (auto simp: flag_inv_def)
  then have "s \<noteq> t" using assms(2) by auto
  then show ?thesis using can_hold_step [where step = step, OF assms(4) [OF s] assms(3)] by simp
next
  case False
  then show ?thesis by (rule assms(3)) simp
qed

text \<open>
  C31. Every run of the three locks on one flag is, step by step, a run of the abstract lock in which the
  same threads move: after each step the owner of the abstract lock is the thread that holds the
  implementation. A lock is thus acquired only when it is free and released only by its holder.
\<close>

theorem spin_locks_refine:
  "(follows tas_step tas_start tr1 \<longrightarrow> (\<exists>as. follows lock_step None (zip (map fst tr1) as) \<and>
     list_all2 (owned_by (\<lambda>c t. pc c t = TasHeld)) (map snd tr1) as)) \<and>
   (follows ttas_step ttas_start tr2 \<longrightarrow> (\<exists>as. follows lock_step None (zip (map fst tr2) as) \<and>
     list_all2 (owned_by (\<lambda>c t. pc c t = TtasHeld)) (map snd tr2) as)) \<and>
   (follows cas_step cas_start tr3 \<longrightarrow> (\<exists>as. follows lock_step None (zip (map fst tr3) as) \<and>
     list_all2 (owned_by (\<lambda>c t. pc c t = CasHeld)) (map snd tr3) as))"
  using tas.refines ttas.refines cas.refines by blast

lemma tas_called: "reachable tas_start tas_step (goto 1 TasSet False tas_start)"
  using reachable_step [where step = tas_step, OF reachable_refl tas_step.lock_call [of tas_start 1]] by (simp add: tas_start_def)

theorem spin_locks_refine_witness:
  "\<exists>as. follows lock_step None (zip [1, 1] as) \<and> list_all2 (owned_by (\<lambda>c t. pc c t = TasHeld))
     [goto 1 TasSet False tas_start, goto 1 TasHeld True (goto 1 TasSet False tas_start)] as"
proof -
  let ?c = "goto 1 TasSet False tas_start"
  have "follows tas_step tas_start [(1, ?c), (1, goto 1 TasHeld True ?c)]"
    using tas_step.lock_call [of tas_start 1] tas_step.set_free [of ?c 1] by (simp add: tas_start_def)
  then show ?thesis using spin_locks_refine [of "[(1, ?c), (1, goto 1 TasHeld True ?c)]" "[]" "[]"] by simp
qed

text \<open>
  None of the three locks can get stuck: from every reachable configuration in which a thread
  is in the acquiring loop there is a continuation in which it holds the lock.
\<close>

theorem spin_locks_progress:
  "(reachable tas_start tas_step c1 \<longrightarrow> pc c1 t = TasSet \<longrightarrow> can_hold tas_step TasHeld c1 t) \<and>
   (reachable ttas_start ttas_step c2 \<longrightarrow> pc c2 t \<in> {TtasRead, TtasExchange} \<longrightarrow> can_hold ttas_step TtasHeld c2 t) \<and>
   (reachable cas_start cas_step c3 \<longrightarrow> pc c3 t \<in> {CasTry, CasRead} \<longrightarrow> can_hold cas_step CasHeld c3 t)"
proof (intro conjI impI)
  assume c: "reachable tas_start tas_step c1" "pc c1 t = TasSet"
  show "can_hold tas_step TasHeld c1 t"
    by (rule wait_for_holder [OF tas.reachable_inv [OF c(1)]]) (use c(2) in \<open>auto intro: tas_free tas_step.unlock\<close>)
next
  assume c: "reachable ttas_start ttas_step c2" "pc c2 t \<in> {TtasRead, TtasExchange}"
  show "can_hold ttas_step TtasHeld c2 t"
    by (rule wait_for_holder [OF ttas.reachable_inv [OF c(1)]]) (use c(2) in \<open>auto intro: ttas_free ttas_step.unlock\<close>)
next
  assume c: "reachable cas_start cas_step c3" "pc c3 t \<in> {CasTry, CasRead}"
  show "can_hold cas_step CasHeld c3 t"
    by (rule wait_for_holder [OF cas.reachable_inv [OF c(1)]]) (use c(2) in \<open>auto intro: cas_free cas_step.unlock\<close>)
qed

theorem spin_locks_progress_witness: "can_hold tas_step TasHeld (goto 1 TasSet False tas_start) 1"
  using spin_locks_progress [of "goto 1 TasSet False tas_start" 1 ttas_start cas_start] tas_called by simp

end
