(* ===== verification/TicketLock.thy ===== *)
theory TicketLock
  imports SpinLocks "HOL-Library.Word"
begin

text \<open>
  \<open>include/primitives/ticket_lock.hpp\<close>: two counters of 32 bits that wrap around. A thread draws a
  ticket with an atomic increment and waits until it is served; releasing reads the counter and
  stores its successor, in two operations. The number of threads is a parameter; it has to be less
  than the number of tickets. \<open>try_lock\<close> is added in \<open>TicketTry\<close>.
\<close>

record ticket_mem =
  ticket_next :: "32 word"
  ticket_owner :: "32 word"

datatype ticket_pc = TicketIdle | TicketWait "32 word" | TicketHeld | TicketStore "32 word"

type_synonym ticket_config = "(ticket_mem, ticket_pc) config"

definition ticket_start :: ticket_config where
  "ticket_start = \<lparr>mem = \<lparr>ticket_next = 0, ticket_owner = 0\<rparr>, pc = \<lambda>t. TicketIdle\<rparr>"

inductive ticket_step :: "nat \<Rightarrow> thread \<Rightarrow> ticket_config \<Rightarrow> ticket_config \<Rightarrow> bool" for n where
  draw: "t < n \<Longrightarrow> pc c t = TicketIdle \<Longrightarrow>
    ticket_step n t c (goto t (TicketWait (ticket_next (mem c))) ((mem c)\<lparr>ticket_next := ticket_next (mem c) + 1\<rparr>) c)"
| spin: "pc c t = TicketWait k \<Longrightarrow> ticket_owner (mem c) \<noteq> k \<Longrightarrow> ticket_step n t c (goto t (TicketWait k) (mem c) c)"
| enter: "pc c t = TicketWait k \<Longrightarrow> ticket_owner (mem c) = k \<Longrightarrow> ticket_step n t c (goto t TicketHeld (mem c) c)"
| unlock_load: "pc c t = TicketHeld \<Longrightarrow> ticket_step n t c (goto t (TicketStore (ticket_owner (mem c))) (mem c) c)"
| unlock_store: "pc c t = TicketStore k \<Longrightarrow>
    ticket_step n t c (goto t TicketIdle ((mem c)\<lparr>ticket_owner := k + 1\<rparr>) c)"

inductive_cases ticket_stepE: "ticket_step n t c c'"

definition ticket_holds :: "ticket_config \<Rightarrow> thread \<Rightarrow> bool" where
  "ticket_holds c t \<longleftrightarrow> (case pc c t of TicketHeld \<Rightarrow> True | TicketStore k \<Rightarrow> True | _ \<Rightarrow> False)"

section \<open>The queue\<close>

text \<open>The place of a thread in the queue; the thread that holds the lock, or may take it, has place zero.\<close>

definition place :: "ticket_config \<Rightarrow> thread \<Rightarrow> nat" where
  "place c t = (case pc c t of TicketWait k \<Rightarrow> unat (k - ticket_owner (mem c)) | _ \<Rightarrow> 0)"

definition queued :: "ticket_config \<Rightarrow> thread set" where
  "queued c = {t. pc c t \<noteq> TicketIdle}"

definition queue_length :: "ticket_config \<Rightarrow> nat" where
  "queue_length c = unat (ticket_next (mem c) - ticket_owner (mem c))"

definition ticket_inv :: "nat \<Rightarrow> ticket_config \<Rightarrow> bool" where
  \<comment> \<open>the queued threads stand at distinct places, without gaps\<close>
  "ticket_inv n c \<longleftrightarrow> queued c \<subseteq> {..<n} \<and> bij_betw (place c) (queued c) {..<queue_length c} \<and>
     (\<forall>t k. pc c t = TicketStore k \<longrightarrow> k = ticket_owner (mem c))"

lemma unat_pred: "x \<noteq> y \<Longrightarrow> unat (x - (y + 1) :: 32 word) = unat (x - y) - 1"
proof -
  assume "x \<noteq> y"
  then have "unat (x - y - 1) = unat (x - y) - 1" by (intro unat_minus_one) simp
  then show ?thesis by (simp add: diff_diff_eq)
qed

lemma unat_succ: "unat (x - y :: 32 word) + 1 < 2 ^ 32 \<Longrightarrow> unat (x + 1 - y) = unat (x - y) + 1"
proof -
  assume less: "unat (x - y) + 1 < 2 ^ 32"
  have "unat (x - y + 1) = (unat (x - y) + 1) mod 2 ^ 32" by (simp add: unat_word_ariths)
  then show ?thesis using less by (simp add: algebra_simps)
qed

lemma holds_queued: "ticket_holds c t \<Longrightarrow> t \<in> queued c \<and> place c t = 0"
  by (auto simp: ticket_holds_def queued_def place_def split: ticket_pc.splits)

lemma place_inj: "ticket_inv n c \<Longrightarrow> s \<in> queued c \<Longrightarrow> t \<in> queued c \<Longrightarrow> place c s = place c t \<Longrightarrow> s = t"
  by (auto simp: ticket_inv_def bij_betw_def dest: inj_onD)

lemma queue_length_card: "ticket_inv n c \<Longrightarrow> queue_length c = card (queued c)"
  by (auto simp: ticket_inv_def dest: bij_betw_same_card)

lemma ticket_inv_draw:
  assumes inv: "ticket_inv n c" and n: "n < 2 ^ 32" and t: "t < n" "pc c t = TicketIdle"
  shows "ticket_inv n (goto t (TicketWait (ticket_next (mem c))) ((mem c)\<lparr>ticket_next := ticket_next (mem c) + 1\<rparr>) c)"
    (is "ticket_inv n ?c")
proof -
  have new: "t \<notin> queued c" using t(2) by (simp add: queued_def)
  have "queued c \<subseteq> {..<n} - {t}" using inv new by (auto simp: ticket_inv_def)
  then have "card (queued c) \<le> n - 1" using t(1) card_mono [of "{..<n} - {t}" "queued c"] by simp
  then have "queue_length c + 1 < 2 ^ 32" using queue_length_card [OF inv] n t(1) by linarith
  then have len: "queue_length ?c = queue_length c + 1" using unat_succ by (simp add: queue_length_def)
  have q: "queued ?c = insert t (queued c)" by (auto simp: queued_def)
  have same: "place ?c s = place c s" if "s \<noteq> t" for s using that by (simp add: place_def split: ticket_pc.split)
  have last: "place ?c t = queue_length c" by (simp add: place_def queue_length_def)
  have "place ?c s = place c s" if "s \<in> queued c" for s using same [of s] that new by auto
  then have "bij_betw (place ?c) (queued c) {..<queue_length c}"
    using inv bij_betw_cong [of "queued c" "place ?c" "place c"] by (simp add: ticket_inv_def)
  from notIn_Un_bij_betw [OF new _ this] have "bij_betw (place ?c) (queued ?c) {..<queue_length ?c}"
    unfolding q len last by (simp add: lessThan_Suc)
  then show ?thesis
    using inv t(1) by (auto simp: ticket_inv_def q split: if_splits)
qed

lemma ticket_inv_store:
  assumes inv: "ticket_inv n c" and t: "pc c t = TicketStore k"
  shows "ticket_inv n (goto t TicketIdle ((mem c)\<lparr>ticket_owner := k + 1\<rparr>) c)" (is "ticket_inv n ?c")
    and "\<And>s. s \<in> queued c \<Longrightarrow> s \<noteq> t \<Longrightarrow> place c s = place (goto t TicketIdle ((mem c)\<lparr>ticket_owner := k + 1\<rparr>) c) s + 1"
proof -
  have k: "k = ticket_owner (mem c)" using inv t by (simp add: ticket_inv_def)
  have t0: "t \<in> queued c" "place c t = 0" using t by (simp_all add: queued_def place_def)
  have waits: "\<exists>j. pc c s = TicketWait j \<and> j \<noteq> k" if s: "s \<in> queued c" "s \<noteq> t" for s
  proof -
    have "place c s \<noteq> 0" using place_inj [OF inv s(1) t0(1)] t0(2) s(2) by auto
    then show ?thesis by (auto simp: place_def k split: ticket_pc.splits)
  qed
  show step: "place c s = place ?c s + 1" if s: "s \<in> queued c" "s \<noteq> t" for s
  proof -
    obtain j where j: "pc c s = TicketWait j" "j \<noteq> k" using waits [OF s] by blast
    then have "unat (j - k) \<noteq> 0" by (simp add: unat_eq_0)
    then show ?thesis using j s(2) unat_pred [OF j(2)] by (simp add: place_def k)
  qed
  have q: "queued ?c = queued c - {t}" by (auto simp: queued_def)
  have bij: "bij_betw (place c) (queued c) {..<queue_length c}" using inv by (simp add: ticket_inv_def)
  then have pos: "0 < queue_length c" using t0 by (auto simp: bij_betw_def)
  then have "ticket_next (mem c) \<noteq> k" by (auto simp: queue_length_def k)
  then have len: "queue_length ?c = queue_length c - 1" by (simp add: queue_length_def unat_pred k)
  have "bij_betw (place c) (queued c - {t}) ({..<queue_length c} - {0})"
    using bij_betw_DiffI [OF bij, of "{t}" "{0}"] t0 pos by (auto simp: bij_betw_def)
  then have "bij_betw (\<lambda>s. place ?c s + 1) (queued c - {t}) ({..<queue_length c} - {0})"
    using step by (subst bij_betw_cong [of _ _ "place c"]) auto
  moreover have "bij_betw (\<lambda>i. i - 1) ({..<queue_length c} - {0}) {..<queue_length c - 1}"
    by (rule bij_betw_byWitness [where f' = "\<lambda>i. i + 1"]) auto
  ultimately have "bij_betw (place ?c) (queued c - {t}) {..<queue_length c - 1}"
    using bij_betw_trans by (fastforce simp: comp_def)
  moreover have "\<forall>s j. pc ?c s \<noteq> TicketStore j"
  proof (intro allI)
    fix s j
    show "pc ?c s \<noteq> TicketStore j" using waits [of s] by (cases "s = t") (auto simp: queued_def)
  qed
  ultimately show "ticket_inv n ?c" using inv unfolding ticket_inv_def q len by blast
qed

lemma ticket_inv_same:
  assumes "ticket_inv n c" and "pc c t \<noteq> TicketIdle" and "p \<noteq> TicketIdle"
    and "place (goto t p (mem c) c) t = place c t" and "\<And>k. p = TicketStore k \<Longrightarrow> k = ticket_owner (mem c)"
  shows "ticket_inv n (goto t p (mem c) c)"
proof -
  let ?c = "goto t p (mem c) c"
  have "place ?c s = place c s" for s using assms(4) by (cases "s = t") (simp_all add: place_def split: ticket_pc.split)
  then have "place ?c = place c" by auto
  moreover have "queued ?c = queued c" using assms(2,3) by (auto simp: queued_def)
  moreover have "queue_length ?c = queue_length c" by (simp add: queue_length_def)
  ultimately show ?thesis using assms(1,5) by (auto simp: ticket_inv_def)
qed

lemma ticket_inv_step: "n < 2 ^ 32 \<Longrightarrow> ticket_inv n c \<Longrightarrow> ticket_step n t c c' \<Longrightarrow> ticket_inv n c'"
  by (erule ticket_stepE)
    (auto intro: ticket_inv_draw ticket_inv_store ticket_inv_same simp: place_def)

lemma ticket_inv_start: "ticket_inv n ticket_start"
  by (simp add: ticket_inv_def ticket_start_def queued_def queue_length_def bij_betw_def)

lemma ticket_acquire:
  assumes "ticket_inv n c" and "ticket_step n t c c'" and "ticket_holds c' t" and "\<not> ticket_holds c t"
  shows "pc c t = TicketWait (ticket_owner (mem c))" and "\<not> ticket_holds c s"
proof -
  show wait: "pc c t = TicketWait (ticket_owner (mem c))"
    using assms(2) by (rule ticket_stepE) (use assms(3,4) in \<open>auto simp: ticket_holds_def\<close>)
  then have t: "t \<in> queued c" "place c t = 0" by (simp_all add: queued_def place_def)
  show "\<not> ticket_holds c s"
    using place_inj [OF assms(1) _ t(1)] t(2) holds_queued [of c s] assms(4) by auto
qed

text \<open>The contract of a lock, for any number of threads below the number of tickets.\<close>

lemma ticket_mutex: "n < 2 ^ 32 \<Longrightarrow> mutex ticket_start (ticket_step n) ticket_holds (ticket_inv n)"
proof
  fix t s :: thread and c c' :: ticket_config
  assume n: "n < 2 ^ 32"
  show "ticket_inv n ticket_start" by (rule ticket_inv_start)
  show "ticket_inv n c'" if "ticket_inv n c" "ticket_step n t c c'" using ticket_inv_step [OF n that] .
  show "\<not> ticket_holds ticket_start t" by (simp add: ticket_holds_def ticket_start_def)
  show "ticket_holds c' s = ticket_holds c s" if "ticket_step n t c c'" "s \<noteq> t"
    using that(1) by (rule ticket_stepE) (use that(2) in \<open>auto simp: ticket_holds_def\<close>)
  show "\<not> ticket_holds c s" if "ticket_inv n c" "ticket_step n t c c'" "ticket_holds c' t" "\<not> ticket_holds c t"
    using that by (rule ticket_acquire)
qed

interpretation ticket64: mutex ticket_start "ticket_step 64" ticket_holds "ticket_inv 64"
  by (rule ticket_mutex) simp

section \<open>First come, first served\<close>

lemma place_other: "s \<noteq> u \<Longrightarrow> ticket_owner m = ticket_owner (mem c) \<Longrightarrow> place (goto u p m c) s = place c s"
  by (simp add: place_def split: ticket_pc.split)

definition ahead :: "nat \<Rightarrow> thread \<Rightarrow> 32 word \<Rightarrow> thread \<Rightarrow> 32 word \<Rightarrow> ticket_config \<Rightarrow> bool" where
  "ahead n t k s j c \<longleftrightarrow>
     ticket_inv n c \<and> pc c t = TicketWait k \<and> pc c s = TicketWait j \<and> place c t < place c s"

lemma ahead_step:
  assumes "n < 2 ^ 32" and "ahead n t k s j c" and "ticket_step n u c c'" and "pc c' t = TicketWait k"
  shows "ahead n t k s j c'"
proof -
  have inv: "ticket_inv n c" and pcs: "pc c t = TicketWait k" "pc c s = TicketWait j" and less: "place c t < place c s"
    using assms(2) by (simp_all add: ahead_def)
  have inv': "ticket_inv n c'" using ticket_inv_step [OF assms(1) inv assms(3)] .
  have keep: "ahead n t k s j c'" if "c' = goto u p m c" "u \<noteq> t" "u \<noteq> s" "ticket_owner m = ticket_owner (mem c)" for p m
    using inv' pcs less that by (simp add: ahead_def place_other)
  show ?thesis
    using assms(3)
  proof cases
    case (unlock_store l)
    then have ne: "u \<noteq> t" "u \<noteq> s" using pcs by auto
    have "t \<in> queued c" "s \<in> queued c" using pcs by (simp_all add: queued_def)
    then have "place c t = place c' t + 1" "place c s = place c' s + 1"
      using ticket_inv_store(2) [OF inv unlock_store(2)] ne unlock_store(1) by auto
    then show ?thesis using inv' pcs less ne unlock_store(1) by (simp add: ahead_def)
  next
    case (enter l)
    have "u \<noteq> t" using assms(4) enter(1) by auto
    moreover have "u \<noteq> s" using enter pcs less by (auto simp: place_def)
    ultimately show ?thesis using keep enter(1) by simp
  next
    case (spin l)
    then have "c' = c" by (simp add: goto_def fun_upd_idem)
    then show ?thesis using assms(2) by simp
  next
    case draw
    then have "u \<noteq> t" "u \<noteq> s" using pcs by auto
    then show ?thesis using keep draw(1) by simp
  next
    case unlock_load
    then have "u \<noteq> t" "u \<noteq> s" using pcs by auto
    then show ?thesis using keep unlock_load(1) by simp
  qed
qed

text \<open>
  C29. The ticket lock is first come, first served: as long as a thread waits, no thread behind it in
  the queue gets the lock, however the counters wrap around.
\<close>

theorem ticket_fifo:
  assumes "n < 2 ^ 32" and "reachable ticket_start (ticket_step n) c"
    and "pc c t = TicketWait k" and "pc c s = TicketWait j" and "place c t < place c s"
    and "(\<lambda>d d'. (\<exists>u. ticket_step n u d d') \<and> pc d' t = TicketWait k)\<^sup>*\<^sup>* c c'"
  shows "pc c' s = TicketWait j"
proof -
  have "ticket_inv n c" using mutex.reachable_inv [OF ticket_mutex [OF assms(1)] assms(2)] .
  then have start: "ahead n t k s j c" using assms(3-5) by (simp add: ahead_def)
  from assms(6) have "ahead n t k s j c'"
  proof (induction rule: rtranclp_induct)
    case base
    show ?case by (rule start)
  next
    case (step d d')
    then show ?case using ahead_step [OF assms(1)] by blast
  qed
  then show ?thesis by (simp add: ahead_def)
qed

definition two_waiting :: ticket_config where
  "two_waiting = goto 5 (TicketWait 1) \<lparr>ticket_next = 2, ticket_owner = 0\<rparr>
     (goto 3 (TicketWait 0) \<lparr>ticket_next = 1, ticket_owner = 0\<rparr> ticket_start)"

lemma two_waiting_reachable: "reachable ticket_start (ticket_step 64) two_waiting"
proof -
  let ?c = "goto 3 (TicketWait 0) \<lparr>ticket_next = 1, ticket_owner = 0\<rparr> ticket_start"
  have "reachable ticket_start (ticket_step 64) ?c"
    using reachable_step [where step = "ticket_step 64", OF reachable_refl ticket_step.draw [of 3 64 ticket_start]]
    by (simp add: ticket_start_def)
  from reachable_step [where step = "ticket_step 64", OF this ticket_step.draw [of 5 64 ?c]]
  show ?thesis by (simp add: two_waiting_def ticket_start_def)
qed

theorem ticket_fifo_witness: "pc two_waiting 5 = TicketWait 1"
  by (rule ticket_fifo [of 64 two_waiting 3 0 5 1 two_waiting, OF _ two_waiting_reachable])
    (simp_all add: two_waiting_def place_def)

section \<open>Nobody waits for ever\<close>

lemma serve_store:
  assumes "n < 2 ^ 32" and "ticket_inv n c" and "pc c t = TicketWait k" and "place c t = Suc d"
    and "pc c s = TicketStore l"
  shows "\<exists>c'. (some_step (ticket_step n))\<^sup>*\<^sup>* c c' \<and> ticket_inv n c' \<and> pc c' t = TicketWait k \<and> place c' t = d"
proof -
  let ?c = "goto s TicketIdle ((mem c)\<lparr>ticket_owner := l + 1\<rparr>) c"
  have step: "ticket_step n s c ?c" using assms(5) by (rule ticket_step.unlock_store)
  have "t \<in> queued c" "t \<noteq> s" using assms(3,5) by (auto simp: queued_def)
  then have "place ?c t = d" "pc ?c t = TicketWait k" using ticket_inv_store(2) [OF assms(2,5)] assms(3,4) by auto
  then show ?thesis
    using ticket_inv_step [OF assms(1,2) step] step by (intro exI [of _ ?c]) (auto simp: some_step_def intro!: r_into_rtranclp)
qed

lemma serve_held:
  assumes "n < 2 ^ 32" and "ticket_inv n c" and "pc c t = TicketWait k" and "place c t = Suc d" and "pc c s = TicketHeld"
  shows "\<exists>c'. (some_step (ticket_step n))\<^sup>*\<^sup>* c c' \<and> ticket_inv n c' \<and> pc c' t = TicketWait k \<and> place c' t = d"
proof -
  let ?c = "goto s (TicketStore (ticket_owner (mem c))) (mem c) c"
  have step: "ticket_step n s c ?c" using assms(5) by (rule ticket_step.unlock_load)
  have "t \<noteq> s" using assms(3,5) by auto
  then have "pc ?c t = TicketWait k" "place ?c t = Suc d" using assms(3,4) by (simp_all add: place_other)
  from serve_store [OF assms(1) ticket_inv_step [OF assms(1,2) step] this]
  obtain c' where c': "(some_step (ticket_step n))\<^sup>*\<^sup>* ?c c'" "ticket_inv n c'" "pc c' t = TicketWait k" "place c' t = d"
    by (metis fun_upd_same goto_simps(2))
  have "some_step (ticket_step n) c ?c" using step by (auto simp: some_step_def)
  then show ?thesis using c' by (metis converse_rtranclp_into_rtranclp)
qed

lemma serve_next:
  assumes "n < 2 ^ 32" and "ticket_inv n c" and "pc c t = TicketWait k" and "place c t = Suc d"
  shows "\<exists>c'. (some_step (ticket_step n))\<^sup>*\<^sup>* c c' \<and> ticket_inv n c' \<and> pc c' t = TicketWait k \<and> place c' t = d"
proof -
  have "t \<in> queued c" using assms(3) by (simp add: queued_def)
  then have "place c t < queue_length c" using assms(2) by (auto simp: ticket_inv_def bij_betw_def)
  then have "0 \<in> {..<queue_length c}" using assms(4) by simp
  then have "0 \<in> place c ` queued c" using assms(2) by (simp add: ticket_inv_def bij_betw_def)
  then obtain s where s: "s \<in> queued c" "place c s = 0" by auto
  show ?thesis
  proof (cases "pc c s")
    case TicketIdle
    then show ?thesis using s(1) by (simp add: queued_def)
  next
    case TicketHeld
    then show ?thesis by (rule serve_held [OF assms])
  next
    case (TicketStore l)
    then show ?thesis by (rule serve_store [OF assms])
  next
    case (TicketWait j)
    then have "ticket_owner (mem c) = j" using s(2) by (simp add: place_def unat_eq_0)
    then have step: "ticket_step n s c (goto s TicketHeld (mem c) c)" using TicketWait ticket_step.enter by blast
    have "t \<noteq> s" using assms(4) s(2) by auto
    then have "pc (goto s TicketHeld (mem c) c) t = TicketWait k" "place (goto s TicketHeld (mem c) c) t = Suc d"
      using assms(3,4) by (simp_all add: place_other)
    from serve_held [OF assms(1) ticket_inv_step [OF assms(1,2) step] this]
    obtain c' where c': "(some_step (ticket_step n))\<^sup>*\<^sup>* (goto s TicketHeld (mem c) c) c'" "ticket_inv n c'"
        "pc c' t = TicketWait k" "place c' t = d" by (metis fun_upd_same goto_simps(2))
    have "some_step (ticket_step n) c (goto s TicketHeld (mem c) c)" using step by (auto simp: some_step_def)
    then show ?thesis using c' by (metis converse_rtranclp_into_rtranclp)
  qed
qed

lemma ticket_wait_ends:
  assumes "n < 2 ^ 32"
  shows "ticket_inv n c \<Longrightarrow> pc c t = TicketWait k \<Longrightarrow> can_hold (ticket_step n) TicketHeld c t"
proof (induction "place c t" arbitrary: c)
  case 0
  then have "ticket_owner (mem c) = k" by (simp add: place_def unat_eq_0)
  then have "ticket_step n t c (goto t TicketHeld (mem c) c)" using 0 ticket_step.enter by blast
  then show ?case by (rule can_hold_step [where step = "ticket_step n"]) (rule can_hold_now, simp)
next
  case (Suc d)
  obtain c' where c': "(some_step (ticket_step n))\<^sup>*\<^sup>* c c'" "ticket_inv n c'" "pc c' t = TicketWait k" "place c' t = d"
    using serve_next [OF assms Suc(3,4) Suc(2) [symmetric]] by blast
  then obtain e where "(some_step (ticket_step n))\<^sup>*\<^sup>* c' e" "pc e t = TicketHeld"
    using Suc(1) [of c'] by (auto simp: can_hold_def)
  then show ?case using c'(1) unfolding can_hold_def by (metis rtranclp_trans)
qed

text \<open>
  C30. The ticket lock cannot get stuck: from every reachable configuration in which a thread waits
  there is a continuation in which it holds the lock, after as many releases as there are threads
  before it.
\<close>

theorem ticket_progress:
  assumes "n < 2 ^ 32" and "reachable ticket_start (ticket_step n) c" and "pc c t = TicketWait k"
  shows "can_hold (ticket_step n) TicketHeld c t"
  using ticket_wait_ends [OF assms(1) mutex.reachable_inv [OF ticket_mutex [OF assms(1)] assms(2)] assms(3)] .

theorem ticket_progress_witness: "can_hold (ticket_step 64) TicketHeld two_waiting 5"
  by (rule ticket_progress [OF _ two_waiting_reachable, of 5 1]) (simp_all add: two_waiting_def)

end
