(* ===== verification/TicketTry.thy ===== *)
theory TicketTry
  imports TicketLock
begin

text \<open>
  \<open>try_lock\<close> of \<open>include/primitives/ticket_lock.hpp\<close>, beside the operations of \<open>TicketLock\<close>: it reads the two
  counters one after the other and, if they agree, draws a ticket with a compare-and-exchange. Two numbers that
  are not part of the code, \<open>drawn\<close> and \<open>served\<close>, count what the counters of 32 bits show modulo 2 ^ 32. A
  thread in \<open>try_lock\<close> remembers the number served when it read the owner.
\<close>

record ttry_mem =
  tickets :: ticket_mem
  drawn :: nat
  served :: nat

datatype ttry_pc =
    TryBase ticket_pc        \<comment> \<open>outside \<open>try\_lock\<close>\<close>
  | TryNext "32 word" nat    \<comment> \<open>has read \<open>cur\_owner\<close>\<close>
  | TryCas "32 word" nat     \<comment> \<open>has read an equal \<open>cur\_next\<close>\<close>

type_synonym ttry_config = "(ttry_mem, ttry_pc) config"

definition ttry_start :: ttry_config where
  "ttry_start = \<lparr>mem = \<lparr>tickets = mem ticket_start, drawn = 0, served = 0\<rparr>, pc = \<lambda>t. TryBase TicketIdle\<rparr>"

definition base :: "ttry_config \<Rightarrow> ticket_config" where
  \<comment> \<open>a thread inside \<open>try\_lock\<close> has done nothing yet\<close>
  "base c = \<lparr>mem = tickets (mem c), pc = \<lambda>t. case pc c t of TryBase p \<Rightarrow> p | _ \<Rightarrow> TicketIdle\<rparr>"

definition count :: "ttry_mem \<Rightarrow> ticket_mem \<Rightarrow> ttry_mem" where
  "count m m' = \<lparr>tickets = m',
     drawn = (if ticket_next m' = ticket_next (tickets m) then drawn m else Suc (drawn m)),
     served = (if ticket_owner m' = ticket_owner (tickets m) then served m else Suc (served m))\<rparr>"

inductive ttry_step :: "nat \<Rightarrow> thread \<Rightarrow> ttry_config \<Rightarrow> ttry_config \<Rightarrow> bool" for n where
  other: "pc c t = TryBase p \<Longrightarrow> ticket_step n t (base c) d \<Longrightarrow>
    ttry_step n t c (goto t (TryBase (pc d t)) (count (mem c) (mem d)) c)"
| load_owner: "t < n \<Longrightarrow> pc c t = TryBase TicketIdle \<Longrightarrow>
    ttry_step n t c (goto t (TryNext (ticket_owner (tickets (mem c))) (served (mem c))) (mem c) c)"
| queue_busy: "pc c t = TryNext k s \<Longrightarrow> ticket_next (tickets (mem c)) \<noteq> k \<Longrightarrow>
    ttry_step n t c (goto t (TryBase TicketIdle) (mem c) c)"
| load_next: "pc c t = TryNext k s \<Longrightarrow> ticket_next (tickets (mem c)) = k \<Longrightarrow> ttry_step n t c (goto t (TryCas k s) (mem c) c)"
| cas_fails: "pc c t = TryCas k s \<Longrightarrow> ticket_next (tickets (mem c)) \<noteq> k \<Longrightarrow>
    ttry_step n t c (goto t (TryBase TicketIdle) (mem c) c)"
| cas_succeeds: "pc c t = TryCas k s \<Longrightarrow> ticket_next (tickets (mem c)) = k \<Longrightarrow>
    ttry_step n t c (goto t (TryBase TicketHeld) (count (mem c) ((tickets (mem c))\<lparr>ticket_next := k + 1\<rparr>)) c)"

inductive_cases ttry_stepE: "ttry_step n t c c'"

definition prompt_step :: "nat \<Rightarrow> thread \<Rightarrow> ttry_config \<Rightarrow> ttry_config \<Rightarrow> bool" where
  \<comment> \<open>the counters have not gone round since the thread read them\<close>
  "prompt_step n t c c' \<longleftrightarrow> ttry_step n t c c' \<and> (\<forall>k s. pc c t = TryCas k s \<longrightarrow> drawn (mem c) < s + 2 ^ 32)"

section \<open>A simulation\<close>

definition ttry_inv :: "nat \<Rightarrow> ttry_config \<Rightarrow> bool" where
  "ttry_inv n c \<longleftrightarrow> ticket_inv n (base c) \<and> ticket_next (tickets (mem c)) = of_nat (drawn (mem c)) \<and>
     drawn (mem c) = served (mem c) + queue_length (base c) \<and>
     (\<forall>t k s. pc c t = TryNext k s \<or> pc c t = TryCas k s \<longrightarrow> t < n \<and> k = of_nat s \<and> s \<le> served (mem c))"

lemma base_simps [simp]:
  "mem (base c) = tickets (mem c)" "pc c t = TryBase p \<Longrightarrow> pc (base c) t = p"
  "base (goto t (TryBase p) m c) = goto t p (tickets m) (base c)"
  by (auto simp: base_def goto_def fun_eq_iff)

lemma count_simps [simp]: "tickets (count m m') = m'"
  by (simp add: count_def)

lemma goto_base: "pc (base c) t = p \<Longrightarrow> goto t p (tickets (mem c)) (base c) = base c"
  by (auto simp: goto_def base_def)

lemma ticket_step_frame: "ticket_step n t c d \<Longrightarrow> goto t (pc d t) (mem d) c = d"
  by (erule ticket_stepE) (auto simp: goto_def)

lemma finite_queued: "ticket_inv n c \<Longrightarrow> finite (queued c)"
  by (auto simp: ticket_inv_def intro: finite_subset)

lemma queue_length_draw:
  assumes "ticket_inv n c" and "ticket_inv n d" and "pc c t = TicketIdle" and "pc d = (pc c)(t := p)" and "p \<noteq> TicketIdle"
  shows "queue_length d = Suc (queue_length c)"
proof -
  have "queued d = insert t (queued c)" "t \<notin> queued c" using assms(3-5) by (auto simp: queued_def)
  then show ?thesis using queue_length_card assms(1,2) finite_queued by simp
qed

lemma count_step:
  assumes "n < 2 ^ 32" and "ticket_inv n c" and "ticket_step n t c d" and "tickets m = mem c"
    and "ticket_next (mem c) = of_nat (drawn m)" and "drawn m = served m + queue_length c"
  shows "ticket_next (mem d) = of_nat (drawn (count m (mem d)))"
    and "drawn (count m (mem d)) = served (count m (mem d)) + queue_length d"
    and "served m \<le> served (count m (mem d))"
proof -
  have inv: "ticket_inv n d" using ticket_inv_step [OF assms(1-3)] .
  have store: "queue_length c = Suc (queue_length d)" if "pc c t = TicketStore k" "pc d = (pc c)(t := TicketIdle)" for k
  proof -
    have "queued c = insert t (queued d)" "t \<notin> queued d" using that by (auto simp: queued_def)
    then show ?thesis using queue_length_card assms(2) inv finite_queued by simp
  qed
  have k: "k = ticket_owner (mem c)" if "pc c t = TicketStore k" for k using assms(2) that by (simp add: ticket_inv_def)
  show "ticket_next (mem d) = of_nat (drawn (count m (mem d)))"
    using assms(3) by (rule ticket_stepE) (use assms(4-6) in \<open>auto simp: count_def\<close>)
  show "drawn (count m (mem d)) = served (count m (mem d)) + queue_length d"
    using assms(3)
  proof (rule ticket_stepE)
    assume d: "d = goto t (TicketWait (ticket_next (mem c))) ((mem c)\<lparr>ticket_next := ticket_next (mem c) + 1\<rparr>) c" "pc c t = TicketIdle"
    then have "queue_length d = Suc (queue_length c)" using queue_length_draw [OF assms(2) inv] by simp
    then show ?thesis using assms(4,6) d by (simp add: count_def)
  next
    fix k assume d: "d = goto t TicketIdle ((mem c)\<lparr>ticket_owner := k + 1\<rparr>) c" "pc c t = TicketStore k"
    then show ?thesis using store [of k] k [of k] assms(4,6) by (simp add: count_def)
  qed (use assms(4,6) in \<open>auto simp: count_def queue_length_def\<close>)
  show "served m \<le> served (count m (mem d))" by (simp add: count_def)
qed

lemma wrapped_equal:
  assumes "(of_nat a :: 32 word) = of_nat b" and "a \<le> b" and "b < a + 2 ^ 32"
  shows "a = b"
proof -
  have "unat (of_nat a :: 32 word) = unat (of_nat b :: 32 word)" using assms(1) by simp
  then have "b mod 2 ^ 32 = a mod 2 ^ 32" unfolding unat_of_nat by simp
  then have "2 ^ 32 dvd b - a" using assms(2) mod_eq_dvd_iff_nat by blast
  then have "b - a = 0" using assms(3) nat_dvd_not_less [of "b - a" "2 ^ 32"] assms(2) by linarith
  then show ?thesis using assms(2) by simp
qed

text \<open>A compare-and-exchange that succeeds finds the queue empty.\<close>

lemma cas_empty:
  assumes "ttry_inv n c" and "pc c t = TryCas k s" and "ticket_next (tickets (mem c)) = k" and "drawn (mem c) < s + 2 ^ 32"
  shows "ticket_owner (tickets (mem c)) = k"
proof -
  have i: "k = of_nat s" "s \<le> served (mem c)" "ticket_next (tickets (mem c)) = of_nat (drawn (mem c))"
    "drawn (mem c) = served (mem c) + queue_length (base c)"
    using assms(1,2) by (auto simp: ttry_inv_def)
  have "s = drawn (mem c)" using wrapped_equal [of s "drawn (mem c)"] i assms(3,4) by simp
  then have "queue_length (base c) = 0" using i by simp
  then show ?thesis using assms(3) by (simp add: queue_length_def unat_eq_0)
qed

lemma ttry_inv_idle:
  assumes "ttry_inv n c" and "pc (base c) t = TicketIdle"
    and "P = TryBase TicketIdle \<or> (\<exists>k s. (P = TryNext k s \<or> P = TryCas k s) \<and> t < n \<and> k = of_nat s \<and> s \<le> served (mem c))"
  shows "ttry_inv n (goto t P (mem c) c)" and "base (goto t P (mem c) c) = base c"
proof -
  show b: "base (goto t P (mem c) c) = base c" using assms(2,3) by (auto simp: base_def goto_def fun_eq_iff)
  show "ttry_inv n (goto t P (mem c) c)"
    using assms(1,3) unfolding ttry_inv_def b by (auto simp: fun_upd_apply split: if_splits)
qed

lemma owner_served: "ttry_inv n c \<Longrightarrow> ticket_owner (tickets (mem c)) = of_nat (served (mem c))"
proof -
  assume "ttry_inv n c"
  then have "ticket_next (tickets (mem c)) = of_nat (served (mem c)) + of_nat (queue_length (base c))"
    by (simp add: ttry_inv_def)
  then show ?thesis by (simp add: queue_length_def)
qed

lemma ttry_inv_count:
  assumes "n < 2 ^ 32" and "ttry_inv n c" and "ticket_step n t (base c) d"
  shows "ttry_inv n (goto t (TryBase (pc d t)) (count (mem c) (mem d)) c)"
    and "base (goto t (TryBase (pc d t)) (count (mem c) (mem d)) c) = d"
proof -
  have i: "ticket_inv n (base c)" "ticket_next (mem (base c)) = of_nat (drawn (mem c))" "drawn (mem c) = served (mem c) + queue_length (base c)"
    "\<And>t k s. pc c t = TryNext k s \<or> pc c t = TryCas k s \<Longrightarrow> t < n \<and> k = of_nat s \<and> s \<le> served (mem c)"
    using assms(2) by (auto simp: ttry_inv_def)
  show b: "base (goto t (TryBase (pc d t)) (count (mem c) (mem d)) c) = d" using ticket_step_frame [OF assms(3)] by simp
  note cs = count_step [OF assms(1) i(1) assms(3) _ i(2,3)]
  show "ttry_inv n (goto t (TryBase (pc d t)) (count (mem c) (mem d)) c)"
    unfolding ttry_inv_def b using cs ticket_inv_step [OF assms(1) i(1) assms(3)] i(4) by (auto split: if_splits dest: order_trans)
qed

lemma run_step: "ticket_step n t c d \<Longrightarrow> (some_step (ticket_step n))\<^sup>*\<^sup>* c d"
  by (rule r_into_rtranclp) (auto simp: some_step_def)

lemma count_count [simp]: "count (count m m') m' = count m m'"
  by (simp add: count_def)

text \<open>On an empty queue it is \<open>lock\<close> without waiting.\<close>

lemma try_draws:
  assumes "n < 2 ^ 32" and "ttry_inv n c" and "t < n" and "pc (base c) t = TicketIdle"
    and "ticket_owner (mem (base c)) = ticket_next (mem (base c))"
    and "c' = goto t (TryBase TicketHeld) (count (mem c) ((mem (base c))\<lparr>ticket_next := ticket_next (mem (base c)) + 1\<rparr>)) c"
  shows "ttry_inv n c' \<and> (some_step (ticket_step n))\<^sup>*\<^sup>* (base c) (base c')"
proof -
  let ?k = "ticket_next (mem (base c))"
  let ?d = "goto t (TicketWait ?k) ((mem (base c))\<lparr>ticket_next := ?k + 1\<rparr>) (base c)"
  let ?c1 = "goto t (TryBase (pc ?d t)) (count (mem c) (mem ?d)) c" and ?e = "goto t TicketHeld (mem ?d) ?d"
  have draw: "ticket_step n t (base c) ?d" using assms(3,4) by (rule ticket_step.draw)
  note one = ttry_inv_count [OF assms(1,2) draw]
  have enter: "ticket_step n t ?d ?e" using assms(5) by (intro ticket_step.enter) simp_all
  have "c' = goto t (TryBase (pc ?e t)) (count (mem ?c1) (mem ?e)) ?c1" using assms(6) by simp
  then have "ttry_inv n c'" "base c' = ?e" using ttry_inv_count [OF assms(1) one(1)] enter unfolding one(2) by blast+
  then show ?thesis using rtranclp_trans [OF run_step [OF draw] run_step [OF enter]] by simp
qed

lemma ttry_simulated:
  assumes "n < 2 ^ 32" and "ttry_inv n c" and "prompt_step n t c c'"
  shows "ttry_inv n c' \<and> (some_step (ticket_step n))\<^sup>*\<^sup>* (base c) (base c')"
proof -
  have step: "ttry_step n t c c'" and prompt: "\<And>k s. pc c t = TryCas k s \<Longrightarrow> drawn (mem c) < s + 2 ^ 32"
    using assms(3) by (auto simp: prompt_step_def)
  have inside: "t < n \<and> k = of_nat s \<and> s \<le> served (mem c)" if "pc c t = TryNext k s \<or> pc c t = TryCas k s" for k s
    using assms(2) that by (auto simp: ttry_inv_def)
  have idle: "pc (base c) t = TicketIdle" if "\<forall>p. pc c t = TryBase p \<longrightarrow> p = TicketIdle"
    using that by (auto simp: base_def split: ttry_pc.split)
  show ?thesis using step
  proof (rule ttry_stepE)
    fix p d assume "c' = goto t (TryBase (pc d t)) (count (mem c) (mem d)) c" "ticket_step n t (base c) d"
    then show ?thesis using ttry_inv_count [OF assms(1,2)] run_step by auto
  next
    fix s assume c': "c' = goto t (TryBase TicketHeld)
        (count (mem c) ((tickets (mem c))\<lparr>ticket_next := ticket_next (tickets (mem c)) + 1\<rparr>)) c"
      and cas: "pc c t = TryCas (ticket_next (tickets (mem c))) s"
    have "t < n" "pc (base c) t = TicketIdle" "ticket_owner (mem (base c)) = ticket_next (mem (base c))"
      using inside idle cas cas_empty [OF assms(2) cas refl prompt [OF cas]] by auto
    then show ?thesis using try_draws [OF assms(1,2)] c' by simp
  qed (use assms(2) inside idle owner_served [OF assms(2)] in \<open>auto simp: ttry_inv_idle goto_base\<close>)
qed

lemma ttry_inv_start: "ttry_inv n ttry_start" and base_start: "base ttry_start = ticket_start"
proof -
  show b: "base ttry_start = ticket_start" by (simp add: base_def ttry_start_def ticket_start_def)
  show "ttry_inv n ttry_start" unfolding ttry_inv_def b using ticket_inv_start by (simp add: ttry_start_def ticket_start_def queue_length_def)
qed

lemma ttry_reachable:
  assumes "n < 2 ^ 32" and "reachable ttry_start (prompt_step n) c"
  shows "ttry_inv n c \<and> reachable ticket_start (ticket_step n) (base c)"
  using assms(2)
proof (induction rule: reachable_induct)
  case start
  then show ?case using ttry_inv_start base_start by (simp add: reachable_refl)
next
  case (move t c c')
  then show ?case using ttry_simulated [OF assms(1)] unfolding reachable_def by (meson rtranclp_trans)
qed

definition ttry_holds :: "ttry_config \<Rightarrow> thread \<Rightarrow> bool" where
  "ttry_holds c t \<longleftrightarrow> pc c t = TryBase TicketHeld \<or> (\<exists>k. pc c t = TryBase (TicketStore k))"

lemma ttry_holds_base: "ttry_holds c = ticket_holds (base c)"
  by (auto simp: fun_eq_iff ttry_holds_def ticket_holds_def base_def split: ttry_pc.splits ticket_pc.splits)

lemma no_holder: "ticket_inv n c \<Longrightarrow> queue_length c = 0 \<Longrightarrow> \<not> ticket_holds c s"
  using queue_length_card finite_queued holds_queued by fastforce

lemma ttry_acquire:
  assumes "ttry_inv n c" and "prompt_step n t c c'" and "ttry_holds c' t" and "\<not> ttry_holds c t"
  shows "\<not> ttry_holds c s"
proof -
  have inv: "ticket_inv n (base c)" using assms(1) by (simp add: ttry_inv_def)
  have step: "ttry_step n t c c'" and prompt: "\<And>k s. pc c t = TryCas k s \<Longrightarrow> drawn (mem c) < s + 2 ^ 32"
    using assms(2) by (auto simp: prompt_step_def)
  show ?thesis using step
  proof (rule ttry_stepE)
    fix p d assume c': "c' = goto t (TryBase (pc d t)) (count (mem c) (mem d)) c" and d: "ticket_step n t (base c) d"
    have "base c' = d" using c' ticket_step_frame [OF d] by simp
    then show ?thesis using ticket_acquire(2) [OF inv d, of s] assms(3,4) by (simp add: ttry_holds_base)
  next
    fix s' assume "pc c t = TryCas (ticket_next (tickets (mem c))) s'"
    then have "queue_length (base c) = 0" using cas_empty [OF assms(1) _ refl] prompt by (simp add: queue_length_def)
    then show ?thesis using no_holder [OF inv] by (simp add: ttry_holds_base)
  qed (use assms(3) in \<open>auto simp: ttry_holds_def\<close>)
qed

lemma ttry_mutex:
  assumes "n < 2 ^ 32"
  shows "mutex ttry_start (prompt_step n) ttry_holds (ttry_inv n)"
proof
  fix t s :: thread and c c' :: ttry_config
  show "ttry_inv n ttry_start" by (rule ttry_inv_start)
  show "ttry_inv n c'" if "ttry_inv n c" "prompt_step n t c c'" using ttry_simulated [OF assms that] ..
  show "\<not> ttry_holds ttry_start t" by (simp add: ttry_holds_def ttry_start_def)
  show "ttry_holds c' s \<longleftrightarrow> ttry_holds c s" if "prompt_step n t c c'" "s \<noteq> t"
  proof -
    have "pc c' s = pc c s" using that unfolding prompt_step_def by (auto elim: ttry_stepE)
    then show ?thesis by (simp add: ttry_holds_def)
  qed
  show "\<not> ttry_holds c s" if "ttry_inv n c" "prompt_step n t c c'" "ttry_holds c' t" "\<not> ttry_holds c t"
    using that by (rule ttry_acquire)
qed

interpretation ttry64: mutex ttry_start "prompt_step 64" ttry_holds "ttry_inv 64"
  by (rule ttry_mutex) simp

text \<open>
  C27. The ticket lock with \<open>try_lock\<close>, for fewer threads than tickets: as long as at every compare-and-exchange
  of \<open>try_lock\<close> fewer than 2 ^ 32 tickets have been drawn beyond those that were served when the thread read the
  owner, every run is, step by step, a run of the abstract lock in which the same threads move; and every
  configuration is one of the lock without \<open>try_lock\<close>.
\<close>

theorem ticket_try_refines:
  assumes "n < 2 ^ 32" and "follows (prompt_step n) ttry_start tr"
  shows "(\<exists>as. follows lock_step None (zip (map fst tr) as) \<and> list_all2 (owned_by ttry_holds) (map snd tr) as) \<and>
    (\<forall>c \<in> set (map snd tr). reachable ticket_start (ticket_step n) (base c))"
proof -
  have "\<forall>c \<in> set (map snd tr). reachable ttry_start (prompt_step n) c"
    using follows_reachable [OF assms(2) reachable_refl] .
  then show ?thesis using mutex.refines [OF ttry_mutex [OF assms(1)] assms(2)] ttry_reachable [OF assms(1)] by blast
qed

lemma try_steps:
  assumes "t < n"
  shows "prompt_step n t ttry_start (goto t (TryNext 0 0) (mem ttry_start) ttry_start)"
    and "prompt_step n t (goto t (TryNext 0 0) (mem ttry_start) ttry_start) (goto t (TryCas 0 0) (mem ttry_start) ttry_start)"
proof -
  let ?m = "mem ttry_start" and ?c = "goto t (TryNext 0 0) (mem ttry_start) ttry_start"
  have zero: "ticket_owner (tickets ?m) = 0" "ticket_next (tickets ?m) = 0" "served ?m = 0" "pc ttry_start t = TryBase TicketIdle"
    by (simp_all add: ttry_start_def ticket_start_def)
  show "prompt_step n t ttry_start ?c" using ttry_step.load_owner [OF assms zero(4)] zero by (simp add: prompt_step_def)
  show "prompt_step n t ?c (goto t (TryCas 0 0) ?m ttry_start)"
    using ttry_step.load_next [of ?c t 0 0 n] zero by (simp add: prompt_step_def)
qed

theorem ticket_try_refines_witness:
  "\<exists>tr as. follows (prompt_step 64) ttry_start tr \<and> length tr = 3 \<and> ttry_holds (snd (last tr)) 0 \<and>
     follows lock_step None (zip (map fst tr) as) \<and> list_all2 (owned_by ttry_holds) (map snd tr) as"
proof -
  let ?b = "goto 0 (TryNext 0 0) (mem ttry_start) ttry_start" and ?c = "goto 0 (TryCas 0 0) (mem ttry_start) ttry_start"
  let ?d = "goto 0 (TryBase TicketHeld) (count (mem ?c) ((tickets (mem ?c))\<lparr>ticket_next := 0 + 1\<rparr>)) ?c"
  let ?tr = "[(0, ?b), (0, ?c), (0, ?d)]"
  have "prompt_step 64 0 ?c ?d"
    using ttry_step.cas_succeeds [of ?c 0 0 0 64] by (simp add: prompt_step_def ttry_start_def ticket_start_def)
  then have tr: "follows (prompt_step 64) ttry_start ?tr" using try_steps [of 0 64] by simp
  have "ttry_holds (snd (last ?tr)) 0" by (simp add: ttry_holds_def)
  then show ?thesis using ticket_try_refines [OF _ tr] tr by (intro exI [of _ ?tr]) auto
qed

section \<open>Counters that go round\<close>

lemma wrapped_dvd:
  assumes "s \<le> d"
  shows "(of_nat d :: 32 word) = of_nat s \<longleftrightarrow> 2 ^ 32 dvd d - s"
proof -
  have "(of_nat d :: 32 word) = of_nat s \<longleftrightarrow> unat (of_nat d :: 32 word) = unat (of_nat s :: 32 word)"
    by (rule word_unat_eq_iff)
  also have "\<dots> \<longleftrightarrow> d mod 2 ^ 32 = s mod 2 ^ 32" unfolding unat_of_nat by simp
  also have "\<dots> \<longleftrightarrow> 2 ^ 32 dvd d - s" using assms mod_eq_dvd_iff_nat by blast
  finally show ?thesis .
qed

lemma cas_round:
  assumes "ttry_inv n c" and "pc c t = TryCas k s"
  shows "(\<exists>c'. ttry_step n t c c' \<and> ttry_holds c' t) \<longleftrightarrow> 2 ^ 32 dvd drawn (mem c) - s"
proof -
  have i: "k = of_nat s" "s \<le> served (mem c)" "served (mem c) \<le> drawn (mem c)" "ticket_next (tickets (mem c)) = of_nat (drawn (mem c))"
    using assms by (auto simp: ttry_inv_def simp del: of_nat_add)
  have "(\<exists>c'. ttry_step n t c c' \<and> ttry_holds c' t) \<longleftrightarrow> ticket_next (tickets (mem c)) = k"
  proof
    assume "\<exists>c'. ttry_step n t c c' \<and> ttry_holds c' t"
    then show "ticket_next (tickets (mem c)) = k" using assms(2) by (auto simp: ttry_holds_def elim!: ttry_stepE)
  next
    assume "ticket_next (tickets (mem c)) = k"
    then show "\<exists>c'. ttry_step n t c c' \<and> ttry_holds c' t"
      using ttry_step.cas_succeeds [OF assms(2), of n] by (intro exI conjI) (auto simp: ttry_holds_def)
  qed
  then show ?thesis using wrapped_dvd [OF order_trans [OF i(2,3)]] i(1,4) by simp
qed

definition round_inv :: "nat \<Rightarrow> 32 word \<Rightarrow> ticket_pc \<Rightarrow> ttry_config \<Rightarrow> bool" where
  \<comment> \<open>thread 1 waits in \<open>try\_lock\<close> while thread 0 takes and releases the lock\<close>
  "round_inv d w p c \<longleftrightarrow> reachable ttry_start (prompt_step 2) c \<and> pc c 1 = TryCas 0 0 \<and> pc c 0 = TryBase p \<and>
     drawn (mem c) = d \<and> tickets (mem c) = \<lparr>ticket_next = of_nat d, ticket_owner = w\<rparr>"

lemma round_step:
  assumes "round_inv d w p c" and "ticket_step 2 0 (base c) e"
    and "mem e = \<lparr>ticket_next = of_nat d', ticket_owner = w'\<rparr>" and "d' = (if ticket_next (mem e) = of_nat d then d else Suc d)"
  shows "\<exists>c'. round_inv d' w' (pc e 0) c'"
proof -
  let ?c = "goto 0 (TryBase (pc e 0)) (count (mem c) (mem e)) c"
  have r: "reachable ttry_start (prompt_step 2) c" "pc c 1 = TryCas 0 0" "pc c 0 = TryBase p" "drawn (mem c) = d"
    "ticket_next (tickets (mem c)) = of_nat d" using assms(1) by (auto simp: round_inv_def)
  have "prompt_step 2 0 c ?c" using ttry_step.other [OF r(3) assms(2)] r(3) by (simp add: prompt_step_def)
  then have "reachable ttry_start (prompt_step 2) ?c" using reachable_step [OF r(1)] by blast
  moreover have "drawn (count (mem c) (mem e)) = d'" using r(4,5) assms(4) by (simp add: count_def)
  ultimately show ?thesis using r(2) assms(3) by (intro exI [of _ ?c]) (simp add: round_inv_def)
qed

lemma round_draw:
  assumes "round_inv d (of_nat d) TicketIdle c"
  shows "\<exists>c'. round_inv (Suc d) (of_nat d) TicketHeld c'"
proof -
  have b: "pc (base c) 0 = TicketIdle" "mem (base c) = \<lparr>ticket_next = of_nat d, ticket_owner = of_nat d\<rparr>"
    using assms by (auto simp: round_inv_def)
  obtain c1 where c1: "round_inv (Suc d) (of_nat d) (TicketWait (of_nat d)) c1"
    using round_step [OF assms ticket_step.draw [OF _ b(1)], of "Suc d" "of_nat d"] b(2) by (auto simp: add.commute)
  then have "pc (base c1) 0 = TicketWait (of_nat d)" "mem (base c1) = \<lparr>ticket_next = of_nat (Suc d), ticket_owner = of_nat d\<rparr>"
    by (auto simp: round_inv_def)
  then show ?thesis using round_step [OF c1 ticket_step.enter, of "of_nat d" "Suc d" "of_nat d"] by simp
qed

lemma round_release:
  assumes "round_inv (Suc d) (of_nat d) TicketHeld c"
  shows "\<exists>c'. round_inv (Suc d) (of_nat (Suc d)) TicketIdle c'"
proof -
  have b: "pc (base c) 0 = TicketHeld" "mem (base c) = \<lparr>ticket_next = of_nat (Suc d), ticket_owner = of_nat d\<rparr>"
    using assms by (auto simp: round_inv_def)
  obtain c1 where c1: "round_inv (Suc d) (of_nat d) (TicketStore (of_nat d)) c1"
    using round_step [OF assms ticket_step.unlock_load [OF b(1)], of "Suc d" "of_nat d"] b(2) by auto
  then have "pc (base c1) 0 = TicketStore (of_nat d)" "mem (base c1) = \<lparr>ticket_next = of_nat (Suc d), ticket_owner = of_nat d\<rparr>"
    by (auto simp: round_inv_def)
  then show ?thesis
    using round_step [OF c1 ticket_step.unlock_store, of "of_nat d" "Suc d" "of_nat (Suc d)"] by (simp add: add.commute)
qed

lemma rounds: "\<exists>c. round_inv d (of_nat d) TicketIdle c"
proof (induction d)
  case 0
  let ?b = "goto 1 (TryNext 0 0) (mem ttry_start) ttry_start" and ?c = "goto 1 (TryCas 0 0) (mem ttry_start) ttry_start"
  have "reachable ttry_start (prompt_step 2) ?c"
    using reachable_step [OF reachable_step [where step = "prompt_step 2", OF reachable_refl try_steps(1) [of 1 2]] try_steps(2) [of 1 2]] by simp
  then show ?case by (intro exI [of _ ?c]) (simp add: round_inv_def ttry_start_def ticket_start_def)
next
  case (Suc d)
  then show ?case using round_draw round_release by blast
qed

text \<open>
  C28. The compare-and-exchange of \<open>try_lock\<close>, in a run that kept to that condition so far: it succeeds exactly if
  the number of tickets drawn beyond those served at the read of the owner is a multiple of 2 ^ 32, whether or not the lock
  is free. There is such a run in which this number is 2 ^ 32 itself: the lock is held, the exchange succeeds,
  and two threads hold it.
\<close>

theorem ticket_try_wraps:
  assumes "n < 2 ^ 32" and "reachable ttry_start (prompt_step n) c" and "pc c t = TryCas k s"
  shows "((\<exists>c'. ttry_step n t c c' \<and> ttry_holds c' t) \<longleftrightarrow> 2 ^ 32 dvd drawn (mem c) - s) \<and>
    (\<exists>d d'. reachable ttry_start (prompt_step 2) d \<and> pc d 1 = TryCas 0 0 \<and> drawn (mem d) = 2 ^ 32 \<and> ttry_holds d 0 \<and>
       ttry_step 2 1 d d' \<and> ttry_holds d' 0 \<and> ttry_holds d' 1)"
proof -
  obtain d where d: "round_inv (Suc (2 ^ 32 - 1)) (of_nat (2 ^ 32 - 1)) TicketHeld d" using rounds round_draw by blast
  have z: "Suc (2 ^ 32 - 1) = 2 ^ 32" by simp
  have b: "reachable ttry_start (prompt_step 2) d" "pc d 1 = TryCas 0 0" "drawn (mem d) = 2 ^ 32" "pc d 0 = TryBase TicketHeld"
    "ticket_next (tickets (mem d)) = 0"
    using d unfolding round_inv_def z by auto
  have "\<exists>d'. ttry_step 2 1 d d' \<and> ttry_holds d' 0 \<and> ttry_holds d' 1"
    using ttry_step.cas_succeeds [OF b(2,5), of 2] b(4) by (intro exI conjI) (auto simp: ttry_holds_def)
  moreover have "ttry_holds d 0" using b(4) by (simp add: ttry_holds_def)
  ultimately show ?thesis using cas_round [OF conjunct1 [OF ttry_reachable [OF assms(1,2)]] assms(3)] b(1-3) by blast
qed

theorem ticket_try_wraps_witness:
  "(\<exists>c'. ttry_step 2 1 (goto 1 (TryCas 0 0) (mem ttry_start) ttry_start) c' \<and> ttry_holds c' 1) \<and>
   (\<exists>d d'. ttry_holds d 0 \<and> ttry_step 2 1 d d' \<and> ttry_holds d' 0 \<and> ttry_holds d' 1)"
proof -
  let ?c = "goto 1 (TryCas 0 0) (mem ttry_start) ttry_start"
  have "reachable ttry_start (prompt_step 2) ?c"
    using reachable_step [OF reachable_step [where step = "prompt_step 2", OF reachable_refl try_steps(1) [of 1 2]] try_steps(2) [of 1 2]] by simp
  from ticket_try_wraps [OF _ this, of 1 0 0] show ?thesis by (auto simp: ttry_start_def)
qed

end
