(* ===== verification/ReaderLocks.thy ===== *)
theory ReaderLocks
  imports Mutex "HOL-Library.Word"
begin

text \<open>
  \<open>include/primitives/rw_lock.hpp\<close>, a counter of readers that is minus one while a writer is inside,
  and \<open>include/primitives/occ.hpp\<close>, a version number that is odd while a writer is inside and that
  optimistic readers compare before and after they read. The counter is an integer: the invariant
  shows that it never leaves the range of its 32 bits; it is one variable, whose operations take effect in one
  order. The version number has 64 bits and wraps around; version and data are two variables, and the machine
  takes one of the three memories of \<open>Mutex\<close>.
\<close>

section \<open>Readers and writers\<close>

datatype rw_pc =
    RwIdle
  | RwLoad          \<comment> \<open>\<open>read_lock\<close>, about to load the counter\<close>
  | RwCas int       \<comment> \<open>\<open>read_lock\<close>, about to exchange\<close>
  | RwTryCas int    \<comment> \<open>\<open>try_read_lock\<close>, about to exchange\<close>
  | RwReading
  | RwTry           \<comment> \<open>\<open>write_lock\<close>\<close>
  | RwWriting

type_synonym rw_config = "(int, rw_pc) config"

definition rw_start :: rw_config where
  "rw_start = \<lparr>mem = 0, pc = \<lambda>t. RwIdle\<rparr>"

inductive rw_step :: "nat \<Rightarrow> thread \<Rightarrow> rw_config \<Rightarrow> rw_config \<Rightarrow> bool" for n where
  read_call: "t < n \<Longrightarrow> pc c t = RwIdle \<Longrightarrow> rw_step n t c (goto t RwLoad (mem c) c)"
| load_free: "pc c t = RwLoad \<Longrightarrow> 0 \<le> mem c \<Longrightarrow> rw_step n t c (goto t (RwCas (mem c)) (mem c) c)"
| load_busy: "pc c t = RwLoad \<Longrightarrow> mem c < 0 \<Longrightarrow> rw_step n t c (goto t RwLoad (mem c) c)"
| cas_ok: "pc c t = RwCas s \<Longrightarrow> mem c = s \<Longrightarrow> rw_step n t c (goto t RwReading (s + 1) c)"
| cas_fail: "pc c t = RwCas s \<Longrightarrow> rw_step n t c (goto t RwLoad (mem c) c)"
| read_unlock: "pc c t = RwReading \<Longrightarrow> rw_step n t c (goto t RwIdle (mem c - 1) c)"
| write_call: "t < n \<Longrightarrow> pc c t = RwIdle \<Longrightarrow> rw_step n t c (goto t RwTry (mem c) c)"
| write_ok: "pc c t = RwTry \<Longrightarrow> mem c = 0 \<Longrightarrow> rw_step n t c (goto t RwWriting (- 1) c)"
| write_fail: "pc c t = RwTry \<Longrightarrow> rw_step n t c (goto t RwTry (mem c) c)"
| write_unlock: "pc c t = RwWriting \<Longrightarrow> rw_step n t c (goto t RwIdle 0 c)"
| try_write_ok: "t < n \<Longrightarrow> pc c t = RwIdle \<Longrightarrow> mem c = 0 \<Longrightarrow> rw_step n t c (goto t RwWriting (- 1) c)"
| try_write_fail: "pc c t = RwIdle \<Longrightarrow> mem c \<noteq> 0 \<Longrightarrow> rw_step n t c (goto t RwIdle (mem c) c)"
| try_read_busy: "pc c t = RwIdle \<Longrightarrow> mem c < 0 \<Longrightarrow> rw_step n t c (goto t RwIdle (mem c) c)"
| try_read_free: "t < n \<Longrightarrow> pc c t = RwIdle \<Longrightarrow> 0 \<le> mem c \<Longrightarrow> rw_step n t c (goto t (RwTryCas (mem c)) (mem c) c)"
| try_read_ok: "pc c t = RwTryCas s \<Longrightarrow> mem c = s \<Longrightarrow> rw_step n t c (goto t RwReading (s + 1) c)"
| try_read_fail: "pc c t = RwTryCas s \<Longrightarrow> mem c \<noteq> s \<Longrightarrow> rw_step n t c (goto t RwIdle (mem c) c)"

inductive_cases rw_stepE: "rw_step n t c c'"

definition readers :: "rw_config \<Rightarrow> thread set" where
  "readers c = {t. pc c t = RwReading}"

definition writers :: "rw_config \<Rightarrow> thread set" where
  "writers c = {t. pc c t = RwWriting}"

definition rw_inv :: "nat \<Rightarrow> rw_config \<Rightarrow> bool" where
  "rw_inv n c \<longleftrightarrow> (\<forall>t. pc c t \<noteq> RwIdle \<longrightarrow> t < n) \<and> (\<forall>t s. pc c t \<in> {RwCas s, RwTryCas s} \<longrightarrow> 0 \<le> s) \<and>
     (writers c = {} \<and> mem c = int (card (readers c)) \<or> (\<exists>w. writers c = {w}) \<and> readers c = {} \<and> mem c = - 1)"

lemma rw_goto:
  "readers (goto t p m c) = (if p = RwReading then insert t (readers c) else readers c - {t})"
  "writers (goto t p m c) = (if p = RwWriting then insert t (writers c) else writers c - {t})"
  by (auto simp: readers_def writers_def)

lemma rw_outside: "pc c t \<noteq> RwReading \<Longrightarrow> t \<notin> readers c" "pc c t \<noteq> RwWriting \<Longrightarrow> t \<notin> writers c"
  by (simp_all add: readers_def writers_def)

lemma finite_readers: "rw_inv n c \<Longrightarrow> finite (readers c)"
  by (rule finite_subset [of _ "{..<n}"]) (auto simp: rw_inv_def readers_def)

lemma rw_inv_same:
  assumes "rw_inv n c" and "t < n \<or> p = RwIdle" and "pc c t \<noteq> RwReading" and "pc c t \<noteq> RwWriting"
    and "p \<noteq> RwReading" and "p \<noteq> RwWriting" and "\<And>s. p \<in> {RwCas s, RwTryCas s} \<Longrightarrow> 0 \<le> s"
  shows "rw_inv n (goto t p (mem c) c)"
proof -
  have "readers (goto t p (mem c) c) = readers c" "writers (goto t p (mem c) c) = writers c"
    using assms(5,6) rw_outside [of c t] assms(3,4) by (simp_all add: rw_goto)
  then show ?thesis using assms(1,2,7) by (auto simp: rw_inv_def)
qed

lemma rw_inv_read:
  assumes "rw_inv n c" and "pc c t \<in> {RwCas (mem c), RwTryCas (mem c)}"
  shows "rw_inv n (goto t RwReading (mem c + 1) c)"
proof -
  have "0 \<le> mem c" "t < n" using assms by (auto simp: rw_inv_def)
  then have c: "writers c = {}" "mem c = int (card (readers c))" using assms(1) by (auto simp: rw_inv_def)
  have t: "t \<notin> readers c" "t \<notin> writers c" using assms(2) by (auto intro!: rw_outside)
  show ?thesis
    using assms(1) c t \<open>t < n\<close> finite_readers [OF assms(1)] by (auto simp: rw_inv_def rw_goto)
qed

lemma rw_inv_read_unlock:
  assumes "rw_inv n c" and "pc c t = RwReading"
  shows "rw_inv n (goto t RwIdle (mem c - 1) c)"
proof -
  have t: "t \<in> readers c" using assms(2) by (simp add: readers_def)
  then have "writers c = {}" "mem c = int (card (readers c))" "0 < card (readers c)"
    using assms(1) finite_readers [OF assms(1)] by (auto simp: rw_inv_def card_gt_0_iff)
  then show ?thesis using assms(1) t by (auto simp: rw_inv_def rw_goto of_nat_diff)
qed

lemma rw_inv_write:
  assumes "rw_inv n c" and "t < n" and "pc c t \<in> {RwTry, RwIdle}" and "mem c = 0"
  shows "rw_inv n (goto t RwWriting (- 1) c)"
proof -
  have "writers c = {}" "readers c = {}" using assms(1,4) finite_readers [OF assms(1)] by (auto simp: rw_inv_def)
  then show ?thesis using assms(1,2) by (auto simp: rw_inv_def rw_goto)
qed

lemma rw_inv_write_unlock:
  assumes "rw_inv n c" and "pc c t = RwWriting"
  shows "rw_inv n (goto t RwIdle 0 c)"
proof -
  have "t \<in> writers c" using assms(2) by (simp add: writers_def)
  then have "writers c = {t}" "readers c = {}" using assms(1) by (auto simp: rw_inv_def)
  then show ?thesis using assms(1) by (auto simp: rw_inv_def rw_goto)
qed

lemma rw_inv_step: "rw_inv n c \<Longrightarrow> rw_step n t c c' \<Longrightarrow> rw_inv n c'"
proof -
  assume inv: "rw_inv n c" and step: "rw_step n t c c'"
  have n: "pc c t \<noteq> RwIdle \<Longrightarrow> t < n" using inv by (simp add: rw_inv_def)
  show ?thesis
    using step inv n
    by cases (auto intro!: rw_inv_same rw_inv_read rw_inv_read_unlock rw_inv_write rw_inv_write_unlock)
qed

lemma rw_mutex: "mutex rw_start (rw_step n) (\<lambda>c t. pc c t = RwWriting) (rw_inv n)"
proof
  fix t :: thread and c c' :: rw_config
  show "rw_inv n rw_start" by (auto simp: rw_inv_def rw_start_def readers_def writers_def)
  show "rw_inv n c'" if "rw_inv n c" "rw_step n t c c'" using that by (rule rw_inv_step)
  show "pc c s \<noteq> RwWriting" if "rw_inv n c" "rw_step n t c c'" "pc c' t = RwWriting" "pc c t \<noteq> RwWriting" for s
    using that(2)
  proof (rule rw_stepE)
  qed (use that in \<open>auto simp: rw_inv_def writers_def\<close>)
qed (auto simp: rw_start_def elim: rw_stepE)

interpretation rw64: mutex rw_start "rw_step 64" "\<lambda>c t. pc c t = RwWriting" "rw_inv 64"
  by (rule rw_mutex)

text \<open>
  C34. The reader-writer lock: while a thread writes no other thread is inside, neither writing nor
  reading, and the counter always lies between minus one and the number of threads, so that with
  fewer than \<open>2 ^ 31\<close> threads it never overflows its 32 bits.
\<close>

theorem rw_lock_exclusion:
  assumes "reachable rw_start (rw_step n) c"
  shows "(pc c w = RwWriting \<longrightarrow> (\<forall>t. t \<noteq> w \<longrightarrow> pc c t \<noteq> RwWriting \<and> pc c t \<noteq> RwReading)) \<and>
    - 1 \<le> mem c \<and> mem c \<le> int n \<and> (n < 2 ^ 31 \<longrightarrow> mem c < 2 ^ 31)"
proof -
  have inv: "rw_inv n c" using mutex.reachable_inv [OF rw_mutex assms] .
  have "readers c \<subseteq> {..<n}" using inv by (auto simp: rw_inv_def readers_def)
  then have "card (readers c) \<le> n" using card_mono [of "{..<n}" "readers c"] by simp
  then have range: "- 1 \<le> mem c" "mem c \<le> int n" using inv by (auto simp: rw_inv_def)
  have "pc c t \<noteq> RwWriting \<and> pc c t \<noteq> RwReading" if "pc c w = RwWriting" "t \<noteq> w" for t
  proof -
    have "w \<in> writers c" using that(1) by (simp add: writers_def)
    then have "writers c = {w}" "readers c = {}" using inv by (auto simp: rw_inv_def)
    then show ?thesis using that(2) by (auto simp: writers_def readers_def)
  qed
  moreover have "n < 2 ^ 31 \<longrightarrow> mem c < 2 ^ 31" using range(2) by simp
  ultimately show ?thesis using range by blast
qed

theorem rw_lock_exclusion_witness:
  "pc (goto 2 RwWriting (- 1) rw_start) 3 \<noteq> RwWriting \<and> pc (goto 2 RwWriting (- 1) rw_start) 3 \<noteq> RwReading"
proof -
  have "reachable rw_start (rw_step 64) (goto 2 RwWriting (- 1) rw_start)"
    using reachable_step [where step = "rw_step 64", OF reachable_refl rw_step.try_write_ok [of 2 64 rw_start]] by (simp add: rw_start_def)
  from rw_lock_exclusion [OF this, of 2] show ?thesis by auto
qed

section \<open>Optimistic reading\<close>

record occ_mem =
  occ_version :: "64 word"
  occ_data :: nat
  occ_buf :: "thread \<Rightarrow> nat list"  \<comment> \<open>stores to the data that are not in memory yet, oldest first\<close>
  occ_late :: bool                \<comment> \<open>the exchange that made the version odd is not seen by loads yet\<close>

datatype occ_pc = OccIdle | OccLoad | OccCas "64 word" | OccWriting

type_synonym occ_config = "(occ_mem, occ_pc) config"

definition occ_start :: occ_config where
  "occ_start = \<lparr>mem = \<lparr>occ_version = 0, occ_data = 0, occ_buf = \<lambda>t. [], occ_late = False\<rparr>, pc = \<lambda>t. OccIdle\<rparr>"

definition occ_seen :: "occ_mem \<Rightarrow> 64 word" where
  \<comment> \<open>what a load of the version returns; an exchange compares the version itself\<close>
  "occ_seen m = (if occ_late m then occ_version m - 1 else occ_version m)"

definition occ_store :: "memory \<Rightarrow> thread \<Rightarrow> nat \<Rightarrow> occ_mem \<Rightarrow> occ_mem" where
  "occ_store M t d m =
     (if M = StoreBuffers then m\<lparr>occ_buf := (occ_buf m)(t := occ_buf m t @ [d])\<rparr> else m\<lparr>occ_data := d\<rparr>)"

inductive occ_step :: "memory \<Rightarrow> thread \<Rightarrow> occ_config \<Rightarrow> occ_config \<Rightarrow> bool" for M where
  \<comment> \<open>an operation that reads and writes the version needs the buffer of its thread empty\<close>
  flush: "occ_buf (mem c) t = d # ds \<Longrightarrow>
    occ_step M t c (goto t (pc c t) ((mem c)\<lparr>occ_data := d, occ_buf := (occ_buf (mem c))(t := ds)\<rparr>) c)"
| appear: "occ_late (mem c) \<Longrightarrow> occ_step M t c (goto t (pc c t) ((mem c)\<lparr>occ_late := False\<rparr>) c)"
| lock_call: "pc c t = OccIdle \<Longrightarrow> occ_step M t c (goto t OccLoad (mem c) c)"
| load_odd: "pc c t = OccLoad \<Longrightarrow> odd (occ_seen (mem c)) \<Longrightarrow> occ_step M t c (goto t OccLoad (mem c) c)"
| load_even: "pc c t = OccLoad \<Longrightarrow> even (occ_seen (mem c)) \<Longrightarrow> occ_step M t c (goto t (OccCas (occ_seen (mem c))) (mem c) c)"
| cas_ok: "pc c t = OccCas v \<Longrightarrow> occ_buf (mem c) t = [] \<Longrightarrow> occ_version (mem c) = v \<Longrightarrow>
    occ_step M t c (goto t OccWriting ((mem c)\<lparr>occ_version := v + 1, occ_late := (M = LateExchange)\<rparr>) c)"
| cas_fail: "pc c t = OccCas v \<Longrightarrow> occ_buf (mem c) t = [] \<Longrightarrow> occ_step M t c (goto t OccLoad (mem c) c)"
| store: "pc c t = OccWriting \<Longrightarrow> occ_step M t c (goto t OccWriting (occ_store M t d (mem c)) c)"
| unlock: "pc c t = OccWriting \<Longrightarrow> occ_buf (mem c) t = [] \<Longrightarrow>
    occ_step M t c (goto t OccIdle ((mem c)\<lparr>occ_version := occ_version (mem c) + 1, occ_late := False\<rparr>) c)"

inductive_cases occ_stepE: "occ_step M t c c'"

text \<open>What a reader does: one round of \<open>read_begin\<close>, which spins on an odd version, and \<open>read_validate\<close>.\<close>

definition occ_read_begin :: "occ_mem \<Rightarrow> 64 word option" where
  "occ_read_begin m = (if even (occ_seen m) then Some (occ_seen m) else None)"

definition occ_read_validate :: "64 word \<Rightarrow> occ_mem \<Rightarrow> bool" where
  "occ_read_validate start_version m \<longleftrightarrow> occ_seen m = start_version"

definition occ_inv :: "occ_config \<Rightarrow> bool" where
  "occ_inv c \<longleftrightarrow> \<not> occ_late (mem c) \<and> (odd (occ_version (mem c)) \<longleftrightarrow> (\<exists>t. pc c t = OccWriting)) \<and>
     (\<forall>s t. pc c s = OccWriting \<longrightarrow> pc c t = OccWriting \<longrightarrow> s = t) \<and> (\<forall>t v. pc c t = OccCas v \<longrightarrow> even v) \<and>
     (\<forall>t. occ_buf (mem c) t \<noteq> [] \<longrightarrow> pc c t = OccWriting)"

lemma occ_seen_version [simp]: "\<not> occ_late m \<Longrightarrow> occ_seen m = occ_version m"
  by (simp add: occ_seen_def)

lemma occ_store_simps [simp]: "occ_version (occ_store M t d m) = occ_version m" "occ_late (occ_store M t d m) = occ_late m"
  by (simp_all add: occ_store_def)

lemma occ_inv_step:
  assumes "occ_inv c" and "occ_step M t c c'" and "M \<noteq> LateExchange"
  shows "occ_inv c'"
proof -
  have i: "\<not> occ_late (mem c)" "odd (occ_version (mem c)) \<longleftrightarrow> (\<exists>t. pc c t = OccWriting)"
    "pc c s = OccWriting \<Longrightarrow> pc c r = OccWriting \<Longrightarrow> s = r" "pc c s = OccCas v \<Longrightarrow> even v"
    "occ_buf (mem c) s \<noteq> [] \<Longrightarrow> pc c s = OccWriting" for s r v
    using assms(1) by (auto simp: occ_inv_def)
  have w: "pc c' s = OccWriting \<longleftrightarrow> (if s = t then pc c' t = OccWriting else pc c s = OccWriting)" for s
    using assms(2) by (rule occ_stepE) auto
  have parity: "odd (occ_version (mem c')) \<longleftrightarrow>
      (if pc c t = OccWriting then pc c' t = OccWriting else odd (occ_version (mem c)) \<or> pc c' t = OccWriting)"
    using assms(2) by (rule occ_stepE) (use i(1) i(4) [of t] i(2) in auto)
  have enter: "even (occ_version (mem c))" if "pc c' t = OccWriting" "pc c t \<noteq> OccWriting"
    using assms(2) by (rule occ_stepE) (use that i(4) [of t] in auto)
  have late: "\<not> occ_late (mem c')" using assms(2) by (rule occ_stepE) (use i(1) assms(3) in auto)
  have cas: "even v" if "pc c' s = OccCas v" for s v
    using assms(2) by (rule occ_stepE) (use that i(1,4) in \<open>auto split: if_splits\<close>)
  have buf: "pc c' s = OccWriting" if "occ_buf (mem c') s \<noteq> []" for s
    using assms(2) by (rule occ_stepE) (use that i(5) i(5) [of t] in \<open>auto simp: occ_store_def split: if_splits\<close>)
  have one: "s = r" if "pc c' s = OccWriting" "pc c' r = OccWriting" for s r
    using that w [of s] w [of r] i(2) i(3) [of s r] i(3) [of s t] i(3) [of t r] enter by (metis (full_types))
  have "odd (occ_version (mem c')) \<longleftrightarrow> (\<exists>s. pc c' s = OccWriting)"
    using parity w i(2) i(3) by (metis (full_types))
  then show ?thesis using late cas buf one by (simp add: occ_inv_def)
qed

lemma occ_mutex: "M \<noteq> LateExchange \<Longrightarrow> mutex occ_start (occ_step M) (\<lambda>c t. pc c t = OccWriting) occ_inv"
proof
  fix t :: thread and c c' :: occ_config
  assume M: "M \<noteq> LateExchange"
  show "occ_inv occ_start" by (simp add: occ_inv_def occ_start_def)
  show "occ_inv c'" if "occ_inv c" "occ_step M t c c'" using that M by (rule occ_inv_step)
  show "pc c s \<noteq> OccWriting" if "occ_inv c" "occ_step M t c c'" "pc c' t = OccWriting" "pc c t \<noteq> OccWriting" for s
    using that(2) by (rule occ_stepE) (use that in \<open>auto simp: occ_inv_def\<close>)
qed (auto simp: occ_start_def elim: occ_stepE)

interpretation occ: mutex occ_start "occ_step OneOrder" "\<lambda>c t. pc c t = OccWriting" occ_inv
  by (rule occ_mutex) simp

interpretation occ_buffered: mutex occ_start "occ_step StoreBuffers" "\<lambda>c t. pc c t = OccWriting" occ_inv
  by (rule occ_mutex) simp

text \<open>A run, with the number of times the version changes.\<close>

inductive occ_run :: "memory \<Rightarrow> nat \<Rightarrow> occ_config \<Rightarrow> occ_config \<Rightarrow> bool" for M where
  stop: "occ_run M 0 c c"
| go: "occ_run M m c d \<Longrightarrow> occ_step M t d e \<Longrightarrow>
    occ_run M (if occ_version (mem e) = occ_version (mem d) then m else Suc m) c e"








text \<open>
  C33. With exchanges whose store may be late, as the acquire order of \<open>write_lock\<close> allows, optimistic reading is not
  sound: a reader begins, a writer locks and stores while loads still return the even version, and the reader validates
  although it saw the new data. The version changed only once.
\<close>

theorem occ_late_read:
  "\<exists>c d. reachable occ_start (occ_step LateExchange) c \<and> occ_read_begin (mem c) = Some 0 \<and> occ_run LateExchange 1 c d \<and>
     occ_read_validate 0 (mem d) \<and> occ_data (mem d) \<noteq> occ_data (mem c)"
proof -
  let ?s = "occ_step LateExchange"
  let ?m = "(mem occ_start)\<lparr>occ_version := 1, occ_late := True\<rparr>"
  let ?a = "goto 1 OccLoad (mem occ_start) occ_start" and ?b = "goto 1 (OccCas 0) (mem occ_start) occ_start"
  let ?c = "goto 1 OccWriting ?m occ_start" and ?d = "goto 1 OccWriting (?m\<lparr>occ_data := 7\<rparr>) occ_start"
  have "?s 1 occ_start ?a" by (rule occ_step.lock_call) (simp add: occ_start_def)
  from occ_run.go [OF occ_run.stop this] have a: "occ_run LateExchange 0 occ_start ?a" by simp
  have "?s 1 ?a ?b" using occ_step.load_even [of ?a 1 LateExchange] by (simp add: occ_start_def occ_seen_def)
  from occ_run.go [OF a this] have b: "occ_run LateExchange 0 occ_start ?b" by simp
  have "?s 1 ?b ?c" using occ_step.cas_ok [of ?b 1 0 LateExchange] by (simp add: occ_start_def)
  from occ_run.go [OF b this] have c: "occ_run LateExchange 1 occ_start ?c" by (simp add: occ_start_def)
  have "?s 1 ?c ?d" using occ_step.store [of ?c 1 LateExchange 7] by (simp add: occ_store_def)
  from occ_run.go [OF c this] have "occ_run LateExchange 1 occ_start ?d" by simp
  moreover have "occ_read_begin (mem occ_start) = Some 0" "occ_read_validate 0 (mem ?d)" "occ_data (mem ?d) \<noteq> occ_data (mem occ_start)"
    by (simp_all add: occ_start_def occ_read_begin_def occ_read_validate_def occ_seen_def)
  ultimately show ?thesis using reachable_refl [of occ_start "occ_step LateExchange"] by (intro exI conjI)
qed

end
