(* ===== verification/PcpuLocks.thy ===== *)
theory PcpuLocks
  imports Mutex
begin

text \<open>
  \<open>include/primitives/pcpu_rw_lock.hpp\<close> and \<open>pcpu_rw_lock_v2.hpp\<close>, reader-writer locks in which a
  reader counts itself in a slot of its own and a writer waits until all slots are empty. The slot of
  a thread is fixed at its first use; the machines take any assignment of slots. A counter is an
  integer; the invariant bounds it by the number of threads. The first lock is modelled on the three memories of
  \<open>Mutex\<close>: one order, store buffers, and exchanges whose store is late. The second is modelled on the first two.
\<close>

definition N_SLOTS :: nat where
  "N_SLOTS = 64"

definition slot_of_index :: "nat \<Rightarrow> nat" where
  \<comment> \<open>the slot of the thread that comes as number \<open>idx\<close>\<close>
  "slot_of_index idx = idx mod N_SLOTS"

lemma slot_of_index_bound: "slot_of_index idx < N_SLOTS"
  by (simp add: slot_of_index_def N_SLOTS_def)

section \<open>Counters\<close>

definition inside :: "('p \<Rightarrow> bool) \<Rightarrow> (thread \<Rightarrow> nat) \<Rightarrow> nat \<Rightarrow> (thread \<Rightarrow> 'p) \<Rightarrow> nat \<Rightarrow> thread set" where
  \<comment> \<open>the threads that are counted in a slot\<close>
  "inside published slot n pcs s = {t. t < n \<and> published (pcs t) \<and> slot t = s}"

definition counted :: "('p \<Rightarrow> bool) \<Rightarrow> (thread \<Rightarrow> nat) \<Rightarrow> nat \<Rightarrow> (thread \<Rightarrow> 'p) \<Rightarrow> (nat \<Rightarrow> int) \<Rightarrow> bool" where
  "counted published slot n pcs cnt \<longleftrightarrow> (\<forall>s. cnt s = int (card (inside published slot n pcs s)))"

lemma finite_inside [simp]: "finite (inside pub slot n pcs s)"
  by (rule finite_subset [of _ "{..<n}"]) (auto simp: inside_def)

lemma card_inside: "card (inside pub slot n pcs s) \<le> n"
  using card_mono [of "{..<n}" "inside pub slot n pcs s"] by (auto simp: inside_def)

lemma inside_upd:
  "inside pub slot n (pcs(t := p)) s =
     (if t < n \<and> slot t = s \<and> pub p then insert t (inside pub slot n pcs s) else inside pub slot n pcs s - {t})"
  by (auto simp: inside_def)

lemma counted_same: "counted pub slot n pcs cnt \<Longrightarrow> pub p = pub (pcs t) \<Longrightarrow> counted pub slot n (pcs(t := p)) cnt"
proof -
  assume c: "counted pub slot n pcs cnt" and p: "pub p = pub (pcs t)"
  have "inside pub slot n (pcs(t := p)) s = inside pub slot n pcs s" for s using p by (auto simp: inside_def)
  then show ?thesis using c by (simp add: counted_def)
qed

lemma counted_enter:
  assumes "counted pub slot n pcs cnt" and "t < n" and "\<not> pub (pcs t)" and "pub p"
  shows "counted pub slot n (pcs(t := p)) (cnt(slot t := cnt (slot t) + 1))"
proof -
  have "t \<notin> inside pub slot n pcs s" for s using assms(3) by (simp add: inside_def)
  then show ?thesis using assms(1,2,4) by (auto simp: counted_def inside_upd)
qed

lemma counted_leave:
  assumes "counted pub slot n pcs cnt" and "t < n" and "pub (pcs t)" and "\<not> pub p"
  shows "counted pub slot n (pcs(t := p)) (cnt(slot t := cnt (slot t) - 1))"
proof -
  have t: "t \<in> inside pub slot n pcs s \<longleftrightarrow> s = slot t" for s using assms(2,3) by (auto simp: inside_def)
  then have "0 < card (inside pub slot n pcs (slot t))" by (auto simp: card_gt_0_iff)
  moreover have "inside pub slot n pcs s - {t} = inside pub slot n pcs s" if "s \<noteq> slot t" for s using t that by auto
  ultimately show ?thesis using assms(1,4) t by (auto simp: counted_def inside_upd of_nat_diff)
qed

lemma counted_zero:
  "counted pub slot n pcs cnt \<Longrightarrow> cnt (slot t) = 0 \<Longrightarrow> t < n \<Longrightarrow> \<not> pub (pcs t)"
  by (auto simp: counted_def inside_def)

lemma counted_bounds: "counted pub slot n pcs cnt \<Longrightarrow> 0 \<le> cnt s \<and> cnt s \<le> int n"
  using card_inside [of pub slot n pcs s] by (simp add: counted_def)

section \<open>The first lock\<close>

datatype p1_pc =
    P1Idle
  | P1Add            \<comment> \<open>\<open>read_lock\<close>, about to count itself\<close>
  | P1Check | P1Sub | P1Spin
  | P1TryCheck | P1TrySub
  | P1Reading
  | P1Cas            \<comment> \<open>\<open>write_lock\<close>, about to exchange the flag\<close>
  | P1Scan bool nat  \<comment> \<open>waiting for a slot, whether in \<open>try_write_lock\<close>\<close>
  | P1Give           \<comment> \<open>\<open>try_write_lock\<close>, about to give up the flag\<close>
  | P1Writing

record p1_mem =
  p1_writer :: bool
  p1_count :: "nat \<Rightarrow> int"
  p1_buf :: "thread set"  \<comment> \<open>threads whose store that clears the flag is not in memory yet\<close>
  p1_late :: bool         \<comment> \<open>the exchange that set the flag is not seen by plain loads yet\<close>

type_synonym p1_config = "(p1_mem, p1_pc) config"

definition p1_start :: p1_config where
  "p1_start = \<lparr>mem = \<lparr>p1_writer = False, p1_count = \<lambda>s. 0, p1_buf = {}, p1_late = False\<rparr>, pc = \<lambda>t. P1Idle\<rparr>"

definition p1_add :: "nat \<Rightarrow> int \<Rightarrow> p1_mem \<Rightarrow> p1_mem" where
  "p1_add s d m = m\<lparr>p1_count := (p1_count m)(s := p1_count m s + d)\<rparr>"

definition p1_seen :: "p1_mem \<Rightarrow> bool" where
  \<comment> \<open>what a load of \<open>writer_present\<close> returns; an exchange compares the flag itself\<close>
  "p1_seen m \<longleftrightarrow> p1_writer m \<and> \<not> p1_late m"

definition p1_take :: "memory \<Rightarrow> p1_mem \<Rightarrow> p1_mem" where
  \<comment> \<open>the exchange has acquire order only\<close>
  "p1_take M m = m\<lparr>p1_writer := True, p1_late := (M = LateExchange)\<rparr>"

definition p1_clear :: "memory \<Rightarrow> thread \<Rightarrow> p1_mem \<Rightarrow> p1_mem" where
  "p1_clear M t m = (if M = StoreBuffers then m\<lparr>p1_buf := insert t (p1_buf m)\<rparr> else m\<lparr>p1_writer := False, p1_late := False\<rparr>)"

definition p1_next :: "bool \<Rightarrow> nat \<Rightarrow> p1_pc" where
  \<comment> \<open>the loop over the slots\<close>
  "p1_next try_it i = (if Suc i = N_SLOTS then P1Writing else P1Scan try_it (Suc i))"

inductive p1_step :: "memory \<Rightarrow> nat \<Rightarrow> (thread \<Rightarrow> nat) \<Rightarrow> thread \<Rightarrow> p1_config \<Rightarrow> p1_config \<Rightarrow> bool" for M n slot where
  \<comment> \<open>an operation that reads and writes needs the buffer of its thread empty\<close>
  flush: "t \<in> p1_buf (mem c) \<Longrightarrow>
    p1_step M n slot t c (goto t (pc c t) ((mem c)\<lparr>p1_writer := False, p1_buf := p1_buf (mem c) - {t}\<rparr>) c)"
| appear: "p1_late (mem c) \<Longrightarrow> p1_step M n slot t c (goto t (pc c t) ((mem c)\<lparr>p1_late := False\<rparr>) c)"
| read_call: "t < n \<Longrightarrow> pc c t = P1Idle \<Longrightarrow> p1_step M n slot t c (goto t P1Add (mem c) c)"
| publish: "pc c t = P1Add \<Longrightarrow> t \<notin> p1_buf (mem c) \<Longrightarrow> p1_step M n slot t c (goto t P1Check (p1_add (slot t) 1 (mem c)) c)"
| check_free: "pc c t = P1Check \<Longrightarrow> \<not> p1_seen (mem c) \<Longrightarrow> p1_step M n slot t c (goto t P1Reading (mem c) c)"
| check_busy: "pc c t = P1Check \<Longrightarrow> p1_seen (mem c) \<Longrightarrow> p1_step M n slot t c (goto t P1Sub (mem c) c)"
| retract: "pc c t = P1Sub \<Longrightarrow> t \<notin> p1_buf (mem c) \<Longrightarrow> p1_step M n slot t c (goto t P1Spin (p1_add (slot t) (- 1) (mem c)) c)"
| spin_busy: "pc c t = P1Spin \<Longrightarrow> p1_seen (mem c) \<Longrightarrow> p1_step M n slot t c (goto t P1Spin (mem c) c)"
| spin_free: "pc c t = P1Spin \<Longrightarrow> \<not> p1_seen (mem c) \<Longrightarrow> p1_step M n slot t c (goto t P1Add (mem c) c)"
| read_unlock: "pc c t = P1Reading \<Longrightarrow> t \<notin> p1_buf (mem c) \<Longrightarrow>
    p1_step M n slot t c (goto t P1Idle (p1_add (slot t) (- 1) (mem c)) c)"
| try_read: "t < n \<Longrightarrow> pc c t = P1Idle \<Longrightarrow> t \<notin> p1_buf (mem c) \<Longrightarrow>
    p1_step M n slot t c (goto t P1TryCheck (p1_add (slot t) 1 (mem c)) c)"
| try_read_free: "pc c t = P1TryCheck \<Longrightarrow> \<not> p1_seen (mem c) \<Longrightarrow> p1_step M n slot t c (goto t P1Reading (mem c) c)"
| try_read_busy: "pc c t = P1TryCheck \<Longrightarrow> p1_seen (mem c) \<Longrightarrow> p1_step M n slot t c (goto t P1TrySub (mem c) c)"
| try_read_retract: "pc c t = P1TrySub \<Longrightarrow> t \<notin> p1_buf (mem c) \<Longrightarrow>
    p1_step M n slot t c (goto t P1Idle (p1_add (slot t) (- 1) (mem c)) c)"
| write_call: "t < n \<Longrightarrow> pc c t = P1Idle \<Longrightarrow> p1_step M n slot t c (goto t P1Cas (mem c) c)"
| cas_ok: "pc c t = P1Cas \<Longrightarrow> t \<notin> p1_buf (mem c) \<Longrightarrow> \<not> p1_writer (mem c) \<Longrightarrow>
    p1_step M n slot t c (goto t (P1Scan False 0) (p1_take M (mem c)) c)"
| cas_fail: "pc c t = P1Cas \<Longrightarrow> t \<notin> p1_buf (mem c) \<Longrightarrow> p1_step M n slot t c (goto t P1Cas (mem c) c)"
| scan_zero: "pc c t = P1Scan b i \<Longrightarrow> p1_count (mem c) i = 0 \<Longrightarrow> p1_step M n slot t c (goto t (p1_next b i) (mem c) c)"
| scan_wait: "pc c t = P1Scan False i \<Longrightarrow> p1_count (mem c) i \<noteq> 0 \<Longrightarrow> p1_step M n slot t c (goto t (P1Scan False i) (mem c) c)"
| scan_fail: "pc c t = P1Scan True i \<Longrightarrow> p1_count (mem c) i \<noteq> 0 \<Longrightarrow> p1_step M n slot t c (goto t P1Give (mem c) c)"
| give_up: "pc c t = P1Give \<Longrightarrow> p1_step M n slot t c (goto t P1Idle (p1_clear M t (mem c)) c)"
| try_write: "t < n \<Longrightarrow> pc c t = P1Idle \<Longrightarrow> t \<notin> p1_buf (mem c) \<Longrightarrow> \<not> p1_writer (mem c) \<Longrightarrow>
    p1_step M n slot t c (goto t (P1Scan True 0) (p1_take M (mem c)) c)"
| try_write_fail: "pc c t = P1Idle \<Longrightarrow> t \<notin> p1_buf (mem c) \<Longrightarrow> p1_writer (mem c) \<Longrightarrow> p1_step M n slot t c (goto t P1Idle (mem c) c)"
| write_unlock: "pc c t = P1Writing \<Longrightarrow> p1_step M n slot t c (goto t P1Idle (p1_clear M t (mem c)) c)"

inductive_cases p1_stepE: "p1_step M n slot t c c'"

fun p1_published :: "p1_pc \<Rightarrow> bool" where
  "p1_published p \<longleftrightarrow> p \<in> {P1Check, P1Sub, P1TryCheck, P1TrySub, P1Reading}"

fun p1_owner :: "p1_pc \<Rightarrow> bool" where
  \<comment> \<open>the thread has set the flag\<close>
  "p1_owner (P1Scan b i) = True"
| "p1_owner P1Give = True"
| "p1_owner P1Writing = True"
| "p1_owner p = False"

fun p1_drained :: "p1_pc \<Rightarrow> nat" where
  \<comment> \<open>the slots below it were found empty\<close>
  "p1_drained (P1Scan b i) = i"
| "p1_drained P1Writing = N_SLOTS"
| "p1_drained p = 0"

definition p1_holder :: "p1_config \<Rightarrow> thread \<Rightarrow> bool" where
  \<comment> \<open>the flag in memory was set by this thread\<close>
  "p1_holder c t \<longleftrightarrow> p1_owner (pc c t) \<or> t \<in> p1_buf (mem c)"

definition p1_inv :: "nat \<Rightarrow> (thread \<Rightarrow> nat) \<Rightarrow> p1_config \<Rightarrow> bool" where
  "p1_inv n slot c \<longleftrightarrow> (\<forall>t. pc c t \<noteq> P1Idle \<longrightarrow> t < n) \<and> counted p1_published slot n (pc c) (p1_count (mem c)) \<and>
     \<not> p1_late (mem c) \<and> (\<forall>t. t \<in> p1_buf (mem c) \<longrightarrow> \<not> p1_owner (pc c t)) \<and>
     (\<forall>t. p1_holder c t \<longrightarrow> p1_writer (mem c)) \<and> (\<forall>s t. p1_holder c s \<longrightarrow> p1_holder c t \<longrightarrow> s = t) \<and>
     (\<forall>w t. pc c t = P1Reading \<longrightarrow> p1_drained (pc c w) \<le> slot t)"

lemma p1_not_owner: "\<not> p1_owner p \<Longrightarrow> p1_drained p = 0"
  by (cases p) auto

lemma p1_next_simps [simp]:
  "p1_next b i \<noteq> P1Idle" "\<not> p1_published (p1_next b i)" "p1_owner (p1_next b i)" "p1_drained (p1_next b i) = Suc i" "p1_next b i \<noteq> P1Reading"
  "p1_next b i \<noteq> P1Check" "p1_next b i \<noteq> P1Sub" "p1_next b i \<noteq> P1TryCheck" "p1_next b i \<noteq> P1TrySub"
  by (simp_all add: p1_next_def)

lemma p1_mem_simps [simp]:
  "p1_count (p1_add s d m) = (p1_count m)(s := p1_count m s + d)" "p1_writer (p1_add s d m) = p1_writer m"
  "p1_buf (p1_add s d m) = p1_buf m" "p1_late (p1_add s d m) = p1_late m"
  "p1_count (p1_take M m) = p1_count m" "p1_writer (p1_take M m)" "p1_buf (p1_take M m) = p1_buf m"
  "p1_late (p1_take M m) \<longleftrightarrow> M = LateExchange" "p1_count (p1_clear M t m) = p1_count m"
  by (simp_all add: p1_add_def p1_take_def p1_clear_def)

lemma p1_threads_step:
  assumes "\<forall>t. pc c t \<noteq> P1Idle \<longrightarrow> t < n" and "p1_step M n slot t c c'"
  shows "\<forall>t. pc c' t \<noteq> P1Idle \<longrightarrow> t < n"
  using assms(2) by (rule p1_stepE) (use assms(1) in auto)

lemma p1_counted_step:
  assumes "p1_inv n slot c" and "p1_step M n slot t c c'"
  shows "counted p1_published slot n (pc c') (p1_count (mem c'))"
proof -
  have cnt: "counted p1_published slot n (pc c) (p1_count (mem c))" using assms(1) by (simp add: p1_inv_def)
  have t: "pc c t \<noteq> P1Idle \<Longrightarrow> t < n" using assms(1) by (simp add: p1_inv_def)
  note enter = counted_enter [OF cnt, of t] and leave = counted_leave [OF cnt, of t] and same = counted_same [OF cnt]
  show ?thesis using assms(2) by (rule p1_stepE) (use t cnt in \<open>auto intro!: same dest: enter leave\<close>)
qed

lemma p1_holder_step:
  assumes "p1_inv n slot c" and "p1_step M n slot t c c'" and "M \<noteq> LateExchange"
  shows "\<not> p1_late (mem c') \<and> (\<forall>s. s \<in> p1_buf (mem c') \<longrightarrow> \<not> p1_owner (pc c' s))" (is ?A)
    and "(\<forall>s. p1_holder c' s \<longrightarrow> p1_writer (mem c')) \<and> (\<forall>s r. p1_holder c' s \<longrightarrow> p1_holder c' r \<longrightarrow> s = r)" (is ?B)
proof -
  have o: "p1_holder c s \<Longrightarrow> p1_writer (mem c)" "p1_holder c s \<Longrightarrow> p1_holder c r \<Longrightarrow> s = r" "\<not> p1_late (mem c)"
    "s \<in> p1_buf (mem c) \<Longrightarrow> \<not> p1_owner (pc c s)" for s r
    using assms(1) by (auto simp: p1_inv_def)
  show ?A using assms(2) by (rule p1_stepE) (use o(3,4) o(4) [of t] assms(3) in \<open>auto simp: p1_clear_def split: if_splits\<close>)
  have other: "p1_holder c' s \<longleftrightarrow> p1_holder c s" if "s \<noteq> t" for s
    using assms(2) by (rule p1_stepE) (use that in \<open>auto simp: p1_holder_def p1_clear_def\<close>)
  have new: "p1_writer (mem c') \<and> (p1_holder c t \<or> \<not> p1_writer (mem c))" if "p1_holder c' t"
    using assms(2) by (rule p1_stepE) (use that o(1,4) [of t] in \<open>auto simp: p1_holder_def p1_clear_def split: if_splits\<close>)
  have kept: "p1_writer (mem c') \<or> p1_holder c t \<or> \<not> p1_writer (mem c)"
    using assms(2) by (rule p1_stepE) (auto simp: p1_holder_def p1_clear_def)
  show ?B
  proof (intro conjI allI impI)
    fix s assume s: "p1_holder c' s"
    show "p1_writer (mem c')"
    proof (cases "s = t")
      case False
      then have "p1_holder c s" using s other by blast
      then show ?thesis using kept new o(1) [of s] o(2) [of s t] False by blast
    qed (use s new in blast)
  next
    fix s r assume "p1_holder c' s" "p1_holder c' r"
    then show "s = r" using other new o(1,2) by (metis (full_types))
  qed
qed

lemma p1_drained_step:
  assumes "p1_inv n slot c" and "p1_step M n slot t c c'"
  shows "\<forall>w r. pc c' r = P1Reading \<longrightarrow> p1_drained (pc c' w) \<le> slot r"
proof -
  have d: "pc c r = P1Reading \<Longrightarrow> p1_drained (pc c w) \<le> slot r" for w r using assms(1) by (simp add: p1_inv_def)
  have dt: "pc c r = P1Reading \<Longrightarrow> p1_drained (pc c t) \<le> slot r" for r by (rule d)
  have free: "\<not> p1_seen (mem c) \<Longrightarrow> p1_drained (pc c w) = 0" for w
    using assms(1) by (intro p1_not_owner) (auto simp: p1_inv_def p1_seen_def p1_holder_def)
  have empty: "p1_count (mem c) i = 0 \<Longrightarrow> pc c r = P1Reading \<Longrightarrow> slot r \<noteq> i" for i r
    using counted_zero [of p1_published slot n "pc c" "p1_count (mem c)" r] assms(1) by (auto simp: p1_inv_def)
  show ?thesis
    using assms(2)
  proof (rule p1_stepE)
    fix b i assume c': "c' = goto t (p1_next b i) (mem c) c" and s: "pc c t = P1Scan b i" "p1_count (mem c) i = 0"
    have "Suc i \<le> slot r" if "pc c r = P1Reading" for r
      using d [OF that, of t] empty [OF s(2) that] s(1) by simp
    then show ?thesis using c' d by auto
  qed (use d dt free in auto)
qed

lemma p1_inv_step: "p1_inv n slot c \<Longrightarrow> p1_step M n slot t c c' \<Longrightarrow> M \<noteq> LateExchange \<Longrightarrow> p1_inv n slot c'"
  using p1_threads_step [of c n M slot t c'] p1_counted_step [of n slot c M t c'] p1_holder_step [of n slot c M t c']
    p1_drained_step [of n slot c M t c']
  unfolding p1_inv_def by blast

lemma p1_mutex:
  assumes "M \<noteq> LateExchange"
  shows "mutex p1_start (p1_step M n slot) (\<lambda>c t. pc c t = P1Writing) (p1_inv n slot)"
proof
  fix t :: thread and c c' :: p1_config
  show "p1_inv n slot p1_start" by (auto simp: p1_inv_def p1_holder_def p1_start_def counted_def inside_def)
  show "p1_inv n slot c'" if "p1_inv n slot c" "p1_step M n slot t c c'" using that assms by (rule p1_inv_step)
  show "pc c s \<noteq> P1Writing" if "p1_inv n slot c" "p1_step M n slot t c c'" "pc c' t = P1Writing" "pc c t \<noteq> P1Writing" for s
  proof -
    have "p1_owner (pc c t)" using that(2) by (rule p1_stepE) (use that(3,4) in auto)
    then show ?thesis using that(1,4) unfolding p1_inv_def p1_holder_def by (metis p1_owner.simps(3))
  qed
qed (auto simp: p1_start_def elim: p1_stepE)

interpretation pcpu: mutex p1_start "p1_step OneOrder 64 slot_of_index" "\<lambda>c t. pc c t = P1Writing" "p1_inv 64 slot_of_index"
  by (rule p1_mutex) simp

interpretation pcpu_buffered: mutex p1_start "p1_step StoreBuffers 64 slot_of_index" "\<lambda>c t. pc c t = P1Writing" "p1_inv 64 slot_of_index"
  by (rule p1_mutex) simp

lemma p1_scan_all:
  assumes "reachable p1_start (p1_step M n slot) (goto t (P1Scan b i) m c)" and "\<And>s. p1_count m s = 0" and "i < N_SLOTS"
  shows "reachable p1_start (p1_step M n slot) (goto t P1Writing m c)"
  using assms(1,3)
proof (induction "N_SLOTS - i" arbitrary: i)
  case (Suc k)
  have r: "reachable p1_start (p1_step M n slot) (goto t (p1_next b i) m c)"
    using reachable_step [where step = "p1_step M n slot", OF Suc.prems(1) p1_step.scan_zero [of _ t b i M n slot]] assms(2) by simp
  show ?case
  proof (cases "Suc i = N_SLOTS")
    case True
    then show ?thesis using r by (simp add: p1_next_def)
  next
    case False
    then show ?thesis using r Suc.hyps(1) [of "Suc i"] Suc.hyps(2) Suc.prems(2) by (simp add: p1_next_def)
  qed
qed simp

lemma p1_first_writer:
  "reachable p1_start (p1_step M 8 slot_of_index) (goto 2 P1Writing (p1_take M (mem p1_start)) p1_start)"
proof -
  have "reachable p1_start (p1_step M 8 slot_of_index) (goto 2 (P1Scan True 0) (p1_take M (mem p1_start)) p1_start)"
    by (rule reachable_step [where step = "p1_step M 8 slot_of_index", OF reachable_refl p1_step.try_write]) (simp_all add: p1_start_def)
  then show ?thesis by (rule p1_scan_all) (simp_all add: N_SLOTS_def p1_start_def)
qed

text \<open>
  C21. The per-CPU lock, when operations take effect in one order and also with store buffers: while a thread
  writes, no other thread is inside, neither writing nor reading, whichever slots the threads share; every counter
  is the number of readers counted in its slot, so it stays between zero and the number of threads.
\<close>

theorem pcpu_exclusion:
  assumes "M \<in> {OneOrder, StoreBuffers}" and "reachable p1_start (p1_step M n slot) c" and "\<forall>t. slot t < N_SLOTS"
  shows "(pc c w = P1Writing \<longrightarrow> (\<forall>t. t \<noteq> w \<longrightarrow> pc c t \<noteq> P1Writing \<and> pc c t \<noteq> P1Reading)) \<and>
    (\<forall>s. 0 \<le> p1_count (mem c) s \<and> p1_count (mem c) s \<le> int n)"
proof -
  have M: "M \<noteq> LateExchange" using assms(1) by auto
  have inv: "p1_inv n slot c" using mutex.reachable_inv [OF p1_mutex [OF M] assms(2)] .
  have "pc c t \<noteq> P1Writing" if "pc c w = P1Writing" "t \<noteq> w" for t
    using mutex.exclusive [OF p1_mutex [OF M] assms(2) that(1), of t] that(2) by auto
  moreover have "pc c t \<noteq> P1Reading" if "pc c w = P1Writing" for t
    using inv that assms(3) unfolding p1_inv_def by (metis not_le p1_drained.simps(2))
  moreover have "0 \<le> p1_count (mem c) s \<and> p1_count (mem c) s \<le> int n" for s
    using inv counted_bounds [of p1_published slot n "pc c" "p1_count (mem c)" s] by (simp add: p1_inv_def)
  ultimately show ?thesis by blast
qed

theorem pcpu_exclusion_witness:
  "pc (goto 2 P1Writing (p1_take StoreBuffers (mem p1_start)) p1_start) 3 \<noteq> P1Reading \<and>
   p1_count (mem (goto 2 P1Writing (p1_take StoreBuffers (mem p1_start)) p1_start)) 5 \<le> 8"
  using pcpu_exclusion [OF _ p1_first_writer, of StoreBuffers 2] slot_of_index_bound by auto

text \<open>
  C22. The same lock when the store of an exchange that has acquire order only may reach other threads after the loads
  that follow it: a writer has set the flag and found every counter zero, a reader that counts itself after that still
  reads the flag as clear, and both are inside.
\<close>

theorem pcpu_late_race:
  "\<exists>c. reachable p1_start (p1_step LateExchange 8 slot_of_index) c \<and> p1_writer (mem c) \<and> p1_late (mem c) \<and>
     pc c 2 = P1Writing \<and> pc c 0 = P1Reading"
proof -
  let ?step = "p1_step LateExchange 8 slot_of_index"
  let ?c = "goto 2 P1Writing (p1_take LateExchange (mem p1_start)) p1_start"
  let ?m = "p1_add (slot_of_index 0) 1 (mem ?c)"
  have "reachable p1_start ?step (goto 0 P1TryCheck ?m ?c)"
    by (rule reachable_step [where step = ?step, OF p1_first_writer p1_step.try_read]) (simp_all add: p1_start_def)
  then have "reachable p1_start ?step (goto 0 P1Reading ?m (goto 0 P1TryCheck ?m ?c))"
    by (rule reachable_step) (use p1_step.try_read_free [of "goto 0 P1TryCheck ?m ?c" 0 LateExchange 8 slot_of_index] in
      \<open>simp add: p1_start_def p1_seen_def\<close>)
  then show ?thesis by (intro exI conjI) auto
qed

section \<open>The second lock\<close>

datatype p2_pc =
    P2Idle
  | P2Check | P2Sub
  | P2Wait           \<comment> \<open>\<open>read_lock\<close>, about to lock the mutex\<close>
  | P2Again          \<comment> \<open>about to count itself once more\<close>
  | P2Leave          \<comment> \<open>about to unlock the mutex\<close>
  | P2TryCheck | P2TrySub
  | P2Reading
  | P2Store bool     \<comment> \<open>a writer with the mutex, about to set the flag; whether in \<open>try_write_lock\<close>\<close>
  | P2Scan bool nat
  | P2Give           \<comment> \<open>\<open>try_write_lock\<close>, about to clear the flag\<close>
  | P2Unlock         \<comment> \<open>about to unlock the mutex\<close>
  | P2Writing

record p2_mem =
  p2_pending :: bool
  p2_mu :: bool
  p2_count :: "nat \<Rightarrow> int"
  p2_buf :: "thread \<Rightarrow> bool list"  \<comment> \<open>stores to \<open>writer_pending\<close> that are not in memory yet, oldest first\<close>

type_synonym p2_config = "(p2_mem, p2_pc) config"

definition p2_start :: p2_config where
  "p2_start = \<lparr>mem = \<lparr>p2_pending = False, p2_mu = False, p2_count = \<lambda>s. 0, p2_buf = \<lambda>t. []\<rparr>, pc = \<lambda>t. P2Idle\<rparr>"

definition p2_add :: "nat \<Rightarrow> int \<Rightarrow> p2_mem \<Rightarrow> p2_mem" where
  "p2_add s d m = m\<lparr>p2_count := (p2_count m)(s := p2_count m s + d)\<rparr>"

definition p2_store :: "bool \<Rightarrow> thread \<Rightarrow> bool \<Rightarrow> p2_mem \<Rightarrow> p2_mem" where
  "p2_store buffered t v m =
     (if buffered then m\<lparr>p2_buf := (p2_buf m)(t := p2_buf m t @ [v])\<rparr> else m\<lparr>p2_pending := v\<rparr>)"

definition p2_next :: "bool \<Rightarrow> nat \<Rightarrow> p2_pc" where
  "p2_next try_it i = (if Suc i = N_SLOTS then P2Writing else P2Scan try_it (Suc i))"

inductive p2_step :: "bool \<Rightarrow> nat \<Rightarrow> (thread \<Rightarrow> nat) \<Rightarrow> thread \<Rightarrow> p2_config \<Rightarrow> p2_config \<Rightarrow> bool" for buffered n slot where
  \<comment> \<open>an operation that reads and writes, of a counter or of the mutex, needs the buffer of its thread empty\<close>
  flush: "p2_buf (mem c) t = v # vs \<Longrightarrow>
    p2_step buffered n slot t c (goto t (pc c t) ((mem c)\<lparr>p2_pending := v, p2_buf := (p2_buf (mem c))(t := vs)\<rparr>) c)"
| publish: "t < n \<Longrightarrow> pc c t = P2Idle \<Longrightarrow> p2_buf (mem c) t = [] \<Longrightarrow>
    p2_step buffered n slot t c (goto t P2Check (p2_add (slot t) 1 (mem c)) c)"
| check_free: "pc c t = P2Check \<Longrightarrow> \<not> p2_pending (mem c) \<Longrightarrow> p2_step buffered n slot t c (goto t P2Reading (mem c) c)"
| check_busy: "pc c t = P2Check \<Longrightarrow> p2_pending (mem c) \<Longrightarrow> p2_step buffered n slot t c (goto t P2Sub (mem c) c)"
| retract: "pc c t = P2Sub \<Longrightarrow> p2_buf (mem c) t = [] \<Longrightarrow>
    p2_step buffered n slot t c (goto t P2Wait (p2_add (slot t) (- 1) (mem c)) c)"
| wait_lock: "pc c t = P2Wait \<Longrightarrow> p2_buf (mem c) t = [] \<Longrightarrow> \<not> p2_mu (mem c) \<Longrightarrow>
    p2_step buffered n slot t c (goto t P2Again ((mem c)\<lparr>p2_mu := True\<rparr>) c)"
| publish_again: "pc c t = P2Again \<Longrightarrow> p2_buf (mem c) t = [] \<Longrightarrow>
    p2_step buffered n slot t c (goto t P2Leave (p2_add (slot t) 1 (mem c)) c)"
| leave_lock: "pc c t = P2Leave \<Longrightarrow> p2_buf (mem c) t = [] \<Longrightarrow>
    p2_step buffered n slot t c (goto t P2Reading ((mem c)\<lparr>p2_mu := False\<rparr>) c)"
| read_unlock: "pc c t = P2Reading \<Longrightarrow> p2_buf (mem c) t = [] \<Longrightarrow>
    p2_step buffered n slot t c (goto t P2Idle (p2_add (slot t) (- 1) (mem c)) c)"
| try_read: "t < n \<Longrightarrow> pc c t = P2Idle \<Longrightarrow> p2_buf (mem c) t = [] \<Longrightarrow>
    p2_step buffered n slot t c (goto t P2TryCheck (p2_add (slot t) 1 (mem c)) c)"
| try_read_free: "pc c t = P2TryCheck \<Longrightarrow> \<not> p2_pending (mem c) \<Longrightarrow> p2_step buffered n slot t c (goto t P2Reading (mem c) c)"
| try_read_busy: "pc c t = P2TryCheck \<Longrightarrow> p2_pending (mem c) \<Longrightarrow> p2_step buffered n slot t c (goto t P2TrySub (mem c) c)"
| try_read_retract: "pc c t = P2TrySub \<Longrightarrow> p2_buf (mem c) t = [] \<Longrightarrow>
    p2_step buffered n slot t c (goto t P2Idle (p2_add (slot t) (- 1) (mem c)) c)"
| write_lock: "t < n \<Longrightarrow> pc c t = P2Idle \<Longrightarrow> p2_buf (mem c) t = [] \<Longrightarrow> \<not> p2_mu (mem c) \<Longrightarrow>
    p2_step buffered n slot t c (goto t (P2Store b) ((mem c)\<lparr>p2_mu := True\<rparr>) c)"
| try_write_fail: "pc c t = P2Idle \<Longrightarrow> p2_mu (mem c) \<Longrightarrow> p2_step buffered n slot t c (goto t P2Idle (mem c) c)"
| store_pending: "pc c t = P2Store b \<Longrightarrow> p2_step buffered n slot t c (goto t (P2Scan b 0) (p2_store buffered t True (mem c)) c)"
| scan_zero: "pc c t = P2Scan b i \<Longrightarrow> p2_count (mem c) i = 0 \<Longrightarrow> p2_step buffered n slot t c (goto t (p2_next b i) (mem c) c)"
| scan_wait: "pc c t = P2Scan False i \<Longrightarrow> p2_count (mem c) i \<noteq> 0 \<Longrightarrow> p2_step buffered n slot t c (goto t (P2Scan False i) (mem c) c)"
| scan_fail: "pc c t = P2Scan True i \<Longrightarrow> p2_count (mem c) i \<noteq> 0 \<Longrightarrow> p2_step buffered n slot t c (goto t P2Give (mem c) c)"
| give_up: "pc c t = P2Give \<Longrightarrow> p2_step buffered n slot t c (goto t P2Unlock (p2_store buffered t False (mem c)) c)"
| write_unlock: "pc c t = P2Writing \<Longrightarrow> p2_step buffered n slot t c (goto t P2Unlock (p2_store buffered t False (mem c)) c)"
| mu_unlock: "pc c t = P2Unlock \<Longrightarrow> p2_buf (mem c) t = [] \<Longrightarrow>
    p2_step buffered n slot t c (goto t P2Idle ((mem c)\<lparr>p2_mu := False\<rparr>) c)"

inductive_cases p2_stepE: "p2_step buffered n slot t c c'"

fun p2_published :: "p2_pc \<Rightarrow> bool" where
  "p2_published p \<longleftrightarrow> p \<in> {P2Check, P2Sub, P2TryCheck, P2TrySub, P2Leave, P2Reading}"

fun p2_closes :: "p2_pc \<Rightarrow> bool" where
  \<comment> \<open>the thread has set the flag\<close>
  "p2_closes (P2Scan b i) = True"
| "p2_closes P2Give = True"
| "p2_closes P2Writing = True"
| "p2_closes p = False"

fun p2_owner :: "p2_pc \<Rightarrow> bool" where
  \<comment> \<open>the thread has locked the mutex\<close>
  "p2_owner (P2Store b) = True"
| "p2_owner P2Again = True"
| "p2_owner P2Leave = True"
| "p2_owner P2Unlock = True"
| "p2_owner p = p2_closes p"

fun p2_drained :: "p2_pc \<Rightarrow> nat" where
  "p2_drained (P2Scan b i) = i"
| "p2_drained P2Writing = N_SLOTS"
| "p2_drained p = 0"

definition p2_inv :: "nat \<Rightarrow> (thread \<Rightarrow> nat) \<Rightarrow> p2_config \<Rightarrow> bool" where
  "p2_inv n slot c \<longleftrightarrow> (\<forall>t. pc c t \<noteq> P2Idle \<longrightarrow> t < n) \<and> (\<forall>t. p2_buf (mem c) t = []) \<and>
     counted p2_published slot n (pc c) (p2_count (mem c)) \<and> (\<forall>t. p2_closes (pc c t) \<longrightarrow> p2_pending (mem c)) \<and>
     (\<forall>t. p2_owner (pc c t) \<longrightarrow> p2_mu (mem c)) \<and> (\<forall>s t. p2_owner (pc c s) \<longrightarrow> p2_owner (pc c t) \<longrightarrow> s = t) \<and>
     (\<forall>w t. pc c t = P2Reading \<longrightarrow> p2_drained (pc c w) \<le> slot t)"

lemma p2_not_closes: "\<not> p2_closes p \<Longrightarrow> p2_drained p = 0"
  by (cases p) auto

lemma p2_closes_owner: "p2_closes p \<Longrightarrow> p2_owner p"
  by (cases p) auto

lemma p2_next_simps [simp]:
  "p2_closes (p2_next b i)" "p2_owner (p2_next b i)" "p2_drained (p2_next b i) = Suc i" "\<not> p2_published (p2_next b i)"
  "p2_next b i \<noteq> P2Idle" "p2_next b i \<noteq> P2Reading" "p2_next b i \<noteq> P2Check" "p2_next b i \<noteq> P2Sub" "p2_next b i \<noteq> P2TryCheck"
  "p2_next b i \<noteq> P2TrySub" "p2_next b i \<noteq> P2Leave"
  by (simp_all add: p2_next_def)

lemma p2_add_simps [simp]:
  "p2_count (p2_add s d m) = (p2_count m)(s := p2_count m s + d)" "p2_pending (p2_add s d m) = p2_pending m"
  "p2_mu (p2_add s d m) = p2_mu m" "p2_buf (p2_add s d m) = p2_buf m"
  by (simp_all add: p2_add_def)

lemma p2_store_simps [simp]:
  "p2_store False t v m = m\<lparr>p2_pending := v\<rparr>" "p2_count (p2_store d t v m) = p2_count m" "p2_mu (p2_store d t v m) = p2_mu m"
  by (simp_all add: p2_store_def)

lemma p2_threads_step:
  assumes "p2_inv n slot c" and "p2_step False n slot t c c'"
  shows "(\<forall>t. pc c' t \<noteq> P2Idle \<longrightarrow> t < n) \<and> (\<forall>t. p2_buf (mem c') t = [])"
proof -
  have "\<forall>t. pc c t \<noteq> P2Idle \<longrightarrow> t < n" "\<forall>t. p2_buf (mem c) t = []" using assms(1) by (auto simp: p2_inv_def)
  then show ?thesis using assms(2) by - (erule p2_stepE, auto)
qed

lemma p2_counted_step:
  assumes "p2_inv n slot c" and "p2_step False n slot t c c'"
  shows "counted p2_published slot n (pc c') (p2_count (mem c'))"
proof -
  have cnt: "counted p2_published slot n (pc c) (p2_count (mem c))" using assms(1) by (simp add: p2_inv_def)
  have t: "pc c t \<noteq> P2Idle \<Longrightarrow> t < n" "p2_buf (mem c) t = []" using assms(1) by (simp_all add: p2_inv_def)
  note enter = counted_enter [OF cnt, of t] and leave = counted_leave [OF cnt, of t] and same = counted_same [OF cnt]
  show ?thesis using assms(2) by (rule p2_stepE) (use t in \<open>auto intro!: same dest: enter leave\<close>)
qed

lemma p2_alone:
  assumes "p2_inv n slot c" and "p2_owner (pc c t)" and "s \<noteq> t"
  shows "\<not> p2_owner (pc c s)" and "\<not> p2_closes (pc c s)" and "p2_drained (pc c s) = 0"
proof -
  show "\<not> p2_owner (pc c s)" using assms unfolding p2_inv_def by blast
  then show "\<not> p2_closes (pc c s)" using p2_closes_owner by blast
  then show "p2_drained (pc c s) = 0" by (rule p2_not_closes)
qed

lemma p2_owner_step:
  assumes "p2_inv n slot c" and "p2_step False n slot t c c'"
  shows "(\<forall>t. p2_owner (pc c' t) \<longrightarrow> p2_mu (mem c')) \<and> (\<forall>s t. p2_owner (pc c' s) \<longrightarrow> p2_owner (pc c' t) \<longrightarrow> s = t)"
proof -
  have w: "p2_owner (pc c s) \<Longrightarrow> p2_mu (mem c)" and u: "p2_owner (pc c s) \<Longrightarrow> p2_owner (pc c r) \<Longrightarrow> s = r"
    and b: "p2_buf (mem c) t = []" for s r using assms(1) by (auto simp: p2_inv_def)
  have "p2_mu (mem c')" if "p2_owner (pc c' t)"
    using assms(2) by (rule p2_stepE) (use w [of t] b that in auto)
  moreover have "p2_owner (pc c t) \<or> p2_mu (mem c')" if "p2_mu (mem c)"
    using assms(2) by (rule p2_stepE) (use b that in auto)
  moreover have "p2_owner (pc c t) \<or> \<not> p2_mu (mem c)" if "p2_owner (pc c' t)"
    using assms(2) by (rule p2_stepE) (use b that in auto)
  moreover have "pc c' s = pc c s" if "s \<noteq> t" for s
    using assms(2) by (rule p2_stepE) (use that in auto)
  ultimately show ?thesis using w u by metis
qed

lemma p2_closes_step:
  assumes "p2_inv n slot c" and "p2_step False n slot t c c'"
  shows "\<forall>s. p2_closes (pc c' s) \<longrightarrow> p2_pending (mem c')"
proof -
  have o: "\<forall>s. p2_closes (pc c s) \<longrightarrow> p2_pending (mem c)" and b: "p2_buf (mem c) t = []" using assms(1) by (auto simp: p2_inv_def)
  note t = p2_alone(2) [OF assms(1), of t]
  have w: "p2_closes (pc c t) \<Longrightarrow> p2_pending (mem c)" using o by blast
  show ?thesis using assms(2) by (rule p2_stepE) (use o b t w in auto)
qed

lemma p2_drained_step:
  assumes "p2_inv n slot c" and "p2_step False n slot t c c'"
  shows "\<forall>w r. pc c' r = P2Reading \<longrightarrow> p2_drained (pc c' w) \<le> slot r"
proof -
  have d: "pc c r = P2Reading \<Longrightarrow> p2_drained (pc c w) \<le> slot r" and b: "p2_buf (mem c) t = []" for w r
    using assms(1) by (simp_all add: p2_inv_def)
  have dt: "pc c r = P2Reading \<Longrightarrow> p2_drained (pc c t) \<le> slot r" for r by (rule d)
  have free: "\<not> p2_pending (mem c) \<Longrightarrow> p2_drained (pc c w) = 0" for w
    using assms(1) by (intro p2_not_closes) (auto simp: p2_inv_def)
  note alone = p2_alone(3) [OF assms(1), of t]
  have empty: "p2_count (mem c) i = 0 \<Longrightarrow> pc c r = P2Reading \<Longrightarrow> slot r \<noteq> i" for i r
    using counted_zero [of p2_published slot n "pc c" "p2_count (mem c)" r] assms(1) by (auto simp: p2_inv_def)
  show ?thesis
    using assms(2)
  proof (rule p2_stepE)
    fix b i assume c': "c' = goto t (p2_next b i) (mem c) c" and s: "pc c t = P2Scan b i" "p2_count (mem c) i = 0"
    have "Suc i \<le> slot r" if "pc c r = P2Reading" for r
      using d [OF that, of t] empty [OF s(2) that] s(1) by simp
    then show ?thesis using c' d by auto
  qed (use d dt b free alone in auto)
qed

lemma p2_inv_step:
  assumes "p2_inv n slot c" and "p2_step False n slot t c c'"
  shows "p2_inv n slot c'"
  using p2_threads_step [OF assms] p2_counted_step [OF assms] p2_owner_step [OF assms] p2_closes_step [OF assms] p2_drained_step [OF assms]
  unfolding p2_inv_def by blast

lemma p2_mutex: "mutex p2_start (p2_step False n slot) (\<lambda>c t. pc c t = P2Writing) (p2_inv n slot)"
proof
  fix t :: thread and c c' :: p2_config
  show "p2_inv n slot p2_start" by (auto simp: p2_inv_def p2_start_def counted_def inside_def)
  show "p2_inv n slot c'" if "p2_inv n slot c" "p2_step False n slot t c c'" using that by (rule p2_inv_step)
  show "pc c s \<noteq> P2Writing" if "p2_inv n slot c" "p2_step False n slot t c c'" "pc c' t = P2Writing" "pc c t \<noteq> P2Writing" for s
  proof -
    have "p2_owner (pc c t)" using that(2) by (rule p2_stepE) (use that(3,4) in auto)
    then show ?thesis using that(1,4) p2_closes_owner [of P2Writing] unfolding p2_inv_def by (metis p2_closes.simps(3))
  qed
qed (auto simp: p2_start_def elim: p2_stepE)

interpretation pcpu_v2: mutex p2_start "p2_step False 64 slot_of_index" "\<lambda>c t. pc c t = P2Writing" "p2_inv 64 slot_of_index"
  by (rule p2_mutex)

lemma p2_scan_all:
  assumes "reachable p2_start (p2_step d n slot) (goto t (P2Scan b i) m c)" and "\<And>s. p2_count m s = 0" and "i < N_SLOTS"
  shows "reachable p2_start (p2_step d n slot) (goto t P2Writing m c)"
  using assms(1,3)
proof (induction "N_SLOTS - i" arbitrary: i)
  case (Suc k)
  have r: "reachable p2_start (p2_step d n slot) (goto t (p2_next b i) m c)"
    using reachable_step [where step = "p2_step d n slot", OF Suc.prems(1) p2_step.scan_zero [of _ t b i d n slot]] assms(2) by simp
  show ?case
  proof (cases "Suc i = N_SLOTS")
    case True
    then show ?thesis using r by (simp add: p2_next_def)
  next
    case False
    then show ?thesis using r Suc.hyps(1) [of "Suc i"] Suc.hyps(2) Suc.prems(2) by (simp add: p2_next_def)
  qed
qed simp

lemma p2_first_writer:
  "reachable p2_start (p2_step d 8 slot_of_index) (goto 1 P2Writing (p2_store d 1 True (mem p2_start\<lparr>p2_mu := True\<rparr>)) p2_start)"
proof -
  let ?m = "mem p2_start\<lparr>p2_mu := True\<rparr>"
  have "reachable p2_start (p2_step d 8 slot_of_index) (goto 1 (P2Store False) ?m p2_start)"
    by (rule reachable_step [where step = "p2_step d 8 slot_of_index", OF reachable_refl p2_step.write_lock]) (simp_all add: p2_start_def)
  then have "reachable p2_start (p2_step d 8 slot_of_index) (goto 1 (P2Scan False 0) (p2_store d 1 True ?m) p2_start)"
    using reachable_step [where step = "p2_step d 8 slot_of_index", OF _ p2_step.store_pending [of "goto 1 (P2Store False) ?m p2_start" 1 False d 8 slot_of_index]]
    by simp
  then show ?thesis by (rule p2_scan_all) (simp_all add: N_SLOTS_def p2_start_def)
qed

text \<open>
  C23. The second per-CPU lock, when operations take effect in one order: while a thread writes, no other
  thread is inside, neither writing nor reading, whichever path the readers took.
\<close>

theorem pcpu_v2_exclusion:
  assumes "reachable p2_start (p2_step False n slot) c" and "\<forall>t. slot t < N_SLOTS" and "pc c w = P2Writing" and "t \<noteq> w"
  shows "pc c t \<noteq> P2Writing \<and> pc c t \<noteq> P2Reading"
proof -
  have inv: "p2_inv n slot c" using mutex.reachable_inv [OF p2_mutex assms(1)] .
  have "pc c t \<noteq> P2Writing" using mutex.exclusive [OF p2_mutex assms(1,3), of t] assms(4) by auto
  moreover have "pc c t \<noteq> P2Reading" using inv assms(2,3) unfolding p2_inv_def by (metis not_le p2_drained.simps(2))
  ultimately show ?thesis by blast
qed

theorem pcpu_v2_exclusion_witness:
  "pc (goto 1 P2Writing (p2_store False 1 True (mem p2_start\<lparr>p2_mu := True\<rparr>)) p2_start) 3 \<noteq> P2Reading"
  using pcpu_v2_exclusion [OF p2_first_writer [of False], of 1 3] slot_of_index_bound by simp

text \<open>
  C24. The same lock on a memory with store buffers: the writer's release store to \<open>writer_pending\<close> may
  still be in its buffer when it has found every counter zero, and a reader that counts itself after that
  reads the flag as clear. A reader and a writer are then both inside.
\<close>

theorem pcpu_v2_buffered_race:
  "\<exists>c. reachable p2_start (p2_step True 8 slot_of_index) c \<and> pc c 1 = P2Writing \<and> pc c 0 = P2Reading"
proof -
  let ?c = "goto 1 P2Writing (p2_store True 1 True (mem p2_start\<lparr>p2_mu := True\<rparr>)) p2_start"
  let ?m = "p2_add (slot_of_index 0) 1 (mem ?c)"
  have "reachable p2_start (p2_step True 8 slot_of_index) (goto 0 P2Check ?m ?c)"
    by (rule reachable_step [where step = "p2_step True 8 slot_of_index", OF p2_first_writer p2_step.publish]) (simp_all add: p2_start_def p2_store_def)
  then have "reachable p2_start (p2_step True 8 slot_of_index) (goto 0 P2Reading ?m (goto 0 P2Check ?m ?c))"
    by (rule reachable_step) (use p2_step.check_free [of "goto 0 P2Check ?m ?c" 0 True 8 slot_of_index] in
      \<open>simp add: p2_start_def p2_store_def\<close>)
  then show ?thesis by (intro exI conjI) auto
qed

end
