(* ===== verification/EpochRcu.thy ===== *)
theory EpochRcu
  imports Mutex "HOL-Library.Word"
begin

text \<open>
  \<open>include/primitives/rcu.hpp\<close>: readers announce the epoch they entered in, and a writer that has unlinked
  something advances the epoch and waits until no slot holds an older one. Epochs are words of 64 bits with
  the largest as the mark of an idle slot. A reader's stores are not read-modify-writes; as for the second
  per-CPU lock the machine has two memories, one in which they take effect at once and one with a store
  buffer per thread. A counter that is not part of the code, \<open>syncs\<close>, tells how often the epoch was advanced.
\<close>

definition INACTIVE :: "64 word" where
  "INACTIVE = - 1"

datatype rcu_pc =
    RcuIdle
  | RcuLoaded "64 word"    \<comment> \<open>\<open>read_lock\<close>, about to announce the epoch\<close>
  | RcuReading
  | RcuSync                \<comment> \<open>\<open>synchronize\<close>, about to advance the epoch\<close>
  | RcuScan "64 word" nat  \<comment> \<open>the new epoch and the slot looked at\<close>
  | RcuDone                \<comment> \<open>\<open>synchronize\<close> has returned\<close>

record rcu_mem =
  global_epoch :: "64 word"
  rcu_slots :: "nat \<Rightarrow> 64 word"
  rcu_buf :: "thread \<Rightarrow> 64 word list"  \<comment> \<open>stores of a thread to its slot that are not in memory yet, oldest first\<close>
  syncs :: nat

type_synonym rcu_config = "(rcu_mem, rcu_pc) config"

definition rcu_start :: rcu_config where
  "rcu_start = \<lparr>mem = \<lparr>global_epoch = 0, rcu_slots = \<lambda>t. INACTIVE, rcu_buf = \<lambda>t. [], syncs = 0\<rparr>, pc = \<lambda>t. RcuIdle\<rparr>"

definition rcu_store :: "bool \<Rightarrow> thread \<Rightarrow> 64 word \<Rightarrow> rcu_mem \<Rightarrow> rcu_mem" where
  "rcu_store buffered t v m =
     (if buffered then m\<lparr>rcu_buf := (rcu_buf m)(t := rcu_buf m t @ [v])\<rparr> else m\<lparr>rcu_slots := (rcu_slots m)(t := v)\<rparr>)"

definition rcu_advance :: "rcu_mem \<Rightarrow> rcu_mem" where
  "rcu_advance m = m\<lparr>global_epoch := global_epoch m + 1, syncs := Suc (syncs m)\<rparr>"

definition rcu_passes :: "64 word \<Rightarrow> 64 word \<Rightarrow> bool" where
  "rcu_passes new_epoch re \<longleftrightarrow> re = INACTIVE \<or> new_epoch \<le> re"

definition rcu_next :: "nat \<Rightarrow> 64 word \<Rightarrow> nat \<Rightarrow> rcu_pc" where
  "rcu_next n e i = (if i < n then RcuScan e i else RcuDone)"

inductive rcu_step :: "bool \<Rightarrow> nat \<Rightarrow> thread \<Rightarrow> rcu_config \<Rightarrow> rcu_config \<Rightarrow> bool" for buffered n where
  flush: "rcu_buf (mem c) t = v # vs \<Longrightarrow>
    rcu_step buffered n t c (goto t (pc c t) ((mem c)\<lparr>rcu_slots := (rcu_slots (mem c))(t := v), rcu_buf := (rcu_buf (mem c))(t := vs)\<rparr>) c)"
| load_epoch: "t < n \<Longrightarrow> pc c t = RcuIdle \<Longrightarrow> rcu_step buffered n t c (goto t (RcuLoaded (global_epoch (mem c))) (mem c) c)"
| announce: "pc c t = RcuLoaded e \<Longrightarrow> rcu_step buffered n t c (goto t RcuReading (rcu_store buffered t e (mem c)) c)"
| read_unlock: "pc c t = RcuReading \<Longrightarrow> rcu_step buffered n t c (goto t RcuIdle (rcu_store buffered t INACTIVE (mem c)) c)"
| synchronize: "pc c t = RcuIdle \<Longrightarrow> rcu_step buffered n t c (goto t RcuSync (mem c) c)"
| advance: "pc c t = RcuSync \<Longrightarrow> rcu_buf (mem c) t = [] \<Longrightarrow>
    rcu_step buffered n t c (goto t (rcu_next n (global_epoch (mem c) + 1) 0) (rcu_advance (mem c)) c)"
| scan_pass: "pc c t = RcuScan e i \<Longrightarrow> rcu_passes e (rcu_slots (mem c) i) \<Longrightarrow>
    rcu_step buffered n t c (goto t (rcu_next n e (Suc i)) (mem c) c)"
| scan_wait: "pc c t = RcuScan e i \<Longrightarrow> \<not> rcu_passes e (rcu_slots (mem c) i) \<Longrightarrow>
    rcu_step buffered n t c (goto t (RcuScan e i) (mem c) c)"
| returned: "pc c t = RcuDone \<Longrightarrow> rcu_step buffered n t c (goto t RcuIdle (mem c) c)"

inductive_cases rcu_stepE: "rcu_step buffered n t c c'"

text \<open>Runs during which a reader stays inside.\<close>

inductive rcu_run :: "bool \<Rightarrow> nat \<Rightarrow> thread \<Rightarrow> rcu_config \<Rightarrow> rcu_config \<Rightarrow> bool" for buffered n r where
  stop: "pc c r = RcuReading \<Longrightarrow> rcu_run buffered n r c c"
| go: "rcu_run buffered n r c d \<Longrightarrow> rcu_step buffered n t d e \<Longrightarrow> pc e r = RcuReading \<Longrightarrow> rcu_run buffered n r c e"

section \<open>What is announced\<close>

definition rcu_inv :: "nat \<Rightarrow> rcu_config \<Rightarrow> bool" where
  "rcu_inv n c \<longleftrightarrow> global_epoch (mem c) = of_nat (syncs (mem c)) \<and> (\<forall>t. rcu_buf (mem c) t = []) \<and>
     (\<forall>t e. pc c t = RcuLoaded e \<longrightarrow> t < n \<and> unat e \<le> syncs (mem c)) \<and>
     (\<forall>t. pc c t = RcuReading \<longrightarrow> t < n \<and> unat (rcu_slots (mem c) t) \<le> syncs (mem c))"

lemma rcu_store_simps [simp]:
  "rcu_store False t v m = m\<lparr>rcu_slots := (rcu_slots m)(t := v)\<rparr>" "syncs (rcu_store d t v m) = syncs m"
  "global_epoch (rcu_store d t v m) = global_epoch m"
  by (simp_all add: rcu_store_def)

lemma rcu_advance_simps [simp]:
  "syncs (rcu_advance m) = Suc (syncs m)" "global_epoch (rcu_advance m) = global_epoch m + 1" "rcu_slots (rcu_advance m) = rcu_slots m"
  "rcu_buf (rcu_advance m) = rcu_buf m"
  by (simp_all add: rcu_advance_def)

lemma rcu_next_simps [simp]: "rcu_next n e i \<noteq> RcuLoaded v" "rcu_next n e i \<noteq> RcuReading" "rcu_next n e i \<noteq> RcuIdle" "rcu_next n e i \<noteq> RcuSync"
  by (simp_all add: rcu_next_def)

lemma unat_epoch: "unat (of_nat k :: 64 word) \<le> k"
  by (simp add: unat_of_nat)

lemma rcu_inv_step:
  assumes "rcu_inv n c" and "rcu_step False n t c c'"
  shows "rcu_inv n c'"
proof -
  have i: "global_epoch (mem c) = of_nat (syncs (mem c))" "\<And>t. rcu_buf (mem c) t = []"
    "\<And>t e. pc c t = RcuLoaded e \<Longrightarrow> t < n \<and> unat e \<le> syncs (mem c)"
    "\<And>t. pc c t = RcuReading \<Longrightarrow> t < n \<and> unat (rcu_slots (mem c) t) \<le> syncs (mem c)"
    using assms(1) by (auto simp: rcu_inv_def)
  show ?thesis
    using assms(2) unfolding rcu_inv_def
    by (rule rcu_stepE) (use i in \<open>auto simp: unat_epoch split: if_splits intro: le_SucI\<close>)
qed

lemma rcu_reachable_inv: "reachable rcu_start (rcu_step False n) c \<Longrightarrow> rcu_inv n c"
proof (induction rule: reachable_induct)
  case start
  show ?case by (simp add: rcu_inv_def rcu_start_def)
next
  case (move t c c')
  show ?case using rcu_inv_step move by blast
qed

section \<open>Grace periods\<close>

lemma rcu_step_syncs: "rcu_step d n t c c' \<Longrightarrow> syncs (mem c) \<le> syncs (mem c')"
  by (erule rcu_stepE) auto

lemma rcu_run_reading: "rcu_run d n r c c' \<Longrightarrow> pc c r = RcuReading \<and> pc c' r = RcuReading"
  by (induction rule: rcu_run.induct) auto

lemma rcu_run_reachable: "rcu_run d n r c c' \<Longrightarrow> reachable rcu_start (rcu_step d n) c \<Longrightarrow> reachable rcu_start (rcu_step d n) c'"
  by (induction rule: rcu_run.induct) (auto intro: reachable_step)

lemma rcu_slot_kept:
  assumes "rcu_inv n c" and "rcu_step False n t c c'" and "pc c r = RcuReading" and "pc c' r = RcuReading"
  shows "rcu_slots (mem c') r = rcu_slots (mem c) r"
proof -
  have "rcu_buf (mem c) t = []" using assms(1) by (simp add: rcu_inv_def)
  then show ?thesis using assms(2) by - (erule rcu_stepE, use assms(3,4) in auto)
qed

definition rcu_blocked :: "thread \<Rightarrow> thread \<Rightarrow> rcu_config \<Rightarrow> bool" where
  \<comment> \<open>the writer is before or at the slot of the reader and cannot pass it\<close>
  "rcu_blocked w r c \<longleftrightarrow> pc c w = RcuSync \<or> (\<exists>e i. pc c w = RcuScan e i \<and> i \<le> r \<and> \<not> rcu_passes e (rcu_slots (mem c) r))"

lemma rcu_advance_blocked:
  assumes "unat s \<le> k" and "Suc k < 2 ^ 64 - 1"
  shows "\<not> rcu_passes (of_nat k + 1) s"
proof -
  have "unat (of_nat (Suc k) :: 64 word) = Suc k" unfolding unat_of_nat take_bit_nat_eq_self_iff using assms(2) by simp
  moreover have "(of_nat (Suc k) :: 64 word) = of_nat k + 1" by simp
  ultimately have "unat (of_nat k + 1 :: 64 word) = Suc k" by metis
  moreover have "unat INACTIVE = 2 ^ 64 - 1" unfolding INACTIVE_def by transfer (simp add: take_bit_minus_one_eq_mask mask_eq_exp_minus_1)
  ultimately show ?thesis using assms unfolding rcu_passes_def word_le_nat_alt by auto
qed

lemma rcu_blocked_step:
  assumes "rcu_inv n c" and "rcu_blocked w r c" and "rcu_step False n t c c'"
    and "pc c r = RcuReading" and "pc c' r = RcuReading" and "syncs (mem c') < 2 ^ 64 - 1"
  shows "rcu_blocked w r c'"
proof (cases "t = w")
  case False
  then have "pc c' w = pc c w" using assms(3) by - (erule rcu_stepE, auto)
  then show ?thesis using assms(2) rcu_slot_kept [OF assms(1,3-5)] by (simp add: rcu_blocked_def)
next
  case True
  have i: "rcu_buf (mem c) w = []" "global_epoch (mem c) = of_nat (syncs (mem c))" "r < n" "unat (rcu_slots (mem c) r) \<le> syncs (mem c)"
    using assms(1,4) by (simp_all add: rcu_inv_def)
  have b: "Suc (syncs (mem c)) < 2 ^ 64 - 1 \<Longrightarrow> \<not> rcu_passes (of_nat (syncs (mem c)) + 1) (rcu_slots (mem c) r)"
    using rcu_advance_blocked i(4) by blast
  have w: "pc c w = RcuSync \<or> (\<exists>e i. pc c w = RcuScan e i \<and> i \<le> r \<and> \<not> rcu_passes e (rcu_slots (mem c) r))"
    using assms(2) by (simp add: rcu_blocked_def)
  have "rcu_step False n w c c'" using assms(3) True by simp
  then show ?thesis
  proof (rule rcu_stepE)
    fix e k assume c': "c' = goto w (rcu_next n e (Suc k)) (mem c) c" and s: "pc c w = RcuScan e k" "rcu_passes e (rcu_slots (mem c) k)"
    from w s have "k < r" by (auto simp: order_le_less)
    then show ?thesis using c' w s(1) i(3) by (auto simp: rcu_blocked_def rcu_next_def)
  qed (use w i b assms(6) in \<open>auto simp: rcu_blocked_def rcu_next_def\<close>)
qed

lemma rcu_one_reader:
  "reachable rcu_start (rcu_step d 2) (goto 1 RcuSync (mem (goto 0 RcuReading (rcu_store d 0 0 (mem rcu_start)) rcu_start))
     (goto 0 RcuReading (rcu_store d 0 0 (mem rcu_start)) rcu_start))"
proof -
  let ?l = "goto 0 (RcuLoaded 0) (mem rcu_start) rcu_start" and ?r = "goto 0 RcuReading (rcu_store d 0 0 (mem rcu_start)) rcu_start"
  have "rcu_step d 2 0 rcu_start ?l" using rcu_step.load_epoch [of 0 2 rcu_start d] by (simp add: rcu_start_def)
  then have "reachable rcu_start (rcu_step d 2) ?l" by (rule reachable_step [OF reachable_refl])
  moreover have "rcu_step d 2 0 ?l ?r" using rcu_step.announce [of ?l 0 0 d 2] by (simp add: goto_def)
  ultimately have "reachable rcu_start (rcu_step d 2) ?r" by (rule reachable_step)
  then show ?thesis using rcu_step.synchronize [of ?r 1 d 2] by (rule reachable_step) (simp add: rcu_start_def)
qed

text \<open>
  C25. A grace period, when operations take effect in one order: while a reader that was inside when
  \<open>synchronize\<close> was called stays inside, the call does not return; it does not get past the slot of the
  reader. The epoch must not have been advanced 2 ^ 64 - 1 times.
\<close>

theorem rcu_grace_period:
  assumes "reachable rcu_start (rcu_step False n) c" and "pc c w = RcuSync" and "rcu_run False n r c c'"
    and "syncs (mem c') < 2 ^ 64 - 1"
  shows "pc c' w = RcuSync \<or> (\<exists>e i. pc c' w = RcuScan e i \<and> i \<le> r)"
proof -
  have "rcu_blocked w r c'" using assms(3,1,2,4)
  proof (induction rule: rcu_run.induct)
    case (stop c)
    then show ?case by (simp add: rcu_blocked_def)
  next
    case (go c d t e)
    have "rcu_inv n d" using rcu_reachable_inv rcu_run_reachable [OF go(1)] go.prems by blast
    moreover have "syncs (mem d) < 2 ^ 64 - 1" using rcu_step_syncs [OF go(2)] go.prems by linarith
    ultimately show ?case using rcu_blocked_step [OF _ _ go(2)] rcu_run_reading [OF go(1)] go by blast
  qed
  then show ?thesis by (auto simp: rcu_blocked_def)
qed

theorem rcu_grace_period_witness:
  "\<exists>c c'. reachable rcu_start (rcu_step False 2) c \<and> pc c 1 = RcuSync \<and> rcu_run False 2 0 c c' \<and> syncs (mem c') = 1 \<and>
     (pc c' 1 = RcuSync \<or> (\<exists>e i. pc c' 1 = RcuScan e i \<and> i \<le> 0))"
proof -
  let ?r = "goto 0 RcuReading (rcu_store False 0 0 (mem rcu_start)) rcu_start"
  let ?w = "goto 1 RcuSync (mem ?r) ?r"
  let ?c = "goto 1 (rcu_next 2 1 0) (rcu_advance (mem ?r)) ?w"
  have w: "reachable rcu_start (rcu_step False 2) ?w" by (rule rcu_one_reader)
  have "rcu_step False 2 1 ?w ?c" using rcu_step.advance [of ?w 1 False 2] by (simp add: rcu_start_def)
  then have run: "rcu_run False 2 0 ?w ?c" using rcu_run.go [OF rcu_run.stop] by simp
  have s: "syncs (mem ?c) = 1" by (simp add: rcu_start_def)
  then have g: "pc ?c 1 = RcuSync \<or> (\<exists>e i. pc ?c 1 = RcuScan e i \<and> i \<le> 0)"
    using rcu_grace_period [OF w, of 1, OF _ run] by simp
  have "pc ?w 1 = RcuSync" by simp
  with w run s g show ?thesis by blast
qed

text \<open>
  C26. On a memory with store buffers the grace period fails: the reader's announcement may still be in
  its buffer while it is inside, \<open>synchronize\<close> finds every slot inactive and returns.
\<close>

theorem rcu_buffered_grace_fails:
  "\<exists>c c'. reachable rcu_start (rcu_step True 2) c \<and> pc c 1 = RcuSync \<and> rcu_run True 2 0 c c' \<and> pc c' 1 = RcuDone"
proof -
  let ?r = "goto 0 RcuReading (rcu_store True 0 0 (mem rcu_start)) rcu_start"
  let ?w = "goto 1 RcuSync (mem ?r) ?r" and ?m = "rcu_advance (mem (goto 0 RcuReading (rcu_store True 0 0 (mem rcu_start)) rcu_start))"
  have slots: "rcu_passes e (rcu_slots ?m i)" for e i by (simp add: rcu_store_def rcu_start_def rcu_passes_def)
  have "rcu_step True 2 1 ?w (goto 1 (RcuScan 1 0) ?m ?w)"
    using rcu_step.advance [of ?w 1 True 2] by (simp add: rcu_start_def rcu_store_def rcu_next_def)
  then have "rcu_run True 2 0 ?w (goto 1 (RcuScan 1 0) ?m ?w)" using rcu_run.go [OF rcu_run.stop] by simp
  moreover have "rcu_step True 2 1 (goto 1 (RcuScan 1 0) ?m ?w) (goto 1 (RcuScan 1 1) ?m (goto 1 (RcuScan 1 0) ?m ?w))"
    using rcu_step.scan_pass [of "goto 1 (RcuScan 1 0) ?m ?w" 1 1 0 True 2] slots by (simp add: rcu_next_def)
  ultimately have "rcu_run True 2 0 ?w (goto 1 (RcuScan 1 1) ?m (goto 1 (RcuScan 1 0) ?m ?w))" using rcu_run.go by simp
  moreover have "rcu_step True 2 1 (goto 1 (RcuScan 1 1) ?m (goto 1 (RcuScan 1 0) ?m ?w))
      (goto 1 RcuDone ?m (goto 1 (RcuScan 1 1) ?m (goto 1 (RcuScan 1 0) ?m ?w)))"
    using rcu_step.scan_pass [of "goto 1 (RcuScan 1 1) ?m (goto 1 (RcuScan 1 0) ?m ?w)" 1 1 1 True 2] slots by (simp add: rcu_next_def)
  ultimately have "rcu_run True 2 0 ?w (goto 1 RcuDone ?m (goto 1 (RcuScan 1 1) ?m (goto 1 (RcuScan 1 0) ?m ?w)))" using rcu_run.go by simp
  then show ?thesis using rcu_one_reader [of True] by (intro exI conjI) auto
qed

end
