(* ===== verification/OpStream.thy ===== *)
theory OpStream
  imports "HOL-Library.Word"
begin

text \<open>
  The deterministic parts of the operation streams of the benchmark, \<open>include/util/op_stream.hpp\<close> and
  the hash of \<open>include/util/zipfian.hpp\<close>. The random generators of the C++ library are not modelled.
  A loop that does not end is \<open>None\<close>.
\<close>

section \<open>The length of a stream\<close>

partial_function (option) pow2_loop :: "64 word \<Rightarrow> 64 word \<Rightarrow> 64 word option" where
  \<comment> \<open>\<open>while (p < n) p <<= 1\<close>\<close>
  "pow2_loop p n = (if p < n then pow2_loop (push_bit 1 p) n else Some p)"

definition round_up_pow2 :: "64 word \<Rightarrow> 64 word option" where
  "round_up_pow2 n = pow2_loop 1 (if n < 64 then 64 else n)"

lemma unat_pow2: "k < 64 \<Longrightarrow> unat (2 ^ k :: 64 word) = 2 ^ k"
proof -
  assume "k < 64"
  then have "(2 :: nat) ^ k < 2 ^ 64" by (intro power_strict_increasing) simp_all
  moreover have "unat (of_nat (2 ^ k) :: 64 word) = 2 ^ k mod 2 ^ 64" by (simp only: unat_of_nat) simp
  ultimately have "unat (of_nat (2 ^ k) :: 64 word) = 2 ^ k" by (simp only: mod_less)
  then show ?thesis by simp
qed

lemma push_bit_pow2: "push_bit i (2 ^ k :: 64 word) = 2 ^ (k + i)"
  by (simp add: push_bit_eq_mult power_add mult.commute)

lemma pow2_loop_returns:
  assumes "unat n \<le> 2 ^ 63" and "k < 64"
  shows "\<exists>j. pow2_loop (2 ^ k) n = Some (2 ^ j) \<and> k \<le> j \<and> j < 64 \<and> unat n \<le> 2 ^ j \<and> (j = k \<or> 2 ^ (j - 1) < unat n)"
  using assms(2)
proof (induction "63 - k" arbitrary: k)
  case 0
  then have "k = 63" by simp
  then have "\<not> (2 ^ k :: 64 word) < n" using assms(1) unat_pow2 [of k] by (simp add: word_less_nat_alt)
  then have "pow2_loop (2 ^ k) n = Some (2 ^ k)" by (subst pow2_loop.simps) simp
  then show ?case using \<open>k = 63\<close> assms(1) by (intro exI [of _ 63]) simp
next
  case (Suc d)
  then have k: "d = 63 - Suc k" "Suc k < 64" by simp_all
  show ?case
  proof (cases "(2 ^ k :: 64 word) < n")
    case True
    then have less: "2 ^ k < unat n" using unat_pow2 [OF Suc(3)] by (simp add: word_less_nat_alt)
    from Suc(1) [OF k] obtain j where
      j: "pow2_loop (2 ^ Suc k) n = Some (2 ^ j)" "Suc k \<le> j" "j < 64" "unat n \<le> 2 ^ j" "j = Suc k \<or> 2 ^ (j - 1) < unat n" by blast
    have "pow2_loop (2 ^ k) n = pow2_loop (2 ^ Suc k) n"
      using True by (subst pow2_loop.simps) (simp add: mult.commute)
    then show ?thesis using j less by (intro exI [of _ j]) auto
  next
    case False
    then have "unat n \<le> 2 ^ k" using unat_pow2 [OF Suc(3)] by (simp add: word_less_nat_alt)
    then show ?thesis using False Suc(3) by (subst pow2_loop.simps) auto
  qed
qed

lemma pow2_loop_result: "pow2_loop p n = Some q \<Longrightarrow> n \<le> q \<and> (\<exists>i. q = push_bit i p)"
proof -
  assume "pow2_loop p n = Some q"
  then show ?thesis
  proof (rule pow2_loop.raw_induct [of "\<lambda>p n q. n \<le> q \<and> (\<exists>i. q = push_bit i p)", rotated])
    fix f :: "64 word \<Rightarrow> 64 word \<Rightarrow> 64 word option" and p n q
    assume IH: "\<And>p n q. f p n = Some q \<Longrightarrow> n \<le> q \<and> (\<exists>i. q = push_bit i p)"
      and body: "(if p < n then f (push_bit 1 p) n else Some p) = Some q"
    show "n \<le> q \<and> (\<exists>i. q = push_bit i p)"
    proof (cases "p < n")
      case True
      then have "n \<le> q \<and> (\<exists>i. q = push_bit i (push_bit 1 p))" using IH [of "push_bit 1 p" n q] body by simp
      then show ?thesis by (metis push_bit_push_bit)
    next
      case False
      then show ?thesis using body by (auto intro: exI [of _ 0])
    qed
  qed
qed

text \<open>
  C35. The length of a stream is rounded up to the least power of two that is at least the requested
  length and at least 64, and the loop ends, for requests up to \<open>2 ^ 63\<close>; beyond, the loop shifts the
  only bit out of the word and never ends.
\<close>

theorem round_up_pow2_terminates:
  "(unat n \<le> 2 ^ 63 \<longrightarrow> (\<exists>j. round_up_pow2 n = Some (2 ^ j) \<and> j < 64 \<and> max 64 (unat n) \<le> 2 ^ j \<and> 2 ^ (j - 1) < max 64 (unat n))) \<and>
   (2 ^ 63 < unat n \<longrightarrow> round_up_pow2 n = None)"
proof (intro conjI impI)
  assume n: "unat n \<le> 2 ^ 63"
  let ?n = "if n < 64 then 64 else n"
  have max: "unat ?n = max 64 (unat n)" by (auto simp: word_less_nat_alt max_def)
  then have "unat ?n \<le> 2 ^ 63" using n by simp
  from pow2_loop_returns [OF this, of 0] obtain j where
    j: "pow2_loop 1 ?n = Some (2 ^ j)" "j < 64" "unat ?n \<le> 2 ^ j" "j = 0 \<or> 2 ^ (j - 1) < unat ?n" by auto
  have "j \<noteq> 0" using j(3) max by (intro notI) simp
  then show "\<exists>j. round_up_pow2 n = Some (2 ^ j) \<and> j < 64 \<and> max 64 (unat n) \<le> 2 ^ j \<and> 2 ^ (j - 1) < max 64 (unat n)"
    using j max unfolding round_up_pow2_def by (intro exI [of _ j]) auto
next
  assume n: "2 ^ 63 < unat n"
  show "round_up_pow2 n = None"
  proof (rule ccontr)
    assume "round_up_pow2 n \<noteq> None"
    moreover have "\<not> n < 64" using n by (simp add: word_less_nat_alt)
    ultimately obtain q where "pow2_loop 1 n = Some q" by (auto simp: round_up_pow2_def)
    from pow2_loop_result [OF this] obtain i where q: "n \<le> q" "q = push_bit i 1" by blast
    then have "q = 2 ^ i" using push_bit_pow2 [of i 0] by simp
    then have "unat q \<le> 2 ^ 63"
    proof (cases "i < 64")
      case True
      then show ?thesis using \<open>q = 2 ^ i\<close> unat_pow2 [OF True] power_increasing [of i 63 "2 :: nat"] by simp
    next
      case False
      then have "q = 0" using \<open>q = 2 ^ i\<close> by simp
      then show ?thesis by simp
    qed
    then show False using n q(1) by (simp add: word_le_nat_alt)
  qed
qed

theorem round_up_pow2_terminates_witness: "\<exists>j. round_up_pow2 100 = Some (2 ^ j) \<and> (100 :: nat) \<le> 2 ^ j \<and> 2 ^ (j - 1) < (100 :: nat)"
  using round_up_pow2_terminates [of 100] by auto

section \<open>The mix of operations\<close>

definition resolve_op :: "int \<Rightarrow> int \<Rightarrow> int \<Rightarrow> nat" where
  "resolve_op draw read_pct insert_pct =
     (if draw < read_pct then 0 else if draw < read_pct + insert_pct then 1 else 2)"

lemma resolve_op_mix:
  assumes "0 \<le> r" and "0 \<le> i" and "r + i \<le> 100"
  shows "card {d \<in> {0..99}. resolve_op d r i = 0} = nat r" "card {d \<in> {0..99}. resolve_op d r i = 1} = nat i"
    "card {d \<in> {0..99}. resolve_op d r i = 2} = nat (100 - r - i)"
proof -
  have "{d \<in> {0..99}. resolve_op d r i = 0} = {0..<r}" "{d \<in> {0..99}. resolve_op d r i = 1} = {r..<r + i}"
    "{d \<in> {0..99}. resolve_op d r i = 2} = {r + i..<100}"
    using assms by (auto simp: resolve_op_def split: if_splits)
  then show "card {d \<in> {0..99}. resolve_op d r i = 0} = nat r" "card {d \<in> {0..99}. resolve_op d r i = 1} = nat i"
    "card {d \<in> {0..99}. resolve_op d r i = 2} = nat (100 - r - i)"
    by (simp_all add: algebra_simps)
qed

end
