(* ===== verification/Spec2Isabelle.thy ===== *)
theory Spec2Isabelle
  imports Aggregate PlotCompare CrossArchDeck IndexLock BuildDeck AnalysisNotebook ExtendNotebook AnalysisTrials
    AvlCompare ArchiveAnalysis TicketTry ReaderLocks PcpuLocks EpochRcu OpStream
begin

text \<open>
  Verification of lockbench, a benchmark of lock primitives inside concurrent indexes and the Python
  code that turns its measurements into tables, figures, slide decks and notebooks.

  \<^bold>\<open>The program.\<close> C++ benchmarks (\<open>bench/\<close>, \<open>include/\<close>) run shell sweeps and append rows to CSV files
  under \<open>results/\<close>. \<open>scripts/aggregate.py\<close> groups the rows of a file by configuration and writes
  summary statistics. The plotting scripts read result files with pandas and save figures with
  matplotlib; the deck builders place figures and fixed texts on slides with python-pptx; two scripts
  build and edit Jupyter notebooks, and seven notebooks compare locks, indexes and machines.

  \<^bold>\<open>Shared ground.\<close>
  \<^item> \<open>Prelude\<close>: Python exceptions as a sum type, sequencing, insertion-ordered dictionaries (locale
    \<open>dictionary\<close>, interpreted on association lists), grouping.
  \<^item> \<open>PySort\<close>, \<open>PySortErr\<close>: the sort of CPython for short lists and the locale \<open>comparison\<close>; sorted, stable,
    and a permutation. The same sort with a comparison that may raise: it stops at the first comparison
    that does, and otherwise has compared all neighbours of the result.
  \<^item> \<open>PyFloat\<close>, \<open>PyNumText\<close>, \<open>PyRound\<close>, \<open>PyStatistics\<close>: binary64 arithmetic on exact rationals with
    round-half-even, the decimal formats, rounding to places, and the functions of the module
    \<open>statistics\<close> in exact arithmetic as CPython 3.12 computes them, the version most notebooks record;
    up to CPython 3.10 the deviation of data with an infinity or NaN is NaN and not an exception.
  \<^item> \<open>PyCsv\<close>, \<open>PyJson\<close>: readers and writers of CSV and JSON text, with round trips. The JSON reader
    takes fuel, the length of the text plus one; \<open>loads_dumps\<close> shows that this is enough for every
    text the writer makes.
  \<^item> \<open>Frame\<close>: pandas as a record of operations that every client takes as an argument; the locale
    \<open>dataframe\<close> states what pandas documents of them and is interpreted on lists. Nothing is assumed
    of the order of ties, of the rounding of means, of the values of deviations and quantiles, or of a
    column computed with \<open>apply\<close> on a frame without rows.
  \<^item> \<open>Labels\<close>, \<open>Figure\<close>, \<open>Deck\<close>, \<open>Notebook\<close>: texts built from rows, drawing calls as data, slides
    with the positions of their shapes (locale \<open>slide_helpers\<close>), notebooks as JSON values and the schema
    of notebook format 4. The size that python-pptx finds in an image file, or its exception, is an argument.

  \<^bold>\<open>Python components\<close>, one theory per script.
  \<^item> \<open>Aggregate\<close> (\<open>aggregate.py\<close>): the whole script from the text of the input file to the text of the
    output file, the messages and the exit code. The rows written are one per configuration, ascending,
    with ordered quartiles and an accurate mean; the output reads back and is not aggregated again; when
    the sort of the keys raises and what an exception leaves behind is exact, as are the warnings.
  \<^item> \<open>PlotWormhole\<close>, \<open>PlotCompare\<close>, \<open>PlotCrossArch\<close>: labels, loading and figures. Every line of a figure
    goes through exactly the measurements it stands for; when two workloads share a label is exact.
  \<^item> \<open>Ranking\<close> (\<open>build_ranking_figures.py\<close>): ranks at the largest thread count are a numbering by
    throughput; slopegraphs; a cell of the heatmap of rank changes counts the locks faster on each machine.
  \<^item> \<open>CrossArchDeck\<close>, \<open>IndexLock\<close>, \<open>BuildDeck\<close>: the three deck builders with every slide as data. The
    findings deck is built exactly when the guard and the images allow, its shapes lie within the slide
    exactly for figures that are not too wide, and it shows every ranking saved before and otherwise only
    older figures; when a capped picture is distorted is exact; the table of best locks names a best lock.
  \<^item> \<open>AnalysisCells\<close>, \<open>AnalysisNotebook\<close> (\<open>_build_lockbench_analysis.py\<close>): all cells with their texts and
    the file written, which reads back; for which minor versions the notebook conforms to the format.
  \<^item> \<open>ExtendNotebook\<close> (\<open>extend_notebook.py\<close>): the edits on JSON values and on the file; which cells change
    is exact, and a second run is shown to damage the notebook.
  \<^item> \<open>IndexCrossArch\<close> (\<open>index_cross_arch.ipynb\<close>): the code cells; the scaling table equals a flat
    specification, the winners are best.
  \<^item> \<open>AnalysisModel\<close>, \<open>AnalysisTrials\<close> (\<open>lockbench_analysis.ipynb\<close>): all code cells; labels separate the
    kinds of workload, aggregation loses no trial, the table of best locks is right, and when the cells
    whose spread is shown mix configurations is exact.
  \<^item> \<open>AvlCompare\<close> (\<open>avl_compare.ipynb\<close>): all code cells; the grids show their measurements, and a speedup
    never lands on the wrong side of one by rounding.
  \<^item> \<open>PlatformNotebook\<close> (\<open>graviton_vs_xeon_notebook.ipynb\<close>, \<open>presentation_notebook.ipynb\<close>): all code cells of
    both, with the shared ones once; which trials a point averages, shares of the best lock, ranks.
  \<^item> \<open>ArmX86Notebook\<close>, \<open>ArchiveAnalysis\<close> (\<open>arm_vs_x86_comparison.ipynb\<close> and \<open>analysis.ipynb\<close> under
    \<open>results/archive\<close>): all code cells; throughput relative to one thread is given for exactly the rows
    that have a baseline, scores and normalized measures lie between zero and one.

  \<^bold>\<open>C++ components.\<close>
  \<^item> \<open>Mutex\<close>: the abstract lock and the locale \<open>mutex\<close> with mutual exclusion and refinement proved once:
    every run is step by step a run of the abstract lock. Three memories are told apart: operations take
    effect in one order; plain stores wait in a buffer (x86); the store of an exchange with acquire order
    alone reaches other threads late (ARM).
  \<^item> \<open>SpinLocks\<close>, \<open>TicketLock\<close>, \<open>TicketTry\<close>, \<open>ReaderLocks\<close> (\<open>include/primitives\<close>): step relations with one step per
    atomic operation; interpretations of \<open>mutex\<close>; order of service and progress of the ticket lock
    with its counters of 32 bits, its \<open>try_lock\<close> and the run in which the counters go round, the range of
    the reader counter, consistency of optimistic reads with a version of 64 bits in one order and with
    store buffers, and the run with a late exchange that breaks it.
  \<^item> \<open>PcpuLocks\<close> (\<open>pcpu_rw_lock.hpp\<close>, \<open>pcpu_rw_lock_v2.hpp\<close>): reader-writer locks with a counter per slot;
    exclusion of both when operations take effect in one order and of the first also with store buffers;
    runs in which a reader and a writer are inside together, of the first with a late exchange and of the
    second with store buffers.
  \<^item> \<open>EpochRcu\<close> (\<open>rcu.hpp\<close>): readers that announce an epoch of 64 bits and a writer that waits for them;
    the grace period when operations take effect in one order, and a run with store buffers that breaks it.
  \<^item> \<open>OpStream\<close> (\<open>include/util/op_stream.hpp\<close>): the length of a stream, a loop that need not end, and
    the mix of operations.

  \<^bold>\<open>Names.\<close> Definitions carry the names of the source. A character outside ASCII in a text is its UTF-8
  bytes. Keyword arguments of drawing calls keep the text of the source.

  \<^bold>\<open>Not modelled.\<close> The rendering of figures, slides and printed tables; fonts of table cells; the settings of
  matplotlib at import; the angles of radar charts; stored outputs of notebooks. The limit of
  the CSV reader on the length of a field and the integer units of slide positions. In C++: memory models
  beyond the three above, the adapters of the indexes, thread pinning and the
  harness. Shell drivers, vendored code and measured data.
\<close>

end
